(* ===== verification/Vane_Prelude.thy ===== *)
theory Vane_Prelude
  imports Complex_Main "HOL-Library.Multiset"
begin

text \<open>
  Shared vocabulary of the development: the types every component uses (Go times and
  durations, database identifiers, results with an error), Go's truncating integer
  division and saturating time difference, the list operations that stand for single-table
  SQL statements, and \<open>strings.TrimSpace\<close>.

  Conventions.
  \<^item> A \<open>time.Time\<close> is the number of nanoseconds since a fixed epoch and a
    \<open>time.Duration\<close> is a number of nanoseconds; both are \<open>int\<close>, with the saturation that
    \<open>Time.Sub\<close> performs written out in \<open>time_sub\<close>.
  \<^item> A database identifier (a UUID) is a natural number: the code only compares
    identifiers. The empty string, which the code uses for "no identifier", is
    \<open>None\<close> of an \<open>option\<close>.
  \<^item> A nullable column or a nil-able pointer is an \<open>option\<close>.
  \<^item> A Go string is a HOL \<open>string\<close>, read as a sequence of code points below 256.
  \<^item> A fallible operation returns \<open>'e + 'a\<close>, with \<open>Inl\<close> for the error.
\<close>

named_theorems sql_simps \<open>rewriting of the table operations\<close>
named_theorems frame_simps \<open>fields an operation leaves as they are\<close>

type_synonym time = int
type_synonym duration = int
type_synonym uuid = nat

text \<open>A JSON response as a handler encodes it: objects list the fields the struct tags name, an
  \<open>omitempty\<close> field that is empty is left out.\<close>

datatype json =
    JNull
  | JBool bool
  | JInt int
  | JRat rat
  | JText string
  | JTime time
  | JId uuid
  | JList "json list"
  | JObject "(string \<times> json) list"

definition json_option :: "('a \<Rightarrow> json) \<Rightarrow> 'a option \<Rightarrow> json" where
  "json_option f x = (case x of None \<Rightarrow> JNull | Some a \<Rightarrow> f a)"

definition omit_none :: "string \<Rightarrow> ('a \<Rightarrow> json) \<Rightarrow> 'a option \<Rightarrow> (string \<times> json) list" where
  "omit_none key f x = (case x of None \<Rightarrow> [] | Some a \<Rightarrow> [(key, f a)])"

definition omit_empty :: "string \<Rightarrow> string \<Rightarrow> (string \<times> json) list" where
  "omit_empty key s = (if s = [] then [] else [(key, JText s)])"

subsection \<open>Durations and times\<close>

definition second :: duration where
  "second = 1000000000"

definition minute :: duration where
  "minute = 60 * second"

definition hour :: duration where
  "hour = 60 * minute"

lemmas duration_defs = second_def minute_def hour_def

lemma duration_pos [simp]: "0 < second" "0 < minute" "0 < hour"
  by (simp_all add: duration_defs)

definition max_int64 :: int where
  "max_int64 = 2 ^ 63 - 1"

definition min_int64 :: int where
  "min_int64 = - (2 ^ 63)"

lemma int64_bounds: "min_int64 < 0" "0 < max_int64"
  by (simp_all add: min_int64_def max_int64_def)

text \<open>\<open>Time.Sub\<close>: the difference, saturated to the range of a \<open>Duration\<close> (an \<open>int64\<close>).\<close>

definition time_sub :: "time \<Rightarrow> time \<Rightarrow> duration" where
  "time_sub t u = max min_int64 (min max_int64 (t - u))"

lemma time_sub_mono: "t \<le> t' \<Longrightarrow> time_sub t u \<le> time_sub t' u"
  by (simp add: time_sub_def)

lemma time_sub_pos_iff: "0 < time_sub t u \<longleftrightarrow> u < t"
  by (auto simp: time_sub_def max_int64_def min_int64_def)

lemma time_sub_exact:
  "min_int64 \<le> t - u \<Longrightarrow> t - u \<le> max_int64 \<Longrightarrow> time_sub t u = t - u"
  by (simp add: time_sub_def)

lemma time_sub_ge_iff: "d \<le> max_int64 \<Longrightarrow> min_int64 < d \<Longrightarrow> d \<le> time_sub t u \<longleftrightarrow> u + d \<le> t"
  by (auto simp: time_sub_def)

text \<open>The value of an \<open>int64\<close> operation: the result modulo \<open>2^64\<close>, read as signed.\<close>

definition wrap64 :: "int \<Rightarrow> int" where
  "wrap64 x = (x + 2 ^ 63) mod 2 ^ 64 - 2 ^ 63"

lemma wrap64_id: "min_int64 \<le> x \<Longrightarrow> x \<le> max_int64 \<Longrightarrow> wrap64 x = x"
  by (simp add: wrap64_def min_int64_def max_int64_def)

text \<open>\<open>(page - 1) * pageSize\<close> of the paginated repository methods, in Go's \<open>int\<close>.\<close>

definition row_offset :: "nat \<Rightarrow> nat \<Rightarrow> int" where
  "row_offset page pageSize = wrap64 ((int page - 1) * int pageSize)"

lemma row_offset_exact:
  assumes "1 \<le> page" and "(int page - 1) * int pageSize \<le> max_int64"
  shows "row_offset page pageSize = (int page - 1) * int pageSize"
  unfolding row_offset_def using assms
  by (intro wrap64_id) (auto simp: min_int64_def intro: order_trans [OF _ mult_nonneg_nonneg])

subsection \<open>Go's integer division\<close>

text \<open>Go's \<open>/\<close> and \<open>%\<close> on integers truncate towards zero.\<close>

definition go_quot :: "int \<Rightarrow> int \<Rightarrow> int" where
  "go_quot a b = sgn a * sgn b * (\<bar>a\<bar> div \<bar>b\<bar>)"

definition go_rem :: "int \<Rightarrow> int \<Rightarrow> int" where
  "go_rem a b = a - b * go_quot a b"

lemma go_quot_nonneg: "0 \<le> a \<Longrightarrow> 0 < b \<Longrightarrow> go_quot a b = a div b"
  by (cases "a = 0") (simp_all add: go_quot_def)

lemma go_rem_nonneg: "0 \<le> a \<Longrightarrow> 0 < b \<Longrightarrow> go_rem a b = a mod b"
  by (simp add: go_rem_def go_quot_nonneg minus_mult_div_eq_mod)

lemma go_quot_neg: "a < 0 \<Longrightarrow> 0 < b \<Longrightarrow> go_quot a b = - ((- a) div b)"
  by (simp add: go_quot_def)

lemma go_rem_neg: "a < 0 \<Longrightarrow> 0 < b \<Longrightarrow> go_rem a b = - ((- a) mod b)"
  using minus_mult_div_eq_mod [of "- a" b] by (simp add: go_rem_def go_quot_neg)

subsection \<open>Single-table statements over row lists\<close>

text \<open>\<open>UPDATE t SET f WHERE P\<close>: rows keep their position.\<close>

definition sql_update :: "('r \<Rightarrow> bool) \<Rightarrow> ('r \<Rightarrow> 'r) \<Rightarrow> 'r list \<Rightarrow> 'r list" where
  "sql_update P f rs = map (\<lambda>r. if P r then f r else r) rs"

text \<open>\<open>DELETE FROM t WHERE P\<close> and the number of rows it reports.\<close>

definition sql_delete :: "('r \<Rightarrow> bool) \<Rightarrow> 'r list \<Rightarrow> 'r list" where
  "sql_delete P rs = filter (\<lambda>r. \<not> P r) rs"

definition sql_count :: "('r \<Rightarrow> bool) \<Rightarrow> 'r list \<Rightarrow> nat" where
  "sql_count P rs = length (filter P rs)"

text \<open>\<open>LIMIT n OFFSET k\<close>.\<close>

definition sql_page :: "nat \<Rightarrow> nat \<Rightarrow> 'r list \<Rightarrow> 'r list" where
  "sql_page n k rs = take n (drop k rs)"

lemma length_sql_update [sql_simps, simp]: "length (sql_update P f rs) = length rs"
  by (simp add: sql_update_def)

lemma sql_update_Nil [sql_simps, simp]: "sql_update P f [] = []"
  by (simp add: sql_update_def)

lemma sql_update_Cons [sql_simps, simp]:
  "sql_update P f (r # rs) = (if P r then f r else r) # sql_update P f rs"
  by (simp add: sql_update_def)

lemma sql_update_append [sql_simps, simp]:
  "sql_update P f (rs @ ss) = sql_update P f rs @ sql_update P f ss"
  by (simp add: sql_update_def)

lemma set_sql_update: "set (sql_update P f rs) = (\<lambda>r. if P r then f r else r) ` set rs"
  by (simp add: sql_update_def)

lemma sql_update_none: "(\<And>r. r \<in> set rs \<Longrightarrow> \<not> P r) \<Longrightarrow> sql_update P f rs = rs"
  by (induction rs) auto

lemma map_sql_update_inv:
  "(\<And>r. g (f r) = g r) \<Longrightarrow> map g (sql_update P f rs) = map g rs"
  by (induction rs) auto

lemma filter_sql_update_inv:
  "(\<And>r. P r \<Longrightarrow> \<not> Q r \<and> \<not> Q (f r)) \<Longrightarrow> filter Q (sql_update P f rs) = filter Q rs"
  by (induction rs) auto

lemma sql_count_0_iff: "sql_count P rs = 0 \<longleftrightarrow> (\<forall>r\<in>set rs. \<not> P r)"
  by (simp add: sql_count_def filter_empty_conv)

lemma set_sql_delete [sql_simps, simp]: "set (sql_delete P rs) = {r \<in> set rs. \<not> P r}"
  by (auto simp: sql_delete_def)

lemma length_sql_delete: "length (sql_delete P rs) + sql_count P rs = length rs"
  using sum_length_filter_compl [of P rs] by (simp add: sql_delete_def sql_count_def)

lemma length_sql_page: "length (sql_page n k rs) \<le> n"
  by (simp add: sql_page_def)

lemma set_sql_page: "set (sql_page n k rs) \<subseteq> set rs"
  unfolding sql_page_def by (meson set_drop_subset set_take_subset subset_trans)

subsection \<open>Rows with a unique key\<close>

text \<open>A primary key: looking a row up by it is a map lookup.\<close>

definition find_row :: "('r \<Rightarrow> bool) \<Rightarrow> 'r list \<Rightarrow> 'r option" where
  "find_row P rs = List.find P rs"

lemma find_row_Some: "find_row P rs = Some r \<Longrightarrow> r \<in> set rs \<and> P r"
  unfolding find_row_def by (metis find_Some_iff nth_mem)

lemma find_row_None: "find_row P rs = None \<longleftrightarrow> (\<forall>r\<in>set rs. \<not> P r)"
  unfolding find_row_def by (auto simp: find_None_iff)

lemma find_row_Nil [simp]: "find_row P [] = None"
  by (simp add: find_row_def)

lemma find_row_Cons [simp]: "find_row P (r # rs) = (if P r then Some r else find_row P rs)"
  by (simp add: find_row_def)

lemma find_row_append:
  "find_row P (rs @ ss) = (case find_row P rs of None \<Rightarrow> find_row P ss | Some r \<Rightarrow> Some r)"
  by (induction rs) auto

lemma find_row_sql_update:
  "(\<And>r. Q (f r) = Q r) \<Longrightarrow>
   find_row Q (sql_update P f rs) = map_option (\<lambda>r. if P r then f r else r) (find_row Q rs)"
  by (induction rs) auto

lemma distinct_key_unique:
  assumes "distinct (map key rs)" and "r \<in> set rs" and "s \<in> set rs" and "key r = key s"
  shows "r = s"
  using assms by (meson distinct_map inj_onD)

lemma filter_key_le1:
  assumes "distinct (map key rs)"
  shows "length (filter (\<lambda>r. key r = k) rs) \<le> 1"
  using assms
proof (induction rs)
  case (Cons r rs)
  then show ?case
    by (auto simp: filter_empty_conv) (metis image_eqI list.set_map)
qed simp

subsection \<open>Sorting with a key, as \<open>ORDER BY\<close> and \<open>sort.SliceStable\<close>\<close>

text \<open>\<open>sort_key\<close> of the list library is a stable insertion sort; \<open>ORDER BY k DESC\<close> sorts
  by the negated key.\<close>

definition order_desc :: "('r \<Rightarrow> int) \<Rightarrow> 'r list \<Rightarrow> 'r list" where
  "order_desc k rs = sort_key (\<lambda>r. - k r) rs"

lemma set_order_desc [simp]: "set (order_desc k rs) = set rs"
  by (simp add: order_desc_def)

lemma length_order_desc [simp]: "length (order_desc k rs) = length rs"
  by (simp add: order_desc_def)

lemma mset_order_desc [simp]: "mset (order_desc k rs) = mset rs"
  by (simp add: order_desc_def)

lemma sorted_order_desc: "sorted_wrt (\<lambda>r s. k s \<le> k r) (order_desc k rs)"
proof -
  have "sorted (map (\<lambda>r. - k r) (order_desc k rs))"
    by (simp add: order_desc_def)
  then show ?thesis by (simp add: sorted_map)
qed

subsection \<open>\<open>strings.TrimSpace\<close>\<close>

text \<open>\<open>unicode.IsSpace\<close> on code points below 256: tab, newline, vertical tab, form feed,
  carriage return, space, U+0085 and U+00A0.\<close>

definition opt_holds :: "('a \<Rightarrow> bool) \<Rightarrow> 'a option \<Rightarrow> bool" where
  "opt_holds P x = (case x of None \<Rightarrow> False | Some a \<Rightarrow> P a)"

lemma opt_holds_iff [simp]: "opt_holds P x \<longleftrightarrow> (\<exists>a. x = Some a \<and> P a)"
  by (simp add: opt_holds_def split: option.split)

definition is_space :: "char \<Rightarrow> bool" where
  "is_space c \<longleftrightarrow> of_char c \<in> {9, 10, 11, 12, 13, 32, 133, 160 :: nat}"

definition trim_space :: "string \<Rightarrow> string" where
  "trim_space s = rev (dropWhile is_space (rev (dropWhile is_space s)))"

lemma trim_space_Nil [simp]: "trim_space [] = []"
  by (simp add: trim_space_def)

lemma trim_space_empty_iff: "trim_space s = [] \<longleftrightarrow> (\<forall>c\<in>set s. is_space c)"
proof (cases "dropWhile is_space s")
  case Nil
  then have "\<forall>c\<in>set s. is_space c" by (simp add: dropWhile_eq_Nil_conv)
  then show ?thesis unfolding trim_space_def Nil by simp
next
  case (Cons c cs)
  then have "\<not> is_space c" by (simp add: dropWhile_eq_Cons_conv)
  moreover have "c \<in> set s" using Cons by (metis list.set_intros(1) set_dropWhileD)
  ultimately show ?thesis using Cons by (auto simp: trim_space_def dropWhile_append)
qed

lemma length_trim_space: "length (trim_space s) \<le> length s"
  unfolding trim_space_def
  by (metis length_dropWhile_le length_rev order_trans)

end
