(* ===== verification/Go_Float.thy ===== *)
theory Go_Float
  imports Vane_Prelude "HOL-Library.Log_Nat"
begin

text \<open>
  Go's \<open>float64\<close>. A finite value is a rational number; an arithmetic operation is the
  exact rational operation followed by \<open>round64\<close>, IEEE 754 rounding to the nearest
  53-bit significand with ties to even. The exponent is unbounded: no operation of the
  modelled code overflows or reaches the subnormal range (the quotients it forms are of
  64-bit counts and of percentages). \<open>+Inf\<close> is a separate value of \<open>float64\<close>; no modelled
  operation produces \<open>-Inf\<close> or \<open>NaN\<close>.

  The locale \<open>rounding\<close> is what the client theories use of the rounding; it is
  interpreted on \<open>round64\<close> as \<open>f64\<close>.
\<close>

subsection \<open>Rounding to 53 bits\<close>

text \<open>\<open>binade x\<close> is the exponent of the leading bit of a positive \<open>x\<close>; the unit in the
  last place of a 53-bit significand is then \<open>pow2 (binade x - 52)\<close>.\<close>

definition pow2 :: "int \<Rightarrow> rat" where
  "pow2 k = (if 0 \<le> k then 2 ^ nat k else 1 / 2 ^ nat (- k))"

definition binade :: "rat \<Rightarrow> int" where
  "binade x =
     (let (p, q) = quotient_of x; k = bitlen p - bitlen q
      in if pow2 k \<le> x then k else k - 1)"

definition round_half_even :: "rat \<Rightarrow> int" where
  "round_half_even y =
     (let f = \<lfloor>y\<rfloor>; r = y - of_int f
      in if r < 1 / 2 then f
         else if 1 / 2 < r then f + 1
         else if even f then f else f + 1)"

definition round_pos :: "rat \<Rightarrow> rat" where
  "round_pos x = (let u = pow2 (binade x - 52) in of_int (round_half_even (x / u)) * u)"

definition round64 :: "rat \<Rightarrow> rat" where
  "round64 x = (if x = 0 then 0 else if x < 0 then - round_pos (- x) else round_pos x)"

subsection \<open>Values, conversions and operations\<close>

datatype float64 = Fin rat | PosInf

definition fadd :: "rat \<Rightarrow> rat \<Rightarrow> rat" where
  "fadd a b = round64 (a + b)"

definition fsub :: "rat \<Rightarrow> rat \<Rightarrow> rat" where
  "fsub a b = round64 (a - b)"

definition fmul :: "rat \<Rightarrow> rat \<Rightarrow> rat" where
  "fmul a b = round64 (a * b)"

definition fdiv :: "rat \<Rightarrow> rat \<Rightarrow> rat" where
  "fdiv a b = round64 (a / b)"

text \<open>The conversion \<open>float64(n)\<close> of an integer, and \<open>math.Floor\<close>, which is exact.\<close>

definition float_of_int :: "int \<Rightarrow> rat" where
  "float_of_int n = round64 (of_int n)"

definition math_floor :: "rat \<Rightarrow> rat" where
  "math_floor x = of_int \<lfloor>x\<rfloor>"

lemmas float_defs = fadd_def fsub_def fmul_def fdiv_def float_of_int_def math_floor_def

text \<open>The order of \<open>float64\<close> values, \<open>+Inf\<close> above every finite one.\<close>

instantiation float64 :: linorder
begin

fun less_eq_float64 :: "float64 \<Rightarrow> float64 \<Rightarrow> bool" where
  "less_eq_float64 (Fin a) (Fin b) = (a \<le> b)"
| "less_eq_float64 x PosInf = True"
| "less_eq_float64 PosInf (Fin b) = False"

definition less_float64 :: "float64 \<Rightarrow> float64 \<Rightarrow> bool" where
  "less_float64 x y = (x \<le> y \<and> \<not> y \<le> x)"

instance
proof
  fix x y z :: float64
  show "x < y \<longleftrightarrow> x \<le> y \<and> \<not> y \<le> x" by (simp add: less_float64_def)
  show "x \<le> x" by (cases x) auto
  show "x \<le> y \<Longrightarrow> y \<le> z \<Longrightarrow> x \<le> z" by (cases x; cases y; cases z) auto
  show "x \<le> y \<Longrightarrow> y \<le> x \<Longrightarrow> x = y" by (cases x; cases y) auto
  show "x \<le> y \<or> y \<le> x" by (cases x; cases y) auto
qed

end

lemma Fin_le_Fin [simp]: "Fin a \<le> Fin b \<longleftrightarrow> a \<le> b"
  by simp

lemma le_PosInf [simp]: "x \<le> PosInf"
  by (cases x) auto

lemma PosInf_le_Fin [simp]: "\<not> PosInf \<le> Fin b"
  by simp

subsection \<open>Properties of the rounding\<close>

lemma pow2_pos [simp]: "0 < pow2 k"
  by (simp add: pow2_def)

lemma pow2_neq0 [simp]: "pow2 k \<noteq> 0"
  using pow2_pos [of k] by linarith

lemma pow2_powi: "pow2 k = 2 powi k"
  by (simp add: pow2_def power_int_def power_one_over)

lemma pow2_add: "pow2 (a + b) = pow2 a * pow2 b"
  by (simp add: pow2_powi power_int_add)

lemma pow2_mono: "a \<le> b \<Longrightarrow> pow2 a \<le> pow2 b"
  by (simp add: pow2_powi power_int_increasing)

lemma pow2_of_nat: "pow2 (int n) = 2 ^ n"
  by (simp add: pow2_def)

lemma pow2_diff: "pow2 (a - b) = pow2 a / pow2 b"
  by (simp add: pow2_powi power_int_diff)

lemma bitlen_bounds_rat:
  assumes "0 < p"
  shows "pow2 (bitlen p - 1) \<le> of_int p" and "of_int p < pow2 (bitlen p)"
proof -
  from assms have b: "2 ^ nat (bitlen p - 1) \<le> p" "p < 2 ^ nat (bitlen p)"
    using bitlen_bounds [of p] by auto
  have "0 < bitlen p" using b(2) assms bitlen_nonneg [of p] by (cases "bitlen p = 0") auto
  then have "pow2 (bitlen p - 1) = of_int (2 ^ nat (bitlen p - 1))"
    "pow2 (bitlen p) = of_int (2 ^ nat (bitlen p))"
    by (simp_all add: pow2_def)
  with b show "pow2 (bitlen p - 1) \<le> of_int p" "of_int p < pow2 (bitlen p)"
    by (simp_all only: of_int_le_iff of_int_less_iff)
qed

lemma binade_bounds:
  assumes "0 < x"
  shows "pow2 (binade x) \<le> x" and "x < pow2 (binade x + 1)"
proof -
  obtain p q where pq: "quotient_of x = (p, q)" by force
  then have q: "0 < q" and x: "x = of_int p / of_int q"
    using quotient_of_denom_pos quotient_of_div by auto
  from assms x q have p: "0 < p" by (simp add: zero_less_divide_iff)
  define k where "k = bitlen p - bitlen q"
  have up: "x < pow2 (k + 1)"
  proof -
    have "of_int p / of_int q < pow2 (bitlen p) / pow2 (bitlen q - 1)"
      using bitlen_bounds_rat [OF p] bitlen_bounds_rat [OF q] p q
      by (intro frac_less) auto
    also have "\<dots> = pow2 (k + 1)"
      unfolding pow2_diff [symmetric] k_def by (simp add: algebra_simps)
    finally show ?thesis by (simp add: x)
  qed
  have lo: "pow2 (k - 1) \<le> x"
  proof -
    have "pow2 (k - 1) = pow2 (bitlen p - 1) / pow2 (bitlen q)"
      unfolding pow2_diff [symmetric] k_def by (simp add: algebra_simps)
    also have "\<dots> \<le> of_int p / of_int q"
      using bitlen_bounds_rat [OF p] bitlen_bounds_rat [OF q] p q
      by (intro frac_le) auto
    finally show ?thesis by (simp add: x)
  qed
  have b: "binade x = (if pow2 k \<le> x then k else k - 1)"
    by (simp add: binade_def pq k_def)
  show "pow2 (binade x) \<le> x" using lo by (simp add: b)
  show "x < pow2 (binade x + 1)" using up by (simp add: b)
qed

lemma binade_mono:
  assumes "0 < x" and "x \<le> y"
  shows "binade x \<le> binade y"
proof (rule ccontr)
  assume "\<not> binade x \<le> binade y"
  then have "binade y + 1 \<le> binade x" by simp
  then have "pow2 (binade y + 1) \<le> pow2 (binade x)" by (rule pow2_mono)
  with assms binade_bounds [of x] binade_bounds [of y] show False by linarith
qed

lemma round_half_even_of_int [simp]: "round_half_even (of_int n) = n"
  by (simp add: round_half_even_def)

lemma round_half_even_mono:
  assumes "a \<le> b"
  shows "round_half_even a \<le> round_half_even b"
proof (cases "\<lfloor>a\<rfloor> = \<lfloor>b\<rfloor>")
  case True
  with assms show ?thesis by (auto simp: round_half_even_def Let_def)
next
  case False
  with floor_mono [OF assms] have "\<lfloor>a\<rfloor> + 1 \<le> \<lfloor>b\<rfloor>" by linarith
  moreover have "round_half_even a \<le> \<lfloor>a\<rfloor> + 1" and "\<lfloor>b\<rfloor> \<le> round_half_even b"
    by (auto simp: round_half_even_def Let_def)
  ultimately show ?thesis by linarith
qed

lemma round_pos_upper:
  assumes "0 < x"
  shows "round_pos x \<le> pow2 (binade x + 1)"
proof -
  define u where "u = pow2 (binade x - 52)"
  have "x / u \<le> of_int (2 ^ 53)"
    using binade_bounds(2) [OF assms] pow2_add [of "binade x - 52" 53]
    by (simp add: u_def field_simps pow2_def)
  then have "round_half_even (x / u) \<le> 2 ^ 53"
    using round_half_even_mono round_half_even_of_int by metis
  then have "of_int (round_half_even (x / u)) * u \<le> of_int (2 ^ 53) * u"
    unfolding u_def by (intro mult_right_mono) (simp_all only: of_int_le_iff less_imp_le pow2_pos)
  also have "\<dots> = pow2 (binade x + 1)"
    using pow2_add [of 53 "binade x - 52"] by (simp add: u_def pow2_def [of 53] add.commute)
  finally show ?thesis by (simp add: round_pos_def u_def Let_def)
qed

lemma round_pos_lower:
  assumes "0 < x"
  shows "pow2 (binade x) \<le> round_pos x"
proof -
  define u where "u = pow2 (binade x - 52)"
  have "of_int (2 ^ 52) \<le> x / u"
    using binade_bounds(1) [OF assms] pow2_add [of "binade x - 52" 52]
    by (simp add: u_def field_simps pow2_def)
  then have "2 ^ 52 \<le> round_half_even (x / u)"
    using round_half_even_mono round_half_even_of_int by metis
  then have "of_int (2 ^ 52) * u \<le> of_int (round_half_even (x / u)) * u"
    unfolding u_def by (intro mult_right_mono) (simp_all only: of_int_le_iff less_imp_le pow2_pos)
  moreover have "of_int (2 ^ 52) * u = pow2 (binade x)"
    using pow2_add [of 52 "binade x - 52"] by (simp add: u_def pow2_def [of 52])
  ultimately have "pow2 (binade x) \<le> of_int (round_half_even (x / u)) * u" by (simp only:)
  then show ?thesis by (simp add: round_pos_def u_def Let_def)
qed

lemma round_pos_mono:
  assumes "0 < x" and "x \<le> y"
  shows "round_pos x \<le> round_pos y"
proof (cases "binade x = binade y")
  case True
  have "round_half_even (x / pow2 (binade y - 52)) \<le> round_half_even (y / pow2 (binade y - 52))"
    using assms by (intro round_half_even_mono divide_right_mono) (simp_all add: less_imp_le)
  then show ?thesis
    by (simp add: round_pos_def Let_def True less_imp_le)
next
  case False
  with binade_mono [OF assms] have "binade x + 1 \<le> binade y" by linarith
  then have "pow2 (binade x + 1) \<le> pow2 (binade y)" by (rule pow2_mono)
  with round_pos_upper [OF assms(1)] round_pos_lower [of y] assms show ?thesis by linarith
qed

lemma round_pos_pos: "0 < x \<Longrightarrow> 0 < round_pos x"
  using round_pos_lower pow2_pos by (meson less_le_trans)

lemma mono_round64: "a \<le> b \<Longrightarrow> round64 a \<le> round64 b"
  using round_pos_mono [of a b] round_pos_mono [of "-b" "-a"] round_pos_pos [of b] round_pos_pos [of "-a"]
  by (auto simp: round64_def)

lemma round64_0 [simp]: "round64 0 = 0"
  by (simp add: round64_def)

text \<open>The relative error of a rounding is at most \<open>2^-53\<close>.\<close>

definition unit_roundoff :: rat where
  "unit_roundoff = 1 / 2 ^ 53"

lemma round_half_even_error: "\<bar>of_int (round_half_even y) - y\<bar> \<le> 1 / 2"
proof -
  define r where "r = y - of_int \<lfloor>y\<rfloor>"
  have y: "y = of_int \<lfloor>y\<rfloor> + r" by (simp add: r_def)
  have r: "0 \<le> r" "r < 1" unfolding r_def by linarith+
  have "of_int (round_half_even y) - y = - r \<and> r \<le> 1 / 2 \<or> of_int (round_half_even y) - y = 1 - r \<and> 1 / 2 \<le> r"
    unfolding round_half_even_def Let_def r_def by auto
  with r show ?thesis by auto
qed

lemma round_pos_error:
  assumes "0 < x"
  shows "\<bar>round_pos x - x\<bar> \<le> x * unit_roundoff"
proof -
  define u where "u = pow2 (binade x - 52)"
  have u: "0 < u" by (simp add: u_def)
  have "u * 2 ^ 52 = pow2 (binade x)"
    unfolding u_def pow2_diff using pow2_of_nat [of 52] by simp
  then have ux: "u * 2 ^ 52 \<le> x" using binade_bounds(1) [OF assms] by simp
  have "round_pos x - x = (of_int (round_half_even (x / u)) - x / u) * u"
    using u by (simp add: round_pos_def Let_def u_def [symmetric] algebra_simps)
  then have "\<bar>round_pos x - x\<bar> = \<bar>of_int (round_half_even (x / u)) - x / u\<bar> * u"
    using u by (simp add: abs_mult)
  also have "\<dots> \<le> 1 / 2 * u"
    using u by (intro mult_right_mono round_half_even_error) simp
  also have "\<dots> \<le> x * unit_roundoff" using ux by (simp add: unit_roundoff_def field_simps)
  finally show ?thesis .
qed

lemma round64_error: "\<bar>round64 x - x\<bar> \<le> \<bar>x\<bar> * unit_roundoff"
  using round_pos_error [of x] round_pos_error [of "- x"] by (auto simp: round64_def abs_minus_commute)

lemma round_pos_fix:
  assumes "0 < x" and "x / pow2 (binade x - 52) = of_int m"
  shows "round_pos x = x"
proof -
  have "round_half_even (x / pow2 (binade x - 52)) = m"
    by (simp only: assms(2) round_half_even_of_int)
  with assms(2) show ?thesis by (simp add: round_pos_def Let_def field_simps)
qed

lemma round_pos_of_int:
  assumes "0 < n" and "n \<le> 2 ^ 53"
  shows "round_pos (of_int n) = of_int n"
proof (cases "binade (of_int n) \<le> 52")
  case True
  then have "of_int n / pow2 (binade (of_int n) - 52)
      = (of_int (n * 2 ^ nat (52 - binade (of_int n))) :: rat)"
    by (simp add: pow2_def)
  with assms(1) show ?thesis by (intro round_pos_fix [where m = "n * 2 ^ nat (52 - binade (of_int n))"]) simp_all
next
  case False
  then have "pow2 53 \<le> pow2 (binade (of_int n))" by (intro pow2_mono) simp
  also have "\<dots> \<le> of_int n" using assms by (intro binade_bounds) simp
  finally have "of_int (2 ^ 53) \<le> (of_int n :: rat)" by (simp add: pow2_def)
  then have "2 ^ 53 \<le> n" by (simp only: of_int_le_iff)
  with assms(2) have n: "n = 2 ^ 53" by linarith
  show ?thesis unfolding n by code_simp
qed

lemma round64_of_int:
  assumes "\<bar>n\<bar> \<le> 2 ^ 53"
  shows "round64 (of_int n) = of_int n"
  using assms round_pos_of_int [of n] round_pos_of_int [of "- n"]
  by (auto simp: round64_def)

subsection \<open>What clients rely on\<close>

locale rounding =
  fixes rnd :: "rat \<Rightarrow> rat"
  assumes rnd_mono: "a \<le> b \<Longrightarrow> rnd a \<le> rnd b"
    and rnd_exact: "\<bar>n\<bar> \<le> 2 ^ 53 \<Longrightarrow> rnd (of_int n) = of_int n"
    and rnd_pos: "0 < a \<Longrightarrow> 0 < rnd a"
    and rnd_error: "\<bar>rnd a - a\<bar> \<le> \<bar>a\<bar> * unit_roundoff"
begin

lemma rnd_zero [simp]: "rnd 0 = 0"
  using rnd_exact [of 0] by simp

lemma rnd_one [simp]: "rnd 1 = 1"
  using rnd_exact [of 1] by simp

lemma rnd_hundred [simp]: "rnd 100 = 100"
  using rnd_exact [of 100] by simp

lemma rnd_nonneg: "0 \<le> a \<Longrightarrow> 0 \<le> rnd a"
  using rnd_mono [of 0 a] by simp

lemma rnd_le_int: "a \<le> of_int n \<Longrightarrow> \<bar>n\<bar> \<le> 2 ^ 53 \<Longrightarrow> rnd a \<le> of_int n"
  using rnd_mono [of a "of_int n"] rnd_exact [of n] by simp

lemma rnd_ge_int: "of_int n \<le> a \<Longrightarrow> \<bar>n\<bar> \<le> 2 ^ 53 \<Longrightarrow> of_int n \<le> rnd a"
  using rnd_mono [of "of_int n" a] rnd_exact [of n] by simp

lemma rnd_le_one: "a \<le> 1 \<Longrightarrow> rnd a \<le> 1"
  using rnd_le_int [of a 1] by simp

lemma rnd_ge_one: "1 \<le> a \<Longrightarrow> 1 \<le> rnd a"
  using rnd_ge_int [of 1 a] by simp

text \<open>The absolute error of a rounding below a bound.\<close>

lemma rnd_error_le:
  assumes "\<bar>a\<bar> \<le> b"
  shows "\<bar>rnd a - a\<bar> \<le> b * unit_roundoff"
proof -
  have "\<bar>a\<bar> * unit_roundoff \<le> b * unit_roundoff"
    using assms by (intro mult_right_mono) (auto simp: unit_roundoff_def)
  with rnd_error [of a] show ?thesis by linarith
qed

lemma quotient_mono:
  assumes "0 \<le> a" and "a \<le> b" and "0 < c"
  shows "rnd (a / c) \<le> rnd (b / c)"
  using assms by (intro rnd_mono divide_right_mono) auto

lemma quotient_antimono:
  assumes "0 \<le> a" and "0 < c" and "c \<le> d"
  shows "rnd (a / d) \<le> rnd (a / c)"
  using assms by (intro rnd_mono divide_left_mono) (auto intro: mult_pos_pos)

end

interpretation f64: rounding round64
proof unfold_locales
  show "a \<le> b \<Longrightarrow> round64 a \<le> round64 b" for a b by (rule mono_round64)
  show "\<bar>n\<bar> \<le> 2 ^ 53 \<Longrightarrow> round64 (of_int n) = of_int n" for n by (rule round64_of_int)
  show "0 < a \<Longrightarrow> 0 < round64 a" for a by (simp add: round64_def round_pos_pos)
  show "\<bar>round64 a - a\<bar> \<le> \<bar>a\<bar> * unit_roundoff" for a by (rule round64_error)
qed

lemma float_of_int_mono: "m \<le> n \<Longrightarrow> float_of_int m \<le> float_of_int n"
  by (simp add: float_of_int_def f64.rnd_mono)

lemma float_of_int_pos: "0 < n \<Longrightarrow> 0 < float_of_int n"
  by (simp add: float_of_int_def f64.rnd_pos)

lemma float_of_int_nonneg: "0 \<le> n \<Longrightarrow> 0 \<le> float_of_int n"
  by (simp add: float_of_int_def f64.rnd_nonneg)

lemma float_of_int_0 [simp]: "float_of_int 0 = 0"
  by (simp add: float_of_int_def)

lemma fdiv_self [simp]: "a \<noteq> 0 \<Longrightarrow> fdiv a a = 1"
  by (simp add: fdiv_def)

end
