(* ===== verification/Burn_Rate.thy ===== *)
theory Burn_Rate
  imports Go_Float
begin

text \<open>
  The burn-rate classifier of \<open>internal/poller/burn_rate.go\<close>: the thresholds, the burn rate
  of one window and the classification of one poll cycle, in \<open>float64\<close> arithmetic.
  The rules of the comment on \<open>classifyBurn\<close> are stated separately as the inductive
  predicate \<open>burn_rule\<close>, and the code is shown to implement exactly them.
\<close>

subsection \<open>Constants and data\<close>

definition shortWindow :: duration where
  "shortWindow = 5 * minute"

definition longWindow :: duration where
  "longWindow = hour"

definition outageBurnRate :: rat where
  "outageBurnRate = round64 (144 / 10)"

definition degradedBurnRate :: rat where
  "degradedBurnRate = round64 (72 / 10)"

definition minShortWindowErrors :: int where
  "minShortWindowErrors = 3"

definition zeroTrafficGrace :: duration where
  "zeroTrafficGrace = 15 * minute"

record windowCounts =
  w_Requests :: int
  w_Errors :: int

record burnInput =
  in_Short :: windowCounts
  in_Long :: windowCounts
  in_Target :: rat
  in_Previous :: string
  in_LastErrorAt :: "time option"
  in_LastChangeAt :: time
  in_Now :: time

subsection \<open>The burn rate of a window\<close>

text \<open>\<open>errors\<close> is clamped to \<open>[0, requests]\<close>; the budget is \<open>1 - target/100\<close>.\<close>

definition clamp_errors :: "int \<Rightarrow> int \<Rightarrow> int" where
  "clamp_errors errors requests =
     (let e = (if errors < 0 then 0 else errors) in if requests < e then requests else e)"

definition burn_budget :: "rat \<Rightarrow> rat" where
  "burn_budget target = fsub 1 (fdiv target 100)"

definition burnRate :: "int \<Rightarrow> int \<Rightarrow> rat \<Rightarrow> float64" where
  "burnRate errors requests target =
     (if requests \<le> 0 then Fin 0
      else let e = clamp_errors errors requests; budget = burn_budget target
        in if budget \<le> 0 then (if 0 < e then PosInf else Fin 0)
           else Fin (fdiv (fdiv (float_of_int e) (float_of_int requests)) budget))"

subsection \<open>Classification\<close>

definition classifyWindows :: "windowCounts \<Rightarrow> windowCounts \<Rightarrow> rat \<Rightarrow> string" where
  "classifyWindows short long target =
     (let shortBurn = burnRate (w_Errors short) (w_Requests short) target;
          longBurn = (if 0 < w_Requests long
                      then burnRate (w_Errors long) (w_Requests long) target else shortBurn);
          shortErrors = min (max (w_Errors short) 0) (w_Requests short)
      in if shortErrors < minShortWindowErrors then ''operational''
         else if Fin outageBurnRate \<le> shortBurn \<and> Fin outageBurnRate \<le> longBurn then ''outage''
         else if Fin degradedBurnRate \<le> shortBurn \<and> Fin degradedBurnRate \<le> longBurn then ''degraded''
         else ''operational'')"

definition classifyBurn :: "burnInput \<Rightarrow> string" where
  "classifyBurn i =
     (if w_Requests (in_Short i) \<le> 0 then
        (if in_Previous i = ''not_configured'' then
           (if w_Requests (in_Long i) \<le> 0 then ''not_configured''
            else classifyWindows (in_Long i) (in_Long i) (in_Target i))
         else if in_Previous i = ''outage'' \<or> in_Previous i = ''degraded'' then
           (let since = (case in_LastErrorAt i of Some t \<Rightarrow> t | None \<Rightarrow> in_LastChangeAt i)
            in if zeroTrafficGrace \<le> time_sub (in_Now i) since then ''operational''
               else in_Previous i)
         else ''operational'')
      else classifyWindows (in_Short i) (in_Long i) (in_Target i))"

subsection \<open>The documented rules\<close>

text \<open>When a window reaches a burn rate, with the fallback of rule 2: a long window
  without requests takes the short window's burn rate.\<close>

definition both_burn :: "rat \<Rightarrow> windowCounts \<Rightarrow> windowCounts \<Rightarrow> rat \<Rightarrow> bool" where
  "both_burn thr short long target \<longleftrightarrow>
     Fin thr \<le> burnRate (w_Errors short) (w_Requests short) target \<and>
     (0 < w_Requests long \<longrightarrow> Fin thr \<le> burnRate (w_Errors long) (w_Requests long) target)"

definition enough_errors :: "windowCounts \<Rightarrow> bool" where
  "enough_errors w \<longleftrightarrow> minShortWindowErrors \<le> min (max (w_Errors w) 0) (w_Requests w)"

inductive window_rule :: "windowCounts \<Rightarrow> windowCounts \<Rightarrow> rat \<Rightarrow> string \<Rightarrow> bool" where
  outage: "enough_errors s \<Longrightarrow> both_burn outageBurnRate s l t \<Longrightarrow> window_rule s l t ''outage''"
| degraded: "enough_errors s \<Longrightarrow> both_burn degradedBurnRate s l t \<Longrightarrow>
     \<not> both_burn outageBurnRate s l t \<Longrightarrow> window_rule s l t ''degraded''"
| not_enough: "\<not> enough_errors s \<Longrightarrow> window_rule s l t ''operational''"
| not_burning: "\<not> both_burn outageBurnRate s l t \<Longrightarrow> \<not> both_burn degradedBurnRate s l t \<Longrightarrow>
     window_rule s l t ''operational''"

inductive burn_rule :: "burnInput \<Rightarrow> string \<Rightarrow> bool" where
  with_traffic: "0 < w_Requests (in_Short i) \<Longrightarrow>
     window_rule (in_Short i) (in_Long i) (in_Target i) s \<Longrightarrow> burn_rule i s"
| still_unconfigured: "w_Requests (in_Short i) \<le> 0 \<Longrightarrow> in_Previous i = ''not_configured'' \<Longrightarrow>
     w_Requests (in_Long i) \<le> 0 \<Longrightarrow> burn_rule i ''not_configured''"
| from_long: "w_Requests (in_Short i) \<le> 0 \<Longrightarrow> in_Previous i = ''not_configured'' \<Longrightarrow>
     0 < w_Requests (in_Long i) \<Longrightarrow>
     window_rule (in_Long i) (in_Long i) (in_Target i) s \<Longrightarrow> burn_rule i s"
| within_grace: "w_Requests (in_Short i) \<le> 0 \<Longrightarrow> in_Previous i \<in> {''outage'', ''degraded''} \<Longrightarrow>
     since = (case in_LastErrorAt i of Some t \<Rightarrow> t | None \<Rightarrow> in_LastChangeAt i) \<Longrightarrow>
     in_Now i < since + zeroTrafficGrace \<Longrightarrow> burn_rule i (in_Previous i)"
| grace_over: "w_Requests (in_Short i) \<le> 0 \<Longrightarrow> in_Previous i \<in> {''outage'', ''degraded''} \<Longrightarrow>
     since = (case in_LastErrorAt i of Some t \<Rightarrow> t | None \<Rightarrow> in_LastChangeAt i) \<Longrightarrow>
     since + zeroTrafficGrace \<le> in_Now i \<Longrightarrow> burn_rule i ''operational''"
| otherwise: "w_Requests (in_Short i) \<le> 0 \<Longrightarrow>
     in_Previous i \<notin> {''not_configured'', ''outage'', ''degraded''} \<Longrightarrow> burn_rule i ''operational''"

inductive_simps window_rule_simp: "window_rule s l t r"
inductive_simps burn_rule_simp: "burn_rule i r"

subsection \<open>Lemmas on the burn rate\<close>

lemma clamp_errors_eq: "0 < r \<Longrightarrow> clamp_errors e r = min (max e 0) r"
  by (auto simp: clamp_errors_def)

lemma clamp_errors_bounds: "0 < r \<Longrightarrow> 0 \<le> clamp_errors e r \<and> clamp_errors e r \<le> r"
  by (auto simp: clamp_errors_def)

lemma clamp_errors_mono: "e \<le> e' \<Longrightarrow> clamp_errors e r \<le> clamp_errors e' r"
  by (auto simp: clamp_errors_def)

lemma burnRate_pos_budget:
  "0 < r \<Longrightarrow> 0 < burn_budget t \<Longrightarrow>
   burnRate e r t = Fin (fdiv (fdiv (float_of_int (clamp_errors e r)) (float_of_int r)) (burn_budget t))"
  by (simp add: burnRate_def Let_def)

lemma burnRate_zero_budget:
  "0 < r \<Longrightarrow> burn_budget t \<le> 0 \<Longrightarrow> burnRate e r t = (if 0 < clamp_errors e r then PosInf else Fin 0)"
  by (simp add: burnRate_def Let_def)

lemma error_ratio_bounds:
  assumes "0 \<le> e" and "e \<le> r" and "0 < r"
  shows "0 \<le> fdiv (float_of_int e) (float_of_int r)" and "fdiv (float_of_int e) (float_of_int r) \<le> 1"
proof -
  note pos = float_of_int_pos [OF assms(3)] float_of_int_nonneg [OF assms(1)]
  then show "0 \<le> fdiv (float_of_int e) (float_of_int r)"
    unfolding fdiv_def by (intro f64.rnd_nonneg) simp
  have "float_of_int e / float_of_int r \<le> 1"
    using pos float_of_int_mono [OF assms(2)] by simp
  then show "fdiv (float_of_int e) (float_of_int r) \<le> 1"
    unfolding fdiv_def by (rule f64.rnd_le_one)
qed

lemma error_ratio_mono:
  assumes "0 \<le> e" and "e \<le> e'" and "0 < r"
  shows "fdiv (float_of_int e) (float_of_int r) \<le> fdiv (float_of_int e') (float_of_int r)"
  unfolding fdiv_def using assms
  by (intro f64.quotient_mono float_of_int_mono float_of_int_nonneg float_of_int_pos)

lemma error_ratio_antimono:
  assumes "0 < r" and "r \<le> r'"
  shows "fdiv (float_of_int (clamp_errors e r')) (float_of_int r')
       \<le> fdiv (float_of_int (clamp_errors e r)) (float_of_int r)"
proof (cases "r \<le> e")
  case True
  with assms have "clamp_errors e r = r" by (simp add: clamp_errors_eq)
  with assms float_of_int_pos [OF assms(1)] show ?thesis
    using error_ratio_bounds(2) clamp_errors_bounds [of r' e] by simp
next
  case False
  with assms have "clamp_errors e r' = clamp_errors e r" by (simp add: clamp_errors_eq)
  with assms show ?thesis
    unfolding fdiv_def using clamp_errors_bounds [of r e]
    by (simp add: f64.quotient_antimono float_of_int_nonneg float_of_int_pos float_of_int_mono)
qed

lemma burnRate_nonneg: "Fin 0 \<le> burnRate e r t"
proof (cases "0 < r \<and> 0 < burn_budget t")
  case True
  then show ?thesis
    using error_ratio_bounds(1) clamp_errors_bounds [of r e]
    by (simp add: burnRate_pos_budget) (simp add: fdiv_def f64.rnd_nonneg)
next
  case False
  then show ?thesis by (auto simp: burnRate_def Let_def)
qed

lemma burnRate_mono:
  assumes "e \<le> e'"
  shows "burnRate e r t \<le> burnRate e' r t"
proof (cases "0 < r \<and> 0 < burn_budget t")
  case True
  then have "0 \<le> clamp_errors e r" using clamp_errors_bounds by blast
  with True show ?thesis
    using error_ratio_mono [OF _ clamp_errors_mono [OF assms]] error_ratio_bounds(1) clamp_errors_bounds [of r e]
    by (simp add: burnRate_pos_budget fdiv_def [of _ "burn_budget t"] f64.quotient_mono)
next
  case False
  then show ?thesis
    using clamp_errors_mono [OF assms, of r] by (auto simp: burnRate_def Let_def)
qed

lemma clamp_pos_iff: "0 < r \<Longrightarrow> 0 < clamp_errors e r \<longleftrightarrow> 0 < e"
  by (auto simp: clamp_errors_def)

lemma burnRate_antimono:
  assumes "0 < r" and "r \<le> r'"
  shows "burnRate e r' t \<le> burnRate e r t"
proof (cases "0 < burn_budget t")
  case True
  with assms show ?thesis
    using error_ratio_antimono [of r r' e] error_ratio_bounds(1) [of "clamp_errors e r'" r']
      clamp_errors_bounds [of r' e]
    by (simp add: burnRate_pos_budget fdiv_def [of _ "burn_budget t"] f64.quotient_mono)
next
  case False
  with assms show ?thesis by (simp add: burnRate_zero_budget clamp_pos_iff)
qed

subsection \<open>Lemmas on the classification\<close>

lemma degraded_le_outage: "degradedBurnRate \<le> outageBurnRate"
  unfolding degradedBurnRate_def outageBurnRate_def by (rule f64.rnd_mono) simp

lemma both_burn_le: "both_burn b s l t \<Longrightarrow> a \<le> b \<Longrightarrow> both_burn a s l t"
  unfolding both_burn_def using order_trans Fin_le_Fin by metis

lemma classifyWindows_cases:
  "classifyWindows s l t =
     (if \<not> enough_errors s then ''operational''
      else if both_burn outageBurnRate s l t then ''outage''
      else if both_burn degradedBurnRate s l t then ''degraded''
      else ''operational'')"
  by (auto simp: classifyWindows_def enough_errors_def both_burn_def Let_def)

lemma classifyWindows_rule: "window_rule s l t r \<longleftrightarrow> r = classifyWindows s l t"
  using both_burn_le [OF _ degraded_le_outage]
  by (auto simp: window_rule_simp classifyWindows_cases)

lemma classifyWindows_range: "classifyWindows s l t \<in> {''operational'', ''degraded'', ''outage''}"
  by (simp add: classifyWindows_cases)

lemma grace_iff: "zeroTrafficGrace \<le> time_sub n s \<longleftrightarrow> s + zeroTrafficGrace \<le> n"
  by (rule time_sub_ge_iff) (simp_all add: zeroTrafficGrace_def duration_defs max_int64_def min_int64_def)

lemma classifyBurn_range:
  "classifyBurn i \<in> {''operational'', ''degraded'', ''outage'', ''not_configured''}"
  using classifyWindows_range [of "in_Short i" "in_Long i" "in_Target i"]
    classifyWindows_range [of "in_Long i" "in_Long i" "in_Target i"]
  by (auto simp: classifyBurn_def Let_def)

text \<open>How bad a status is.\<close>

definition severity_rank :: "string \<Rightarrow> nat" where
  "severity_rank s = (if s = ''outage'' then 2 else if s = ''degraded'' then 1 else 0)"

lemma severity_classifyWindows:
  "severity_rank (classifyWindows s l t) =
     (if \<not> enough_errors s then 0
      else if both_burn outageBurnRate s l t then 2
      else if both_burn degradedBurnRate s l t then 1 else 0)"
  by (simp add: classifyWindows_cases severity_rank_def)

lemma both_burn_mono:
  assumes "both_burn thr s l t"
    and "w_Requests s' = w_Requests s" and "w_Errors s \<le> w_Errors s'"
    and "w_Requests l' = w_Requests l" and "w_Errors l \<le> w_Errors l'"
  shows "both_burn thr s' l' t"
  using assms burnRate_mono order_trans unfolding both_burn_def by metis

lemma enough_errors_mono:
  "enough_errors s \<Longrightarrow> w_Requests s' = w_Requests s \<Longrightarrow> w_Errors s \<le> w_Errors s' \<Longrightarrow> enough_errors s'"
  by (auto simp: enough_errors_def)

subsection \<open>Properties\<close>

text \<open>The burn rate grows with the errors and falls with the requests of a window, in
  \<open>float64\<close> arithmetic and for any target, never falls below 0, and is capped: with a
  positive budget it is at most one divided by the budget, however far the error count
  exceeds the request count.\<close>

theorem burnRate_monotone_and_capped:
  assumes "e \<le> e'" and "0 < r" and "r \<le> r'"
  shows "burnRate e r' t \<le> burnRate e' r t \<and> Fin 0 \<le> burnRate e r t \<and>
    (0 < burn_budget t \<longrightarrow> burnRate e r t \<le> Fin (fdiv 1 (burn_budget t)))"
proof (intro conjI impI)
  show "burnRate e r' t \<le> burnRate e' r t"
    using burnRate_antimono [OF assms(2,3)] burnRate_mono [OF assms(1)] by (rule order_trans)
  show "Fin 0 \<le> burnRate e r t" by (rule burnRate_nonneg)
  assume "0 < burn_budget t"
  then show "burnRate e r t \<le> Fin (fdiv 1 (burn_budget t))"
    using assms(2) error_ratio_bounds clamp_errors_bounds [of r e]
    by (simp add: burnRate_pos_budget fdiv_def [of _ "burn_budget t"] f64.quotient_mono)
qed

theorem burnRate_monotone_and_capped_witness:
  "burnRate 3 50 99 \<le> burnRate 4 40 99 \<and> Fin 0 \<le> burnRate 3 40 99 \<and>
   burnRate 3 40 99 \<le> Fin (fdiv 1 (burn_budget 99))"
proof -
  have "0 < burn_budget 99" by code_simp
  then show ?thesis using burnRate_monotone_and_capped [of 3 4 40 50 99] by simp
qed


text \<open>Classification is monotone: with the request counts of both windows fixed, more
  errors in either window never give a milder status.\<close>

theorem classifyWindows_severity_mono:
  assumes "w_Requests s' = w_Requests s" and "w_Errors s \<le> w_Errors s'"
    and "w_Requests l' = w_Requests l" and "w_Errors l \<le> w_Errors l'"
  shows "severity_rank (classifyWindows s l t) \<le> severity_rank (classifyWindows s' l' t)"
  using assms enough_errors_mono [of s s'] both_burn_mono [of _ s l t s' l']
  by (simp add: severity_classifyWindows)

theorem classifyWindows_severity_mono_witness:
  "severity_rank (classifyWindows \<lparr>w_Requests = 100, w_Errors = 4\<rparr> \<lparr>w_Requests = 900, w_Errors = 9\<rparr> 99)
   \<le> severity_rank (classifyWindows \<lparr>w_Requests = 100, w_Errors = 50\<rparr> \<lparr>w_Requests = 900, w_Errors = 300\<rparr> 99)"
  by (rule classifyWindows_severity_mono) simp_all

text \<open>The outage threshold is missed at its boundary: with 72 errors in 1000 requests
  against a target of 99.5 the burn rate is exactly 14.4, the documented outage threshold,
  but the \<open>float64\<close> quotient is smaller and the windows are classified as degraded.\<close>

theorem classifyWindows_outage_boundary_missed:
  "(72 / 1000) / (1 - (995 / 10) / 100) = (144 / 10 :: rat) \<and>
   burnRate 72 1000 (995 / 10) < Fin outageBurnRate \<and>
   classifyWindows \<lparr>w_Requests = 1000, w_Errors = 72\<rparr> \<lparr>w_Requests = 1000, w_Errors = 72\<rparr> (995 / 10)
     = ''degraded''"
proof -
  have b: "burnRate 72 1000 (995 / 10) < Fin outageBurnRate"
    "Fin degradedBurnRate \<le> burnRate 72 1000 (995 / 10)" by code_simp+
  then have "\<not> Fin outageBurnRate \<le> burnRate 72 1000 (995 / 10)" by simp
  with b show ?thesis
    by (simp add: classifyWindows_cases both_burn_def enough_errors_def minShortWindowErrors_def)
qed

end
