(* ===== verification/Database.thy ===== *)
theory Database
  imports Go_Float
begin

text \<open>
  The Postgres side of the program: the tables (\<open>internal/db/migrations\<close>), the row-level
  security every tenant-scoped table carries, and the connection pool of
  \<open>internal/db/pool.go\<close> with the transaction a context may carry.

  \<^item> \<open>world\<close> is what the repositories act on. \<open>db\<close> holds the tables a tenant transaction
    reads and writes; \<open>intervals\<close> is the table \<open>status_intervals\<close>, kept apart because
    \<open>OpenOrExtend\<close> commits to it in a transaction of its own, which a rollback of the tenant
    transaction does not undo.
  \<^item> \<open>tx\<close> is the transaction \<open>WithTenantTx\<close> put on the context: its session settings, whether a
    statement of it has failed (Postgres then refuses every further statement, and its commit
    is a rollback), and the tables as it found them.
  \<^item> \<open>faults\<close> scripts the outcome of the coming statements: a \<open>True\<close> makes the next
    statement fail the way a lost connection or a timeout would. The empty script is a
    database that does not fail. Every error path of a repository is reached by a script.
  \<^item> \<open>next_id\<close> is the source of \<open>gen_random_uuid()\<close>: every generated identifier is new, and a
    rollback does not give one back.
  \<^item> \<open>bypass_rls\<close> says whether the database role ignores row-level security (a superuser or
    a role with BYPASSRLS).
  Errors of scanning or iterating over a result are not told apart from an error of the query
  itself. A commit that reports an error is taken not to have happened.
\<close>

subsection \<open>Rows\<close>

record service_row =
  sv_id :: uuid
  sv_tenant_id :: uuid
  sv_name :: string
  sv_slo_id :: "string option"
  sv_slo_name :: string
  sv_slo_type :: "string option"
  sv_datadog_service_tag :: "string option"
  sv_environment :: string
  sv_monitor_mode :: string
  sv_poll_type :: "string option"
  sv_poll_target :: "string option"
  sv_poll_interval_seconds :: "int option"
  sv_current_status :: string
  sv_last_status_change_at :: time
  sv_status_analysis :: "string option"
  sv_last_burn_rate_short :: "float64 option"
  sv_last_burn_rate_long :: "float64 option"
  sv_last_window_errors :: "int option"
  sv_last_window_requests :: "int option"
  sv_last_reading_at :: "time option"
  sv_last_error_at :: "time option"
  sv_deleted_at :: "time option"

record StatusInterval =
  si_ID :: uuid
  si_ServiceID :: uuid
  si_Status :: string
  si_ErrorBudgetRemaining :: rat
  si_StartsAt :: time
  si_LastSeenAt :: time
  si_EndsAt :: "time option"
  si_Analysis :: "string option"

record incident_row =
  ic_id :: uuid
  ic_tenant_id :: uuid
  ic_title :: string
  ic_status :: string
  ic_created_at :: time
  ic_resolved_at :: "time option"
  ic_description :: "string option"
  ic_pending_close_comment :: "string option"
  ic_auto_created :: bool
  ic_severity :: string

record IncidentUpdate =
  iu_ID :: uuid
  iu_IncidentID :: uuid
  iu_Body :: string
  iu_CreatedAt :: time
  iu_AuthorID :: "uuid option"
  iu_IsAISummary :: bool

record integration_row =
  ig_id :: uuid
  ig_tenant_id :: uuid
  ig_provider :: string
  ig_encrypted_api_key :: string
  ig_encrypted_app_key :: string
  ig_status :: string
  ig_last_checked_at :: "time option"
  ig_last_error :: "string option"

record User =
  u_ID :: uuid
  u_Email :: string
  u_PasswordHash :: string
  u_Name :: string
  u_Phone :: "string option"
  u_SessionsRevokedAt :: "time option"
  u_EmailVerifiedAt :: "time option"
  u_CreatedAt :: time

record Tenant =
  t_ID :: uuid
  t_Name :: string
  t_Plan :: string
  t_Status :: string
  t_ContactEmail :: string
  t_LegalName :: "string option"
  t_TaxID :: "string option"
  t_TaxIDType :: "string option"
  t_Website :: "string option"
  t_Timezone :: "string option"
  t_DeletedAt :: "time option"
  t_CreatedAt :: time
  t_LastDigestSentAt :: "time option"
  t_LogoContentType :: "string option"

record membership_row =
  mb_user_id :: uuid
  mb_tenant_id :: uuid
  mb_role :: string
  mb_created_at :: time

record preference_row =
  np_user_id :: uuid
  np_type :: string
  np_enabled :: bool

record Session =
  ss_ID :: uuid
  ss_UserID :: uuid
  ss_UserAgent :: "string option"
  ss_IP :: "string option"
  ss_CreatedAt :: time
  ss_LastSeenAt :: "time option"
  ss_RevokedAt :: "time option"

record TwoFactorSecret =
  tf_UserID :: uuid
  tf_EncryptedSecret :: string
  tf_EnabledAt :: "time option"
  tf_CreatedAt :: time

record recovery_row =
  rc_id :: uuid
  rc_user_id :: uuid
  rc_code_hash :: string
  rc_used_at :: "time option"

record TwoFactorChallenge =
  ch_ID :: uuid
  ch_UserID :: uuid
  ch_ExpiresAt :: time
  ch_UsedAt :: "time option"
  ch_CreatedAt :: time

record PasswordResetToken =
  pr_ID :: uuid
  pr_UserID :: uuid
  pr_TokenHash :: string
  pr_ExpiresAt :: time
  pr_UsedAt :: "time option"

record placement_row =
  pl_status_page_id :: uuid
  pl_service_id :: uuid
  pl_group_id :: "uuid option"
  pl_parent_service_id :: "uuid option"
  pl_position :: int

record status_page_row =
  sp_id :: uuid
  sp_tenant_id :: uuid
  sp_name :: string
  sp_subdomain :: "string option"
  sp_domain_id :: "uuid option"
  sp_state :: string
  sp_tls_last_error :: "string option"
  sp_environment :: string
  sp_created_at :: time

record group_row =
  sg_id :: uuid
  sg_tenant_id :: uuid
  sg_status_page_id :: uuid
  sg_name :: string
  sg_position :: int
  sg_created_at :: time

record domain_row =
  dm_id :: uuid
  dm_tenant_id :: uuid
  dm_hostname :: string
  dm_created_at :: time
  dm_domain_type :: string
  dm_status :: string
  dm_verification_token :: string
  dm_verified_at :: "time option"
  dm_last_error :: "string option"
  dm_expires_at :: "time option"
  dm_registrar :: "string option"
  dm_expected_ns :: "string list option"
  dm_current_ns :: "string list option"
  dm_ns_drift_detected :: bool
  dm_last_rdap_check_at :: "time option"
  dm_last_rdap_success_at :: "time option"
  dm_rdap_last_error :: "string option"

record audit_row =
  au_id :: uuid
  au_tenant_id :: uuid
  au_actor_id :: uuid
  au_target_id :: uuid
  au_target_label :: "string option"
  au_action :: string
  au_created_at :: time

record TenantInvite =
  iv_ID :: uuid
  iv_TenantID :: "uuid option"
  iv_Email :: string
  iv_Role :: string
  iv_Name :: string
  iv_Phone :: "string option"
  iv_TokenHash :: string
  iv_InvitedByID :: uuid
  iv_ExpiresAt :: time
  iv_UsedAt :: "time option"
  iv_CreatedAt :: time

record EmailVerificationToken =
  ev_ID :: uuid
  ev_UserID :: uuid
  ev_TokenHash :: string
  ev_ExpiresAt :: time
  ev_UsedAt :: "time option"
  ev_CreatedAt :: time

record email_provider_row =
  ep_id :: uuid
  ep_tenant_id :: uuid
  ep_provider :: string
  ep_encrypted_api_key :: string
  ep_from_email :: string
  ep_from_name :: string
  ep_status :: string
  ep_last_checked_at :: "time option"
  ep_last_error :: "string option"

record llm_provider_row =
  lp_id :: uuid
  lp_tenant_id :: uuid
  lp_provider :: string
  lp_encrypted_api_key :: string
  lp_model :: string
  lp_status :: string
  lp_last_checked_at :: "time option"
  lp_last_error :: "string option"

record email_settings_row =
  es_tenant_id :: uuid
  es_active_provider :: "string option"

record llm_settings_row =
  ls_tenant_id :: uuid
  ls_active_provider :: "string option"
  ls_root_cause_enrichment_enabled :: bool

record tables =
  services :: "service_row list"
  incidents :: "incident_row list"
  incident_services :: "(uuid \<times> uuid) list"
  incident_updates :: "IncidentUpdate list"
  status_page_services :: "placement_row list"
  status_pages :: "status_page_row list"
  service_groups :: "group_row list"
  domains :: "domain_row list"
  integrations :: "integration_row list"
  users :: "User list"
  tenants :: "Tenant list"
  memberships :: "membership_row list"
  preferences :: "preference_row list"
  sessions :: "Session list"
  two_factor_secrets :: "TwoFactorSecret list"
  recovery_codes :: "recovery_row list"
  challenges :: "TwoFactorChallenge list"
  reset_tokens :: "PasswordResetToken list"
  audit_log :: "audit_row list"
  invites :: "TenantInvite list"
  verification_tokens :: "EmailVerificationToken list"
  email_providers :: "email_provider_row list"
  email_settings :: "email_settings_row list"
  llm_providers :: "llm_provider_row list"
  llm_settings :: "llm_settings_row list"

subsection \<open>Sessions, transactions and the pool\<close>

record session =
  app_user_id :: "uuid option"
  app_tenant_id :: "uuid option"

record tenant_tx =
  tx_session :: session
  tx_aborted :: bool
  tx_begin :: tables

record world =
  db :: tables
  intervals :: "StatusInterval list"
  bypass_rls :: bool
  tx :: "tenant_tx option"
  faults :: "bool list"
  next_id :: uuid

datatype db_error =
    DbError
  | ErrNotFound
  | ErrServiceInUse
  | ErrIntervalRaceLost
  | ErrNoPendingProposal
  | ErrCloseProposalChanged
  | ErrIncidentAlreadyResolved
  | ErrDuplicateEmail
  | ErrDuplicateMembership
  | ErrLastOwner
  | ErrInvalidTaxID
  | ErrDomainAlreadyAttached
  | ErrInvalidDomain
  | ErrDuplicateDomainSubdomain
  | ErrNoDomainAttached
  | ErrGroupCrossPage
  | ErrParentNotInSet
  | ErrSelfReference
  | ErrMaxDepthExceeded
  | ErrDuplicateHostname
  | ErrDomainInUse

type_synonym 'a db_result = "(db_error + 'a) \<times> world"

definition no_session :: session where
  "no_session = \<lparr>app_user_id = None, app_tenant_id = None\<rparr>"

text \<open>\<open>TenantTxFromContext\<close> and the session a statement issued through the pool runs under:
  the context's transaction, else a pooled connection with no setting.\<close>

definition pool_session :: "world \<Rightarrow> session" where
  "pool_session w = (case tx w of Some t \<Rightarrow> tx_session t | None \<Rightarrow> no_session)"

text \<open>The policy \<open>tenant_isolation\<close>: a row is visible, and may be written, only when its
  \<open>tenant_id\<close> equals the session's \<open>app.tenant_id\<close>; an unset setting matches nothing.\<close>

definition rls_visible :: "world \<Rightarrow> session \<Rightarrow> uuid \<Rightarrow> bool" where
  "rls_visible w s tenant \<longleftrightarrow> bypass_rls w \<or> app_tenant_id s = Some tenant"

definition visible :: "world \<Rightarrow> uuid \<Rightarrow> bool" where
  "visible w tenant \<longleftrightarrow> rls_visible w (pool_session w) tenant"

definition abort_tx :: "world \<Rightarrow> world" where
  "abort_tx w = w\<lparr>tx := map_option (\<lambda>t. t\<lparr>tx_aborted := True\<rparr>) (tx w)\<rparr>"

text \<open>The outcome of the next statement on a connection of its own.\<close>

definition own_exec :: "world \<Rightarrow> bool \<times> world" where
  "own_exec w =
     (case faults w of [] \<Rightarrow> (True, w) | f # fs \<Rightarrow> (\<not> f, w\<lparr>faults := fs\<rparr>))"

text \<open>\<open>Pool.QueryRow\<close>, \<open>Pool.Query\<close>, \<open>Pool.Exec\<close>: on the context's transaction when there
  is one, which a failed statement aborts, else on a pooled connection.\<close>

definition pool_exec :: "world \<Rightarrow> bool \<times> world" where
  "pool_exec w =
     (case tx w of
        None \<Rightarrow> own_exec w
      | Some t \<Rightarrow>
          if tx_aborted t then (False, w)
          else (case own_exec w of (ok, w') \<Rightarrow> if ok then (True, w') else (False, abort_tx w')))"

definition pool_try :: "world \<Rightarrow> (world \<Rightarrow> 'a db_result) \<Rightarrow> 'a db_result" where
  "pool_try w k = (case pool_exec w of (ok, w') \<Rightarrow> if ok then k w' else (Inl DbError, w'))"

definition own_try :: "world \<Rightarrow> (world \<Rightarrow> 'a db_result) \<Rightarrow> 'a db_result" where
  "own_try w k = (case own_exec w of (ok, w') \<Rightarrow> if ok then k w' else (Inl DbError, w'))"

text \<open>A statement the database refuses: a violated constraint. It aborts the context's
  transaction like any failed statement.\<close>

definition pool_fail :: "world \<Rightarrow> 'a db_result" where
  "pool_fail w = (Inl DbError, abort_tx w)"

definition pool_refuse :: "db_error \<Rightarrow> world \<Rightarrow> 'a db_result" where
  "pool_refuse e w = (Inl e, abort_tx w)"

text \<open>A statement with \<open>LIMIT pageSize OFFSET (page - 1) * pageSize\<close>: Postgres refuses a negative
  offset, which a page number close to the largest \<open>int\<close> gives.\<close>

definition page_try :: "nat \<Rightarrow> nat \<Rightarrow> world \<Rightarrow> (nat \<Rightarrow> world \<Rightarrow> 'a db_result) \<Rightarrow> 'a db_result" where
  "page_try page pageSize w k =
     pool_try w (\<lambda>w. if row_offset page pageSize < 0 then pool_fail w else k (nat (row_offset page pageSize)) w)"

text \<open>What a transaction of an operation's own commits is there for the context's transaction and
  survives its rollback.\<close>

definition own_commit :: "(tables \<Rightarrow> tables) \<Rightarrow> world \<Rightarrow> world" where
  "own_commit f w = w\<lparr>db := f (db w), tx := map_option (\<lambda>t. t\<lparr>tx_begin := f (tx_begin t)\<rparr>) (tx w)\<rparr>"

definition set_db :: "(tables \<Rightarrow> tables) \<Rightarrow> world \<Rightarrow> world" where
  "set_db f w = w\<lparr>db := f (db w)\<rparr>"

text \<open>Sequencing of fallible operations: the first error ends the sequence.\<close>

definition db_bind :: "'a db_result \<Rightarrow> ('a \<Rightarrow> world \<Rightarrow> 'b db_result) \<Rightarrow> 'b db_result" where
  "db_bind m f = (case m of (Inl e, w) \<Rightarrow> (Inl e, w) | (Inr a, w) \<Rightarrow> f a w)"

lemma db_bind_cases:
  assumes "db_bind m f = (r, w'')"
  obtains (failed) e where "r = Inl e" "m = (Inl e, w'')"
  | (ran) a w' where "m = (Inr a, w')" "f a w' = (r, w'')"
  using assms by (auto simp: db_bind_def split: prod.splits sum.splits)

lemma db_bind_simps [simp]: "db_bind (Inl e, w) f = (Inl e, w)" "db_bind (Inr a, w) f = f a w"
  by (simp_all add: db_bind_def)

text \<open>\<open>COALESCE(c, '')\<close> of a nullable text column, and \<open>NULLIF(v, '')\<close>.\<close>

definition coalesce :: "string option \<Rightarrow> string" where
  "coalesce c = (case c of None \<Rightarrow> [] | Some s \<Rightarrow> s)"

definition nullif_empty :: "string \<Rightarrow> string option" where
  "nullif_empty s = (if s = [] then None else Some s)"

lemma coalesce_nullif [simp]: "coalesce (nullif_empty s) = s"
  by (simp add: coalesce_def nullif_empty_def)

text \<open>\<open>Pool.BeginTenantTx\<close>: \<open>BEGIN\<close>, then one \<open>set_config\<close> per identifier that is set.
  A failing \<open>set_config\<close> rolls the transaction back.\<close>

definition BeginTenantTx :: "uuid option \<Rightarrow> uuid option \<Rightarrow> world \<Rightarrow> unit db_result" where
  "BeginTenantTx userID tenantID w =
     own_try w (\<lambda>w.
       let set_user = (\<lambda>w k. if userID = None then k w else own_try w k);
           set_tenant = (\<lambda>w k. if tenantID = None then k w else own_try w k)
       in set_user w (\<lambda>w. set_tenant w (\<lambda>w.
            (Inr (), w\<lparr>tx := Some \<lparr>tx_session = \<lparr>app_user_id = userID, app_tenant_id = tenantID\<rparr>,
                                 tx_aborted = False, tx_begin = db w\<rparr>\<rparr>))))"

text \<open>\<open>Tx.Rollback\<close> and \<open>Tx.Commit\<close> of the context's transaction. Committing an aborted
  transaction is a rollback and reports an error.\<close>

definition tx_rollback :: "world \<Rightarrow> world" where
  "tx_rollback w =
     (case tx w of None \<Rightarrow> w | Some t \<Rightarrow> w\<lparr>db := tx_begin t, tx := None\<rparr>)"

definition tx_commit :: "world \<Rightarrow> unit db_result" where
  "tx_commit w =
     (case tx w of
        None \<Rightarrow> (Inl DbError, w)
      | Some t \<Rightarrow>
          if tx_aborted t then (Inl DbError, tx_rollback w)
          else (case own_exec w of (ok, w') \<Rightarrow>
                  if ok then (Inr (), w'\<lparr>tx := None\<rparr>) else (Inl DbError, tx_rollback w')))"

text \<open>The shape of \<open>runInTx\<close> and of \<open>Create\<close>: run on the context's transaction when there is one,
  else in a transaction of its own (with no session settings) that is committed only on
  success.\<close>

definition run_in_tx :: "(world \<Rightarrow> 'a db_result) \<Rightarrow> world \<Rightarrow> 'a db_result" where
  "run_in_tx f w =
     (case tx w of
        Some _ \<Rightarrow> f w
      | None \<Rightarrow> own_try w (\<lambda>w.
          case f (w\<lparr>tx := Some \<lparr>tx_session = no_session, tx_aborted = False, tx_begin = db w\<rparr>\<rparr>) of
            (Inl e, w') \<Rightarrow> (Inl e, tx_rollback w')
          | (Inr a, w') \<Rightarrow> (case tx_commit w' of (Inl e, w'') \<Rightarrow> (Inl e, w'') | (Inr _, w'') \<Rightarrow> (Inr a, w''))))"

lemmas pool_defs = own_exec_def pool_exec_def pool_try_def own_try_def abort_tx_def

subsection \<open>What a statement outcome leaves alone\<close>

text \<open>Two worlds with the same data: everything but the fault script and the aborted flag.\<close>

definition same_data :: "world \<Rightarrow> world \<Rightarrow> bool" where
  "same_data w w' \<longleftrightarrow> db w' = db w \<and> intervals w' = intervals w \<and> bypass_rls w' = bypass_rls w \<and>
     next_id w' = next_id w \<and> map_option tx_session (tx w') = map_option tx_session (tx w) \<and>
     map_option tx_begin (tx w') = map_option tx_begin (tx w)"

lemma same_data_refl [simp, intro]: "same_data w w"
  by (simp add: same_data_def)

lemma same_data_trans [trans]: "same_data u v \<Longrightarrow> same_data v w \<Longrightarrow> same_data u w"
  by (simp add: same_data_def)

lemma same_data_abort [simp]: "same_data w (abort_tx w)"
  by (cases "tx w") (simp_all add: same_data_def abort_tx_def)

lemma same_data_own: "own_exec w = (ok, w') \<Longrightarrow> same_data w w'"
  by (auto simp: own_exec_def same_data_def split: list.splits)

lemma same_data_pool: "pool_exec w = (ok, w') \<Longrightarrow> same_data w w'"
  by (auto simp: pool_exec_def split: option.splits if_splits prod.splits
      dest!: same_data_own intro: same_data_trans [OF _ same_data_abort])

lemma same_dataD:
  assumes "same_data w w'"
  shows "db w' = db w" "intervals w' = intervals w" "bypass_rls w' = bypass_rls w"
    "next_id w' = next_id w" "pool_session w' = pool_session w" "visible w' = visible w"
  using assms
  by (auto simp: same_data_def pool_session_def visible_def rls_visible_def fun_eq_iff split: option.splits)

lemma own_exec_frame [frame_simps]:
  assumes "own_exec w = (ok, w')"
  shows "tx w' = tx w"
  using assms by (auto simp: own_exec_def split: list.splits)

text \<open>Case analysis of a statement: it fails with the data unchanged, or its continuation
  runs on the same data.\<close>

lemma pool_try_cases:
  assumes "pool_try w k = (r, w'')"
  obtains (failed) "r = Inl DbError" "same_data w w''"
  | (ran) w' where "same_data w w'" "k w' = (r, w'')"
  using assms same_data_pool [of w]
  by (auto simp: pool_try_def split: prod.splits if_splits)

lemma own_try_cases:
  assumes "own_try w k = (r, w'')"
  obtains (failed) "r = Inl DbError" "same_data w w''" "tx w'' = tx w"
  | (ran) w' where "same_data w w'" "tx w' = tx w" "k w' = (r, w'')"
  using assms same_data_own [of w] own_exec_frame [of w]
  by (auto simp: own_try_def split: prod.splits if_splits)

lemma same_data_pool_try:
  assumes "\<And>v. same_data w v \<Longrightarrow> same_data v (snd (k v))"
  shows "same_data w (snd (pool_try w k))"
proof -
  obtain r v where eq: "pool_try w k = (r, v)" by fastforce
  from eq show ?thesis
  proof (cases rule: pool_try_cases)
    case (ran v')
    with assms [OF ran(1)] show ?thesis by (simp add: eq) (rule same_data_trans)
  qed (simp add: eq)
qed

lemma same_data_bind:
  assumes "same_data w (snd m)" and "\<And>a v. same_data w v \<Longrightarrow> same_data v (snd (f a v))"
  shows "same_data w (snd (db_bind m f))"
proof (cases m)
  case (Pair r v)
  with assms show ?thesis by (cases r) (auto intro: same_data_trans)
qed

lemma same_data_page_try:
  assumes "\<And>k v. same_data w v \<Longrightarrow> same_data v (snd (f k v))"
  shows "same_data w (snd (page_try page pageSize w f))"
  unfolding page_try_def by (rule same_data_pool_try) (simp add: assms pool_fail_def)

lemma same_data_fail: "pool_fail w = (r, w') \<Longrightarrow> r = Inl DbError \<and> same_data w w'"
  by (auto simp: pool_fail_def)

text \<open>A database that does not fail.\<close>

definition healthy :: "world \<Rightarrow> bool" where
  "healthy w \<longleftrightarrow> faults w = [] \<and> (case tx w of None \<Rightarrow> True | Some t \<Rightarrow> \<not> tx_aborted t)"

lemma healthy_pool_try [simp]: "healthy w \<Longrightarrow> pool_try w k = k w"
  by (auto simp: healthy_def pool_defs split: option.splits)

lemma healthy_own_try [simp]: "healthy w \<Longrightarrow> own_try w k = k w"
  by (simp add: healthy_def pool_defs)

lemma healthy_update [simp]:
  "healthy (w\<lparr>db := d\<rparr>) = healthy w" "healthy (w\<lparr>intervals := i\<rparr>) = healthy w"
  by (simp_all add: healthy_def)

lemma aborted_pool_try: "tx w = Some t \<Longrightarrow> tx_aborted t \<Longrightarrow> pool_try w k = (Inl DbError, w)"
  by (simp add: pool_try_def pool_exec_def)

lemma visible_simps [simp]:
  "visible (w\<lparr>db := d\<rparr>) = visible w" "visible (w\<lparr>intervals := i\<rparr>) = visible w"
  by (simp_all add: visible_def rls_visible_def pool_session_def fun_eq_iff)

lemma rls_fail_closed: "\<not> bypass_rls w \<Longrightarrow> \<not> rls_visible w no_session tenant"
  by (simp add: rls_visible_def no_session_def)

lemma BeginTenantTx_ok:
  assumes "BeginTenantTx u t w = (Inr (), w')"
  shows "db w' = db w" "intervals w' = intervals w" "bypass_rls w' = bypass_rls w" "next_id w' = next_id w"
    "tx w' = Some \<lparr>tx_session = \<lparr>app_user_id = u, app_tenant_id = t\<rparr>, tx_aborted = False, tx_begin = db w\<rparr>"
  using assms
  by (auto simp: BeginTenantTx_def Let_def same_data_def split: if_splits elim!: own_try_cases)

lemma BeginTenantTx_err:
  assumes "BeginTenantTx u t w = (Inl e, w')"
  shows "same_data w w'" "tx w' = tx w"
  using assms
  by (auto simp: BeginTenantTx_def Let_def same_data_def split: if_splits elim!: own_try_cases)

lemma tx_commit_ok:
  assumes "tx_commit w = (Inr (), w')"
  shows "db w' = db w" "intervals w' = intervals w" "tx w' = None" "bypass_rls w' = bypass_rls w"
    "next_id w' = next_id w"
  using assms
  by (auto simp: tx_commit_def own_exec_def split: option.splits if_splits prod.splits list.splits)

lemma tx_commit_err:
  assumes "tx_commit w = (Inl e, w')" and "tx w = Some t"
  shows "db w' = tx_begin t" "intervals w' = intervals w" "tx w' = None" "bypass_rls w' = bypass_rls w"
    "next_id w' = next_id w"
  using assms
  by (auto simp: tx_commit_def tx_rollback_def own_exec_def
      split: option.splits if_splits prod.splits list.splits)

subsection \<open>A fresh database\<close>

text \<open>The database after the migrations ran: no rows, row-level security enforced.\<close>

definition no_rows :: tables where
  "no_rows = \<lparr>services = [], incidents = [], incident_services = [], incident_updates = [],
     status_page_services = [], status_pages = [], service_groups = [], domains = [], integrations = [], users = [], tenants = [], memberships = [], preferences = [],
     sessions = [], two_factor_secrets = [], recovery_codes = [], challenges = [], reset_tokens = [],
     audit_log = [], invites = [], verification_tokens = [], email_providers = [], email_settings = [],
     llm_providers = [], llm_settings = []\<rparr>"

definition fresh_world :: world where
  "fresh_world = \<lparr>db = no_rows, intervals = [], bypass_rls = False, tx = None, faults = [], next_id = 0\<rparr>"

lemma healthy_fresh [simp]: "healthy fresh_world"
  by (simp add: healthy_def fresh_world_def)

text \<open>A request or a poll of one tenant: the world inside a transaction scoped to it.\<close>

definition within_tenant :: "uuid \<Rightarrow> world \<Rightarrow> world" where
  "within_tenant tenant w =
     w\<lparr>tx := Some \<lparr>tx_session = \<lparr>app_user_id = None, app_tenant_id = Some tenant\<rparr>, tx_aborted = False, tx_begin = db w\<rparr>\<rparr>"

lemma within_tenant_simps [simp]:
  "db (within_tenant t w) = db w" "intervals (within_tenant t w) = intervals w" "next_id (within_tenant t w) = next_id w"
  "bypass_rls (within_tenant t w) = bypass_rls w" "faults (within_tenant t w) = faults w"
  "app_tenant_id (pool_session (within_tenant t w)) = Some t"
  by (simp_all add: within_tenant_def pool_session_def)

lemma healthy_within [simp]: "faults w = [] \<Longrightarrow> healthy (within_tenant t w)"
  by (simp add: healthy_def within_tenant_def)

end
