(* ===== verification/Status_Intervals.thy ===== *)
theory Status_Intervals
  imports Database
begin

text \<open>
  The table \<open>status_intervals\<close> and \<open>internal/db/status_interval_repository.go\<close>. An interval
  says a service held a status from \<open>StartsAt\<close> until \<open>EndsAt\<close> (\<open>None\<close> while it is open); the
  partial unique index allows one open interval per service.

  \<open>OpenOrExtend\<close> runs in a transaction of its own. Between its locking read and its insert
  another replica may commit an open interval of the same service when there was no row to
  lock; that row is the argument \<open>rival\<close>.

  Results: the unique-open invariant under every fault and every rival; the exact status
  timeline the calls record; pruning; and the scope of the queries that have no tenant
  filter.
\<close>

subsection \<open>Operations\<close>

definition is_open :: "StatusInterval \<Rightarrow> bool" where
  "is_open i \<longleftrightarrow> si_EndsAt i = None"

definition insertOpenInterval ::
    "uuid \<Rightarrow> string \<Rightarrow> rat \<Rightarrow> time \<Rightarrow> uuid \<Rightarrow> StatusInterval list \<Rightarrow> db_error + StatusInterval list" where
  "insertOpenInterval serviceID status ebr seen iid ivs =
     (if \<exists>i\<in>set ivs. si_ServiceID i = serviceID \<and> is_open i then Inl ErrIntervalRaceLost
      else Inr (ivs @ [\<lparr>si_ID = iid, si_ServiceID = serviceID, si_Status = status,
                        si_ErrorBudgetRemaining = ebr, si_StartsAt = seen, si_LastSeenAt = seen,
                        si_EndsAt = None, si_Analysis = None\<rparr>]))"

definition commit_rival :: "StatusInterval option \<Rightarrow> world \<Rightarrow> world" where
  "commit_rival rival w =
     (case rival of
        None \<Rightarrow> w
      | Some i \<Rightarrow> w\<lparr>intervals := intervals w @ [i\<lparr>si_ID := next_id w\<rparr>], next_id := Suc (next_id w)\<rparr>)"

definition extend_interval :: "uuid \<Rightarrow> rat \<Rightarrow> time \<Rightarrow> StatusInterval list \<Rightarrow> StatusInterval list" where
  "extend_interval iid ebr seen =
     sql_update (\<lambda>i. si_ID i = iid) (\<lambda>i. i\<lparr>si_ErrorBudgetRemaining := ebr, si_LastSeenAt := seen\<rparr>)"

definition close_interval :: "uuid \<Rightarrow> time \<Rightarrow> StatusInterval list \<Rightarrow> StatusInterval list" where
  "close_interval iid seen = sql_update (\<lambda>i. si_ID i = iid) (\<lambda>i. i\<lparr>si_EndsAt := Some seen\<rparr>)"

text \<open>The insert and the commit that end both inserting branches: nothing is written
  unless the commit succeeds.\<close>

definition insert_and_commit ::
    "uuid \<Rightarrow> string \<Rightarrow> rat \<Rightarrow> time \<Rightarrow> StatusInterval list \<Rightarrow> world \<Rightarrow> uuid db_result" where
  "insert_and_commit serviceID status ebr seen ivs w =
     own_try w (\<lambda>w.
       case insertOpenInterval serviceID status ebr seen (next_id w) ivs of
         Inl e \<Rightarrow> (Inl e, w)
       | Inr ivs' \<Rightarrow> own_try w (\<lambda>w.
           (Inr (next_id w), w\<lparr>intervals := ivs', next_id := Suc (next_id w)\<rparr>)))"

definition OpenOrExtendRacing ::
    "StatusInterval option \<Rightarrow> uuid \<Rightarrow> string \<Rightarrow> rat \<Rightarrow> time \<Rightarrow> world \<Rightarrow> uuid db_result" where
  "OpenOrExtendRacing rival serviceID status ebr seen w =
     own_try w (\<lambda>w. own_try w (\<lambda>w.
       case find_row (\<lambda>i. si_ServiceID i = serviceID \<and> is_open i) (intervals w) of
         None \<Rightarrow>
           (let w = commit_rival rival w
            in insert_and_commit serviceID status ebr seen (intervals w) w)
       | Some open_row \<Rightarrow>
           if si_Status open_row = status then
             own_try w (\<lambda>w. own_try w (\<lambda>w.
               (Inr (si_ID open_row),
                w\<lparr>intervals := extend_interval (si_ID open_row) ebr seen (intervals w)\<rparr>)))
           else
             own_try w (\<lambda>w.
               insert_and_commit serviceID status ebr seen
                 (close_interval (si_ID open_row) seen (intervals w)) w)))"

definition OpenOrExtend :: "uuid \<Rightarrow> string \<Rightarrow> rat \<Rightarrow> time \<Rightarrow> world \<Rightarrow> uuid db_result" where
  "OpenOrExtend = OpenOrExtendRacing None"

definition SetIntervalAnalysis :: "uuid \<Rightarrow> string \<Rightarrow> world \<Rightarrow> unit db_result" where
  "SetIntervalAnalysis intervalID analysis w =
     pool_try w (\<lambda>w. (Inr (),
       w\<lparr>intervals := sql_update (\<lambda>i. si_ID i = intervalID) (\<lambda>i. i\<lparr>si_Analysis := Some analysis\<rparr>)
                       (intervals w)\<rparr>))"

text \<open>The map of the Go code, built row by row: a later row of a service replaces an
  earlier one.\<close>

definition OpenIntervalsByService :: "world \<Rightarrow> (uuid \<rightharpoonup> StatusInterval) db_result" where
  "OpenIntervalsByService w =
     pool_try w (\<lambda>w. (Inr (fold (\<lambda>i m. m(si_ServiceID i \<mapsto> i)) (filter is_open (intervals w)) Map.empty), w))"

definition overlaps_window :: "time \<Rightarrow> time \<Rightarrow> StatusInterval \<Rightarrow> bool" where
  "overlaps_window windowStart now i \<longleftrightarrow>
     si_StartsAt i < now \<and> (case si_EndsAt i of None \<Rightarrow> True | Some e \<Rightarrow> windowStart < e)"

definition ListOverlapping ::
    "uuid list \<Rightarrow> time \<Rightarrow> time \<Rightarrow> world \<Rightarrow> StatusInterval list db_result" where
  "ListOverlapping serviceIDs windowStart now w =
     (if serviceIDs = [] then (Inr [], w)
      else pool_try w (\<lambda>w. (Inr (sort_key si_ServiceID (sort_key si_StartsAt
             (filter (\<lambda>i. si_ServiceID i \<in> set serviceIDs \<and> overlaps_window windowStart now i)
               (intervals w)))), w)))"

definition closed_before :: "time \<Rightarrow> StatusInterval \<Rightarrow> bool" where
  "closed_before cutoff i \<longleftrightarrow> (case si_EndsAt i of None \<Rightarrow> False | Some e \<Rightarrow> e < cutoff)"

definition DeleteClosedBefore :: "time \<Rightarrow> world \<Rightarrow> nat db_result" where
  "DeleteClosedBefore cutoff w =
     pool_try w (\<lambda>w. (Inr (sql_count (closed_before cutoff) (intervals w)),
       w\<lparr>intervals := sql_delete (closed_before cutoff) (intervals w)\<rparr>))"

definition CountUpdatedSince :: "time \<Rightarrow> world \<Rightarrow> nat db_result" where
  "CountUpdatedSince since w =
     pool_try w (\<lambda>w. (Inr (sql_count (\<lambda>i. since \<le> si_LastSeenAt i) (intervals w)), w))"

subsection \<open>The invariant of the table\<close>

text \<open>Distinct identifiers, all of them already generated, and at most one open interval
  per service (the partial unique index).\<close>

definition intervals_ok :: "world \<Rightarrow> bool" where
  "intervals_ok w \<longleftrightarrow>
     distinct (map si_ID (intervals w)) \<and>
     si_ID ` set (intervals w) \<subseteq> {..< next_id w} \<and>
     distinct (map si_ServiceID (filter is_open (intervals w)))"

lemma intervals_ok_same_data: "same_data w w' \<Longrightarrow> intervals_ok w' = intervals_ok w"
  by (simp add: intervals_ok_def same_data_def)

lemma insertOpenInterval_ok:
  assumes "insertOpenInterval sid st ebr seen iid ivs = Inr ivs'"
  shows "\<not> (\<exists>i\<in>set ivs. si_ServiceID i = sid \<and> is_open i)"
    "\<exists>i. ivs' = ivs @ [i] \<and> si_ID i = iid \<and> si_ServiceID i = sid \<and> si_Status i = st \<and>
         si_StartsAt i = seen \<and> si_LastSeenAt i = seen \<and> si_ErrorBudgetRemaining i = ebr \<and>
         si_EndsAt i = None \<and> si_Analysis i = None"
  using assms by (auto simp: insertOpenInterval_def split: if_splits)

lemma extend_interval_maps [sql_simps]:
  "map si_ID (extend_interval iid ebr seen ivs) = map si_ID ivs"
  "map si_ServiceID (filter is_open (extend_interval iid ebr seen ivs)) = map si_ServiceID (filter is_open ivs)"
  by (induction ivs) (auto simp: extend_interval_def is_open_def)

lemma close_interval_ids [sql_simps]: "map si_ID (close_interval iid seen ivs) = map si_ID ivs"
  by (simp add: close_interval_def map_sql_update_inv)

lemma close_interval_open:
  "filter is_open (close_interval iid seen ivs) = filter (\<lambda>i. is_open i \<and> si_ID i \<noteq> iid) ivs"
  by (induction ivs) (auto simp: close_interval_def is_open_def)

lemma interval_ids_image [sql_simps]:
  "si_ID ` set (extend_interval iid ebr seen ivs) = si_ID ` set ivs"
  "si_ID ` set (close_interval iid seen ivs) = si_ID ` set ivs"
  using extend_interval_maps(1) close_interval_ids by (metis list.set_map)+

text \<open>Extending, closing and inserting keep the invariant.\<close>

lemma intervals_ok_extend:
  "intervals_ok w \<Longrightarrow> intervals_ok (w\<lparr>intervals := extend_interval iid ebr seen (intervals w)\<rparr>)"
  by (simp add: intervals_ok_def sql_simps)

lemma intervals_ok_close:
  assumes "intervals_ok w"
  shows "intervals_ok (w\<lparr>intervals := close_interval iid seen (intervals w)\<rparr>)"
proof -
  have "distinct (map si_ServiceID (filter (\<lambda>i. is_open i \<and> si_ID i \<noteq> iid) (intervals w)))"
    using assms distinct_map_filter [of si_ServiceID "filter is_open (intervals w)" "\<lambda>i. si_ID i \<noteq> iid"]
    by (simp add: intervals_ok_def conj_commute)
  with assms show ?thesis
    by (simp add: intervals_ok_def sql_simps close_interval_open)
qed

lemma intervals_ok_snoc:
  assumes "intervals_ok w" and "si_ID i = next_id w"
    and "\<forall>j\<in>set (intervals w). is_open j \<longrightarrow> si_ServiceID j \<noteq> si_ServiceID i"
  shows "intervals_ok (w\<lparr>intervals := intervals w @ [i], next_id := Suc (next_id w)\<rparr>)"
proof -
  have "si_ID ` set (intervals w) \<subseteq> {..< next_id w}"
    using assms(1) by (simp add: intervals_ok_def)
  then have "si_ID i \<notin> si_ID ` set (intervals w)"
    "si_ID ` set (intervals w @ [i]) \<subseteq> {..< Suc (next_id w)}"
    using assms(2) by auto
  with assms show ?thesis by (auto simp: intervals_ok_def)
qed

lemma insert_and_commit_cases:
  assumes "insert_and_commit sid st ebr seen ivs w = (r, w')"
  obtains (failed) e where "r = Inl e" "same_data w w'" "tx w' = tx w"
  | (inserted) i where "r = Inr (next_id w)" "intervals w' = ivs @ [i]" "next_id w' = Suc (next_id w)"
      "db w' = db w" "tx w' = tx w" "bypass_rls w' = bypass_rls w"
      "si_ID i = next_id w" "si_ServiceID i = sid" "si_Status i = st" "si_StartsAt i = seen"
      "si_EndsAt i = None" "\<forall>j\<in>set ivs. is_open j \<longrightarrow> si_ServiceID j \<noteq> sid"
  using assms unfolding insert_and_commit_def
proof (cases rule: own_try_cases)
  case failed
  with that show ?thesis by auto
next
  case (ran w1)
  note w1 = same_dataD [OF ran(1)]
  show ?thesis
  proof (cases "insertOpenInterval sid st ebr seen (next_id w1) ivs")
    case (Inl e)
    with ran that show ?thesis by auto
  next
    case (Inr ivs')
    from insertOpenInterval_ok [OF Inr] obtain i where i: "ivs' = ivs @ [i]"
      "si_ID i = next_id w1" "si_ServiceID i = sid" "si_Status i = st" "si_StartsAt i = seen" "si_EndsAt i = None"
      and none: "\<forall>j\<in>set ivs. is_open j \<longrightarrow> si_ServiceID j \<noteq> sid" by blast
    from ran(3) Inr have
      "own_try w1 (\<lambda>w. (Inr (next_id w), w\<lparr>intervals := ivs', next_id := Suc (next_id w)\<rparr>)) = (r, w')"
      by simp
    then show ?thesis
    proof (cases rule: own_try_cases)
      case failed
      with ran(1,2) that(1) show ?thesis by (metis same_data_trans)
    next
      case (ran w2)
      from same_dataD [OF ran(1)] ran(2,3) w1 i none \<open>tx w1 = tx w\<close> show ?thesis
        by (intro that(2) [of i]) auto
    qed
  qed
qed

subsection \<open>Every outcome of \<open>OpenOrExtend\<close>\<close>

text \<open>A call that changed nothing: its error, and the data and the context's transaction as
  they were.\<close>

definition no_effect :: "world \<Rightarrow> world \<Rightarrow> bool" where
  "no_effect w w' \<longleftrightarrow> same_data w w' \<and> tx w' = tx w"

lemma no_effect_trans: "no_effect u v \<Longrightarrow> no_effect v w \<Longrightarrow> no_effect u w"
  by (auto simp: no_effect_def intro: same_data_trans)

lemma no_effectD:
  assumes "no_effect w w'"
  shows "db w' = db w" "intervals w' = intervals w" "next_id w' = next_id w" "tx w' = tx w"
  using assms by (auto simp: no_effect_def same_data_def)

lemma own_try_no_effect:
  assumes "own_try w k = (r, w'')"
  obtains (failed) "r = Inl DbError" "no_effect w w''"
  | (ran) w' where "no_effect w w'" "k w' = (r, w'')"
  using assms by (auto simp: no_effect_def elim: own_try_cases)

definition open_interval_of :: "uuid \<Rightarrow> world \<Rightarrow> StatusInterval option" where
  "open_interval_of sid w = find_row (\<lambda>i. si_ServiceID i = sid \<and> is_open i) (intervals w)"

lemma open_interval_of_no_effect: "no_effect w w' \<Longrightarrow> open_interval_of sid w' = open_interval_of sid w"
  by (simp add: open_interval_of_def no_effectD)

lemma commit_rival_no_effect:
  assumes "no_effect w w'"
  shows "intervals (commit_rival rival w') = intervals (commit_rival rival w)"
    "next_id (commit_rival rival w') = next_id (commit_rival rival w)"
    "db (commit_rival rival w') = db w" "tx (commit_rival rival w') = tx w"
  using no_effectD [OF assms] by (auto simp: commit_rival_def split: option.splits)

text \<open>A successful insertion of interval \<open>j\<close>, by a call for \<open>sid\<close>, \<open>st\<close> at \<open>seen\<close>, into
  the rows \<open>ivs\<close>.\<close>

definition inserted_into ::
    "StatusInterval list \<Rightarrow> uuid \<Rightarrow> uuid \<Rightarrow> string \<Rightarrow> time \<Rightarrow> StatusInterval \<Rightarrow> world \<Rightarrow> bool" where
  "inserted_into ivs iid sid st seen j w' \<longleftrightarrow>
     intervals w' = ivs @ [j] \<and> next_id w' = Suc iid \<and> si_ID j = iid \<and> si_ServiceID j = sid \<and>
     si_Status j = st \<and> si_StartsAt j = seen \<and> si_EndsAt j = None \<and>
     (\<forall>k\<in>set ivs. is_open k \<longrightarrow> si_ServiceID k \<noteq> sid)"

lemma extend_outcome:
  assumes "own_try w (\<lambda>w. own_try w (\<lambda>w. (Inr k, w\<lparr>intervals := f (intervals w)\<rparr>))) = (r, w')"
  shows "(\<exists>e. r = Inl e) \<and> no_effect w w' \<or>
    r = Inr k \<and> intervals w' = f (intervals w) \<and> next_id w' = next_id w \<and> db w' = db w \<and> tx w' = tx w"
  using assms
  by (elim own_try_no_effect) (auto simp: no_effectD intro: no_effect_trans)

lemma insert_outcome:
  assumes "insert_and_commit sid st ebr seen ivs w = (r, w')"
  shows "(\<exists>e. r = Inl e) \<and> no_effect w w' \<or>
    r = Inr (next_id w) \<and> db w' = db w \<and> tx w' = tx w \<and> (\<exists>j. inserted_into ivs (next_id w) sid st seen j w')"
  using assms by (cases rule: insert_and_commit_cases) (auto simp: no_effect_def inserted_into_def)

lemma switch_outcome:
  assumes "own_try w (\<lambda>w. insert_and_commit sid st ebr seen (f (intervals w)) w) = (r, w')"
  shows "(\<exists>e. r = Inl e) \<and> no_effect w w' \<or>
    r = Inr (next_id w) \<and> db w' = db w \<and> tx w' = tx w \<and>
      (\<exists>j. inserted_into (f (intervals w)) (next_id w) sid st seen j w')"
  using assms
  by (elim own_try_no_effect) (auto simp: no_effectD dest!: insert_outcome intro: no_effect_trans)

lemma OpenOrExtendRacing_cases:
  assumes "OpenOrExtendRacing rival sid st ebr seen w = (r, w')"
  obtains (failed) e where "r = Inl e" "no_effect w w'"
  | (extended) i where "open_interval_of sid w = Some i" "si_Status i = st" "r = Inr (si_ID i)"
      "intervals w' = extend_interval (si_ID i) ebr seen (intervals w)" "next_id w' = next_id w"
      "db w' = db w" "tx w' = tx w"
  | (switched) i j where "open_interval_of sid w = Some i" "si_Status i \<noteq> st" "r = Inr (next_id w)"
      "inserted_into (close_interval (si_ID i) seen (intervals w)) (next_id w) sid st seen j w'"
      "db w' = db w" "tx w' = tx w"
  | (opened) j where "open_interval_of sid w = None" "r = Inr (next_id (commit_rival rival w))"
      "inserted_into (intervals (commit_rival rival w)) (next_id (commit_rival rival w)) sid st seen j w'"
      "db w' = db w" "tx w' = tx w"
  | (lost) e where "open_interval_of sid w = None" "r = Inl e"
      "intervals w' = intervals (commit_rival rival w)" "next_id w' = next_id (commit_rival rival w)"
      "db w' = db w" "tx w' = tx w"
  using assms unfolding OpenOrExtendRacing_def open_interval_of_def [symmetric]
proof (elim own_try_no_effect, goal_cases)
  case (3 w1 w2)
  then have w2: "no_effect w w2" by (blast intro: no_effect_trans)
  note frame = no_effectD [OF w2] open_interval_of_no_effect [OF w2] commit_rival_no_effect [OF w2]
  show ?case
  proof (cases "open_interval_of sid w")
    case None
    with 3 have "insert_and_commit sid st ebr seen (intervals (commit_rival rival w2)) (commit_rival rival w2) = (r, w')"
      by (simp add: frame Let_def)
    from insert_outcome [OF this] show ?thesis
      using 3(4,5) None no_effectD [of "commit_rival rival w2" w'] by (auto simp: frame)
  next
    case (Some i)
    show ?thesis
    proof (cases "si_Status i = st")
      case True
      with 3 Some extend_outcome [of w2 "si_ID i" "extend_interval (si_ID i) ebr seen" r w'] show ?thesis
        by (simp add: frame) (metis no_effect_trans w2)
    next
      case False
      with 3 Some switch_outcome [of w2 sid st ebr seen "close_interval (si_ID i) seen" r w'] show ?thesis
        by (simp add: frame) (metis no_effect_trans w2)
    qed
  qed
qed (blast intro: no_effect_trans)+

subsection \<open>The invariant under every fault and every rival\<close>

lemma open_interval_of_Some:
  "open_interval_of sid w = Some i \<Longrightarrow> i \<in> set (intervals w) \<and> si_ServiceID i = sid \<and> is_open i"
  unfolding open_interval_of_def by (drule find_row_Some) auto

lemma intervals_ok_inserted:
  assumes "intervals_ok v" and "inserted_into (intervals v) (next_id v) sid st seen j w'"
  shows "intervals_ok w'"
proof -
  have "intervals_ok (v\<lparr>intervals := intervals v @ [j], next_id := Suc (next_id v)\<rparr>)"
    using assms by (intro intervals_ok_snoc) (auto simp: inserted_into_def)
  with assms(2) show ?thesis by (simp add: intervals_ok_def inserted_into_def)
qed

lemma intervals_ok_commit_rival:
  assumes "intervals_ok w" and "open_interval_of sid w = None"
    and "\<And>i. rival = Some i \<Longrightarrow> si_ServiceID i = sid"
  shows "intervals_ok (commit_rival rival w)"
proof (cases rival)
  case (Some i)
  from assms(2) have "\<forall>j\<in>set (intervals w). is_open j \<longrightarrow> si_ServiceID j \<noteq> sid"
    by (auto simp: open_interval_of_def find_row_None)
  with assms(1) assms(3) [OF Some] Some intervals_ok_snoc [of w "i\<lparr>si_ID := next_id w\<rparr>"] show ?thesis
    by (simp add: commit_rival_def)
qed (use assms in \<open>simp add: commit_rival_def\<close>)

lemma OpenOrExtendRacing_keeps_ok:
  assumes "intervals_ok w" and "\<And>i. rival = Some i \<Longrightarrow> si_ServiceID i = sid"
    and "OpenOrExtendRacing rival sid st ebr seen w = (r, w')"
  shows "intervals_ok w'"
  using assms(3)
proof (cases rule: OpenOrExtendRacing_cases)
  case (failed e)
  with assms(1) intervals_ok_same_data [of w w'] show ?thesis by (simp add: no_effect_def)
next
  case (extended i)
  with intervals_ok_extend [OF assms(1), of "si_ID i" ebr seen] show ?thesis
    by (simp add: intervals_ok_def)
next
  case (switched i j)
  then show ?thesis
    using intervals_ok_inserted [OF intervals_ok_close [OF assms(1), of "si_ID i" seen]] by simp
next
  case (opened j)
  with intervals_ok_commit_rival [OF assms(1) _ assms(2)] intervals_ok_inserted show ?thesis by blast
next
  case (lost e)
  with intervals_ok_commit_rival [OF assms(1) _ assms(2)] show ?thesis by (simp add: intervals_ok_def)
qed

lemma OpenOrExtend_race_lost:
  assumes "healthy w" and "open_interval_of sid w = None" and "rival = Some i"
    and "si_ServiceID i = sid" and "is_open i"
  shows "OpenOrExtendRacing rival sid st ebr seen w = (Inl ErrIntervalRaceLost, commit_rival rival w)"
proof -
  have "healthy (commit_rival rival w)"
    using assms(1,3) by (simp add: commit_rival_def healthy_def)
  with assms show ?thesis
    by (simp add: OpenOrExtendRacing_def open_interval_of_def insert_and_commit_def insertOpenInterval_def)
      (simp add: commit_rival_def is_open_def)
qed

text \<open>
  However the database fails and whichever replica wins the race, a call of
  \<open>OpenOrExtend\<close> keeps identifiers unique and leaves at most one open interval per service; a
  call that reports an error has written nothing of its own (the table holds what it held, or
  that plus the rival's row), and it never touches another table. Losing the race on a
  database that does not fail is reported as \<open>ErrIntervalRaceLost\<close>.
\<close>

theorem OpenOrExtend_atomic_and_unique:
  assumes "intervals_ok w" and "\<And>i. rival = Some i \<Longrightarrow> si_ServiceID i = sid \<and> is_open i"
    and "OpenOrExtendRacing rival sid st ebr seen w = (r, w')"
  shows "intervals_ok w' \<and> db w' = db w \<and> tx w' = tx w \<and>
    ((\<exists>e. r = Inl e) \<longrightarrow> intervals w' \<in> {intervals w, intervals (commit_rival rival w)}) \<and>
    (healthy w \<and> open_interval_of sid w = None \<and> rival \<noteq> None \<longrightarrow> r = Inl ErrIntervalRaceLost)"
proof -
  have "intervals_ok w'" using OpenOrExtendRacing_keeps_ok [OF assms(1) _ assms(3)] assms(2) by blast
  moreover have "db w' = db w \<and> tx w' = tx w \<and>
      ((\<exists>e. r = Inl e) \<longrightarrow> intervals w' \<in> {intervals w, intervals (commit_rival rival w)})"
    using assms(3) by (auto elim!: OpenOrExtendRacing_cases dest: no_effectD)
  moreover have "healthy w \<and> open_interval_of sid w = None \<and> rival \<noteq> None \<longrightarrow> r = Inl ErrIntervalRaceLost"
    using assms(2,3) by (auto simp: OpenOrExtend_race_lost)
  ultimately show ?thesis by blast
qed

definition rival_row :: "uuid \<Rightarrow> string \<Rightarrow> time \<Rightarrow> StatusInterval" where
  "rival_row sid st seen = \<lparr>si_ID = 0, si_ServiceID = sid, si_Status = st, si_ErrorBudgetRemaining = 1,
     si_StartsAt = seen, si_LastSeenAt = seen, si_EndsAt = None, si_Analysis = None\<rparr>"

theorem OpenOrExtend_atomic_and_unique_witness:
  "intervals_ok (snd (OpenOrExtendRacing (Some (rival_row 7 ''outage'' 10)) 7 ''operational'' 1 11 fresh_world)) \<and>
   fst (OpenOrExtendRacing (Some (rival_row 7 ''outage'' 10)) 7 ''operational'' 1 11 fresh_world) = Inl ErrIntervalRaceLost"
  using OpenOrExtend_atomic_and_unique [of fresh_world "Some (rival_row 7 ''outage'' 10)" 7 "''operational''" 1 11
      "fst (OpenOrExtendRacing (Some (rival_row 7 ''outage'' 10)) 7 ''operational'' 1 11 fresh_world)"
      "snd (OpenOrExtendRacing (Some (rival_row 7 ''outage'' 10)) 7 ''operational'' 1 11 fresh_world)"]
  by (simp add: intervals_ok_def is_open_def rival_row_def open_interval_of_def)
    (simp add: fresh_world_def healthy_def)

subsection \<open>The timeline the intervals record\<close>

definition covers :: "time \<Rightarrow> StatusInterval \<Rightarrow> bool" where
  "covers t i \<longleftrightarrow> si_StartsAt i \<le> t \<and> (case si_EndsAt i of None \<Rightarrow> True | Some e \<Rightarrow> t < e)"

definition status_at :: "StatusInterval list \<Rightarrow> uuid \<Rightarrow> time \<Rightarrow> string option" where
  "status_at ivs sid t = map_option si_Status (find_row (\<lambda>i. si_ServiceID i = sid \<and> covers t i) ivs)"

text \<open>The abstract contract: a timeline gives each service its status at each time, and an
  observation at \<open>seen\<close> fixes the status from \<open>seen\<close> on.\<close>

type_synonym timeline = "uuid \<Rightarrow> time \<Rightarrow> string option"

definition observe :: "uuid \<Rightarrow> string \<Rightarrow> time \<Rightarrow> timeline \<Rightarrow> timeline" where
  "observe sid st seen f = (\<lambda>s t. if s = sid \<and> seen \<le> t then Some st else f s t)"

text \<open>A run of observations through a writer \<open>put\<close>, and those of them that were accepted.\<close>

primrec record_all ::
    "(uuid \<Rightarrow> string \<Rightarrow> rat \<Rightarrow> time \<Rightarrow> 'w \<Rightarrow> (db_error + uuid) \<times> 'w) \<Rightarrow>
     (uuid \<times> string \<times> rat \<times> time) list \<Rightarrow> 'w \<Rightarrow> (uuid \<times> string \<times> time) list \<times> 'w" where
  "record_all put [] w = ([], w)"
| "record_all put (ob # obs) w =
     (case ob of (sid, st, ebr, seen) \<Rightarrow>
       (case put sid st ebr seen w of (r, w1) \<Rightarrow>
         (case record_all put obs w1 of (acc, w2) \<Rightarrow>
            ((case r of Inl _ \<Rightarrow> acc | Inr _ \<Rightarrow> (sid, st, seen) # acc), w2))))"

locale timeline_writer =
  fixes put :: "uuid \<Rightarrow> string \<Rightarrow> rat \<Rightarrow> time \<Rightarrow> 'w \<Rightarrow> (db_error + uuid) \<times> 'w"
    and timeline :: "'w \<Rightarrow> timeline"
    and winv :: "time \<Rightarrow> 'w \<Rightarrow> bool"
  assumes put_ok: "winv t w \<Longrightarrow> t \<le> seen \<Longrightarrow> put sid st ebr seen w = (Inr iid, w') \<Longrightarrow>
      timeline w' = observe sid st seen (timeline w)"
    and put_err: "winv t w \<Longrightarrow> t \<le> seen \<Longrightarrow> put sid st ebr seen w = (Inl e, w') \<Longrightarrow> timeline w' = timeline w"
    and put_winv: "winv t w \<Longrightarrow> t \<le> seen \<Longrightarrow> put sid st ebr seen w = (r, w') \<Longrightarrow> winv seen w'"
begin

lemma record_all_timeline:
  assumes "winv t w" and "sorted_wrt (\<lambda>a b. a \<le> b) (t # map (\<lambda>(_, _, _, seen). seen) obs)"
    and "record_all put obs w = (acc, w')"
  shows "timeline w' = fold (\<lambda>(sid, st, seen). observe sid st seen) acc (timeline w)"
  using assms
proof (induction obs arbitrary: t w acc)
  case (Cons ob obs)
  obtain sid st ebr seen where ob: "ob = (sid, st, ebr, seen)" by (cases ob)
  obtain r w1 where w1: "put sid st ebr seen w = (r, w1)" by fastforce
  obtain acc1 where acc1: "record_all put obs w1 = (acc1, w')"
    using Cons.prems(3) by (auto simp: ob w1 split: prod.splits)
  have t: "t \<le> seen" using Cons.prems(2) by (simp add: ob)
  from Cons.IH [OF put_winv [OF Cons.prems(1) t w1] _ acc1] Cons.prems(2)
  have "timeline w' = fold (\<lambda>(sid, st, seen). observe sid st seen) acc1 (timeline w1)" by (simp add: ob)
  then show ?case
    using Cons.prems(3) w1 put_ok [OF Cons.prems(1) t] put_err [OF Cons.prems(1) t]
    by (cases r) (auto simp: ob acc1)
qed simp

end

subsection \<open>\<open>OpenOrExtend\<close> implements the timeline\<close>

definition clock_ok :: "time \<Rightarrow> StatusInterval list \<Rightarrow> bool" where
  "clock_ok t ivs \<longleftrightarrow>
     (\<forall>i\<in>set ivs. si_StartsAt i \<le> t \<and> (case si_EndsAt i of None \<Rightarrow> True | Some e \<Rightarrow> e \<le> t))"

definition timeline_inv :: "time \<Rightarrow> world \<Rightarrow> bool" where
  "timeline_inv t w \<longleftrightarrow> intervals_ok w \<and> clock_ok t (intervals w)"

lemma clock_ok_mono: "clock_ok t ivs \<Longrightarrow> t \<le> u \<Longrightarrow> clock_ok u ivs"
  by (fastforce simp: clock_ok_def split: option.splits)

lemma clock_ok_extend: "clock_ok t ivs \<Longrightarrow> clock_ok t (extend_interval iid ebr seen ivs)"
  by (auto simp: clock_ok_def extend_interval_def set_sql_update)

lemma clock_ok_close: "clock_ok t ivs \<Longrightarrow> t \<le> seen \<Longrightarrow> clock_ok seen (close_interval iid seen ivs)"
  using clock_ok_mono [of t ivs seen]
  by (auto simp: close_interval_def set_sql_update clock_ok_def [of seen])

lemma clock_ok_inserted:
  "clock_ok seen ivs \<Longrightarrow> inserted_into ivs iid sid st seen j w' \<Longrightarrow> clock_ok seen (intervals w')"
  by (auto simp: clock_ok_def inserted_into_def)

lemma status_at_extend: "status_at (extend_interval iid ebr seen ivs) s t = status_at ivs s t"
  by (induction ivs) (auto simp: status_at_def extend_interval_def covers_def)

lemma status_at_close:
  assumes "\<forall>r\<in>set ivs. si_ID r = iid \<longrightarrow> is_open r \<and> si_ServiceID r = sid" and "s \<noteq> sid \<or> t < seen"
  shows "status_at (close_interval iid seen ivs) s t = status_at ivs s t"
  using assms by (induction ivs) (auto simp: status_at_def close_interval_def covers_def is_open_def)

lemma status_at_no_open:
  assumes "clock_ok seen ivs" and "\<forall>k\<in>set ivs. is_open k \<longrightarrow> si_ServiceID k \<noteq> sid" and "seen \<le> t"
  shows "status_at ivs sid t = None"
  using assms by (fastforce simp: status_at_def find_row_None clock_ok_def covers_def is_open_def split: option.splits)

lemma status_at_inserted:
  assumes "clock_ok seen ivs" and "inserted_into ivs iid sid st seen j w'"
  shows "status_at (intervals w') = observe sid st seen (status_at ivs)"
proof (intro ext)
  fix s t
  have "\<forall>k\<in>set ivs. is_open k \<longrightarrow> si_ServiceID k \<noteq> sid" using assms(2) by (simp add: inserted_into_def)
  note none = status_at_no_open [OF assms(1) this, of t]
  show "status_at (intervals w') s t = observe sid st seen (status_at ivs) s t"
    using none assms(2)
    by (auto simp: inserted_into_def observe_def status_at_def find_row_append covers_def split: option.splits)
qed

lemma observe_close:
  assumes "\<forall>r\<in>set ivs. si_ID r = iid \<longrightarrow> is_open r \<and> si_ServiceID r = sid"
  shows "observe sid st seen (status_at (close_interval iid seen ivs)) = observe sid st seen (status_at ivs)"
  by (rule ext)+ (auto simp: observe_def status_at_close [OF assms])

lemma observe_open:
  assumes "intervals_ok w" and "clock_ok t (intervals w)" and "t \<le> seen"
    and "open_interval_of sid w = Some i" and "si_Status i = st"
  shows "observe sid st seen (status_at (intervals w)) = status_at (intervals w)"
proof (intro ext)
  fix s u
  note i = open_interval_of_Some [OF assms(4)]
  have only: "r = i" if "r \<in> set (intervals w)" "si_ServiceID r = sid" "covers u r" "seen \<le> u" for r
  proof -
    from that assms(2,3) have "is_open r"
      by (fastforce simp: clock_ok_def covers_def is_open_def split: option.splits)
    with i that assms(1) distinct_key_unique [of si_ServiceID "filter is_open (intervals w)" r i] show ?thesis
      by (simp add: intervals_ok_def)
  qed
  have "covers u i" if "seen \<le> u"
    using i that assms(2,3) by (auto simp: covers_def clock_ok_def is_open_def)
  with only assms(5) i show "observe sid st seen (status_at (intervals w)) s u = status_at (intervals w) s u"
    unfolding observe_def status_at_def
    by (cases "find_row (\<lambda>i. si_ServiceID i = s \<and> covers u i) (intervals w)")
      (auto simp: find_row_None dest!: find_row_Some)
qed

lemma close_only_open:
  assumes "intervals_ok w" and "open_interval_of sid w = Some i"
  shows "\<forall>r\<in>set (intervals w). si_ID r = si_ID i \<longrightarrow> is_open r \<and> si_ServiceID r = sid"
  using open_interval_of_Some [OF assms(2)] assms(1) distinct_key_unique [of si_ID "intervals w" _ i]
  by (auto simp: intervals_ok_def)

lemma OpenOrExtend_timeline:
  assumes "timeline_inv t w" and "t \<le> seen" and "OpenOrExtend sid st ebr seen w = (r, w')"
  shows "timeline_inv seen w' \<and> status_at (intervals w') =
    (case r of Inl _ \<Rightarrow> status_at (intervals w) | Inr _ \<Rightarrow> observe sid st seen (status_at (intervals w)))"
proof -
  from assms(1) have ok: "intervals_ok w" and clk: "clock_ok t (intervals w)" by (auto simp: timeline_inv_def)
  note clk' = clock_ok_mono [OF clk assms(2)]
  from assms(3) have run: "OpenOrExtendRacing None sid st ebr seen w = (r, w')" by (simp add: OpenOrExtend_def)
  have ok': "intervals_ok w'" using OpenOrExtendRacing_keeps_ok [OF ok _ run] by simp
  from run show ?thesis
  proof (cases rule: OpenOrExtendRacing_cases)
    case (failed e)
    with ok' clk' show ?thesis by (simp add: timeline_inv_def no_effectD)
  next
    case (extended i)
    with ok' clk' observe_open [OF ok clk assms(2) extended(1,2)] show ?thesis
      by (auto simp: timeline_inv_def clock_ok_extend status_at_extend fun_eq_iff)
  next
    case (switched i j)
    note clk'' = clock_ok_close [OF clk assms(2), of "si_ID i"]
    from ok' switched(3) clock_ok_inserted [OF clk'' switched(4)] status_at_inserted [OF clk'' switched(4)]
      observe_close [OF close_only_open [OF ok switched(1)]] show ?thesis
      by (simp add: timeline_inv_def)
  next
    case (opened j)
    with ok' clk' clock_ok_inserted [OF clk'] status_at_inserted [OF clk'] show ?thesis
      by (auto simp: timeline_inv_def commit_rival_def)
  next
    case (lost e)
    with ok' clk' show ?thesis by (simp add: timeline_inv_def commit_rival_def)
  qed
qed

interpretation ivw: timeline_writer OpenOrExtend "\<lambda>w. status_at (intervals w)" timeline_inv
  by unfold_locales (auto dest: OpenOrExtend_timeline)

text \<open>
  C2. The intervals record exactly the observations that were accepted. For any sequence of
  \<open>OpenOrExtend\<close> calls in time order, for any mix of services and statuses and any fault
  script, the status the table gives for a service at a time is that of the last accepted
  observation of that service not later than the time, and the earlier timeline before the
  first one.
\<close>

theorem OpenOrExtend_records_timeline:
  assumes "timeline_inv t w" and "sorted (t # map (\<lambda>(_, _, _, seen). seen) obs)"
    and "record_all OpenOrExtend obs w = (acc, w')"
  shows "status_at (intervals w') = fold (\<lambda>(sid, st, seen). observe sid st seen) acc (status_at (intervals w))"
  using ivw.record_all_timeline [OF assms(1) _ assms(3)] assms(2) by simp

definition sample_observations :: "(uuid \<times> string \<times> rat \<times> time) list" where
  "sample_observations = [(1, ''operational'', 1, 10), (2, ''outage'', 0, 12), (1, ''degraded'', 1, 20), (1, ''outage'', 0, 30)]"

definition flaky_world :: world where
  "flaky_world = fresh_world\<lparr>faults := replicate 11 False @ [True]\<rparr>"

theorem OpenOrExtend_records_timeline_witness:
  "status_at (intervals (snd (record_all OpenOrExtend sample_observations flaky_world))) 1 25 = Some ''operational''"
proof -
  have init: "timeline_inv 0 flaky_world"
    by (simp add: timeline_inv_def intervals_ok_def clock_ok_def flaky_world_def fresh_world_def)
  have order: "sorted (0 # map (\<lambda>(_, _, _, seen). seen) sample_observations)"
    by (simp add: sample_observations_def)
  have accepted: "fst (record_all OpenOrExtend sample_observations flaky_world) =
      [(1, ''operational'', 10), (2, ''outage'', 12), (1, ''outage'', 30)]" by code_simp
  have before: "status_at (intervals flaky_world) 1 25 = None"
    by (simp add: flaky_world_def fresh_world_def status_at_def)
  show ?thesis
    unfolding OpenOrExtend_records_timeline [OF init order prod.collapse [symmetric]] accepted
    using before by (simp add: observe_def)
qed

subsection \<open>Pruning\<close>

lemma status_at_prune:
  assumes "cutoff \<le> t"
  shows "status_at (sql_delete (closed_before cutoff) ivs) sid t = status_at ivs sid t"
  using assms
  by (induction ivs) (auto simp: status_at_def sql_delete_def closed_before_def covers_def split: option.splits)

lemma prune_keeps_open: "filter is_open (sql_delete (closed_before cutoff) ivs) = filter is_open ivs"
  by (induction ivs) (auto simp: sql_delete_def closed_before_def is_open_def)

lemma prune_keeps_overlapping:
  "cutoff \<le> windowStart \<Longrightarrow>
   filter (\<lambda>i. P i \<and> overlaps_window windowStart now i) (sql_delete (closed_before cutoff) ivs) =
   filter (\<lambda>i. P i \<and> overlaps_window windowStart now i) ivs"
  by (induction ivs) (auto simp: sql_delete_def closed_before_def overlaps_window_def split: option.splits)

lemma intervals_ok_prune:
  "intervals_ok w \<Longrightarrow> intervals_ok (w\<lparr>intervals := sql_delete (closed_before cutoff) (intervals w)\<rparr>)"
  unfolding intervals_ok_def
  by (auto simp: prune_keeps_open) (auto simp: sql_delete_def distinct_map_filter)

subsection \<open>Queries without a tenant filter\<close>

text \<open>\<open>CountUpdatedSince\<close> is not scoped to a tenant. The table carries no row-level
  security, so on a database that does not fail the count is the same under every session,
  and it includes the intervals of every tenant's services.\<close>

theorem CountUpdatedSince_ignores_tenant:
  assumes "healthy w" and "healthy w'" and "intervals w' = intervals w"
  shows "fst (CountUpdatedSince since w) = fst (CountUpdatedSince since w') \<and>
    fst (CountUpdatedSince since w) = Inr (length (filter (\<lambda>i. since \<le> si_LastSeenAt i) (intervals w)))"
  using assms by (simp add: CountUpdatedSince_def sql_count_def)

definition tenant_view :: "uuid \<Rightarrow> world" where
  "tenant_view tenant = fresh_world\<lparr>intervals := [rival_row 7 ''outage'' 10],
     tx := Some \<lparr>tx_session = \<lparr>app_user_id = None, app_tenant_id = Some tenant\<rparr>, tx_aborted = False, tx_begin = no_rows\<rparr>\<rparr>"

theorem CountUpdatedSince_ignores_tenant_witness:
  "fst (CountUpdatedSince 0 (tenant_view 1)) = fst (CountUpdatedSince 0 (tenant_view 2)) \<and>
   fst (CountUpdatedSince 0 (tenant_view 1)) = Inr 1"
proof -
  have "healthy (tenant_view t)" "intervals (tenant_view t) = [rival_row 7 ''outage'' 10]" for t
    by (simp_all add: tenant_view_def healthy_def fresh_world_def)
  with CountUpdatedSince_ignores_tenant [of "tenant_view 1" "tenant_view 2" 0] show ?thesis
    by (auto simp: rival_row_def)
qed

end
