(* ===== verification/History.thy ===== *)
theory History
  imports Status_Intervals
begin

text \<open>
  The public history of a service, \<open>internal/history\<close>: the uptime percentage
  (\<open>uptime.go\<close>, in \<open>float64\<close> arithmetic) and the status buckets of the chart
  (\<open>hourly.go\<close>). The time zone is the argument \<open>local_midnight\<close>, which gives the start of
  the local day of an instant; the code only relies on it not being later than the instant.
\<close>

subsection \<open>Uptime\<close>

definition earliestStartsAt :: "StatusInterval list \<Rightarrow> time" where
  "earliestStartsAt ivs =
     fold (\<lambda>i e. if si_StartsAt i < e then si_StartsAt i else e) (tl ivs) (si_StartsAt (hd ivs))"

definition denominatorStart :: "StatusInterval list \<Rightarrow> time \<Rightarrow> time" where
  "denominatorStart ivs windowStart =
     (if windowStart < earliestStartsAt ivs then earliestStartsAt ivs else windowStart)"

definition outage_overlap :: "time \<Rightarrow> time \<Rightarrow> StatusInterval \<Rightarrow> duration" where
  "outage_overlap ds asOf i =
     (if si_Status i \<noteq> ''outage'' then 0
      else let start = (if si_StartsAt i < ds then ds else si_StartsAt i);
               stop = (case si_EndsAt i of None \<Rightarrow> asOf | Some e \<Rightarrow> if e < asOf then e else asOf);
               stop = (if asOf < stop then asOf else stop);
               overlap = time_sub stop start
           in if 0 < overlap then overlap else 0)"

definition downtime :: "time \<Rightarrow> time \<Rightarrow> StatusInterval list \<Rightarrow> duration" where
  "downtime ds asOf ivs = fold (\<lambda>i d. wrap64 (d + outage_overlap ds asOf i)) ivs 0"

definition uptime_percent_of :: "duration \<Rightarrow> duration \<Rightarrow> rat" where
  "uptime_percent_of down whole =
     (let pct = fmul (fsub 1 (fdiv (float_of_int down) (float_of_int whole))) 100;
          pct = (if pct < 0 then 0 else pct);
          pct = (if 100 < pct then 100 else pct)
      in fdiv (math_floor (fmul pct 10)) 10)"

definition UptimePercent :: "StatusInterval list \<Rightarrow> time \<Rightarrow> time \<Rightarrow> rat \<times> bool" where
  "UptimePercent ivs windowStart asOf =
     (if ivs = [] then (0, False)
      else let ds = denominatorStart ivs windowStart; total = time_sub asOf ds
        in if total \<le> 0 then (0, False)
           else (uptime_percent_of (downtime ds asOf ivs) total, True))"

subsection \<open>Buckets\<close>

definition NoData :: string where
  "NoData = ''no_data''"

definition statusPriority :: "string \<Rightarrow> nat" where
  "statusPriority s =
     (if s = ''outage'' then 3 else if s = ''degraded'' then 2 else if s = ''operational'' then 1 else 0)"

record Episode =
  ep_StartsAt :: time
  ep_EndsAt :: "time option"
  ep_Analysis :: "string option"

record Bucket =
  bk_Start :: time
  bk_Status :: string
  bk_Episodes :: "Episode list"

definition leftmostStart :: "(time \<Rightarrow> time) \<Rightarrow> time \<Rightarrow> nat \<Rightarrow> duration \<Rightarrow> time" where
  "leftmostStart local_midnight now bucketCount bucketWidth =
     (let dayStart = local_midnight now;
          elapsed = time_sub now dayStart;
          currentStart = dayStart + go_quot elapsed bucketWidth * bucketWidth
      in currentStart - (int bucketCount - 1) * bucketWidth)"

definition interval_end :: "time \<Rightarrow> StatusInterval \<Rightarrow> time" where
  "interval_end asOf i = (case si_EndsAt i of None \<Rightarrow> asOf | Some e \<Rightarrow> e)"

definition firstIndex :: "time \<Rightarrow> duration \<Rightarrow> StatusInterval \<Rightarrow> int" where
  "firstIndex left width i =
     (let f = go_quot (time_sub (si_StartsAt i) left) width in if f < 0 then 0 else f)"

definition lastIndex :: "time \<Rightarrow> time \<Rightarrow> nat \<Rightarrow> duration \<Rightarrow> StatusInterval \<Rightarrow> int" where
  "lastIndex asOf left bucketCount width i =
     (let endOffset = time_sub (interval_end asOf i) left;
          l = go_quot endOffset width;
          rem = go_rem endOffset width;
          l = (if rem = 0 then l - 1 else if rem < 0 then l - 1 else l)
      in if int bucketCount \<le> l then int bucketCount - 1 else l)"

definition episode_of :: "StatusInterval \<Rightarrow> Episode" where
  "episode_of i = \<lparr>ep_StartsAt = si_StartsAt i, ep_EndsAt = si_EndsAt i, ep_Analysis = si_Analysis i\<rparr>"

text \<open>What one interval does to a bucket in its index range.\<close>

definition paint_bucket :: "StatusInterval \<Rightarrow> Bucket \<Rightarrow> Bucket" where
  "paint_bucket i b =
     (let b = (if statusPriority (bk_Status b) < statusPriority (si_Status i)
               then b\<lparr>bk_Status := si_Status i\<rparr> else b)
      in if si_Status i = ''degraded'' then b\<lparr>bk_Episodes := bk_Episodes b @ [episode_of i]\<rparr> else b)"

text \<open>The inner loop over the indices, skipping those out of range.\<close>

definition paint_range :: "nat \<Rightarrow> StatusInterval \<Rightarrow> int \<Rightarrow> int \<Rightarrow> Bucket list \<Rightarrow> Bucket list" where
  "paint_range bucketCount i lo hi bs =
     fold (\<lambda>k bs. if k < 0 \<or> int bucketCount \<le> k then bs
                  else bs[nat k := paint_bucket i (bs ! nat k)]) [lo .. hi] bs"

definition paint_interval ::
    "time \<Rightarrow> time \<Rightarrow> nat \<Rightarrow> duration \<Rightarrow> StatusInterval \<Rightarrow> Bucket list \<Rightarrow> Bucket list" where
  "paint_interval asOf left bucketCount width i bs =
     (if \<not> si_StartsAt i < interval_end asOf i then bs
      else paint_range bucketCount i (firstIndex left width i) (lastIndex asOf left bucketCount width i) bs)"

definition BuildBuckets ::
    "(time \<Rightarrow> time) \<Rightarrow> StatusInterval list \<Rightarrow> time \<Rightarrow> time \<Rightarrow> nat \<Rightarrow> duration \<Rightarrow> Bucket list" where
  "BuildBuckets local_midnight ivs now asOf bucketCount bucketWidth =
     (let left = leftmostStart local_midnight now bucketCount bucketWidth;
          empty = map (\<lambda>k. \<lparr>bk_Start = left + int k * bucketWidth, bk_Status = NoData, bk_Episodes = []\<rparr>)
                    [0 ..< bucketCount];
          painted = fold (paint_interval asOf left bucketCount bucketWidth) ivs empty
      in map (\<lambda>b. b\<lparr>bk_Episodes := order_desc ep_StartsAt (bk_Episodes b)\<rparr>) painted)"

subsection \<open>Index arithmetic\<close>

lemma le_div_iff_int:
  assumes "0 < (w :: int)"
  shows "k \<le> x div w \<longleftrightarrow> k * w \<le> x"
proof
  assume "k \<le> x div w"
  then have "k * w \<le> (x div w) * w" using assms by simp
  also have "\<dots> \<le> x" using assms pos_mod_sign [of w x] div_mult_mod_eq [of x w] by linarith
  finally show "k * w \<le> x" .
next
  assume "k * w \<le> x"
  then have "(k * w) div w \<le> x div w" using assms by (intro zdiv_mono1)
  with assms show "k \<le> x div w" by simp
qed

lemma div_less_iff_int: "0 < (w :: int) \<Longrightarrow> x div w < k \<longleftrightarrow> x < k * w"
  using le_div_iff_int [of w k x] by linarith

lemma floor_index:
  assumes "0 < w"
  shows "(if go_rem e w = 0 then go_quot e w - 1 else if go_rem e w < 0 then go_quot e w - 1 else go_quot e w)
    = (e - 1) div w"
proof (cases "0 \<le> e")
  case True
  have "(e - 1) div w = (if e mod w = 0 then e div w - 1 else e div w)"
  proof (cases "e mod w = 0")
    case True
    then obtain q where "e = w * q" by auto
    moreover have "(w * q - 1) div w = q - 1"
      using assms by (intro int_div_pos_eq [where r = "w - 1"]) (auto simp: algebra_simps)
    ultimately show ?thesis using assms True by simp
  next
    case False
    moreover have "e = w * (e div w) + e mod w" by simp
    moreover have "0 < e mod w" "e mod w < w"
      using assms False pos_mod_sign [OF assms, of e] pos_mod_bound [OF assms, of e] by linarith+
    ultimately show ?thesis by (intro trans [OF int_div_pos_eq [where r = "e mod w - 1"]]) auto
  qed
  moreover have "\<not> e mod w < 0" using pos_mod_sign [OF assms, of e] by linarith
  ultimately show ?thesis using True assms by (simp add: go_quot_nonneg go_rem_nonneg)
next
  case False
  have "- e = w * (- e div w) + - e mod w" by simp
  then have "(e - 1) div w = - (- e div w) - 1"
    using assms pos_mod_bound [OF assms, of "- e"] pos_mod_sign [OF assms, of "- e"]
    by (intro int_div_pos_eq [where r = "w - 1 - (- e mod w)"]) (simp_all add: algebra_simps)
  moreover have "- e mod w = 0 \<or> 0 < - e mod w" using pos_mod_sign [OF assms, of "- e"] by linarith
  ultimately show ?thesis using False assms by (auto simp: go_quot_neg go_rem_neg)
qed

lemma firstIndex_le_iff:
  assumes "0 < w" and "(int k + 1) * w \<le> max_int64"
  shows "firstIndex left w i \<le> int k \<longleftrightarrow> si_StartsAt i < left + (int k + 1) * w"
proof -
  define s where "s = time_sub (si_StartsAt i) left"
  have pos: "min_int64 < (int k + 1) * w" "0 < (int k + 1) * w"
    using mult_pos_pos [of "int k + 1" w] assms(1) int64_bounds(1) by linarith+
  have sat: "s < (int k + 1) * w \<longleftrightarrow> si_StartsAt i < left + (int k + 1) * w"
    unfolding s_def using time_sub_ge_iff [OF assms(2), of "si_StartsAt i" left] pos by linarith
  show ?thesis
  proof (cases "0 \<le> s")
    case True
    with assms(1) have "firstIndex left w i = s div w"
      using pos_imp_zdiv_nonneg_iff [OF assms(1), of s]
      by (simp add: firstIndex_def Let_def s_def [symmetric] go_quot_nonneg)
    then show ?thesis using sat div_less_iff_int [OF assms(1), of s "int k + 1"] by linarith
  next
    case False
    with assms(1) have "firstIndex left w i = 0"
      using pos_imp_zdiv_nonneg_iff [OF assms(1), of "- s"]
      by (simp add: firstIndex_def Let_def s_def [symmetric] go_quot_neg)
    moreover have "s < (int k + 1) * w" using False pos by linarith
    ultimately show ?thesis using sat by simp
  qed
qed

lemma le_lastIndex_iff:
  assumes "0 < w" and "(int k + 1) * w \<le> max_int64" and "k < n"
  shows "int k \<le> lastIndex asOf left n w i \<longleftrightarrow> left + int k * w < interval_end asOf i"
proof -
  define e where "e = time_sub (interval_end asOf i) left"
  have bound: "int k * w + 1 \<le> max_int64" "min_int64 < int k * w + 1"
    using assms(1,2) mult_nonneg_nonneg [of "int k" w] int64_bounds(1) distrib_right [of "int k" 1 w] by linarith+
  have "lastIndex asOf left n w i = (let l = (e - 1) div w in if int n \<le> l then int n - 1 else l)"
    unfolding lastIndex_def Let_def e_def [symmetric] floor_index [OF assms(1)] by simp
  with assms(3) have "int k \<le> lastIndex asOf left n w i \<longleftrightarrow> int k \<le> (e - 1) div w" by (auto simp: Let_def)
  also have "\<dots> \<longleftrightarrow> int k * w + 1 \<le> e" using le_div_iff_int [OF assms(1), of "int k" "e - 1"] by linarith
  also have "\<dots> \<longleftrightarrow> left + int k * w < interval_end asOf i"
    unfolding e_def using time_sub_ge_iff [OF bound, of "interval_end asOf i" left] by linarith
  finally show ?thesis .
qed

subsection \<open>What a bucket ends up with\<close>

text \<open>An interval overlaps the bucket that starts at \<open>start\<close>: it is not empty and its span
  meets the bucket's half-open span.\<close>

definition overlaps_bucket :: "time \<Rightarrow> duration \<Rightarrow> time \<Rightarrow> StatusInterval \<Rightarrow> bool" where
  "overlaps_bucket asOf width start i \<longleftrightarrow>
     si_StartsAt i < interval_end asOf i \<and> si_StartsAt i < start + width \<and> start < interval_end asOf i"

text \<open>The worst of a list of statuses, \<open>NoData\<close> when none of them has a priority.\<close>

definition worst_status :: "string \<Rightarrow> string list \<Rightarrow> bool" where
  "worst_status s ss \<longleftrightarrow> (\<forall>s'\<in>set ss. statusPriority s' \<le> statusPriority s) \<and> (s = NoData \<or> s \<in> set ss)"

lemma fold_update_nth:
  assumes "distinct ks" and "k < n" and "length bs = n"
  shows "fold (\<lambda>k bs. if k < 0 \<or> int n \<le> k then bs else bs[nat k := f (bs ! nat k)]) ks bs ! k =
    (if int k \<in> set ks then f (bs ! k) else bs ! k)"
  using assms
proof (induction ks arbitrary: bs)
  case (Cons j ks)
  define bs' where "bs' = (if j < 0 \<or> int n \<le> j then bs else bs[nat j := f (bs ! nat j)])"
  have "bs' ! k = (if int k = j then f (bs ! k) else bs ! k)" and "length bs' = n"
    using Cons.prems by (auto simp: bs'_def nth_list_update)
  moreover have "fold (\<lambda>k bs. if k < 0 \<or> int n \<le> k then bs else bs[nat k := f (bs ! nat k)]) ks bs' ! k =
      (if int k \<in> set ks then f (bs' ! k) else bs' ! k)"
    using Cons.prems \<open>length bs' = n\<close> by (intro Cons.IH) auto
  ultimately show ?case using Cons.prems(1) by (auto simp: bs'_def [symmetric])
qed simp

lemma length_paint_range [simp]: "length (paint_range n i lo hi bs) = length bs"
proof -
  have "length (fold (\<lambda>k bs. if k < 0 \<or> int n \<le> k then bs else bs[nat k := paint_bucket i (bs ! nat k)]) ks bs)
      = length bs" for ks
    by (induction ks arbitrary: bs) auto
  then show ?thesis by (simp add: paint_range_def)
qed

lemma length_paint_interval [simp]: "length (paint_interval asOf left n w i bs) = length bs"
  by (simp add: paint_interval_def)

lemma length_painted [simp]: "length (fold (paint_interval asOf left n w) ivs bs) = length bs"
  by (induction ivs arbitrary: bs) auto

lemma paint_interval_nth:
  assumes "0 < w" and "int n * w \<le> max_int64" and "k < n" and "length bs = n"
  shows "paint_interval asOf left n w i bs ! k =
    (if overlaps_bucket asOf w (left + int k * w) i then paint_bucket i (bs ! k) else bs ! k)"
proof -
  have "(int k + 1) * w \<le> int n * w" using assms(1,3) by (intro mult_right_mono) auto
  with assms(2) have le: "(int k + 1) * w \<le> max_int64" by linarith
  define ks where "ks = [firstIndex left w i .. lastIndex asOf left n w i]"
  have "int k \<in> set ks \<longleftrightarrow> si_StartsAt i < left + int k * w + w \<and> left + int k * w < interval_end asOf i"
    using firstIndex_le_iff [OF assms(1) le, of left i] le_lastIndex_iff [OF assms(1) le assms(3), of asOf left i]
    by (simp add: ks_def distrib_right add.assoc)
  moreover have "distinct ks" by (simp add: ks_def)
  ultimately show ?thesis
    using fold_update_nth [OF \<open>distinct ks\<close> assms(3,4), of "paint_bucket i"]
    unfolding paint_interval_def paint_range_def overlaps_bucket_def ks_def [symmetric] by auto
qed

lemma painted_nth:
  assumes "0 < w" and "int n * w \<le> max_int64" and "k < n" and "length bs = n"
  shows "fold (paint_interval asOf left n w) ivs bs ! k =
    fold paint_bucket (filter (overlaps_bucket asOf w (left + int k * w)) ivs) (bs ! k)"
  using assms(4)
proof (induction ivs arbitrary: bs)
  case (Cons i ivs)
  then show ?case by (simp add: paint_interval_nth [OF assms(1-3)])
qed simp

lemma paint_bucket_fields:
  "bk_Start (paint_bucket i b) = bk_Start b"
  "bk_Status (paint_bucket i b) =
     (if statusPriority (bk_Status b) < statusPriority (si_Status i) then si_Status i else bk_Status b)"
  "bk_Episodes (paint_bucket i b) = bk_Episodes b @ (if si_Status i = ''degraded'' then [episode_of i] else [])"
  by (simp_all add: paint_bucket_def Let_def)

lemma fold_paint_start [simp]: "bk_Start (fold paint_bucket ivs b) = bk_Start b"
  by (induction ivs arbitrary: b) (auto simp: paint_bucket_fields)

lemma fold_paint_episodes:
  "bk_Episodes (fold paint_bucket ivs b) =
     bk_Episodes b @ map episode_of (filter (\<lambda>i. si_Status i = ''degraded'') ivs)"
  by (induction ivs arbitrary: b) (auto simp: paint_bucket_fields)

lemma fold_paint_status:
  "(\<forall>i\<in>set ivs. statusPriority (si_Status i) \<le> statusPriority (bk_Status (fold paint_bucket ivs b))) \<and>
   statusPriority (bk_Status b) \<le> statusPriority (bk_Status (fold paint_bucket ivs b)) \<and>
   bk_Status (fold paint_bucket ivs b) \<in> insert (bk_Status b) (si_Status ` set ivs)"
proof (induction ivs arbitrary: b)
  case (Cons i ivs)
  from Cons [of "paint_bucket i b"] show ?case
    by (auto simp: paint_bucket_fields split: if_splits)
qed simp

lemma BuildBuckets_nth:
  assumes "0 < w" and "int n * w \<le> max_int64" and "k < n"
  shows "BuildBuckets lm ivs now asOf n w ! k =
    (let start = leftmostStart lm now n w + int k * w;
         b = fold paint_bucket (filter (overlaps_bucket asOf w start) ivs)
               \<lparr>bk_Start = start, bk_Status = NoData, bk_Episodes = []\<rparr>
     in b\<lparr>bk_Episodes := order_desc ep_StartsAt (bk_Episodes b)\<rparr>)"
  using assms by (simp add: BuildBuckets_def Let_def painted_nth)

lemma length_BuildBuckets [simp]: "length (BuildBuckets lm ivs now asOf n w) = n"
  by (simp add: BuildBuckets_def Let_def)

lemma leftmost_current:
  assumes "0 < w" and "lm now \<le> now" and "now - lm now \<le> max_int64" and "0 < n"
  shows "leftmostStart lm now n w + int (n - 1) * w \<le> now"
    "now < leftmostStart lm now n w + int (n - 1) * w + w"
proof -
  have e: "time_sub now (lm now) = now - lm now"
    using assms int64_bounds by (intro time_sub_exact) linarith+
  have start: "leftmostStart lm now n w + int (n - 1) * w = lm now + (now - lm now) div w * w"
    using assms by (simp add: leftmostStart_def Let_def e go_quot_nonneg of_nat_diff)
  show "leftmostStart lm now n w + int (n - 1) * w \<le> now"
    "now < leftmostStart lm now n w + int (n - 1) * w + w"
    unfolding start using div_mult_mod_eq [of "now - lm now" w]
      pos_mod_sign [OF assms(1), of "now - lm now"] pos_mod_bound [OF assms(1), of "now - lm now"] by linarith+
qed


definition sample_interval :: "uuid \<Rightarrow> string \<Rightarrow> time \<Rightarrow> time option \<Rightarrow> StatusInterval" where
  "sample_interval iid st s e = \<lparr>si_ID = iid, si_ServiceID = 1, si_Status = st, si_ErrorBudgetRemaining = 1,
     si_StartsAt = s, si_LastSeenAt = s, si_EndsAt = e, si_Analysis = None\<rparr>"


text \<open>A stalled poller never fabricates history: when nothing was confirmed after
  \<open>asOf\<close> (every closed interval ended by then), every bucket that starts at or after \<open>asOf\<close>
  has no data, whatever interval is still open.\<close>

theorem BuildBuckets_no_fabrication:
  assumes "0 < w" and "int n * w \<le> max_int64" and "k < n"
    and "\<forall>i\<in>set ivs. \<forall>e. si_EndsAt i = Some e \<longrightarrow> e \<le> asOf"
    and "asOf \<le> bk_Start (BuildBuckets lm ivs now asOf n w ! k)"
  shows "bk_Status (BuildBuckets lm ivs now asOf n w ! k) = NoData \<and>
    bk_Episodes (BuildBuckets lm ivs now asOf n w ! k) = []"
proof -
  define start where "start = leftmostStart lm now n w + int k * w"
  have "asOf \<le> start"
    using assms(5) BuildBuckets_nth [OF assms(1-3), of lm ivs now asOf] by (simp add: Let_def start_def)
  with assms(4) have "filter (overlaps_bucket asOf w start) ivs = []"
    by (fastforce simp: filter_empty_conv overlaps_bucket_def interval_end_def split: option.splits)
  then show ?thesis
    using BuildBuckets_nth [OF assms(1-3), of lm ivs now asOf] by (simp add: Let_def start_def order_desc_def)
qed

theorem BuildBuckets_no_fabrication_witness:
  "bk_Status (BuildBuckets (\<lambda>_. 0) [sample_interval 1 ''outage'' 0 None] (5 * hour) (2 * hour) 6 hour ! 2) = NoData"
proof -
  have "0 < hour" "int 6 * hour \<le> max_int64"
    "2 * hour \<le> bk_Start (BuildBuckets (\<lambda>_. 0) [sample_interval 1 ''outage'' 0 None] (5 * hour) (2 * hour) 6 hour ! 2)"
    by (simp, code_simp, code_simp)
  with BuildBuckets_no_fabrication [of hour 6 2 "[sample_interval 1 ''outage'' 0 None]" "2 * hour" "\<lambda>_. 0" "5 * hour"]
  show ?thesis by (simp add: sample_interval_def)
qed

subsection \<open>The accuracy of the uptime percentage\<close>

text \<open>The exact percentage the code approximates.\<close>

definition exact_percent :: "duration \<Rightarrow> duration \<Rightarrow> rat" where
  "exact_percent down whole = (1 - of_int down / of_int whole) * 100"

lemma float_of_int_exact: "0 \<le> n \<Longrightarrow> n \<le> 2 ^ 53 \<Longrightarrow> float_of_int n = of_int n"
  unfolding float_of_int_def by (rule f64.rnd_exact) simp

text \<open>The scaled percentage before flooring, and how far it is from the exact one.\<close>

definition scaled_percent :: "rat \<Rightarrow> rat" where
  "scaled_percent q = fmul (fmul (fsub 1 q) 100) 10"

lemma scaled_percent_bounds:
  assumes "0 \<le> q" and "q \<le> 1"
  shows "0 \<le> fmul (fsub 1 q) 100" "fmul (fsub 1 q) 100 \<le> 100" "0 \<le> scaled_percent q" "scaled_percent q \<le> 1000"
proof -
  have s: "0 \<le> fsub 1 q" "fsub 1 q \<le> 1"
    unfolding fsub_def using assms by (auto intro!: f64.rnd_nonneg f64.rnd_le_one)
  then show p: "0 \<le> fmul (fsub 1 q) 100" "fmul (fsub 1 q) 100 \<le> 100"
    unfolding fmul_def using f64.rnd_le_int [of "fsub 1 q * 100" 100] by (auto intro!: f64.rnd_nonneg)
  then show "0 \<le> scaled_percent q" "scaled_percent q \<le> 1000"
    unfolding scaled_percent_def fmul_def [of _ 10] using f64.rnd_le_int [of "fmul (fsub 1 q) 100 * 10" 1000]
    by (auto intro!: f64.rnd_nonneg)
qed

lemma uptime_percent_of_eq:
  assumes "0 \<le> d" and "d \<le> t" and "0 < t"
  shows "uptime_percent_of d t =
    fdiv (math_floor (scaled_percent (fdiv (float_of_int d) (float_of_int t)))) 10"
proof -
  define q where "q = fdiv (float_of_int d) (float_of_int t)"
  have "float_of_int d / float_of_int t \<le> 1" "0 \<le> float_of_int d / float_of_int t"
    using float_of_int_mono [OF assms(2)] float_of_int_pos [OF assms(3)] float_of_int_nonneg [OF assms(1)] by simp_all
  then have q: "0 \<le> q" "q \<le> 1"
    unfolding q_def fdiv_def by (auto intro!: f64.rnd_nonneg f64.rnd_le_one)
  from scaled_percent_bounds(1,2) [OF q] show ?thesis
    unfolding uptime_percent_of_def scaled_percent_def q_def [symmetric] Let_def by simp
qed

lemma error_chain:
  fixes q r s p m u :: rat
  assumes "\<bar>q - r\<bar> \<le> u" and "\<bar>s - (1 - q)\<bar> \<le> u" and "\<bar>p - s * 100\<bar> \<le> 100 * u"
    and "\<bar>m - p * 10\<bar> \<le> 1000 * u"
  shows "\<bar>m - 1000 * (1 - r)\<bar> \<le> 4000 * u"
  using assms by (auto simp: abs_le_iff algebra_simps)

lemma scaled_percent_error:
  assumes "0 \<le> r" and "r \<le> 1"
  shows "\<bar>scaled_percent (round64 r) - 1000 * (1 - r)\<bar> \<le> 4000 * unit_roundoff"
proof -
  have q: "0 \<le> round64 r" "round64 r \<le> 1" using assms by (auto intro: f64.rnd_nonneg f64.rnd_le_one)
  have "\<bar>round64 r - r\<bar> \<le> 1 * unit_roundoff" using assms by (intro f64.rnd_error_le) simp
  moreover have "\<bar>fsub 1 (round64 r) - (1 - round64 r)\<bar> \<le> 1 * unit_roundoff"
    unfolding fsub_def using q by (intro f64.rnd_error_le) simp
  moreover have "0 \<le> fsub 1 (round64 r)" "fsub 1 (round64 r) \<le> 1"
    unfolding fsub_def using q by (auto intro!: f64.rnd_nonneg f64.rnd_le_one)
  then have "\<bar>fmul (fsub 1 (round64 r)) 100 - fsub 1 (round64 r) * 100\<bar> \<le> 100 * unit_roundoff"
    unfolding fmul_def by (intro f64.rnd_error_le) simp
  moreover have "\<bar>scaled_percent (round64 r) - fmul (fsub 1 (round64 r)) 100 * 10\<bar> \<le> 1000 * unit_roundoff"
    unfolding scaled_percent_def fmul_def [of _ 10] using scaled_percent_bounds(1,2) [OF q]
    by (intro f64.rnd_error_le) simp
  ultimately show ?thesis using error_chain [of "round64 r" r unit_roundoff] by simp
qed

lemma floor_tenth_error:
  assumes "0 \<le> m" and "m \<le> 1000"
  shows "fdiv (math_floor m) 10 \<le> m / 10 + 100 * unit_roundoff"
    "m / 10 - 1 / 10 - 100 * unit_roundoff < fdiv (math_floor m) 10"
proof -
  have f: "0 \<le> math_floor m" "math_floor m \<le> 1000" "math_floor m \<le> m" "m < math_floor m + 1"
    using assms of_int_floor_le [of m] floor_correct [of m] by (simp_all add: math_floor_def)
  then have "\<bar>fdiv (math_floor m) 10 - math_floor m / 10\<bar> \<le> 100 * unit_roundoff"
    unfolding fdiv_def by (intro f64.rnd_error_le) simp
  with f show "fdiv (math_floor m) 10 \<le> m / 10 + 100 * unit_roundoff"
    "m / 10 - 1 / 10 - 100 * unit_roundoff < fdiv (math_floor m) 10"
    unfolding abs_le_iff by linarith+
qed

lemma uptime_percent_of_accurate:
  assumes "0 \<le> d" and "d \<le> t" and "0 < t" and "t \<le> 2 ^ 53"
  shows "uptime_percent_of d t \<le> exact_percent d t + 500 * unit_roundoff"
    "exact_percent d t - 1 / 10 - 500 * unit_roundoff < uptime_percent_of d t"
proof -
  define r :: rat where "r = of_int d / of_int t"
  have r: "0 \<le> r" "r \<le> 1" unfolding r_def using assms by simp_all
  have q: "0 \<le> round64 r" "round64 r \<le> 1" using r by (auto intro: f64.rnd_nonneg f64.rnd_le_one)
  have eq: "uptime_percent_of d t = fdiv (math_floor (scaled_percent (round64 r))) 10"
    unfolding uptime_percent_of_eq [OF assms(1-3)] r_def fdiv_def [of "float_of_int d"]
    using assms by (simp add: float_of_int_exact)
  have "exact_percent d t = 100 * (1 - r)" by (simp add: exact_percent_def r_def)
  with eq scaled_percent_error [OF r] floor_tenth_error [OF scaled_percent_bounds(3,4) [OF q]]
  show "uptime_percent_of d t \<le> exact_percent d t + 500 * unit_roundoff"
    "exact_percent d t - 1 / 10 - 500 * unit_roundoff < uptime_percent_of d t"
    unfolding abs_le_iff by linarith+
qed

lemma uptime_percent_of_antimono:
  assumes "0 \<le> d" and "d \<le> d'" and "d' \<le> t" and "0 < t"
  shows "uptime_percent_of d' t \<le> uptime_percent_of d t"
proof -
  have "float_of_int d / float_of_int t \<le> float_of_int d' / float_of_int t"
    using float_of_int_mono [OF assms(2)] float_of_int_pos [OF assms(4)] by (simp add: divide_right_mono)
  then have "scaled_percent (fdiv (float_of_int d') (float_of_int t)) \<le> scaled_percent (fdiv (float_of_int d) (float_of_int t))"
    unfolding scaled_percent_def float_defs(2-4)
    by (intro f64.rnd_mono mult_right_mono diff_left_mono) simp_all
  then have "math_floor (scaled_percent (fdiv (float_of_int d') (float_of_int t)))
      \<le> math_floor (scaled_percent (fdiv (float_of_int d) (float_of_int t)))"
    unfolding math_floor_def by (simp add: floor_mono)
  then show ?thesis
    using assms by (simp add: uptime_percent_of_eq) (simp add: fdiv_def f64.rnd_mono divide_right_mono)
qed

subsection \<open>The downtime of consecutive intervals\<close>

text \<open>The intervals of one service in order: each ended before the next one started.\<close>

definition consecutive :: "StatusInterval list \<Rightarrow> bool" where
  "consecutive ivs \<longleftrightarrow> sorted_wrt (\<lambda>i j. si_StartsAt i \<le> si_StartsAt j \<and>
     (case si_EndsAt i of None \<Rightarrow> False | Some e \<Rightarrow> e \<le> si_StartsAt j)) ivs"

definition outage_time :: "time \<Rightarrow> time \<Rightarrow> StatusInterval list \<Rightarrow> duration" where
  "outage_time ds asOf ivs = (\<Sum>i\<leftarrow>ivs. outage_overlap ds asOf i)"

lemma outage_overlap_nonneg [simp]: "0 \<le> outage_overlap ds asOf i"
  by (simp add: outage_overlap_def Let_def)

lemma outage_time_nonneg: "0 \<le> outage_time ds asOf ivs"
  by (induction ivs) (simp_all add: outage_time_def)

lemma outage_overlap_le:
  "outage_overlap ds asOf i \<le> max 0 (min (interval_end asOf i) asOf - max ds (si_StartsAt i))"
  using int64_bounds
  by (auto simp: outage_overlap_def interval_end_def Let_def time_sub_def min_def max_def split: option.splits)

lemma outage_time_le:
  assumes "consecutive ivs" and "\<forall>i\<in>set ivs. s \<le> si_StartsAt i"
  shows "outage_time ds asOf ivs \<le> max 0 (asOf - max ds s)"
  using assms
proof (induction ivs arbitrary: s)
  case (Cons i ivs)
  note bound = outage_overlap_le [of ds asOf i]
  show ?case
  proof (cases ivs)
    case Nil
    with bound Cons.prems(2) show ?thesis by (auto simp: outage_time_def)
  next
    case (Cons j js)
    with Cons.prems obtain e where e: "si_EndsAt i = Some e" "\<forall>k\<in>set ivs. e \<le> si_StartsAt k"
      by (auto simp: consecutive_def split: option.splits)
    have "outage_time ds asOf ivs \<le> max 0 (asOf - max ds (max e (si_StartsAt i)))"
      using Cons.prems e by (intro Cons.IH) (auto simp: consecutive_def split: option.splits)
    moreover have "outage_time ds asOf (i # ivs) = outage_overlap ds asOf i + outage_time ds asOf ivs"
      by (simp add: outage_time_def)
    moreover have "s \<le> si_StartsAt i" using Cons.prems(2) by simp
    ultimately show ?thesis
      using bound unfolding interval_end_def e(1) option.case by linarith
  qed
qed (simp add: outage_time_def)

lemma downtime_exact:
  assumes "outage_time ds asOf ivs \<le> max_int64"
  shows "downtime ds asOf ivs = outage_time ds asOf ivs"
proof -
  have "fold (\<lambda>i d. wrap64 (d + outage_overlap ds asOf i)) ivs d = d + outage_time ds asOf ivs"
    if "0 \<le> d" and "d + outage_time ds asOf ivs \<le> max_int64" for d
    using that
  proof (induction ivs arbitrary: d)
    case (Cons i ivs)
    have "outage_time ds asOf (i # ivs) = outage_overlap ds asOf i + outage_time ds asOf ivs"
      by (simp add: outage_time_def)
    moreover have "wrap64 (d + outage_overlap ds asOf i) = d + outage_overlap ds asOf i"
      using Cons.prems calculation outage_time_nonneg [of ds asOf ivs] int64_bounds outage_overlap_nonneg [of ds asOf i]
      by (intro wrap64_id) linarith+
    ultimately show ?case using Cons.IH [of "d + outage_overlap ds asOf i"] Cons.prems by simp
  qed (simp add: outage_time_def)
  with assms show ?thesis by (simp add: downtime_def)
qed

lemma earliestStartsAt_le:
  assumes "i \<in> set ivs"
  shows "earliestStartsAt ivs \<le> si_StartsAt i"
proof -
  have "fold (\<lambda>i e. if si_StartsAt i < e then si_StartsAt i else e) js e \<le> e \<and>
      (\<forall>j\<in>set js. fold (\<lambda>i e. if si_StartsAt i < e then si_StartsAt i else e) js e \<le> si_StartsAt j)" for js e
  proof (induction js arbitrary: e)
    case (Cons j js)
    from Cons [of "if si_StartsAt j < e then si_StartsAt j else e"] show ?case by (auto split: if_splits)
  qed simp
  from this [of "tl ivs" "si_StartsAt (hd ivs)"] assms show ?thesis
    by (cases ivs) (auto simp: earliestStartsAt_def)
qed

lemma uptime_percent_of_zero:
  assumes "0 < t"
  shows "uptime_percent_of 0 t = 100"
proof -
  have "uptime_percent_of 0 t = fdiv (math_floor (scaled_percent 0)) 10"
    using assms by (simp add: uptime_percent_of_eq fdiv_def)
  also have "\<dots> = 100" by code_simp
  finally show ?thesis .
qed



text \<open>The flooring is applied to the rounded product and not to the percentage itself, so
  an exact tenth can lose a whole step: 21 seconds of outage in 1000 seconds are an uptime of
  exactly 97.9, and \<open>UptimePercent\<close> returns the \<open>float64\<close> nearest 97.8.\<close>

theorem UptimePercent_loses_exact_tenth:
  "exact_percent (21 * second) (1000 * second) = 979 / 10 \<and>
   UptimePercent [sample_interval 1 ''outage'' 0 (Some (21 * second)), sample_interval 2 ''operational'' (21 * second) None]
     0 (1000 * second) = (round64 (978 / 10), True)"
  by code_simp

end
