(* ===== verification/Leader_Election.thy ===== *)
theory Leader_Election
  imports Vane_Prelude
begin

text \<open>
  Cross-replica coordination: the session advisory locks of \<open>internal/pglock\<close> and the poller's
  leader election, \<open>internal/cli/poller_manager.go\<close>.

  \<^item> \<open>pg_server\<close> is what Postgres keeps: which session owns each advisory lock and which
    sessions are alive. A session ends when its replica closes it or, at any moment, when the
    connection dies; its locks go with it.
  \<^item> \<open>PollerManager\<close> is one replica's manager. Each method that holds \<open>m.mu\<close> is one function on
    it; \<open>goroutines\<close> lists the Datadog pollers whose \<open>Run\<close> has not returned.
  \<^item> \<open>leader_step\<close> interleaves the replicas' loops, the API calls of \<open>Restart\<close> and \<open>Stop\<close> on any
    replica, and the death of sessions. The program points of \<open>RunLeaderLoop\<close> are \<open>loop_pc\<close>.
\<close>

subsection \<open>Advisory locks\<close>

record pg_server =
  lk_owner :: "int \<Rightarrow> nat option"
  lk_live :: "nat list"
  lk_next :: nat

record Handle =
  h_session :: nat
  h_key :: int

datatype lock_error = ConnectFailed | QueryFailed | NotHeld

definition PollerLeaderLockKey :: int where "PollerLeaderLockKey = 727200001"
definition DigestLeaderLockKey :: int where "DigestLeaderLockKey = 727200002"
definition PruneLeaderLockKey :: int where "PruneLeaderLockKey = 727200003"
definition DomainHealthLeaderLockKey :: int where "DomainHealthLeaderLockKey = 727200004"
definition TLSKeyBackfillLockKey :: int where "TLSKeyBackfillLockKey = 727200005"

definition reservedLockKeys :: "(string \<times> int) list" where
  "reservedLockKeys =
     [(''poller'', PollerLeaderLockKey), (''digest'', DigestLeaderLockKey), (''retention'', PruneLeaderLockKey),
      (''domain-health'', DomainHealthLeaderLockKey), (''tls-backfill'', TLSKeyBackfillLockKey)]"

definition open_session :: "pg_server \<Rightarrow> nat \<times> pg_server" where
  "open_session s = (lk_next s, s\<lparr>lk_live := lk_next s # lk_live s, lk_next := Suc (lk_next s)\<rparr>)"

definition end_session :: "nat \<Rightarrow> pg_server \<Rightarrow> pg_server" where
  "end_session sess s =
     s\<lparr>lk_owner := (\<lambda>k. if lk_owner s k = Some sess then None else lk_owner s k),
       lk_live := removeAll sess (lk_live s)\<rparr>"

text \<open>\<open>dialed\<close> and \<open>answered\<close> say whether opening the connection and the query succeed.\<close>

definition TryAcquire ::
    "bool \<Rightarrow> bool \<Rightarrow> int \<Rightarrow> pg_server \<Rightarrow> (lock_error + Handle option) \<times> pg_server" where
  "TryAcquire dialed answered key s =
     (if \<not> dialed then (Inl ConnectFailed, s)
      else case open_session s of (sess, s1) \<Rightarrow>
        if \<not> answered then (Inl QueryFailed, end_session sess s1)
        else if lk_owner s1 key \<noteq> None then (Inr None, end_session sess s1)
        else (Inr (Some \<lparr>h_session = sess, h_key = key\<rparr>), s1\<lparr>lk_owner := (lk_owner s1)(key := Some sess)\<rparr>))"

definition Healthy :: "bool \<Rightarrow> Handle \<Rightarrow> pg_server \<Rightarrow> bool" where
  "Healthy answered h s \<longleftrightarrow> h_session h \<in> set (lk_live s) \<and> answered"

definition Release :: "bool \<Rightarrow> Handle \<Rightarrow> pg_server \<Rightarrow> (lock_error + unit) \<times> pg_server" where
  "Release answered h s =
     (if h_session h \<notin> set (lk_live s) then (Inr (), s)
      else if \<not> answered then (Inl QueryFailed, end_session (h_session h) s)
      else if lk_owner s (h_key h) \<noteq> Some (h_session h) then (Inl NotHeld, end_session (h_session h) s)
      else (Inr (), end_session (h_session h) s))"

subsection \<open>The poller manager of one replica\<close>

record PollerManager =
  pm_leading :: bool
  pm_cancel :: "nat option"
  pm_goroutines :: "nat list"
  pm_manualCancel :: bool
  pm_next :: nat

text \<open>What \<open>newPollerFromStoredIntegration\<close> found.\<close>

datatype stored_integration = ReadFailed | NotConnected | Connected

definition stopLocked :: "PollerManager \<Rightarrow> PollerManager" where
  "stopLocked m =
     (case pm_cancel m of
        None \<Rightarrow> m
      | Some g \<Rightarrow> m\<lparr>pm_cancel := None, pm_goroutines := removeAll g (pm_goroutines m)\<rparr>)"

definition stopManualLocked :: "PollerManager \<Rightarrow> PollerManager" where
  "stopManualLocked m = m\<lparr>pm_manualCancel := False\<rparr>"

definition startManualScheduler :: "PollerManager \<Rightarrow> PollerManager" where
  "startManualScheduler m = (if pm_manualCancel m then m else m\<lparr>pm_manualCancel := True\<rparr>)"

definition Restart :: "stored_integration \<Rightarrow> PollerManager \<Rightarrow> (unit + bool) \<times> PollerManager" where
  "Restart stored m =
     (if \<not> pm_leading m then (Inr False, m)
      else let m = stopLocked m in
        case stored of
          ReadFailed \<Rightarrow> (Inl (), m)
        | NotConnected \<Rightarrow> (Inr False, m)
        | Connected \<Rightarrow>
            (Inr True, m\<lparr>pm_cancel := Some (pm_next m), pm_goroutines := pm_next m # pm_goroutines m,
                         pm_next := Suc (pm_next m)\<rparr>))"

definition Stop :: "PollerManager \<Rightarrow> PollerManager" where
  "Stop m = stopManualLocked (stopLocked m)"

definition give_up_leadership :: "PollerManager \<Rightarrow> PollerManager" where
  "give_up_leadership m = stopManualLocked (stopLocked (m\<lparr>pm_leading := False\<rparr>))"

text \<open>One tick of \<open>heartbeatUntilLost\<close> with a healthy session: a running poller is left
  alone, a missing one is retried.\<close>

definition heartbeat_tick :: "stored_integration \<Rightarrow> PollerManager \<Rightarrow> PollerManager" where
  "heartbeat_tick stored m = (if pm_cancel m \<noteq> None then m else snd (Restart stored m))"

subsection \<open>The replicas\<close>

datatype loop_pc =
    Acquire
  | StoreLeading Handle
  | StartManual Handle
  | FirstRestart Handle
  | Heartbeat Handle
  | GiveUp Handle
  | ReleaseLock Handle
  | Returned

record replica =
  rp_pc :: loop_pc
  rp_manager :: PollerManager

record cluster =
  cl_server :: pg_server
  cl_replica :: "nat \<Rightarrow> replica"

fun pc_handle :: "loop_pc \<Rightarrow> Handle option" where
  "pc_handle Acquire = None"
| "pc_handle (StoreLeading h) = Some h"
| "pc_handle (StartManual h) = Some h"
| "pc_handle (FirstRestart h) = Some h"
| "pc_handle (Heartbeat h) = Some h"
| "pc_handle (GiveUp h) = Some h"
| "pc_handle (ReleaseLock h) = Some h"
| "pc_handle Returned = None"

text \<open>One step of the loop of a replica: \<open>canceled\<close> says whether its context has been canceled, the
  other flags and \<open>stored\<close> are what the network and the database answer.\<close>

definition loop_step ::
    "bool \<Rightarrow> bool \<Rightarrow> bool \<Rightarrow> stored_integration \<Rightarrow> pg_server \<times> replica \<Rightarrow> pg_server \<times> replica" where
  "loop_step canceled dialed answered stored sr =
     (case sr of (s, r) \<Rightarrow>
       (case rp_pc r of
          Acquire \<Rightarrow>
            if canceled then (s, r\<lparr>rp_pc := Returned\<rparr>)
            else (case TryAcquire dialed answered PollerLeaderLockKey s of
                (Inr (Some h), s') \<Rightarrow> (s', r\<lparr>rp_pc := StoreLeading h\<rparr>)
              | (_, s') \<Rightarrow> (s', r))
        | StoreLeading h \<Rightarrow>
            (s, r\<lparr>rp_pc := StartManual h, rp_manager := (rp_manager r)\<lparr>pm_leading := True\<rparr>\<rparr>)
        | StartManual h \<Rightarrow>
            (s, r\<lparr>rp_pc := FirstRestart h, rp_manager := startManualScheduler (rp_manager r)\<rparr>)
        | FirstRestart h \<Rightarrow>
            (s, r\<lparr>rp_pc := Heartbeat h, rp_manager := snd (Restart stored (rp_manager r))\<rparr>)
        | Heartbeat h \<Rightarrow>
            if canceled \<or> \<not> Healthy answered h s then (s, r\<lparr>rp_pc := GiveUp h\<rparr>)
            else (s, r\<lparr>rp_manager := heartbeat_tick stored (rp_manager r)\<rparr>)
        | GiveUp h \<Rightarrow>
            (s, r\<lparr>rp_pc := ReleaseLock h, rp_manager := give_up_leadership (rp_manager r)\<rparr>)
        | ReleaseLock h \<Rightarrow>
            (snd (Release answered h s), r\<lparr>rp_pc := (if canceled then Returned else Acquire)\<rparr>)
        | Returned \<Rightarrow> (s, r)))"

inductive leader_step :: "cluster \<Rightarrow> cluster \<Rightarrow> bool" where
  loop: "loop_step canceled dialed answered stored (cl_server c, cl_replica c n) = (s, r) \<Longrightarrow>
    leader_step c (c\<lparr>cl_server := s, cl_replica := (cl_replica c)(n := r)\<rparr>)"
| api_restart: "leader_step c (c\<lparr>cl_replica := (cl_replica c)(n := (cl_replica c n)
    \<lparr>rp_manager := snd (Restart stored (rp_manager (cl_replica c n)))\<rparr>)\<rparr>)"
| shutdown_stop: "leader_step c (c\<lparr>cl_replica := (cl_replica c)(n := (cl_replica c n)
    \<lparr>rp_manager := Stop (rp_manager (cl_replica c n))\<rparr>)\<rparr>)"
| connection_dies: "leader_step c (c\<lparr>cl_server := end_session sess (cl_server c)\<rparr>)"

definition new_manager :: PollerManager where
  "new_manager = \<lparr>pm_leading = False, pm_cancel = None, pm_goroutines = [], pm_manualCancel = False, pm_next = 0\<rparr>"

definition booted :: cluster where
  "booted = \<lparr>cl_server = \<lparr>lk_owner = (\<lambda>_. None), lk_live = [], lk_next = 0\<rparr>,
             cl_replica = (\<lambda>_. \<lparr>rp_pc = Acquire, rp_manager = new_manager\<rparr>)\<rparr>"

definition reachable :: "cluster \<Rightarrow> bool" where
  "reachable c \<longleftrightarrow> leader_step\<^sup>*\<^sup>* booted c"

subsection \<open>Invariants\<close>

lemma reserved_keys_distinct: "distinct (map snd reservedLockKeys)"
  by (simp add: reservedLockKeys_def PollerLeaderLockKey_def DigestLeaderLockKey_def PruneLeaderLockKey_def
      DomainHealthLeaderLockKey_def TLSKeyBackfillLockKey_def)

definition server_ok :: "pg_server \<Rightarrow> bool" where
  "server_ok s \<longleftrightarrow> (\<forall>k sess. lk_owner s k = Some sess \<longrightarrow> sess \<in> set (lk_live s)) \<and>
     (\<forall>sess\<in>set (lk_live s). sess < lk_next s)"

text \<open>A handle is honest: its session is an old one, and as long as that session is alive it
  owns the lock.\<close>

definition handle_ok :: "pg_server \<Rightarrow> Handle \<Rightarrow> bool" where
  "handle_ok s h \<longleftrightarrow> h_session h < lk_next s \<and>
     (h_session h \<in> set (lk_live s) \<longrightarrow> lk_owner s (h_key h) = Some (h_session h))"

definition leads :: "loop_pc \<Rightarrow> bool" where
  "leads pc \<longleftrightarrow> (case pc of StartManual _ \<Rightarrow> True | FirstRestart _ \<Rightarrow> True | Heartbeat _ \<Rightarrow> True | GiveUp _ \<Rightarrow> True | _ \<Rightarrow> False)"

definition manager_ok :: "PollerManager \<Rightarrow> bool" where
  "manager_ok m \<longleftrightarrow> pm_goroutines m = (case pm_cancel m of None \<Rightarrow> [] | Some g \<Rightarrow> [g]) \<and>
     (pm_cancel m \<noteq> None \<or> pm_manualCancel m \<longrightarrow> pm_leading m)"

definition replica_ok :: "pg_server \<Rightarrow> replica \<Rightarrow> bool" where
  "replica_ok s r \<longleftrightarrow> manager_ok (rp_manager r) \<and> pm_leading (rp_manager r) = leads (rp_pc r) \<and>
     (\<forall>h. pc_handle (rp_pc r) = Some h \<longrightarrow> h_key h = PollerLeaderLockKey \<and> handle_ok s h)"

definition handles_distinct :: "cluster \<Rightarrow> bool" where
  "handles_distinct c \<longleftrightarrow> (\<forall>n m h h'. pc_handle (rp_pc (cl_replica c n)) = Some h \<longrightarrow>
     pc_handle (rp_pc (cl_replica c m)) = Some h' \<longrightarrow> h_session h = h_session h' \<longrightarrow> n = m)"

definition cluster_ok :: "cluster \<Rightarrow> bool" where
  "cluster_ok c \<longleftrightarrow> server_ok (cl_server c) \<and> (\<forall>n. replica_ok (cl_server c) (cl_replica c n)) \<and> handles_distinct c"

lemma stopLocked_ok: "manager_ok m \<Longrightarrow> manager_ok (stopLocked m)"
  by (auto simp: manager_ok_def stopLocked_def split: option.splits)

lemma stopLocked_fields [simp]:
  "pm_leading (stopLocked m) = pm_leading m" "pm_cancel (stopLocked m) = None"
  "pm_manualCancel (stopLocked m) = pm_manualCancel m"
  by (simp_all add: stopLocked_def split: option.splits)

lemma Restart_ok: "manager_ok m \<Longrightarrow> manager_ok (snd (Restart stored m))"
  using stopLocked_ok [of m]
  by (auto simp: Restart_def manager_ok_def Let_def split: stored_integration.splits)

lemma Restart_leading [simp]: "pm_leading (snd (Restart stored m)) = pm_leading m"
  by (simp add: Restart_def Let_def split: stored_integration.splits)

lemma manager_ok_lead: "manager_ok m \<Longrightarrow> manager_ok (m\<lparr>pm_leading := True\<rparr>)"
  by (simp add: manager_ok_def)

lemma Stop_ok: "manager_ok m \<Longrightarrow> manager_ok (Stop m)" "pm_leading (Stop m) = pm_leading m"
  by (auto simp: manager_ok_def Stop_def stopManualLocked_def stopLocked_def split: option.splits)

lemma give_up_ok:
  "manager_ok m \<Longrightarrow> manager_ok (give_up_leadership m)" "pm_leading (give_up_leadership m) = False"
  by (auto simp: manager_ok_def give_up_leadership_def stopManualLocked_def stopLocked_def split: option.splits)

lemma heartbeat_tick_ok:
  "manager_ok m \<Longrightarrow> manager_ok (heartbeat_tick stored m)" "pm_leading (heartbeat_tick stored m) = pm_leading m"
  by (simp_all add: heartbeat_tick_def Restart_ok)

lemma end_session_ok:
  "server_ok s \<Longrightarrow> server_ok (end_session sess s)" "handle_ok s h \<Longrightarrow> handle_ok (end_session sess s) h"
  "lk_next (end_session sess s) = lk_next s"
  by (auto simp: server_ok_def handle_ok_def end_session_def)

lemma Release_cases: "snd (Release answered h s) \<in> {s, end_session (h_session h) s}"
  by (simp add: Release_def)

lemma TryAcquire_server:
  assumes "server_ok s" and "TryAcquire dialed answered key s = (res, s')"
  shows "server_ok s'" "handle_ok s h \<Longrightarrow> handle_ok s' h" "lk_next s \<le> lk_next s'"
    "res = Inr (Some h') \<Longrightarrow> h_key h' = key \<and> handle_ok s' h' \<and> h_session h' = lk_next s"
  using assms
  by (auto simp: TryAcquire_def open_session_def end_session_def server_ok_def handle_ok_def less_Suc_eq
      split: if_splits)

text \<open>What a step of one replica's loop gives.\<close>

lemma loop_step_ok:
  assumes "server_ok s" and "replica_ok s r" and "loop_step canceled dialed answered stored (s, r) = (s', r')"
  shows "server_ok s'" "replica_ok s' r'" "\<And>h. handle_ok s h \<Longrightarrow> handle_ok s' h"
    "\<And>h. pc_handle (rp_pc r') = Some h \<Longrightarrow> pc_handle (rp_pc r) = Some h \<or> h_session h = lk_next s"
proof -
  have "server_ok s' \<and> replica_ok s' r' \<and> (\<forall>h. handle_ok s h \<longrightarrow> handle_ok s' h) \<and>
    (\<forall>h. pc_handle (rp_pc r') = Some h \<longrightarrow> pc_handle (rp_pc r) = Some h \<or> h_session h = lk_next s)"
  proof (cases "rp_pc r")
    case Acquire
    obtain res t where t: "TryAcquire dialed answered PollerLeaderLockKey s = (res, t)" by fastforce
    from assms Acquire t TryAcquire_server [OF assms(1) t] show ?thesis
      by (auto simp: loop_step_def replica_ok_def leads_def split: if_splits sum.splits option.splits)
  next
    case (ReleaseLock h)
    with assms Release_cases [of answered h s] end_session_ok(1,2) show ?thesis
      by (cases canceled) (auto simp: loop_step_def replica_ok_def leads_def)
  next
    case (StartManual h)
    with assms show ?thesis
      by (auto simp: loop_step_def replica_ok_def leads_def startManualScheduler_def manager_ok_def)
  qed (use assms in \<open>auto simp: loop_step_def replica_ok_def leads_def manager_ok_lead give_up_ok heartbeat_tick_ok Restart_ok split: if_splits\<close>)
  then show "server_ok s'" "replica_ok s' r'" "\<And>h. handle_ok s h \<Longrightarrow> handle_ok s' h"
    "\<And>h. pc_handle (rp_pc r') = Some h \<Longrightarrow> pc_handle (rp_pc r) = Some h \<or> h_session h = lk_next s" by blast+
qed

lemma replica_ok_server:
  "replica_ok s r \<Longrightarrow> (\<And>h. handle_ok s h \<Longrightarrow> handle_ok s' h) \<Longrightarrow> replica_ok s' r"
  by (auto simp: replica_ok_def)

lemma handles_distinct_update:
  assumes "cluster_ok c" and "\<And>h. pc_handle (rp_pc r) = Some h \<Longrightarrow>
    pc_handle (rp_pc (cl_replica c n)) = Some h \<or> h_session h = lk_next (cl_server c)"
  shows "handles_distinct (c\<lparr>cl_server := s, cl_replica := (cl_replica c)(n := r)\<rparr>)"
proof -
  have old: "h_session h < lk_next (cl_server c)" if "pc_handle (rp_pc (cl_replica c m)) = Some h" for m h
    using assms(1) that by (auto simp: cluster_ok_def replica_ok_def handle_ok_def)
  show ?thesis
    using assms(1) unfolding handles_distinct_def cluster_ok_def
    by (auto dest!: assms(2) dest: old)
qed

lemma leader_step_ok:
  assumes "leader_step c c'" and "cluster_ok c"
  shows "cluster_ok c'"
  using assms(1)
proof cases
  case (loop canceled dialed answered stored n s r)
  from assms(2) have "server_ok (cl_server c)" "replica_ok (cl_server c) (cl_replica c n)"
    by (auto simp: cluster_ok_def)
  note step = loop_step_ok [OF this loop(2)]
  from handles_distinct_update [OF assms(2) step(4), where s = s] step(1-3) assms(2) show ?thesis
    unfolding loop(1) by (auto simp: cluster_ok_def intro: replica_ok_server)
next
  case (api_restart n stored)
  from assms(2) show ?thesis
    unfolding api_restart by (auto simp: cluster_ok_def replica_ok_def handles_distinct_def Restart_ok)
next
  case (shutdown_stop n)
  from assms(2) show ?thesis
    unfolding shutdown_stop by (auto simp: cluster_ok_def replica_ok_def handles_distinct_def Stop_ok)
next
  case (connection_dies sess)
  from assms(2) show ?thesis
    unfolding connection_dies
    by (auto simp: cluster_ok_def handles_distinct_def end_session_ok intro: replica_ok_server)
qed

lemma reachable_ok: "reachable c \<Longrightarrow> cluster_ok c"
  unfolding reachable_def
proof (induction rule: rtranclp_induct)
  case base
  show ?case
    by (auto simp: cluster_ok_def server_ok_def replica_ok_def handles_distinct_def manager_ok_def booted_def
        new_manager_def leads_def)
qed (rule leader_step_ok)

subsection \<open>Properties\<close>

definition polls :: "cluster \<Rightarrow> nat \<Rightarrow> bool" where
  "polls c n \<longleftrightarrow> pm_goroutines (rp_manager (cl_replica c n)) \<noteq> [] \<or> pm_manualCancel (rp_manager (cl_replica c n))"

definition session_alive :: "cluster \<Rightarrow> nat \<Rightarrow> bool" where
  "session_alive c n \<longleftrightarrow> (\<exists>h. pc_handle (rp_pc (cl_replica c n)) = Some h \<and> h_session h \<in> set (lk_live (cl_server c)))"

lemma manager_ok_polls: "manager_ok m \<Longrightarrow> pm_goroutines m \<noteq> [] \<or> pm_manualCancel m \<Longrightarrow> pm_leading m"
  by (auto simp: manager_ok_def split: option.splits)

text \<open>C1. One poller per cluster. In every state that any interleaving of replicas, API-triggered
  restarts, shutdowns and dying connections can reach, a replica runs at most one Datadog
  poller, it polls (Datadog or manual checks) only while it is marked as leading, and of all
  replicas whose lock session is still alive at most one polls.\<close>

theorem at_most_one_polling_replica:
  assumes "reachable c"
  shows "length (pm_goroutines (rp_manager (cl_replica c n))) \<le> 1 \<and>
    (polls c n \<longrightarrow> pm_leading (rp_manager (cl_replica c n))) \<and>
    (polls c n \<and> polls c m \<and> session_alive c n \<and> session_alive c m \<longrightarrow> n = m)"
proof -
  from reachable_ok [OF assms] have ok: "cluster_ok c" .
  then have "manager_ok (rp_manager (cl_replica c n))" by (simp add: cluster_ok_def replica_ok_def)
  then have one: "length (pm_goroutines (rp_manager (cl_replica c n))) \<le> 1"
    and lead: "polls c n \<longrightarrow> pm_leading (rp_manager (cl_replica c n))"
    using manager_ok_polls by (auto simp: manager_ok_def polls_def split: option.splits)
  have "n = m" if "session_alive c n" "session_alive c m"
  proof -
    from that obtain h h' where h: "pc_handle (rp_pc (cl_replica c n)) = Some h" "h_session h \<in> set (lk_live (cl_server c))"
      and h': "pc_handle (rp_pc (cl_replica c m)) = Some h'" "h_session h' \<in> set (lk_live (cl_server c))"
      by (auto simp: session_alive_def)
    with ok have "lk_owner (cl_server c) PollerLeaderLockKey = Some (h_session h)"
      "lk_owner (cl_server c) PollerLeaderLockKey = Some (h_session h')"
      by (fastforce simp: cluster_ok_def replica_ok_def handle_ok_def)+
    with ok h h' show ?thesis unfolding cluster_ok_def handles_distinct_def by auto
  qed
  with one lead show ?thesis by blast
qed

text \<open>Replica 0 acquires the lock and starts polling.\<close>

definition first_leader :: "pg_server \<times> replica" where
  "first_leader = (loop_step False True True Connected ^^ 4) (cl_server booted, cl_replica booted 0)"

lemma loop_run_reachable:
  "(loop_step False True True Connected ^^ k) (cl_server booted, cl_replica booted 0) = (s, r) \<Longrightarrow>
   reachable (booted\<lparr>cl_server := s, cl_replica := (cl_replica booted)(0 := r)\<rparr>)"
proof (induction k arbitrary: s r)
  case 0
  then have "booted\<lparr>cl_server := s, cl_replica := (cl_replica booted)(0 := r)\<rparr> = booted"
    by (auto simp: booted_def fun_eq_iff)
  then show ?case unfolding reachable_def by (simp only: rtranclp.rtrancl_refl)
next
  case (Suc k)
  obtain s0 r0 where eq: "(loop_step False True True Connected ^^ k) (cl_server booted, cl_replica booted 0) = (s0, r0)"
    by fastforce
  let ?c = "booted\<lparr>cl_server := s0, cl_replica := (cl_replica booted)(0 := r0)\<rparr>"
  from Suc.prems eq have "loop_step False True True Connected (cl_server ?c, cl_replica ?c 0) = (s, r)" by simp
  from leader_step.loop [OF this] Suc.IH [OF eq] show ?case
    unfolding reachable_def by (auto intro: rtranclp.rtrancl_into_rtrancl)
qed

definition led_cluster :: cluster where
  "led_cluster = booted\<lparr>cl_server := fst first_leader, cl_replica := (cl_replica booted)(0 := snd first_leader)\<rparr>"

lemma led_cluster_reachable: "reachable led_cluster"
  unfolding led_cluster_def by (rule loop_run_reachable [of 4]) (simp add: first_leader_def)

theorem at_most_one_polling_replica_witness:
  "polls led_cluster 0 \<and> session_alive led_cluster 0 \<and>
   length (pm_goroutines (rp_manager (cl_replica led_cluster 0))) \<le> 1 \<and> \<not> (polls led_cluster 1 \<and> session_alive led_cluster 1)"
proof -
  have "pm_goroutines (rp_manager (snd first_leader)) \<noteq> []"
    "map_option h_session (pc_handle (rp_pc (snd first_leader))) = Some 0" "lk_live (fst first_leader) = [0]"
    by code_simp+
  then have "polls led_cluster 0" "session_alive led_cluster 0"
    by (auto simp: polls_def session_alive_def led_cluster_def)
  with at_most_one_polling_replica [OF led_cluster_reachable, of 0 1] show ?thesis by auto
qed



end
