(* ===== verification/Retention.thy ===== *)
theory Retention
  imports History Leader_Election
begin

text \<open>
  The retention pruner, \<open>internal/retention/pruner.go\<close>, with the retention constants of
  \<open>internal/cli/serve.go\<close> and the range tiers of \<open>internal/api/time_range.go\<close>. Pruning only removes
  what no range of the public page can show.
\<close>

subsection \<open>The pruner\<close>

definition pruneRetention :: duration where
  "pruneRetention = 95 * 24 * hour"

definition prune :: "duration \<Rightarrow> time \<Rightarrow> world \<Rightarrow> world" where
  "prune retention now w = snd (DeleteClosedBefore (now - retention) w)"

text \<open>One tick: the leadership lock, the deletion, the release. The world and the lock server are
  separate because the lock lives on a connection of its own.\<close>

definition prune_runCycle ::
    "bool \<Rightarrow> bool \<Rightarrow> bool \<Rightarrow> duration \<Rightarrow> time \<Rightarrow> pg_server \<times> world \<Rightarrow> pg_server \<times> world" where
  "prune_runCycle dialed answered unlock_answered retention now sw =
     (case sw of (s, w) \<Rightarrow>
       (case TryAcquire dialed answered PruneLeaderLockKey s of
          (Inl _, s1) \<Rightarrow> (s1, w)
        | (Inr None, s1) \<Rightarrow> (s1, w)
        | (Inr (Some h), s1) \<Rightarrow> (snd (Release unlock_answered h s1), prune retention now w)))"

subsection \<open>Range tiers\<close>

record rangeSpec =
  rg_window :: duration
  rg_bucketWidth :: duration
  rg_bucketCount :: nat

definition rangeSpecs :: "(string \<times> rangeSpec) list" where
  "rangeSpecs =
     [(''24h'', \<lparr>rg_window = 24 * hour, rg_bucketWidth = 1 * hour, rg_bucketCount = 24\<rparr>),
      (''7d'', \<lparr>rg_window = 7 * 24 * hour, rg_bucketWidth = 6 * hour, rg_bucketCount = 28\<rparr>),
      (''30d'', \<lparr>rg_window = 30 * 24 * hour, rg_bucketWidth = 24 * hour, rg_bucketCount = 30\<rparr>),
      (''90d'', \<lparr>rg_window = 90 * 24 * hour, rg_bucketWidth = 24 * hour, rg_bucketCount = 90\<rparr>)]"

text \<open>The query parameter, empty when it is missing; \<open>None\<close> is answered with 422.\<close>

definition parseRange :: "string \<Rightarrow> rangeSpec option" where
  "parseRange raw = (if raw = [] then map_of rangeSpecs ''24h'' else map_of rangeSpecs raw)"

subsection \<open>Lemmas\<close>

lemma parseRange_bounds:
  assumes "parseRange raw = Some r"
  shows "0 < rg_bucketWidth r" "rg_window r = int (rg_bucketCount r) * rg_bucketWidth r"
    "0 < rg_bucketCount r" "rg_window r \<le> 90 * 24 * hour"
  using assms by (auto simp: parseRange_def rangeSpecs_def duration_defs split: if_splits)

lemma window_within_retention:
  assumes "parseRange raw = Some r" and "t \<le> now"
  shows "t - pruneRetention \<le> now - rg_window r"
proof -
  have "rg_window r \<le> pruneRetention"
    using parseRange_bounds(4) [OF assms(1)] by (simp add: pruneRetention_def duration_defs)
  with assms(2) show ?thesis by linarith
qed

lemma DeleteClosedBefore_intervals:
  "DeleteClosedBefore cutoff w = (r, w') \<Longrightarrow> intervals w' \<in> {intervals w, sql_delete (closed_before cutoff) (intervals w)}"
  unfolding DeleteClosedBefore_def by (erule pool_try_cases) (auto simp: same_dataD)

lemma prune_intervals:
  "intervals (prune retention now w) \<in>
     {intervals w, sql_delete (closed_before (now - retention)) (intervals w)}"
  unfolding prune_def by (rule DeleteClosedBefore_intervals [OF prod.collapse [symmetric]])

lemma prune_runCycle_world:
  "prune_runCycle dialed answered unlock retention now (s, w) = (s', w') \<Longrightarrow> w' \<in> {w, prune retention now w}"
  by (auto simp: prune_runCycle_def split: prod.splits sum.splits option.splits)

lemma prune_keeps_queries:
  assumes "v = w \<or> v = sql_delete (closed_before cutoff) w" and "cutoff \<le> from"
  shows "filter (\<lambda>i. P i \<and> overlaps_window from until i) v = filter (\<lambda>i. P i \<and> overlaps_window from until i) w"
    "filter is_open v = filter is_open w" "from \<le> t \<Longrightarrow> status_at v sid t = status_at w sid t"
  using assms by (auto simp: prune_keeps_overlapping prune_keeps_open status_at_prune)

text \<open>C14. Retention never changes what is shown: after a pruning tick at \<open>t\<close>, whatever the lock
  and the database answered, every later request for any valid range reads the same intervals
  as before (so the buckets and the uptime are the same), no open interval is gone, and the
  recorded status of every service is unchanged over the whole window.\<close>

theorem pruning_keeps_public_history:
  assumes "prune_runCycle dialed answered unlock pruneRetention t (s, w) = (s', w')"
    and "parseRange raw = Some r" and "t \<le> now"
  shows "filter (\<lambda>i. si_ServiceID i \<in> set ids \<and> overlaps_window (now - rg_window r) now i) (intervals w') =
      filter (\<lambda>i. si_ServiceID i \<in> set ids \<and> overlaps_window (now - rg_window r) now i) (intervals w) \<and>
    filter is_open (intervals w') = filter is_open (intervals w) \<and>
    (now - rg_window r \<le> u \<longrightarrow> status_at (intervals w') sid u = status_at (intervals w) sid u)"
proof -
  from prune_runCycle_world [OF assms(1)] prune_intervals [of pruneRetention t w]
  have "intervals w' = intervals w \<or> intervals w' = sql_delete (closed_before (t - pruneRetention)) (intervals w)"
    by auto
  from prune_keeps_queries [OF this window_within_retention [OF assms(2,3)]] show ?thesis by simp
qed

definition pruned_world :: world where
  "pruned_world = fresh_world\<lparr>intervals := [sample_interval 1 ''outage'' 0 (Some hour),
     sample_interval 2 ''operational'' hour None]\<rparr>"

theorem pruning_keeps_public_history_witness:
  "filter is_open (intervals (snd (prune_runCycle True True True pruneRetention (100 * 24 * hour) (cl_server booted, pruned_world))))
     = [sample_interval 2 ''operational'' hour None] \<and>
   length (intervals (snd (prune_runCycle True True True pruneRetention (100 * 24 * hour) (cl_server booted, pruned_world)))) = 1"
proof -
  have one: "length (intervals (snd (prune_runCycle True True True pruneRetention (100 * 24 * hour)
      (cl_server booted, pruned_world)))) = 1" by code_simp
  have "parseRange ''90d'' \<noteq> None" by (simp add: parseRange_def rangeSpecs_def)
  then obtain r where "parseRange ''90d'' = Some r" by blast
  from pruning_keeps_public_history [where dialed = True and answered = True and unlock = True
      and t = "100 * 24 * hour" and s = "cl_server booted" and w = pruned_world,
      OF prod.collapse [symmetric] this order_refl] one show ?thesis
    by (simp add: pruned_world_def is_open_def sample_interval_def)
qed

end
