(* ===== verification/Services.thy ===== *)
theory Services
  imports Database "HOL-Library.List_Lexorder" "HOL-Library.Char_ord"
begin

text \<open>
  \<open>internal/db/service_repository.go\<close>: the monitored services of a tenant. Statements issued
  through the pool run under the session of the context's transaction and see its tenant's rows
  only; \<open>UpdateWithMetadata\<close> and \<open>SoftDelete\<close> begin a transaction of their own, which has no
  \<open>app.tenant_id\<close> (the callers issue them before writing anything in the request's transaction,
  so it sees the same rows). \<open>dbnow\<close> is the database's \<open>now()\<close>; \<open>ORDER BY name\<close> compares code points.
\<close>

subsection \<open>Data\<close>

record Service =
  s_ID :: uuid
  s_Name :: string
  s_SLOID :: string
  s_SLOName :: string
  s_SLOType :: string
  s_DatadogServiceTag :: string
  s_Environment :: string
  s_MonitorMode :: string
  s_PollType :: "string option"
  s_PollTarget :: "string option"
  s_PollIntervalSeconds :: "int option"
  s_CurrentStatus :: string
  s_LastStatusChangeAt :: time
  s_StatusAnalysis :: "string option"
  s_LastBurnRateShort :: "float64 option"
  s_LastBurnRateLong :: "float64 option"
  s_LastWindowErrors :: "int option"
  s_LastWindowRequests :: "int option"
  s_LastReadingAt :: "time option"
  s_LastErrorAt :: "time option"

record ServiceReading =
  rd_BurnShort :: float64
  rd_BurnLong :: float64
  rd_ShortErrors :: int
  rd_ShortRequests :: int
  rd_ReadAt :: time
  rd_LastErrorAt :: "time option"

text \<open>The full row as \<open>Get\<close> scans it, and what the lists leave at its zero value.\<close>

definition scan_service :: "service_row \<Rightarrow> Service" where
  "scan_service r =
     \<lparr>s_ID = sv_id r, s_Name = sv_name r, s_SLOID = coalesce (sv_slo_id r), s_SLOName = sv_slo_name r,
      s_SLOType = coalesce (sv_slo_type r), s_DatadogServiceTag = coalesce (sv_datadog_service_tag r),
      s_Environment = sv_environment r, s_MonitorMode = sv_monitor_mode r, s_PollType = sv_poll_type r,
      s_PollTarget = sv_poll_target r, s_PollIntervalSeconds = sv_poll_interval_seconds r,
      s_CurrentStatus = sv_current_status r, s_LastStatusChangeAt = sv_last_status_change_at r,
      s_StatusAnalysis = sv_status_analysis r, s_LastBurnRateShort = sv_last_burn_rate_short r,
      s_LastBurnRateLong = sv_last_burn_rate_long r, s_LastWindowErrors = sv_last_window_errors r,
      s_LastWindowRequests = sv_last_window_requests r, s_LastReadingAt = sv_last_reading_at r,
      s_LastErrorAt = sv_last_error_at r\<rparr>"

definition scan_page_service :: "service_row \<Rightarrow> Service" where
  "scan_page_service r = (scan_service r)\<lparr>s_StatusAnalysis := None\<rparr>"

definition scan_list_service :: "service_row \<Rightarrow> Service" where
  "scan_list_service r = (scan_page_service r)\<lparr>s_SLOName := [], s_Environment := []\<rparr>"

definition scan_manual_service :: "service_row \<Rightarrow> Service" where
  "scan_manual_service r =
     (scan_list_service r)\<lparr>s_SLOID := [], s_SLOType := [], s_DatadogServiceTag := [], s_MonitorMode := ''polling'',
       s_LastBurnRateShort := None, s_LastBurnRateLong := None, s_LastWindowErrors := None,
       s_LastWindowRequests := None, s_LastReadingAt := None, s_LastErrorAt := None\<rparr>"

subsection \<open>Constraints of the table\<close>

definition service_checks :: "service_row \<Rightarrow> bool" where
  "service_checks r \<longleftrightarrow>
     sv_environment r \<in> {[], ''development'', ''staging'', ''production''} \<and>
     (case sv_poll_type r of None \<Rightarrow> True | Some t \<Rightarrow> t \<in> {''http'', ''tcp'', ''ping''}) \<and>
     (sv_monitor_mode r = ''slo'' \<and> sv_slo_id r \<noteq> None \<and> sv_poll_type r = None \<and> sv_poll_target r = None \<and>
        sv_poll_interval_seconds r = None \<or>
      sv_monitor_mode r = ''polling'' \<and> sv_slo_id r = None \<and> sv_poll_type r \<noteq> None \<and> sv_poll_target r \<noteq> None \<and>
        sv_poll_interval_seconds r \<noteq> None)"

definition live_row :: "service_row \<Rightarrow> bool" where
  "live_row r \<longleftrightarrow> sv_deleted_at r = None"

text \<open>\<open>UPDATE services SET f WHERE P\<close> under session \<open>s\<close>, and the number of rows affected.\<close>

definition upd_services :: "session \<Rightarrow> (service_row \<Rightarrow> bool) \<Rightarrow> (service_row \<Rightarrow> service_row) \<Rightarrow> world \<Rightarrow> world" where
  "upd_services s P f w =
     w\<lparr>db := (db w)\<lparr>services := sql_update (\<lambda>r. rls_visible w s (sv_tenant_id r) \<and> P r) f (services (db w))\<rparr>\<rparr>"

definition count_services :: "session \<Rightarrow> (service_row \<Rightarrow> bool) \<Rightarrow> world \<Rightarrow> nat" where
  "count_services s P w = sql_count (\<lambda>r. rls_visible w s (sv_tenant_id r) \<and> P r) (services (db w))"

definition visible_services :: "(service_row \<Rightarrow> bool) \<Rightarrow> world \<Rightarrow> service_row list" where
  "visible_services P w = filter (\<lambda>r. visible w (sv_tenant_id r) \<and> P r) (services (db w))"

subsection \<open>Operations\<close>

definition new_service_row :: "uuid \<Rightarrow> uuid \<Rightarrow> time \<Rightarrow> Service \<Rightarrow> service_row" where
  "new_service_row iid tenant dbnow s =
     \<lparr>sv_id = iid, sv_tenant_id = tenant, sv_name = s_Name s,
      sv_slo_id = (if s_MonitorMode s = ''polling'' then None else Some (s_SLOID s)),
      sv_slo_name = (if s_MonitorMode s = ''polling'' then [] else s_SLOName s),
      sv_slo_type = (if s_MonitorMode s = ''polling'' then None else nullif_empty (s_SLOType s)),
      sv_datadog_service_tag = (if s_MonitorMode s = ''polling'' then None else nullif_empty (s_DatadogServiceTag s)),
      sv_environment = s_Environment s,
      sv_monitor_mode = (if s_MonitorMode s = ''polling'' then ''polling'' else ''slo''),
      sv_poll_type = (if s_MonitorMode s = ''polling'' then s_PollType s else None),
      sv_poll_target = (if s_MonitorMode s = ''polling'' then s_PollTarget s else None),
      sv_poll_interval_seconds = (if s_MonitorMode s = ''polling'' then s_PollIntervalSeconds s else None),
      sv_current_status = ''not_configured'', sv_last_status_change_at = dbnow, sv_status_analysis = None,
      sv_last_burn_rate_short = None, sv_last_burn_rate_long = None, sv_last_window_errors = None,
      sv_last_window_requests = None, sv_last_reading_at = None, sv_last_error_at = None, sv_deleted_at = None\<rparr>"

definition ServiceCreate :: "time \<Rightarrow> Service \<Rightarrow> world \<Rightarrow> Service db_result" where
  "ServiceCreate dbnow s w =
     pool_try w (\<lambda>w.
       case app_tenant_id (pool_session w) of
         None \<Rightarrow> pool_fail w
       | Some tenant \<Rightarrow>
           (let row = new_service_row (next_id w) tenant dbnow s in
            if \<not> service_checks row then pool_fail w
            else (Inr (s\<lparr>s_ID := sv_id row, s_CurrentStatus := sv_current_status row,
                         s_LastStatusChangeAt := sv_last_status_change_at row, s_MonitorMode := sv_monitor_mode row\<rparr>),
                  w\<lparr>db := (db w)\<lparr>services := services (db w) @ [row]\<rparr>, next_id := Suc (next_id w)\<rparr>)))"

definition ServiceGet :: "uuid \<Rightarrow> world \<Rightarrow> Service option db_result" where
  "ServiceGet sid w =
     pool_try w (\<lambda>w. (Inr (map_option scan_service
       (find_row (\<lambda>r. sv_id r = sid \<and> live_row r) (visible_services (\<lambda>_. True) w))), w))"

definition ServiceListPaginated :: "nat \<Rightarrow> nat \<Rightarrow> world \<Rightarrow> (Service list \<times> nat) db_result" where
  "ServiceListPaginated page pageSize w =
     page_try page pageSize w (\<lambda>offset w.
       let rows = sort_key sv_name (visible_services live_row w);
           got = sql_page pageSize offset rows
       in if got = [] then pool_try w (\<lambda>w. (Inr ([], count_services (pool_session w) live_row w), w))
          else (Inr (map scan_page_service got, length rows), w))"

definition ServiceList :: "world \<Rightarrow> Service list db_result" where
  "ServiceList w = pool_try w (\<lambda>w. (Inr (map scan_list_service (sort_key sv_name (visible_services live_row w))), w))"

definition ListPollingManual :: "world \<Rightarrow> Service list db_result" where
  "ListPollingManual w =
     pool_try w (\<lambda>w. (Inr (map scan_manual_service (sort_key sv_name
       (visible_services (\<lambda>r. sv_monitor_mode r = ''polling'' \<and> live_row r) w))), w))"

text \<open>A pool-level update by identifier that reports \<open>ErrNotFound\<close> when it affects no row.\<close>

definition update_live :: "uuid \<Rightarrow> (service_row \<Rightarrow> service_row) \<Rightarrow> world \<Rightarrow> unit db_result" where
  "update_live sid f w =
     pool_try w (\<lambda>w.
       if count_services (pool_session w) (\<lambda>r. sv_id r = sid \<and> live_row r) w = 0 then (Inl ErrNotFound, w)
       else (Inr (), upd_services (pool_session w) (\<lambda>r. sv_id r = sid \<and> live_row r) f w))"

definition ServiceUpdate :: "uuid \<Rightarrow> string \<Rightarrow> world \<Rightarrow> unit db_result" where
  "ServiceUpdate sid name = update_live sid (\<lambda>r. r\<lparr>sv_name := name\<rparr>)"

definition UpdateSLOMetadata :: "uuid \<Rightarrow> string \<Rightarrow> string \<Rightarrow> world \<Rightarrow> unit db_result" where
  "UpdateSLOMetadata sid sloType tag =
     update_live sid (\<lambda>r. r\<lparr>sv_slo_type := nullif_empty sloType, sv_datadog_service_tag := nullif_empty tag\<rparr>)"

definition UpdateEnvironment :: "uuid \<Rightarrow> string \<Rightarrow> world \<Rightarrow> unit db_result" where
  "UpdateEnvironment sid env w =
     pool_try w (\<lambda>w.
       if count_services (pool_session w) (\<lambda>r. sv_id r = sid \<and> live_row r) w = 0 then (Inl ErrNotFound, w)
       else if env \<notin> {[], ''development'', ''staging'', ''production''} then pool_fail w
       else (Inr (), upd_services (pool_session w) (\<lambda>r. sv_id r = sid \<and> live_row r)
                       (\<lambda>r. r\<lparr>sv_environment := env\<rparr>) w))"

text \<open>One \<open>UPDATE\<close> of the own transaction of \<open>UpdateWithMetadata\<close>: \<open>rows\<close> are the rows as that
  transaction sees them so far.\<close>

definition own_update ::
    "uuid \<Rightarrow> (service_row \<Rightarrow> service_row) \<Rightarrow> service_row list \<Rightarrow> world \<Rightarrow>
     (service_row list \<Rightarrow> world \<Rightarrow> unit db_result) \<Rightarrow> unit db_result" where
  "own_update sid f rows w k =
     own_try w (\<lambda>w.
       let P = (\<lambda>r. rls_visible w no_session (sv_tenant_id r) \<and> sv_id r = sid \<and> live_row r)
       in if sql_count P rows = 0 then (Inl ErrNotFound, w)
          else if \<not> list_all (\<lambda>r. P r \<longrightarrow> service_checks (f r)) rows then (Inl DbError, w)
          else k (sql_update P f rows) w)"

definition UpdateWithMetadata ::
    "uuid \<Rightarrow> string \<Rightarrow> string option \<Rightarrow> string option \<Rightarrow> string option \<Rightarrow> world \<Rightarrow> unit db_result" where
  "UpdateWithMetadata sid name sloType tag environment w =
     own_try w (\<lambda>w. own_update sid (\<lambda>r. r\<lparr>sv_name := name\<rparr>) (services (db w)) w (\<lambda>rows w.
       let finish = (\<lambda>rows w. own_try w (\<lambda>w. (Inr (), w\<lparr>db := (db w)\<lparr>services := rows\<rparr>\<rparr>)));
           set_env = (\<lambda>rows w. case environment of
               None \<Rightarrow> finish rows w
             | Some e \<Rightarrow> own_update sid (\<lambda>r. r\<lparr>sv_environment := e\<rparr>) rows w finish)
       in case (sloType, tag) of
            (Some t, Some g) \<Rightarrow>
              own_update sid (\<lambda>r. r\<lparr>sv_slo_type := nullif_empty t, sv_datadog_service_tag := nullif_empty g\<rparr>) rows w set_env
          | _ \<Rightarrow> set_env rows w))"

definition SoftDelete :: "time \<Rightarrow> uuid \<Rightarrow> world \<Rightarrow> unit db_result" where
  "SoftDelete dbnow sid w =
     own_try w (\<lambda>w. own_try w (\<lambda>w.
       if count_services no_session (\<lambda>r. sv_id r = sid) w = 0 then (Inl ErrNotFound, w)
       else own_try w (\<lambda>w.
         if \<exists>l\<in>set (status_page_services (db w)). pl_service_id l = sid then (Inl ErrServiceInUse, w)
         else own_try w (\<lambda>w.
           if count_services no_session (\<lambda>r. sv_id r = sid \<and> live_row r) w = 0 then (Inl ErrNotFound, w)
           else own_try w (\<lambda>w.
             (Inr (), upd_services no_session (\<lambda>r. sv_id r = sid \<and> live_row r)
                        (\<lambda>r. r\<lparr>sv_deleted_at := Some dbnow\<rparr>) w))))))"

definition set_status :: "time \<Rightarrow> string \<Rightarrow> service_row \<Rightarrow> service_row" where
  "set_status dbnow status r =
     r\<lparr>sv_current_status := status,
       sv_last_status_change_at := (if sv_current_status r \<noteq> status then dbnow else sv_last_status_change_at r)\<rparr>"

definition UpdateStatus :: "time \<Rightarrow> uuid \<Rightarrow> string \<Rightarrow> world \<Rightarrow> unit db_result" where
  "UpdateStatus dbnow sid status w =
     pool_try w (\<lambda>w. (Inr (), upd_services (pool_session w) (\<lambda>r. sv_id r = sid) (set_status dbnow status) w))"

definition UpdateStatusAndReading :: "time \<Rightarrow> uuid \<Rightarrow> string \<Rightarrow> ServiceReading \<Rightarrow> world \<Rightarrow> unit db_result" where
  "UpdateStatusAndReading dbnow sid status rd w =
     pool_try w (\<lambda>w. (Inr (), upd_services (pool_session w) (\<lambda>r. sv_id r = sid)
       (\<lambda>r. (set_status dbnow status r)\<lparr>sv_last_burn_rate_short := Some (rd_BurnShort rd),
          sv_last_burn_rate_long := Some (rd_BurnLong rd), sv_last_window_errors := Some (rd_ShortErrors rd),
          sv_last_window_requests := Some (rd_ShortRequests rd), sv_last_reading_at := Some (rd_ReadAt rd),
          sv_last_error_at := rd_LastErrorAt rd\<rparr>) w))"

definition UpdateStatusAnalysis :: "uuid \<Rightarrow> string option \<Rightarrow> world \<Rightarrow> unit db_result" where
  "UpdateStatusAnalysis sid analysis w =
     pool_try w (\<lambda>w. (Inr (), upd_services (pool_session w) (\<lambda>r. sv_id r = sid)
       (\<lambda>r. r\<lparr>sv_status_analysis := analysis\<rparr>) w))"

subsection \<open>The invariant of the table\<close>

definition services_ok :: "world \<Rightarrow> bool" where
  "services_ok w \<longleftrightarrow> distinct (map sv_id (services (db w))) \<and> sv_id ` set (services (db w)) \<subseteq> {..< next_id w} \<and>
     list_all service_checks (services (db w))"

lemma services_ok_same_data: "same_data w w' \<Longrightarrow> services_ok w' = services_ok w"
  by (simp add: services_ok_def same_dataD)

lemma new_service_row_checks:
  "service_checks (new_service_row iid tenant dbnow s) \<longleftrightarrow>
     s_Environment s \<in> {[], ''development'', ''staging'', ''production''} \<and>
     (s_MonitorMode s = ''polling'' \<longrightarrow>
        s_PollType s \<in> {Some ''http'', Some ''tcp'', Some ''ping''} \<and> s_PollTarget s \<noteq> None \<and> s_PollIntervalSeconds s \<noteq> None)"
  by (auto simp: service_checks_def new_service_row_def)

lemma services_ok_snoc:
  assumes "services_ok w" and "sv_id row = next_id w" and "service_checks row"
  shows "services_ok (w\<lparr>db := (db w)\<lparr>services := services (db w) @ [row]\<rparr>, next_id := Suc (next_id w)\<rparr>)"
proof -
  have "sv_id ` set (services (db w)) \<subseteq> {..< next_id w}" using assms(1) by (simp add: services_ok_def)
  then have "sv_id row \<notin> sv_id ` set (services (db w))"
    "sv_id ` set (services (db w) @ [row]) \<subseteq> {..< Suc (next_id w)}" using assms(2) by auto
  with assms show ?thesis by (auto simp: services_ok_def)
qed

lemma upd_services_ok:
  assumes "services_ok w" and "\<And>r. sv_id (f r) = sv_id r"
    and "\<And>r. r \<in> set (services (db w)) \<Longrightarrow> P r \<Longrightarrow> service_checks r \<Longrightarrow> service_checks (f r)"
  shows "services_ok (upd_services s P f w)"
proof -
  have "map sv_id (sql_update Q f rs) = map sv_id rs" for Q rs
    using assms(2) by (rule map_sql_update_inv)
  moreover from this have "sv_id ` set (sql_update Q f rs) = sv_id ` set rs" for Q rs by (metis list.set_map)
  ultimately show ?thesis
    using assms by (auto simp: services_ok_def upd_services_def list_all_iff set_sql_update)
qed

lemma live_update_frame:
  "sv_id (set_status dbnow st r) = sv_id r" "sv_tenant_id (set_status dbnow st r) = sv_tenant_id r"
  "service_checks (set_status dbnow st r) = service_checks r" "sv_deleted_at (set_status dbnow st r) = sv_deleted_at r"
  by (simp_all add: set_status_def service_checks_def)

subsection \<open>Creating and reading back\<close>

lemma find_row_filter: "find_row Q (filter P rs) = find_row (\<lambda>r. P r \<and> Q r) rs"
  by (induction rs) auto

lemma find_row_snoc_new:
  "(\<And>r. r \<in> set rs \<Longrightarrow> \<not> P r) \<Longrightarrow> P x \<Longrightarrow> find_row P (rs @ [x]) = Some x"
  by (induction rs) auto

lemma ServiceCreate_healthy:
  assumes "healthy w" and "app_tenant_id (pool_session w) = Some tenant"
    and "service_checks (new_service_row (next_id w) tenant dbnow s)"
  shows "ServiceCreate dbnow s w =
    (let row = new_service_row (next_id w) tenant dbnow s in
      (Inr (s\<lparr>s_ID := sv_id row, s_CurrentStatus := sv_current_status row,
              s_LastStatusChangeAt := sv_last_status_change_at row, s_MonitorMode := sv_monitor_mode row\<rparr>),
       w\<lparr>db := (db w)\<lparr>services := services (db w) @ [row]\<rparr>, next_id := Suc (next_id w)\<rparr>))"
  using assms by (simp add: ServiceCreate_def Let_def)

text \<open>A created service reads back as it was stored: in a tenant's transaction on a database
  that does not fail, \<open>Create\<close> accepts exactly the services the table's constraints allow, and
  \<open>Get\<close> of the generated identifier then returns the name, the environment and either the SLO
  fields (mode \<open>slo\<close>) or the polling fields (mode \<open>polling\<close>), with status \<open>not_configured\<close> and no
  reading; the table's invariant holds afterwards.\<close>

theorem service_create_get_roundtrip:
  assumes "healthy w" and "services_ok w" and "app_tenant_id (pool_session w) = Some tenant"
    and "service_checks (new_service_row (next_id w) tenant dbnow s)"
    and "ServiceCreate dbnow s w = (r, w')"
  shows "services_ok w' \<and> (\<exists>c. r = Inr c \<and> s_ID c = next_id w \<and>
    fst (ServiceGet (s_ID c) w') = Inr (Some (scan_service (new_service_row (next_id w) tenant dbnow s))))"
proof -
  define row where "row = new_service_row (next_id w) tenant dbnow s"
  define w1 where "w1 = w\<lparr>db := (db w)\<lparr>services := services (db w) @ [row]\<rparr>, next_id := Suc (next_id w)\<rparr>"
  have row: "sv_id row = next_id w" "sv_tenant_id row = tenant" "live_row row" "service_checks row"
    using assms(4) by (simp_all add: row_def new_service_row_def live_row_def)
  from ServiceCreate_healthy [OF assms(1,3,4)] assms(5)
  obtain c where rc: "r = Inr c" "s_ID c = next_id w" and w': "w' = w1"
    by (auto simp: Let_def row_def [symmetric] w1_def row(1))
  have heal: "healthy w1" using assms(1) by (simp add: w1_def healthy_def)
  have vis: "visible w1 = visible w"
    by (simp add: w1_def visible_def rls_visible_def pool_session_def fun_eq_iff)
  have "visible w tenant" using assms(3) by (simp add: visible_def rls_visible_def)
  moreover have "sv_id q \<noteq> next_id w" if "q \<in> set (services (db w))" for q
    using assms(2) that by (auto simp: services_ok_def)
  ultimately have "find_row (\<lambda>q. visible w (sv_tenant_id q) \<and> sv_id q = next_id w \<and> live_row q)
      (services (db w) @ [row]) = Some row"
    using row by (intro find_row_snoc_new) auto
  then have "fst (ServiceGet (next_id w) w1) = Inr (Some (scan_service row))"
    using heal vis by (simp add: ServiceGet_def visible_services_def find_row_filter w1_def)
  moreover have "services_ok w1" unfolding w1_def using services_ok_snoc [OF assms(2) row(1,4)] .
  ultimately show ?thesis using rc by (simp add: w' row_def)
qed

definition sample_service :: "string \<Rightarrow> Service" where
  "sample_service name =
     \<lparr>s_ID = 0, s_Name = name, s_SLOID = ''slo-1'', s_SLOName = ''api'', s_SLOType = ''metric'', s_DatadogServiceTag = [],
      s_Environment = ''production'', s_MonitorMode = ''slo'', s_PollType = None, s_PollTarget = None,
      s_PollIntervalSeconds = None, s_CurrentStatus = [], s_LastStatusChangeAt = 0, s_StatusAnalysis = None,
      s_LastBurnRateShort = None, s_LastBurnRateLong = None, s_LastWindowErrors = None, s_LastWindowRequests = None,
      s_LastReadingAt = None, s_LastErrorAt = None\<rparr>"

theorem service_create_get_roundtrip_witness:
  "\<exists>c. fst (ServiceCreate 5 (sample_service ''api'') (within_tenant 3 fresh_world)) = Inr c \<and>
     fst (ServiceGet (s_ID c) (snd (ServiceCreate 5 (sample_service ''api'') (within_tenant 3 fresh_world)))) =
       Inr (Some (scan_service (new_service_row 0 3 5 (sample_service ''api''))))"
proof -
  have "healthy (within_tenant 3 fresh_world)" "services_ok (within_tenant 3 fresh_world)"
    "next_id (within_tenant 3 fresh_world) = 0"
    "service_checks (new_service_row (next_id (within_tenant 3 fresh_world)) 3 5 (sample_service ''api''))"
    by (simp_all add: services_ok_def fresh_world_def no_rows_def new_service_row_checks sample_service_def)
  from service_create_get_roundtrip [OF this(1,2) _ this(4) prod.collapse [symmetric]] this(3) show ?thesis by auto
qed

subsection \<open>The operations that begin their own transaction\<close>

lemma own_count_zero: "\<not> bypass_rls w \<Longrightarrow> count_services no_session P w = 0"
  by (simp add: count_services_def sql_count_def rls_fail_closed)

lemma own_update_fails:
  assumes "\<not> bypass_rls w" and "own_update sid f rows w k = (r, w')"
  shows "r \<in> {Inl ErrNotFound, Inl DbError} \<and> same_data w w'"
  using assms(2) unfolding own_update_def
  by (cases rule: own_try_cases)
    (use assms(1) in \<open>auto simp: Let_def sql_count_def rls_fail_closed same_dataD split: if_splits\<close>)

lemma UpdateWithMetadata_fails:
  assumes "\<not> bypass_rls w" and "UpdateWithMetadata sid name t g e w = (r, w')"
  shows "r \<in> {Inl ErrNotFound, Inl DbError} \<and> same_data w w'"
  using assms(2) unfolding UpdateWithMetadata_def
proof (cases rule: own_try_cases)
  case (ran w1)
  with assms(1) own_update_fails [OF _ ran(3)] show ?thesis by (auto simp: same_dataD intro: same_data_trans)
qed simp

lemma SoftDelete_fails:
  assumes "\<not> bypass_rls w" and "SoftDelete dbnow sid w = (r, w')"
  shows "r \<in> {Inl ErrNotFound, Inl DbError} \<and> same_data w w'"
  using assms(2) unfolding SoftDelete_def
proof (elim own_try_cases)
  fix w1 w2
  assume "same_data w w1" "same_data w1 w2"
  then have "same_data w w2" "\<not> bypass_rls w2" using assms(1) by (auto simp: same_dataD intro: same_data_trans)
  moreover assume "(if count_services no_session (\<lambda>r. sv_id r = sid) w2 = 0 then (Inl ErrNotFound, w2) else
      own_try w2 (\<lambda>w. if \<exists>l\<in>set (status_page_services (db w)). pl_service_id l = sid then (Inl ErrServiceInUse, w)
         else own_try w (\<lambda>w. if count_services no_session (\<lambda>r. sv_id r = sid \<and> live_row r) w = 0 then (Inl ErrNotFound, w)
           else own_try w (\<lambda>w. (Inr (), upd_services no_session (\<lambda>r. sv_id r = sid \<and> live_row r)
                        (\<lambda>r. r\<lparr>sv_deleted_at := Some dbnow\<rparr>) w))))) = (r, w')"
  ultimately show ?thesis by (simp add: own_count_zero)
qed (auto intro: same_data_trans)

text \<open>Renaming and deleting a service never work under row-level security.
  \<open>UpdateWithMetadata\<close> and \<open>SoftDelete\<close> begin a transaction of their own instead of using the
  request's, so no tenant is set on it: with a database role that is subject to row-level
  security every call ends in \<open>ErrNotFound\<close> or a database error and changes nothing, for every
  service and every tenant.\<close>

theorem own_tx_service_writes_never_succeed:
  assumes "\<not> bypass_rls w"
    and "UpdateWithMetadata sid name t g e w = (r, w')" and "SoftDelete dbnow sid w = (r2, w2)"
  shows "r \<in> {Inl ErrNotFound, Inl DbError} \<and> db w' = db w \<and> r2 \<in> {Inl ErrNotFound, Inl DbError} \<and> db w2 = db w"
  using UpdateWithMetadata_fails [OF assms(1,2)] SoftDelete_fails [OF assms(1,3)] same_dataD(1) by blast

definition one_service_world :: "bool \<Rightarrow> world" where
  "one_service_world bypass =
     fresh_world\<lparr>db := no_rows\<lparr>services := [new_service_row 0 3 5 (sample_service ''api'')]\<rparr>, bypass_rls := bypass, next_id := 1\<rparr>"

theorem own_tx_service_writes_never_succeed_witness:
  "fst (UpdateWithMetadata 0 ''renamed'' None None None (within_tenant 3 (one_service_world False))) \<in> {Inl ErrNotFound, Inl DbError} \<and>
   db (snd (SoftDelete 9 0 (within_tenant 3 (one_service_world False)))) = db (one_service_world False)"
  using own_tx_service_writes_never_succeed [OF _ prod.collapse [symmetric] prod.collapse [symmetric],
      of "within_tenant 3 (one_service_world False)" 0 "''renamed''" None None None 9]
  by (simp add: one_service_world_def)

text \<open>With a role that bypasses row-level security the same two operations ignore the tenant:
  a request of tenant 4 renames and deletes a service of tenant 3.\<close>

lemma own_tx_service_writes_cross_tenants:
  "fst (ServiceGet 0 (within_tenant 4 (one_service_world False))) = Inr None \<and>
   map sv_name (services (db (snd (UpdateWithMetadata 0 ''renamed'' None None None (within_tenant 4 (one_service_world True)))))) = [''renamed''] \<and>
   map sv_deleted_at (services (db (snd (SoftDelete 9 0 (within_tenant 4 (one_service_world True)))))) = [Some 9]"
  by code_simp

end
