(* ===== verification/Incidents.thy ===== *)
theory Incidents
  imports Services
begin

text \<open>
  \<open>internal/db/incident_repository.go\<close>: incidents, their service links and their timelines, with
  the transactions the writes run in. \<open>dbnow\<close> is the database's \<open>now()\<close> (the start of the
  transaction) and \<open>clock\<close> its \<open>clock_timestamp()\<close>. The link and timeline tables carry no
  row-level security of their own; foreign keys are checked without it.
\<close>

subsection \<open>Data\<close>

record Incident =
  i_ID :: uuid
  i_Title :: string
  i_Status :: string
  i_CreatedAt :: time
  i_ResolvedAt :: "time option"
  i_ServiceIDs :: "uuid list"
  i_Description :: "string option"
  i_PendingCloseComment :: "string option"
  i_AutoCreated :: bool
  i_Severity :: string

record IncidentPublic =
  ip_Incident :: Incident
  ip_Updates :: "IncidentUpdate list"

record DigestIncident =
  di_ID :: uuid
  di_Title :: string
  di_Status :: string
  di_CreatedAt :: time
  di_ResolvedAt :: "time option"
  di_ServiceNames :: "string list"

text \<open>The columns each statement scans; the other fields keep their zero value.\<close>

definition scan_state :: "incident_row \<Rightarrow> Incident" where
  "scan_state r =
     \<lparr>i_ID = ic_id r, i_Title = ic_title r, i_Status = ic_status r, i_CreatedAt = ic_created_at r,
      i_ResolvedAt = ic_resolved_at r, i_ServiceIDs = [], i_Description = None, i_PendingCloseComment = None,
      i_AutoCreated = False, i_Severity = ic_severity r\<rparr>"

definition scan_confirmed :: "incident_row \<Rightarrow> Incident" where
  "scan_confirmed r = (scan_state r)\<lparr>i_Description := ic_description r, i_AutoCreated := ic_auto_created r\<rparr>"

definition scan_admin :: "uuid list \<Rightarrow> incident_row \<Rightarrow> Incident" where
  "scan_admin sids r = (scan_confirmed r)\<lparr>i_PendingCloseComment := ic_pending_close_comment r, i_ServiceIDs := sids\<rparr>"

definition scanIncidentRow :: "incident_row \<Rightarrow> Incident" where
  "scanIncidentRow r = (scan_confirmed r)\<lparr>i_Severity := []\<rparr>"

subsection \<open>Statements\<close>

definition visible_incidents :: "world \<Rightarrow> incident_row list" where
  "visible_incidents w = filter (\<lambda>r. visible w (ic_tenant_id r)) (incidents (db w))"

definition find_incident :: "uuid \<Rightarrow> world \<Rightarrow> incident_row option" where
  "find_incident iid w = find_row (\<lambda>r. ic_id r = iid) (visible_incidents w)"

definition upd_incidents :: "(incident_row \<Rightarrow> bool) \<Rightarrow> (incident_row \<Rightarrow> incident_row) \<Rightarrow> world \<Rightarrow> world" where
  "upd_incidents P f w =
     w\<lparr>db := (db w)\<lparr>incidents := sql_update (\<lambda>r. visible w (ic_tenant_id r) \<and> P r) f (incidents (db w))\<rparr>\<rparr>"

definition linked_ids :: "uuid \<Rightarrow> tables \<Rightarrow> uuid list" where
  "linked_ids iid d = map snd (filter (\<lambda>l. fst l = iid) (incident_services d))"

text \<open>\<open>INSERT INTO incident_updates\<close>: the foreign key to \<open>incidents\<close> must hold.\<close>

definition insert_update ::
    "uuid \<Rightarrow> string \<Rightarrow> uuid option \<Rightarrow> bool \<Rightarrow> time \<Rightarrow> world \<Rightarrow> IncidentUpdate db_result" where
  "insert_update iid body author ai created w =
     pool_try w (\<lambda>w.
       if \<not> (\<exists>r\<in>set (incidents (db w)). ic_id r = iid) then pool_fail w
       else let u = \<lparr>iu_ID = next_id w, iu_IncidentID = iid, iu_Body = body, iu_CreatedAt = created,
                      iu_AuthorID = author, iu_IsAISummary = ai\<rparr>
            in (Inr u, w\<lparr>db := (db w)\<lparr>incident_updates := incident_updates (db w) @ [u]\<rparr>, next_id := Suc (next_id w)\<rparr>))"

definition mustExist :: "uuid \<Rightarrow> world \<Rightarrow> unit db_result" where
  "mustExist iid w =
     pool_try w (\<lambda>w. if find_incident iid w = None then (Inl ErrNotFound, w) else (Inr (), w))"

subsection \<open>Creating\<close>

definition severity_or_default :: "string \<Rightarrow> string" where
  "severity_or_default s = (if s = [] then ''moderate'' else s)"

definition new_incident_row :: "uuid \<Rightarrow> uuid \<Rightarrow> time \<Rightarrow> Incident \<Rightarrow> incident_row" where
  "new_incident_row iid tenant dbnow i =
     \<lparr>ic_id = iid, ic_tenant_id = tenant, ic_title = i_Title i, ic_status = ''investigating'', ic_created_at = dbnow,
      ic_resolved_at = None, ic_description = i_Description i, ic_pending_close_comment = None,
      ic_auto_created = i_AutoCreated i, ic_severity = severity_or_default (i_Severity i)\<rparr>"

fun link_services :: "uuid \<Rightarrow> uuid list \<Rightarrow> world \<Rightarrow> unit db_result" where
  "link_services iid [] w = (Inr (), w)"
| "link_services iid (sid # sids) w =
     db_bind (pool_try w (\<lambda>w.
         if (iid, sid) \<in> set (incident_services (db w)) \<or> \<not> (\<exists>r\<in>set (services (db w)). sv_id r = sid)
         then pool_fail w
         else (Inr (), w\<lparr>db := (db w)\<lparr>incident_services := incident_services (db w) @ [(iid, sid)]\<rparr>\<rparr>)))
       (\<lambda>_ w. link_services iid sids w)"

definition incident_insert :: "time \<Rightarrow> Incident \<Rightarrow> uuid list \<Rightarrow> world \<Rightarrow> Incident db_result" where
  "incident_insert dbnow i sids w =
     db_bind (pool_try w (\<lambda>w.
         case app_tenant_id (pool_session w) of
           None \<Rightarrow> pool_fail w
         | Some tenant \<Rightarrow>
             (let row = new_incident_row (next_id w) tenant dbnow i in
              if ic_severity row \<notin> {''minor'', ''moderate'', ''critical''} then pool_fail w
              else (Inr (i\<lparr>i_ID := ic_id row, i_Status := ic_status row, i_CreatedAt := ic_created_at row,
                           i_Severity := ic_severity row\<rparr>),
                    w\<lparr>db := (db w)\<lparr>incidents := incidents (db w) @ [row]\<rparr>, next_id := Suc (next_id w)\<rparr>))))
       (\<lambda>created w. db_bind (link_services (i_ID created) sids w) (\<lambda>_ w. (Inr created, w)))"

definition IncidentCreate :: "time \<Rightarrow> Incident \<Rightarrow> uuid list \<Rightarrow> world \<Rightarrow> Incident db_result" where
  "IncidentCreate dbnow i sids = run_in_tx (incident_insert dbnow i sids)"

definition AddUpdate :: "time \<Rightarrow> uuid \<Rightarrow> string \<Rightarrow> uuid option \<Rightarrow> bool \<Rightarrow> world \<Rightarrow> IncidentUpdate db_result" where
  "AddUpdate dbnow iid body author ai w =
     db_bind (mustExist iid w) (\<lambda>_ w. insert_update iid body author ai dbnow w)"

subsection \<open>Reading\<close>

text \<open>\<open>listServiceIDs\<close> for every incident of a page, one query each.\<close>

fun with_service_ids :: "incident_row list \<Rightarrow> world \<Rightarrow> Incident list db_result" where
  "with_service_ids [] w = (Inr [], w)"
| "with_service_ids (r # rs) w =
     db_bind (pool_try w (\<lambda>w. (Inr (linked_ids (ic_id r) (db w)), w)))
       (\<lambda>sids w. db_bind (with_service_ids rs w) (\<lambda>is w. (Inr (scan_admin sids r # is), w)))"

definition countIncidents :: "(incident_row \<Rightarrow> bool) \<Rightarrow> world \<Rightarrow> nat db_result" where
  "countIncidents P w = pool_try w (\<lambda>w. (Inr (sql_count P (visible_incidents w)), w))"

definition IncidentListPaginated :: "nat \<Rightarrow> nat \<Rightarrow> world \<Rightarrow> (Incident list \<times> nat) db_result" where
  "IncidentListPaginated page pageSize w =
     page_try page pageSize w (\<lambda>offset w.
       let rows = order_desc ic_created_at (visible_incidents w);
           got = sql_page pageSize offset rows
       in db_bind (if got = [] then countIncidents (\<lambda>_. True) w else (Inr (length rows), w))
            (\<lambda>total w. db_bind (with_service_ids got w) (\<lambda>is w. (Inr (is, total), w))))"

definition CountOpen :: "world \<Rightarrow> nat db_result" where
  "CountOpen = countIncidents (\<lambda>r. ic_status r \<noteq> ''resolved'')"

definition CountOpenBreakdown :: "world \<Rightarrow> (nat \<times> nat) db_result" where
  "CountOpenBreakdown w =
     pool_try w (\<lambda>w. let open_rows = filter (\<lambda>r. ic_status r \<noteq> ''resolved'') (visible_incidents w)
       in (Inr (sql_count (\<lambda>r. ic_severity r = ''critical'') open_rows,
                sql_count (\<lambda>r. ic_status r = ''monitoring'') open_rows), w))"

definition between :: "time \<Rightarrow> time \<Rightarrow> time option \<Rightarrow> bool" where
  "between lo hi t \<longleftrightarrow> (case t of None \<Rightarrow> False | Some x \<Rightarrow> lo \<le> x \<and> x < hi)"

definition CountOpenedResolvedBetween :: "time \<Rightarrow> time \<Rightarrow> world \<Rightarrow> (nat \<times> nat) db_result" where
  "CountOpenedResolvedBetween lo hi w =
     pool_try w (\<lambda>w. (Inr (sql_count (\<lambda>r. between lo hi (Some (ic_created_at r))) (visible_incidents w),
                           sql_count (\<lambda>r. between lo hi (ic_resolved_at r)) (visible_incidents w)), w))"

definition service_names :: "uuid \<Rightarrow> world \<Rightarrow> string list" where
  "service_names iid w =
     sort (map sv_name (filter (\<lambda>r. sv_id r \<in> set (linked_ids iid (db w))) (visible_services (\<lambda>_. True) w)))"

definition active_between :: "time \<Rightarrow> time \<Rightarrow> incident_row \<Rightarrow> bool" where
  "active_between lo hi r \<longleftrightarrow>
     ic_created_at r < hi \<and> (case ic_resolved_at r of None \<Rightarrow> True | Some t \<Rightarrow> lo \<le> t)"

definition ListActiveBetween :: "time \<Rightarrow> time \<Rightarrow> world \<Rightarrow> DigestIncident list db_result" where
  "ListActiveBetween lo hi w =
     pool_try w (\<lambda>w. (Inr (map (\<lambda>r. \<lparr>di_ID = ic_id r, di_Title = ic_title r, di_Status = ic_status r,
           di_CreatedAt = ic_created_at r, di_ResolvedAt = ic_resolved_at r, di_ServiceNames = service_names (ic_id r) w\<rparr>)
         (order_desc ic_created_at (filter (active_between lo hi) (visible_incidents w)))), w))"

definition ListServiceNames :: "uuid \<Rightarrow> world \<Rightarrow> string list db_result" where
  "ListServiceNames iid w = pool_try w (\<lambda>w. (Inr (service_names iid w), w))"

definition CountByServiceSince :: "uuid \<Rightarrow> time \<Rightarrow> world \<Rightarrow> nat db_result" where
  "CountByServiceSince sid since =
     (\<lambda>w. countIncidents (\<lambda>r. (ic_id r, sid) \<in> set (incident_services (db w)) \<and> since \<le> ic_created_at r) w)"

definition timeline_of :: "uuid \<Rightarrow> tables \<Rightarrow> IncidentUpdate list" where
  "timeline_of iid d = order_desc iu_CreatedAt (filter (\<lambda>u. iu_IncidentID u = iid) (incident_updates d))"

definition ListUpdates :: "uuid \<Rightarrow> world \<Rightarrow> IncidentUpdate list db_result" where
  "ListUpdates iid w =
     db_bind (mustExist iid w) (\<lambda>_ w. pool_try w (\<lambda>w. (Inr (timeline_of iid (db w)), w)))"

definition ListUpdatesPaginated :: "uuid \<Rightarrow> nat \<Rightarrow> nat \<Rightarrow> world \<Rightarrow> (IncidentUpdate list \<times> nat) db_result" where
  "ListUpdatesPaginated iid page pageSize w =
     db_bind (mustExist iid w) (\<lambda>_ w. page_try page pageSize w (\<lambda>offset w.
       let us = timeline_of iid (db w); got = sql_page pageSize offset us
       in if got = [] then pool_try w (\<lambda>w. (Inr ([], length (timeline_of iid (db w))), w))
          else (Inr (got, length us), w)))"

subsection \<open>The public page\<close>

text \<open>The join of incidents, their service links and the page's services: one entry per link, as
  SQL's join produces it, before \<open>DISTINCT\<close>.\<close>

definition page_links :: "uuid \<Rightarrow> tables \<Rightarrow> uuid \<Rightarrow> nat" where
  "page_links page d iid =
     length (filter (\<lambda>l. fst l = iid \<and> (\<exists>p\<in>set (status_page_services d). pl_status_page_id p = page \<and> pl_service_id p = snd l)) (incident_services d))"

definition page_join :: "uuid \<Rightarrow> (incident_row \<Rightarrow> bool) \<Rightarrow> world \<Rightarrow> incident_row list" where
  "page_join page P w =
     concat (map (\<lambda>r. replicate (page_links page (db w) (ic_id r)) r) (filter P (visible_incidents w)))"

text \<open>\<open>SELECT DISTINCT ... ORDER BY created_at DESC\<close>.\<close>

definition distinct_desc :: "incident_row list \<Rightarrow> incident_row list" where
  "distinct_desc rs = order_desc ic_created_at (remdups rs)"

definition day :: duration where
  "day = 24 * hour"

definition resolved_within :: "time \<Rightarrow> int \<Rightarrow> incident_row \<Rightarrow> bool" where
  "resolved_within dbnow days r \<longleftrightarrow>
     ic_status r = ''resolved'' \<and> (case ic_resolved_at r of None \<Rightarrow> False | Some t \<Rightarrow> dbnow - days * day < t)"

fun withTimelines :: "Incident list \<Rightarrow> world \<Rightarrow> IncidentPublic list db_result" where
  "withTimelines [] w = (Inr [], w)"
| "withTimelines (i # is) w =
     db_bind (ListUpdates (i_ID i) w) (\<lambda>us w.
       db_bind (withTimelines is w) (\<lambda>ps w. (Inr (\<lparr>ip_Incident = i, ip_Updates = us\<rparr> # ps), w)))"

definition countResolvedPublicForStatusPage :: "time \<Rightarrow> uuid \<Rightarrow> int \<Rightarrow> world \<Rightarrow> nat db_result" where
  "countResolvedPublicForStatusPage dbnow pageID days w =
     pool_try w (\<lambda>w. (Inr (card (ic_id ` set (page_join pageID (resolved_within dbnow days) w))), w))"

definition ListPublicForStatusPage ::
    "time \<Rightarrow> uuid \<Rightarrow> int \<Rightarrow> nat \<Rightarrow> nat \<Rightarrow> world \<Rightarrow> (IncidentPublic list \<times> IncidentPublic list \<times> nat) db_result" where
  "ListPublicForStatusPage dbnow pageID days page pageSize w =
     pool_try w (\<lambda>w.
       let active = map scanIncidentRow (distinct_desc (page_join pageID (\<lambda>r. ic_status r \<noteq> ''resolved'') w))
       in page_try page pageSize w (\<lambda>offset w.
         let joined = page_join pageID (resolved_within dbnow days) w;
             got = sql_page pageSize offset (distinct_desc joined)
         in db_bind (if got = [] then countResolvedPublicForStatusPage dbnow pageID days w
                     else (Inr (length joined), w))
              (\<lambda>total w. db_bind (withTimelines active w) (\<lambda>act w.
                 db_bind (withTimelines (map scanIncidentRow got) w) (\<lambda>res w. (Inr (act, res, total), w))))))"

subsection \<open>Changing\<close>

definition enter_status :: "time \<Rightarrow> string \<Rightarrow> incident_row \<Rightarrow> incident_row" where
  "enter_status dbnow status r =
     r\<lparr>ic_status := status, ic_resolved_at := (if status = ''resolved'' then Some dbnow else None)\<rparr>"

definition transition ::
    "time \<Rightarrow> time \<Rightarrow> uuid \<Rightarrow> string \<Rightarrow> string \<Rightarrow> uuid option \<Rightarrow> world \<Rightarrow> (Incident \<times> bool) db_result" where
  "transition dbnow clock iid status note author w =
     pool_try w (\<lambda>w.
       case find_row (\<lambda>r. ic_id r = iid \<and> ic_status r \<noteq> status) (visible_incidents w) of
         None \<Rightarrow> pool_try w (\<lambda>w.
           case find_incident iid w of
             None \<Rightarrow> (Inl ErrNotFound, w)
           | Some r \<Rightarrow> (Inr (scan_state r, False), w))
       | Some r \<Rightarrow>
           db_bind (insert_update iid (''Status changed to '' @ status) None False dbnow
                      (upd_incidents (\<lambda>r. ic_id r = iid \<and> ic_status r \<noteq> status) (enter_status dbnow status) w))
             (\<lambda>_ w. db_bind (if note = [] then (Inr (), w)
                             else db_bind (insert_update iid note author False clock w) (\<lambda>_ w. (Inr (), w)))
                (\<lambda>_ w. (Inr (scan_state (enter_status dbnow status r), True), w))))"

definition Transition ::
    "time \<Rightarrow> time \<Rightarrow> uuid \<Rightarrow> string \<Rightarrow> string \<Rightarrow> uuid option \<Rightarrow> world \<Rightarrow> (Incident \<times> bool) db_result" where
  "Transition dbnow clock iid status note author = run_in_tx (transition dbnow clock iid status note author)"

definition SetSeverity :: "uuid \<Rightarrow> string \<Rightarrow> world \<Rightarrow> Incident db_result" where
  "SetSeverity iid severity w =
     pool_try w (\<lambda>w.
       case find_incident iid w of
         None \<Rightarrow> (Inl ErrNotFound, w)
       | Some r \<Rightarrow>
           if severity \<notin> {''minor'', ''moderate'', ''critical''} then pool_fail w
           else (Inr (scan_state (r\<lparr>ic_severity := severity\<rparr>)),
                 upd_incidents (\<lambda>r. ic_id r = iid) (\<lambda>r. r\<lparr>ic_severity := severity\<rparr>) w))"

text \<open>The two writes of the enrichment, refused once the incident is resolved.\<close>

definition set_unresolved :: "uuid \<Rightarrow> (incident_row \<Rightarrow> incident_row) \<Rightarrow> world \<Rightarrow> unit db_result" where
  "set_unresolved iid f w =
     db_bind (mustExist iid w) (\<lambda>_ w. pool_try w (\<lambda>w.
       case find_row (\<lambda>r. ic_id r = iid \<and> ic_status r \<noteq> ''resolved'') (visible_incidents w) of
         None \<Rightarrow> (Inl ErrIncidentAlreadyResolved, w)
       | Some _ \<Rightarrow> (Inr (), upd_incidents (\<lambda>r. ic_id r = iid \<and> ic_status r \<noteq> ''resolved'') f w)))"

definition SetDescription :: "uuid \<Rightarrow> string \<Rightarrow> world \<Rightarrow> unit db_result" where
  "SetDescription iid description = set_unresolved iid (\<lambda>r. r\<lparr>ic_description := Some description\<rparr>)"

definition SetPendingCloseComment :: "uuid \<Rightarrow> string \<Rightarrow> world \<Rightarrow> unit db_result" where
  "SetPendingCloseComment iid comment = set_unresolved iid (\<lambda>r. r\<lparr>ic_pending_close_comment := Some comment\<rparr>)"

text \<open>\<open>LIMIT 1\<close> without an order: the first row in table order.\<close>

definition HasOpenIncidentForService :: "uuid \<Rightarrow> world \<Rightarrow> uuid option db_result" where
  "HasOpenIncidentForService sid w =
     pool_try w (\<lambda>w. (Inr (map_option ic_id (find_row (\<lambda>r. (ic_id r, sid) \<in> set (incident_services (db w)) \<and>
        ic_status r \<noteq> ''resolved'' \<and> ic_auto_created r) (visible_incidents w))), w))"

definition AllLinkedServicesOperational :: "uuid \<Rightarrow> world \<Rightarrow> bool db_result" where
  "AllLinkedServicesOperational iid w =
     pool_try w (\<lambda>w. (Inr (\<not> (\<exists>r\<in>set (visible_services (\<lambda>_. True) w).
        sv_id r \<in> set (linked_ids iid (db w)) \<and> sv_current_status r \<noteq> ''operational'')), w))"

definition confirmPendingClose :: "time \<Rightarrow> uuid \<Rightarrow> string \<Rightarrow> world \<Rightarrow> Incident db_result" where
  "confirmPendingClose dbnow iid expected w =
     pool_try w (\<lambda>w.
       case find_incident iid w of
         None \<Rightarrow> (Inl ErrNotFound, w)
       | Some r \<Rightarrow>
           (case ic_pending_close_comment r of
              None \<Rightarrow> (Inl ErrNoPendingProposal, w)
            | Some current \<Rightarrow>
                if current \<noteq> expected then (Inl ErrCloseProposalChanged, w)
                else pool_try w (\<lambda>w.
                  let close = (\<lambda>r. (enter_status dbnow ''resolved'' r)\<lparr>ic_pending_close_comment := None\<rparr>)
                  in db_bind (insert_update iid expected None True dbnow (upd_incidents (\<lambda>r. ic_id r = iid) close w))
                       (\<lambda>_ w. (Inr (scan_confirmed (close r)), w)))))"

definition ConfirmPendingClose :: "time \<Rightarrow> uuid \<Rightarrow> string \<Rightarrow> world \<Rightarrow> Incident db_result" where
  "ConfirmPendingClose dbnow iid expected = run_in_tx (confirmPendingClose dbnow iid expected)"

definition DiscardCloseProposal :: "uuid \<Rightarrow> world \<Rightarrow> unit db_result" where
  "DiscardCloseProposal iid w =
     db_bind (mustExist iid w) (\<lambda>_ w. pool_try w (\<lambda>w.
       case find_row (\<lambda>r. ic_id r = iid \<and> ic_pending_close_comment r \<noteq> None) (visible_incidents w) of
         None \<Rightarrow> (Inl ErrNoPendingProposal, w)
       | Some _ \<Rightarrow> (Inr (), upd_incidents (\<lambda>r. ic_id r = iid \<and> ic_pending_close_comment r \<noteq> None)
                               (\<lambda>r. r\<lparr>ic_pending_close_comment := None\<rparr>) w)))"

end
