(* ===== verification/Invariants.thy ===== *)
theory Invariants
  imports Incidents
begin

text \<open>
  Invariants of the repositories. \<open>stays I w m\<close> says that the outcome \<open>m\<close> of an operation started
  in \<open>w\<close> keeps the invariant \<open>I\<close> and the session of the context. The locale \<open>db_invariant\<close> states
  what an invariant must satisfy to pass through statements, sequences and transactions, and
  proves once that the combinators the repositories are built from keep it; it is interpreted on
  the integrity of the incident tables (\<open>incidents_ok\<close>) and, in \<open>Tenant_Isolation\<close>, on the data
  of the other tenants.
\<close>

definition session_of :: "world \<Rightarrow> session option" where
  "session_of w = map_option tx_session (tx w)"

definition stays :: "(world \<Rightarrow> bool) \<Rightarrow> world \<Rightarrow> 'a db_result \<Rightarrow> bool" where
  "stays I w m \<longleftrightarrow> (I w \<longrightarrow> I (snd m) \<and> session_of (snd m) = session_of w)"

lemma staysD: "stays I w (r, w') \<Longrightarrow> I w \<Longrightarrow> I w' \<and> session_of w' = session_of w"
  by (simp add: stays_def)

lemma session_of_same_data: "same_data w w' \<Longrightarrow> session_of w' = session_of w"
  by (simp add: same_data_def session_of_def)

lemma pool_session_of: "session_of w' = session_of w \<Longrightarrow> pool_session w' = pool_session w"
  by (auto simp: session_of_def pool_session_def split: option.splits)

locale db_invariant =
  fixes I :: "world \<Rightarrow> bool"
  assumes I_same: "I w \<Longrightarrow> same_data w w' \<Longrightarrow> I w'"
    and I_begin: "I w \<Longrightarrow> tx w = None \<Longrightarrow>
      I (w\<lparr>tx := Some \<lparr>tx_session = no_session, tx_aborted = False, tx_begin = db w\<rparr>\<rparr>)"
    and I_commit: "I w \<Longrightarrow> session_of w = Some no_session \<Longrightarrow> I (w\<lparr>tx := None\<rparr>)"
    and I_rollback: "I w \<Longrightarrow> session_of w = Some no_session \<Longrightarrow> I (tx_rollback w)"
begin

lemma stays_same: "same_data w w' \<Longrightarrow> stays I w (r, w')"
  by (auto simp: stays_def session_of_same_data intro: I_same)

lemma stays_refl [intro!, simp]: "stays I w (r, w)"
  by (simp add: stays_same)

lemma stays_fail [intro!, simp]: "stays I w (pool_fail w)"
  by (simp add: pool_fail_def stays_same)

lemma stays_trans_same:
  assumes "same_data w v" and "stays I v m"
  shows "stays I w m"
  using assms by (auto simp: stays_def session_of_same_data intro: I_same)

lemma stays_pool_try:
  assumes "\<And>v. same_data w v \<Longrightarrow> stays I v (k v)"
  shows "stays I w (pool_try w k)"
proof (cases "pool_try w k")
  case (Pair r w')
  from this show ?thesis
    by (cases rule: pool_try_cases) (use Pair assms stays_same stays_trans_same in \<open>metis+\<close>)
qed

lemma stays_own_try:
  assumes "\<And>v. same_data w v \<Longrightarrow> tx v = tx w \<Longrightarrow> stays I v (k v)"
  shows "stays I w (own_try w k)"
proof (cases "own_try w k")
  case (Pair r w')
  from this show ?thesis
    by (cases rule: own_try_cases) (use Pair assms stays_same stays_trans_same in \<open>metis+\<close>)
qed

lemma stays_db_bind:
  assumes "stays I w m" and "\<And>a v. m = (Inr a, v) \<Longrightarrow> stays I v (f a v)"
  shows "stays I w (db_bind m f)"
proof (cases "db_bind m f")
  case (Pair r w')
  from this show ?thesis
    by (cases rule: db_bind_cases) (use Pair assms in \<open>auto simp: stays_def\<close>)
qed

lemma stays_run_in_tx:
  assumes "\<And>v. stays I v (f v)"
  shows "stays I w (run_in_tx f w)"
proof (cases "tx w")
  case None
  have "stays I v (case f (v\<lparr>tx := Some \<lparr>tx_session = no_session, tx_aborted = False, tx_begin = db v\<rparr>\<rparr>) of
      (Inl e, w') \<Rightarrow> (Inl e, tx_rollback w')
    | (Inr a, w') \<Rightarrow> (case tx_commit w' of (Inl e, w'') \<Rightarrow> (Inl e, w'') | (Inr _, w'') \<Rightarrow> (Inr a, w'')))"
    if v: "same_data w v" "tx v = tx w" for v
  proof -
    define b where "b = v\<lparr>tx := Some \<lparr>tx_session = no_session, tx_aborted = False, tx_begin = db v\<rparr>\<rparr>"
    obtain r u where fb: "f b = (r, u)" by fastforce
    have gone: "session_of (tx_rollback x) = None" if "session_of x = Some no_session" for x
      using that by (auto simp: session_of_def tx_rollback_def split: option.splits)
    show ?thesis unfolding b_def [symmetric] fb
    proof (cases "I v")
      case True
      then have "I b" "session_of b = Some no_session"
        using I_begin [of v] v None by (simp_all add: b_def session_of_def)
      with assms [of b] fb have u: "I u" "session_of u = Some no_session" by (auto dest: staysD)
      have commit: "I u' \<and> session_of u' = None" if "tx_commit u = (res, u')" for res u'
      proof -
        obtain ok x where x: "own_exec u = (ok, x)" by fastforce
        with u same_data_own [OF x] have "I x" "session_of x = Some no_session"
          by (auto intro: I_same simp: session_of_same_data)
        with u that x I_commit [of x] I_rollback [of x] I_rollback [of u] gone show ?thesis
          by (auto simp: tx_commit_def session_of_def [of "_\<lparr>tx := None\<rparr>"] session_of_def [of u]
              split: option.splits if_splits)
      qed
      from u v None I_rollback gone show "stays I v (case (r, u) of
          (Inl e, w') \<Rightarrow> (Inl e, tx_rollback w')
        | (Inr a, w') \<Rightarrow> (case tx_commit w' of (Inl e, w'') \<Rightarrow> (Inl e, w'') | (Inr _, w'') \<Rightarrow> (Inr a, w'')))"
        by (auto simp: stays_def session_of_def [of v] split: sum.splits prod.splits dest!: commit)
    qed (simp add: stays_def)
  qed
  with None show ?thesis unfolding run_in_tx_def by (simp add: stays_own_try)
qed (simp add: run_in_tx_def assms)

lemma stays_page_try:
  assumes "\<And>k w. stays I w (f k w)"
  shows "stays I w (page_try page pageSize w f)"
  unfolding page_try_def by (rule stays_pool_try) (simp add: assms)

lemmas stays_rules = stays_pool_try stays_page_try stays_own_try stays_db_bind stays_run_in_tx

lemma stays_reads [simp, intro!]:
  "stays I w (mustExist iid w)" "stays I w (countIncidents P w)" "stays I w (ListServiceNames iid w)"
  "stays I w (ListActiveBetween lo hi w)" "stays I w (CountOpenBreakdown w)"
  "stays I w (CountOpenedResolvedBetween lo hi w)" "stays I w (HasOpenIncidentForService sid w)"
  "stays I w (AllLinkedServicesOperational iid w)" "stays I w (ServiceGet sid w)" "stays I w (ServiceList w)"
  "stays I w (ListPollingManual w)"
  by (auto simp: mustExist_def countIncidents_def ListServiceNames_def ListActiveBetween_def CountOpenBreakdown_def
      CountOpenedResolvedBetween_def HasOpenIncidentForService_def AllLinkedServicesOperational_def ServiceGet_def
      ServiceList_def ListPollingManual_def Let_def intro!: stays_pool_try)

lemma stays_paged_reads [simp, intro!]:
  "stays I w (ServiceListPaginated page n w)" "stays I w (ListUpdates iid w)"
  "stays I w (ListUpdatesPaginated iid page n w)"
  by (auto simp: ServiceListPaginated_def ListUpdates_def ListUpdatesPaginated_def Let_def
      intro!: stays_pool_try stays_page_try stays_db_bind)

lemma stays_with_service_ids [simp, intro!]: "stays I w (with_service_ids rs w)"
  by (induction rs arbitrary: w) (auto intro!: stays_pool_try stays_db_bind)

lemma stays_withTimelines [simp, intro!]: "stays I w (withTimelines is w)"
  by (induction "is" arbitrary: w) (auto intro!: stays_pool_try stays_db_bind)

lemma stays_lists [simp, intro!]:
  "stays I w (IncidentListPaginated page n w)" "stays I w (ListPublicForStatusPage t pg d page n w)"
  by (auto simp: IncidentListPaginated_def ListPublicForStatusPage_def countResolvedPublicForStatusPage_def Let_def
      intro!: stays_pool_try stays_page_try stays_db_bind)

end

subsection \<open>The writes\<close>

text \<open>What every incident row satisfies: it has a resolution time exactly when it is resolved, and
  a valid severity.\<close>

definition incident_inv :: "incident_row \<Rightarrow> bool" where
  "incident_inv r \<longleftrightarrow> (ic_resolved_at r \<noteq> None \<longleftrightarrow> ic_status r = ''resolved'') \<and>
     ic_severity r \<in> {''minor'', ''moderate'', ''critical''}"

text \<open>A row function that keeps the keys and the row invariants.\<close>

definition incident_keep :: "(incident_row \<Rightarrow> incident_row) \<Rightarrow> bool" where
  "incident_keep f \<longleftrightarrow> (\<forall>r. ic_id (f r) = ic_id r \<and> ic_tenant_id (f r) = ic_tenant_id r \<and>
     (incident_inv r \<longrightarrow> incident_inv (f r)))"

definition service_keep :: "(service_row \<Rightarrow> service_row) \<Rightarrow> bool" where
  "service_keep f \<longleftrightarrow> (\<forall>r. sv_id (f r) = sv_id r \<and> sv_tenant_id (f r) = sv_tenant_id r \<and>
     (service_checks r \<longrightarrow> service_checks (f r)))"

definition add_service :: "service_row \<Rightarrow> world \<Rightarrow> world" where
  "add_service r w = w\<lparr>db := (db w)\<lparr>services := services (db w) @ [r]\<rparr>, next_id := Suc (next_id w)\<rparr>"

definition add_incident :: "incident_row \<Rightarrow> world \<Rightarrow> world" where
  "add_incident r w = w\<lparr>db := (db w)\<lparr>incidents := incidents (db w) @ [r]\<rparr>, next_id := Suc (next_id w)\<rparr>"

definition add_update :: "IncidentUpdate \<Rightarrow> world \<Rightarrow> world" where
  "add_update u w = w\<lparr>db := (db w)\<lparr>incident_updates := incident_updates (db w) @ [u]\<rparr>, next_id := Suc (next_id w)\<rparr>"

definition add_link :: "uuid \<times> uuid \<Rightarrow> world \<Rightarrow> world" where
  "add_link l w = w\<lparr>db := (db w)\<lparr>incident_services := incident_services (db w) @ [l]\<rparr>\<rparr>"

text \<open>The incident \<open>iid\<close> is one the session may see.\<close>

definition owns :: "uuid \<Rightarrow> world \<Rightarrow> bool" where
  "owns iid w \<longleftrightarrow> (\<exists>r\<in>set (visible_incidents w). ic_id r = iid)"

lemma owns_find: "owns iid w \<longleftrightarrow> find_incident iid w \<noteq> None"
  by (auto simp: owns_def find_incident_def find_row_None)

lemma owns_find_row:
  "find_row (\<lambda>r. ic_id r = iid \<and> P r) (visible_incidents w) = Some r \<Longrightarrow> owns iid w"
  by (auto simp: owns_def dest!: find_row_Some)

lemma owns_same_data: "same_data w v \<Longrightarrow> owns iid v = owns iid w"
  by (simp add: owns_def visible_incidents_def same_dataD)

lemma owns_frame [simp]:
  "owns k (add_link l w) = owns k w" "owns k (add_update u w) = owns k w"
  by (simp_all add: owns_def visible_incidents_def add_link_def add_update_def visible_def rls_visible_def
      pool_session_def)

lemma filter_key_sql_update:
  "(\<And>r. key (f r) = key r) \<Longrightarrow>
   filter (\<lambda>r. V (key r)) (sql_update (\<lambda>r. V (key r) \<and> P r) f rs) = sql_update P f (filter (\<lambda>r. V (key r)) rs)"
  by (induction rs) auto

lemma visible_incidents_upd:
  "incident_keep f \<Longrightarrow> visible_incidents (upd_incidents P f w) = sql_update P f (visible_incidents w)"
  unfolding visible_incidents_def upd_incidents_def incident_keep_def
  by (simp add: filter_key_sql_update [where key = ic_tenant_id])

lemma owns_upd_incidents: "incident_keep f \<Longrightarrow> owns k (upd_incidents P f w) = owns k w"
  by (auto simp: owns_def visible_incidents_upd set_sql_update incident_keep_def)

lemma find_incident_same_data: "same_data w v \<Longrightarrow> find_incident iid v = find_incident iid w"
  by (simp add: find_incident_def visible_incidents_def same_dataD)

lemma owns_add_incident:
  "app_tenant_id (pool_session w) = Some (ic_tenant_id i) \<Longrightarrow> owns (ic_id i) (add_incident i w)"
  by (auto simp: owns_def visible_incidents_def add_incident_def visible_def rls_visible_def pool_session_def)

lemma mustExist_owns: "mustExist iid w = (Inr a, v) \<Longrightarrow> owns iid v"
  unfolding mustExist_def by (erule pool_try_cases) (auto simp: owns_find split: if_splits)

lemma insert_update_owns:
  "insert_update iid body author ai t w = (Inr a, v) \<Longrightarrow> owns k v = owns k w"
  unfolding insert_update_def Let_def add_update_def [symmetric]
  by (erule pool_try_cases) (auto simp: owns_same_data pool_fail_def split: if_splits)

locale repo_invariant = db_invariant +
  assumes I_add_service: "I w \<Longrightarrow> app_tenant_id (pool_session w) = Some (sv_tenant_id r) \<Longrightarrow> sv_id r = next_id w \<Longrightarrow>
      service_checks r \<Longrightarrow> I (add_service r w)"
    and I_upd_services: "I w \<Longrightarrow> service_keep f \<Longrightarrow> I (upd_services (pool_session w) P f w)"
    and I_add_incident: "I w \<Longrightarrow> app_tenant_id (pool_session w) = Some (ic_tenant_id i) \<Longrightarrow> ic_id i = next_id w \<Longrightarrow>
      incident_inv i \<Longrightarrow> I (add_incident i w)"
    and I_upd_incidents: "I w \<Longrightarrow> incident_keep g \<Longrightarrow> I (upd_incidents Q g w)"
    and I_add_update: "I w \<Longrightarrow> owns (iu_IncidentID u) w \<Longrightarrow> iu_ID u = next_id w \<Longrightarrow>
      I (add_update u w)"
    and I_add_link: "I w \<Longrightarrow> owns (fst l) w \<Longrightarrow> l \<notin> set (incident_services (db w)) \<Longrightarrow> \<exists>r\<in>set (services (db w)). sv_id r = snd l \<Longrightarrow>
      I (add_link l w)"
begin

lemma stays_writes:
  "app_tenant_id (pool_session w) = Some (sv_tenant_id s) \<Longrightarrow> sv_id s = next_id w \<Longrightarrow> service_checks s \<Longrightarrow>
     stays I w (x, add_service s w)"
  "service_keep f \<Longrightarrow> stays I w (y, upd_services (pool_session w) P f w)"
  "app_tenant_id (pool_session w) = Some (ic_tenant_id i) \<Longrightarrow> ic_id i = next_id w \<Longrightarrow> incident_inv i \<Longrightarrow>
     stays I w (z, add_incident i w)"
  "incident_keep g \<Longrightarrow> stays I w (v, upd_incidents Q g w)"
  "owns (iu_IncidentID u) w \<Longrightarrow> iu_ID u = next_id w \<Longrightarrow> stays I w (p, add_update u w)"
  "owns (fst l) w \<Longrightarrow> l \<notin> set (incident_services (db w)) \<Longrightarrow> \<exists>r\<in>set (services (db w)). sv_id r = snd l \<Longrightarrow>
     stays I w (q, add_link l w)"
  unfolding stays_def snd_conv using I_add_service I_upd_services I_add_incident I_upd_incidents I_add_update I_add_link
  by (auto simp: session_of_def add_service_def add_incident_def add_update_def add_link_def upd_services_def upd_incidents_def)

lemma stays_insert_update: "owns iid w \<Longrightarrow> stays I w (insert_update iid body author ai t w)"
  unfolding insert_update_def Let_def add_update_def [symmetric]
  by (rule stays_pool_try) (auto intro!: stays_writes simp: owns_same_data)

lemma stays_insert_after:
  assumes "incident_keep f" and "owns iid w"
  shows "stays I w (insert_update iid body author ai t (upd_incidents P f w))"
proof -
  have "stays I w (Inr () :: db_error + unit, upd_incidents P f w)" by (rule stays_writes(4)) fact
  moreover obtain r w' where "insert_update iid body author ai t (upd_incidents P f w) = (r, w')" by fastforce
  ultimately show ?thesis
    using stays_insert_update [of iid "upd_incidents P f w" body author ai t] assms
    by (auto simp: stays_def owns_upd_incidents)
qed

text \<open>Every operation of the two repositories.\<close>

lemma stays_link_services: "owns iid w \<Longrightarrow> stays I w (link_services iid sids w)"
proof (induction sids arbitrary: w)
  case (Cons sid sids)
  have linked: "owns iid v" if "pool_try w (\<lambda>w.
      if (iid, sid) \<in> set (incident_services (db w)) \<or> \<not> (\<exists>r\<in>set (services (db w)). sv_id r = sid)
      then pool_fail w else (Inr (), add_link (iid, sid) w)) = (Inr a, v)" for a v
    using that Cons.prems by (cases rule: pool_try_cases) (auto simp: owns_same_data pool_fail_def split: if_splits)
  show ?case
    unfolding link_services.simps add_link_def [symmetric]
    by (intro stays_db_bind stays_pool_try Cons.IH linked)
      (use Cons.prems in \<open>auto intro!: stays_writes intro: bexI simp: owns_same_data\<close>)
qed simp

lemma stays_incident_insert: "stays I w (incident_insert t i sids w)"
  unfolding incident_insert_def Let_def add_incident_def [symmetric]
proof (rule stays_db_bind, rule stays_pool_try, goal_cases)
  case (1 v)
  show ?case
    by (auto simp: new_incident_row_def incident_inv_def intro!: stays_writes split: option.splits)
next
  case (2 created v)
  from 2 have "owns (i_ID created) v"
  proof (cases rule: pool_try_cases)
    case (ran u)
    from ran(2) obtain tenant where v: "v = add_incident (new_incident_row (next_id u) tenant t i) u"
      "app_tenant_id (pool_session u) = Some tenant" "i_ID created = next_id u"
      by (auto simp: pool_fail_def new_incident_row_def split: option.splits if_splits)
    with owns_add_incident [of u "new_incident_row (next_id u) tenant t i"] show ?thesis
      by (simp add: new_incident_row_def)
  qed simp
  then show ?case by (intro stays_db_bind stays_link_services) auto
qed

lemma keep_enter_status: "incident_keep (enter_status t st)"
  by (simp add: incident_keep_def incident_inv_def enter_status_def)

lemma keep_close: "incident_keep (\<lambda>r. (enter_status t ''resolved'' r)\<lparr>ic_pending_close_comment := None\<rparr>)"
  by (simp add: incident_keep_def incident_inv_def enter_status_def)

lemma stays_transition: "stays I w (transition t c iid st note author w)"
  unfolding transition_def Let_def
  by (rule stays_pool_try)
    (auto intro!: stays_pool_try stays_db_bind stays_insert_after stays_insert_update keep_enter_status
      dest!: owns_find_row dest: insert_update_owns simp: owns_upd_incidents keep_enter_status split: option.splits)

lemma stays_confirm: "stays I w (confirmPendingClose t iid expected w)"
  unfolding confirmPendingClose_def Let_def
  by (rule stays_pool_try)
    (auto intro!: stays_pool_try stays_db_bind stays_insert_after keep_close
      simp: owns_find find_incident_same_data
      split: option.splits)

lemma stays_set_unresolved: "incident_keep f \<Longrightarrow> stays I w (set_unresolved iid f w)"
  unfolding set_unresolved_def
  by (auto intro!: stays_pool_try stays_db_bind stays_writes split: option.splits)

lemma stays_incident_ops [simp, intro!]:
  "stays I w (IncidentCreate t i sids w)" "stays I w (Transition t c iid st note author w)"
  "stays I w (ConfirmPendingClose t iid expected w)" "stays I w (AddUpdate t iid body author ai w)"
  "stays I w (SetDescription iid d w)" "stays I w (SetPendingCloseComment iid d w)"
  by (auto simp: IncidentCreate_def Transition_def ConfirmPendingClose_def AddUpdate_def SetDescription_def
      SetPendingCloseComment_def incident_keep_def incident_inv_def
      intro!: stays_run_in_tx stays_incident_insert stays_transition stays_confirm stays_db_bind stays_set_unresolved
        stays_insert_update dest: mustExist_owns)

lemma stays_SetSeverity [simp, intro!]: "stays I w (SetSeverity iid sev w)"
proof (cases "sev \<in> {''minor'', ''moderate'', ''critical''}")
  case True
  then have "incident_keep (\<lambda>r. r\<lparr>ic_severity := sev\<rparr>)" by (auto simp: incident_keep_def incident_inv_def)
  with True show ?thesis
    unfolding SetSeverity_def by (auto intro!: stays_pool_try stays_writes split: option.splits)
qed (auto simp: SetSeverity_def intro!: stays_pool_try split: option.splits)

lemma stays_Discard [simp, intro!]: "stays I w (DiscardCloseProposal iid w)"
  unfolding DiscardCloseProposal_def
  by (auto simp: incident_keep_def incident_inv_def intro!: stays_pool_try stays_db_bind stays_writes split: option.splits)

lemma stays_ServiceCreate [simp, intro!]: "stays I w (ServiceCreate t s w)"
  unfolding ServiceCreate_def Let_def add_service_def [symmetric]
  by (rule stays_pool_try) (auto intro!: stays_writes split: option.splits simp: new_service_row_def)

lemma stays_update_live: "service_keep f \<Longrightarrow> stays I w (update_live sid f w)"
  unfolding update_live_def by (auto intro!: stays_pool_try stays_writes)

lemma stays_service_ops [simp, intro!]:
  "stays I w (ServiceUpdate sid name w)" "stays I w (UpdateSLOMetadata sid ty tag w)"
  "stays I w (UpdateStatus t sid st w)" "stays I w (UpdateStatusAndReading t sid st rd w)"
  "stays I w (UpdateStatusAnalysis sid an w)"
  by (auto simp: ServiceUpdate_def UpdateSLOMetadata_def UpdateStatus_def UpdateStatusAndReading_def
      UpdateStatusAnalysis_def service_keep_def service_checks_def set_status_def
      intro!: stays_update_live stays_pool_try stays_writes)

lemma stays_UpdateEnvironment [simp, intro!]: "stays I w (UpdateEnvironment sid env w)"
  unfolding UpdateEnvironment_def
  by (auto simp: service_keep_def service_checks_def intro!: stays_pool_try stays_writes)

end

subsection \<open>Integrity of the tables\<close>

definition tables_ok :: "nat \<Rightarrow> tables \<Rightarrow> bool" where
  "tables_ok n d \<longleftrightarrow>
     distinct (map sv_id (services d)) \<and> sv_id ` set (services d) \<subseteq> {..< n} \<and> list_all service_checks (services d) \<and>
     distinct (map ic_id (incidents d)) \<and> ic_id ` set (incidents d) \<subseteq> {..< n} \<and> list_all incident_inv (incidents d) \<and>
     distinct (map iu_ID (incident_updates d)) \<and> iu_ID ` set (incident_updates d) \<subseteq> {..< n} \<and>
     iu_IncidentID ` set (incident_updates d) \<subseteq> ic_id ` set (incidents d) \<and>
     fst ` set (incident_services d) \<subseteq> ic_id ` set (incidents d) \<and>
     distinct (incident_services d) \<and> snd ` set (incident_services d) \<subseteq> sv_id ` set (services d)"

text \<open>The tables are in order, and so are those a rollback would restore.\<close>

definition world_ok :: "world \<Rightarrow> bool" where
  "world_ok w \<longleftrightarrow> tables_ok (next_id w) (db w) \<and> (\<forall>t. tx w = Some t \<longrightarrow> tables_ok (next_id w) (tx_begin t))"

lemma tables_ok_mono: "tables_ok n d \<Longrightarrow> n \<le> m \<Longrightarrow> tables_ok m d"
  by (fastforce simp: tables_ok_def)

lemma world_ok_db:
  assumes "world_ok w" and "tables_ok n d" and "next_id w \<le> n"
  shows "world_ok (w\<lparr>db := d, next_id := n\<rparr>)" "n = next_id w \<Longrightarrow> world_ok (w\<lparr>db := d\<rparr>)"
  using assms tables_ok_mono by (auto simp: world_ok_def)

lemma list_all_sql_update:
  "list_all P rs \<Longrightarrow> (\<And>r. P r \<Longrightarrow> P (f r)) \<Longrightarrow> list_all P (sql_update Q f rs)"
  by (induction rs) auto

lemma key_image_sql_update: "(\<And>r. key (f r) = key r) \<Longrightarrow> key ` set (sql_update P f rs) = key ` set rs"
  by (metis list.set_map map_sql_update_inv)

lemma tables_ok_upd_services:
  "tables_ok n d \<Longrightarrow> service_keep f \<Longrightarrow> tables_ok n (d\<lparr>services := sql_update P f (services d)\<rparr>)"
  by (simp add: tables_ok_def service_keep_def map_sql_update_inv key_image_sql_update list_all_sql_update)

lemma tables_ok_upd_incidents:
  "tables_ok n d \<Longrightarrow> incident_keep f \<Longrightarrow> tables_ok n (d\<lparr>incidents := sql_update P f (incidents d)\<rparr>)"
  by (simp add: tables_ok_def incident_keep_def map_sql_update_inv key_image_sql_update list_all_sql_update)

lemma fresh_key: "key ` set rs \<subseteq> {..< n} \<Longrightarrow> (n :: nat) \<notin> key ` set rs \<and> key ` set rs \<subseteq> {..< Suc n}"
  by auto

lemma tables_ok_adds:
  assumes "tables_ok n d"
  shows "sv_id s = n \<Longrightarrow> service_checks s \<Longrightarrow> tables_ok (Suc n) (d\<lparr>services := services d @ [s]\<rparr>)"
    "ic_id i = n \<Longrightarrow> incident_inv i \<Longrightarrow> tables_ok (Suc n) (d\<lparr>incidents := incidents d @ [i]\<rparr>)"
    "iu_ID u = n \<Longrightarrow> iu_IncidentID u \<in> ic_id ` set (incidents d) \<Longrightarrow>
       tables_ok (Suc n) (d\<lparr>incident_updates := incident_updates d @ [u]\<rparr>)"
    "l \<notin> set (incident_services d) \<Longrightarrow> fst l \<in> ic_id ` set (incidents d) \<Longrightarrow> snd l \<in> sv_id ` set (services d) \<Longrightarrow>
       tables_ok n (d\<lparr>incident_services := incident_services d @ [l]\<rparr>)"
  using assms fresh_key [of sv_id "services d" n] fresh_key [of ic_id "incidents d" n] fresh_key [of iu_ID "incident_updates d" n]
  unfolding tables_ok_def by auto

interpretation ok: repo_invariant world_ok
proof unfold_locales
  fix w w' :: world assume "world_ok w" "same_data w w'"
  then show "world_ok w'" by (cases "tx w") (auto simp: world_ok_def same_data_def)
next
  fix w assume "world_ok w" "session_of w = Some no_session"
  then show "world_ok (tx_rollback w)" by (auto simp: world_ok_def tx_rollback_def split: option.splits)
next
  fix w and s :: service_row assume "world_ok w" "sv_id s = next_id w" "service_checks s"
  then show "world_ok (add_service s w)" unfolding add_service_def
    by (intro world_ok_db tables_ok_adds) (auto simp: world_ok_def)
next
  fix w and i :: incident_row assume "world_ok w" "ic_id i = next_id w" "incident_inv i"
  then show "world_ok (add_incident i w)" unfolding add_incident_def
    by (intro world_ok_db tables_ok_adds) (auto simp: world_ok_def)
next
  fix w and u :: IncidentUpdate assume "world_ok w" "owns (iu_IncidentID u) w" "iu_ID u = next_id w"
  then show "world_ok (add_update u w)" unfolding add_update_def
    by (intro world_ok_db tables_ok_adds) (force simp: world_ok_def owns_def visible_incidents_def)+
next
  fix w and l :: "uuid \<times> uuid" assume "world_ok w" "owns (fst l) w" "l \<notin> set (incident_services (db w))" "\<exists>r\<in>set (services (db w)). sv_id r = snd l"
  then show "world_ok (add_link l w)" unfolding add_link_def
    by (intro world_ok_db(2) [where n = "next_id w"] tables_ok_adds)
      (force simp: world_ok_def owns_def visible_incidents_def)+
next
  fix w f P assume "world_ok w" "service_keep f"
  then show "world_ok (upd_services (pool_session w) P f w)" unfolding upd_services_def
    by (intro world_ok_db(2) [where n = "next_id w"] tables_ok_upd_services) (auto simp: world_ok_def)
next
  fix w f P assume "world_ok w" "incident_keep f"
  then show "world_ok (upd_incidents P f w)" unfolding upd_incidents_def
    by (intro world_ok_db(2) [where n = "next_id w"] tables_ok_upd_incidents) (auto simp: world_ok_def)
qed (auto simp: world_ok_def)

subsection \<open>Any sequence of calls\<close>

text \<open>The calls the handlers and the poller make: transactions opened for a tenant and ended, and
  the operations of the two repositories, each at its own time.\<close>

datatype repo_call =
    BeginTx uuid | CommitTx | RollbackTx
  | DoServiceCreate Service | DoServiceUpdate uuid string | DoUpdateSLOMetadata uuid string string
  | DoUpdateEnvironment uuid string | DoUpdateStatus uuid string
  | DoUpdateStatusAndReading uuid string ServiceReading | DoUpdateStatusAnalysis uuid "string option"
  | DoIncidentCreate Incident "uuid list" | DoAddUpdate uuid string "uuid option" bool
  | DoTransition uuid string string "uuid option" | DoSetSeverity uuid string
  | DoSetDescription uuid string | DoSetPendingCloseComment uuid string
  | DoConfirmPendingClose uuid string | DoDiscardCloseProposal uuid
  | DoServiceListPaginated nat nat | DoIncidentListPaginated nat nat | DoListUpdatesPaginated uuid nat nat
  | DoHasOpenIncidentForService uuid | DoAllLinkedServicesOperational uuid
  | DoListPublicForStatusPage uuid int nat nat

fun run_call :: "time \<Rightarrow> repo_call \<Rightarrow> world \<Rightarrow> world" where
  "run_call t (BeginTx tenant) w = (if tx w = None then snd (BeginTenantTx None (Some tenant) w) else w)"
| "run_call t CommitTx w = snd (tx_commit w)"
| "run_call t RollbackTx w = tx_rollback w"
| "run_call t (DoServiceCreate s) w = snd (ServiceCreate t s w)"
| "run_call t (DoServiceUpdate sid name) w = snd (ServiceUpdate sid name w)"
| "run_call t (DoUpdateSLOMetadata sid ty tag) w = snd (UpdateSLOMetadata sid ty tag w)"
| "run_call t (DoUpdateEnvironment sid env) w = snd (UpdateEnvironment sid env w)"
| "run_call t (DoUpdateStatus sid st) w = snd (UpdateStatus t sid st w)"
| "run_call t (DoUpdateStatusAndReading sid st rd) w = snd (UpdateStatusAndReading t sid st rd w)"
| "run_call t (DoUpdateStatusAnalysis sid an) w = snd (UpdateStatusAnalysis sid an w)"
| "run_call t (DoIncidentCreate i sids) w = snd (IncidentCreate t i sids w)"
| "run_call t (DoAddUpdate iid body author ai) w = snd (AddUpdate t iid body author ai w)"
| "run_call t (DoTransition iid st note author) w = snd (Transition t t iid st note author w)"
| "run_call t (DoSetSeverity iid sev) w = snd (SetSeverity iid sev w)"
| "run_call t (DoSetDescription iid d) w = snd (SetDescription iid d w)"
| "run_call t (DoSetPendingCloseComment iid d) w = snd (SetPendingCloseComment iid d w)"
| "run_call t (DoConfirmPendingClose iid expected) w = snd (ConfirmPendingClose t iid expected w)"
| "run_call t (DoDiscardCloseProposal iid) w = snd (DiscardCloseProposal iid w)"
| "run_call t (DoServiceListPaginated p n) w = snd (ServiceListPaginated p n w)"
| "run_call t (DoIncidentListPaginated p n) w = snd (IncidentListPaginated p n w)"
| "run_call t (DoListUpdatesPaginated iid p n) w = snd (ListUpdatesPaginated iid p n w)"
| "run_call t (DoHasOpenIncidentForService sid) w = snd (HasOpenIncidentForService sid w)"
| "run_call t (DoAllLinkedServicesOperational iid) w = snd (AllLinkedServicesOperational iid w)"
| "run_call t (DoListPublicForStatusPage pg d p n) w = snd (ListPublicForStatusPage t pg d p n w)"

definition run_calls :: "(time \<times> repo_call) list \<Rightarrow> world \<Rightarrow> world" where
  "run_calls cs w = fold (\<lambda>(t, c). run_call t c) cs w"

lemma run_calls_simps [simp]:
  "run_calls [] w = w" "run_calls ((t, c) # cs) w = run_calls cs (run_call t c w)"
  by (simp_all add: run_calls_def)

fun tx_control :: "repo_call \<Rightarrow> bool" where
  "tx_control (BeginTx _) = True"
| "tx_control CommitTx = True"
| "tx_control RollbackTx = True"
| "tx_control _ = False"

lemma stays_snd: "stays I w m \<Longrightarrow> I w \<Longrightarrow> I (snd m) \<and> session_of (snd m) = session_of w"
  by (simp add: stays_def)

context repo_invariant
begin

lemma run_call_keeps:
  assumes "I w" and "\<not> tx_control c"
  shows "I (run_call t c w) \<and> session_of (run_call t c w) = session_of w"
  using assms by (cases c) (auto intro!: stays_snd)

lemma run_calls_keep:
  assumes "I w" and "\<forall>(t, c)\<in>set cs. \<not> tx_control c"
  shows "I (run_calls cs w) \<and> session_of (run_calls cs w) = session_of w"
  using assms
proof (induction cs arbitrary: w)
  case (Cons tc cs)
  obtain t c where tc: "tc = (t, c)" by fastforce
  with Cons.prems run_call_keeps [of w c t] Cons.IH [of "run_call t c w"] show ?case by simp
qed simp

end

lemma world_ok_begin: "world_ok w \<Longrightarrow> tx w = None \<Longrightarrow> world_ok (snd (BeginTenantTx u t w))"
proof (cases "BeginTenantTx u t w")
  case (Pair r w')
  assume "world_ok w" "tx w = None"
  with Pair show ?thesis
  proof (cases r)
    case (Inl e)
    with Pair \<open>world_ok w\<close> \<open>tx w = None\<close> BeginTenantTx_err [of u t w e w'] show ?thesis
      by (auto simp: world_ok_def same_dataD)
  next
    case (Inr x)
    with Pair have "BeginTenantTx u t w = (Inr (), w')" by simp
    from BeginTenantTx_ok [OF this] Pair \<open>world_ok w\<close> show ?thesis by (simp add: world_ok_def)
  qed
qed

lemma world_ok_commit: "world_ok w \<Longrightarrow> world_ok (snd (tx_commit w))"
proof (cases "tx w")
  case (Some x)
  assume ok: "world_ok w"
  obtain r w' where c: "tx_commit w = (r, w')" by fastforce
  show ?thesis
  proof (cases r)
    case (Inl e)
    with c tx_commit_err [of w e w' x] Some ok show ?thesis by (simp add: world_ok_def)
  next
    case (Inr u)
    with c tx_commit_ok [of w w'] ok show ?thesis by (simp add: world_ok_def)
  qed
qed (simp add: tx_commit_def)

lemma world_ok_rollback: "world_ok w \<Longrightarrow> world_ok (tx_rollback w)"
  by (auto simp: world_ok_def tx_rollback_def split: option.splits)

lemma run_call_ok: "world_ok w \<Longrightarrow> world_ok (run_call t c w)"
proof (cases "tx_control c")
  case True
  assume "world_ok w"
  with True show ?thesis
    by (cases c) (auto intro: world_ok_begin world_ok_commit world_ok_rollback)
qed (use ok.run_call_keeps in blast)

lemma run_calls_world_ok: "world_ok w \<Longrightarrow> world_ok (run_calls cs w)"
proof (induction cs arbitrary: w)
  case (Cons tc cs)
  then show ?case using run_call_ok by (cases tc) simp
qed simp


definition sample_incident :: "string \<Rightarrow> Incident" where
  "sample_incident title =
     \<lparr>i_ID = 0, i_Title = title, i_Status = [], i_CreatedAt = 0, i_ResolvedAt = None, i_ServiceIDs = [],
      i_Description = None, i_PendingCloseComment = None, i_AutoCreated = True, i_Severity = ''critical''\<rparr>"

definition sample_calls :: "(time \<times> repo_call) list" where
  "sample_calls = [(1, BeginTx 3), (2, DoServiceCreate (sample_service ''api'')), (3, DoIncidentCreate (sample_incident ''down'') [0]),
     (4, DoTransition 1 ''resolved'' ''fixed'' (Some 9)), (5, CommitTx)]"


end
