(* ===== verification/Tenant_Isolation.thy ===== *)
theory Tenant_Isolation
  imports Invariants
begin

text \<open>
  Tenant isolation: the row-level security of the migrations together with the code's own checks.
  The timeline and link tables carry no row-level security; that another tenant's incident
  cannot be written to through them rests on \<open>mustExist\<close> and on the locking reads of the
  repository. The invariant \<open>isolated\<close> interprets the locale \<open>repo_invariant\<close>.
\<close>

subsection \<open>The data of the other tenants\<close>

definition own_incidents :: "uuid \<Rightarrow> tables \<Rightarrow> uuid set" where
  "own_incidents tenant d = ic_id ` {r \<in> set (incidents d). ic_tenant_id r = tenant}"

definition foreign_data ::
    "uuid \<Rightarrow> tables \<Rightarrow> service_row list \<times> incident_row list \<times> IncidentUpdate list \<times> (uuid \<times> uuid) list" where
  "foreign_data tenant d =
     (filter (\<lambda>r. sv_tenant_id r \<noteq> tenant) (services d), filter (\<lambda>r. ic_tenant_id r \<noteq> tenant) (incidents d),
      filter (\<lambda>u. iu_IncidentID u \<notin> own_incidents tenant d) (incident_updates d),
      filter (\<lambda>l. fst l \<notin> own_incidents tenant d) (incident_services d))"

definition isolated ::
    "uuid \<Rightarrow> service_row list \<times> incident_row list \<times> IncidentUpdate list \<times> (uuid \<times> uuid) list \<Rightarrow> world \<Rightarrow> bool" where
  "isolated tenant F w \<longleftrightarrow> world_ok w \<and> \<not> bypass_rls w \<and>
     (\<exists>u. session_of w = Some \<lparr>app_user_id = u, app_tenant_id = Some tenant\<rparr>) \<and> foreign_data tenant (db w) = F \<and>
     (\<forall>t. tx w = Some t \<longrightarrow> foreign_data tenant (tx_begin t) = F)"

lemma isolated_session:
  "isolated tenant F w \<Longrightarrow> pool_session w = the (session_of w) \<and> app_tenant_id (pool_session w) = Some tenant"
  by (auto simp: isolated_def session_of_def pool_session_def split: option.splits)

lemma isolated_visible: "isolated tenant F w \<Longrightarrow> visible w k \<longleftrightarrow> k = tenant"
  using isolated_session [of tenant F w] by (auto simp: isolated_def visible_def rls_visible_def)

lemma isolated_owns: "isolated tenant F w \<Longrightarrow> owns iid w \<longleftrightarrow> iid \<in> own_incidents tenant (db w)"
  by (auto simp: owns_def visible_incidents_def isolated_visible own_incidents_def)

lemma filter_other_sql_update:
  "(\<And>r. key (f r) = key r) \<Longrightarrow> (\<And>r. Q r \<Longrightarrow> key r = k) \<Longrightarrow>
   filter (\<lambda>r. key r \<noteq> k) (sql_update Q f rs) = filter (\<lambda>r. key r \<noteq> k) rs"
  by (rule filter_sql_update_inv) auto

lemma own_incidents_upd:
  assumes "incident_keep f"
  shows "own_incidents tenant (d\<lparr>incidents := sql_update P f (incidents d)\<rparr>) = own_incidents tenant d"
proof -
  define g where "g = (\<lambda>r. if P r then f r else r)"
  have g: "ic_id (g r) = ic_id r" "ic_tenant_id (g r) = ic_tenant_id r" for r
    using assms by (simp_all add: g_def incident_keep_def)
  then have "{r \<in> g ` set rs. ic_tenant_id r = tenant} = g ` {r \<in> set rs. ic_tenant_id r = tenant}" for rs by auto
  moreover have "set (incidents (d\<lparr>incidents := sql_update P f (incidents d)\<rparr>)) = g ` set (incidents d)"
    by (simp add: set_sql_update g_def)
  ultimately show ?thesis by (simp only: own_incidents_def image_image g)
qed

lemma foreign_upd_incidents:
  assumes "incident_keep f" and "\<And>r. P r \<Longrightarrow> ic_tenant_id r = tenant"
  shows "foreign_data tenant (d\<lparr>incidents := sql_update P f (incidents d)\<rparr>) = foreign_data tenant d"
  using assms filter_other_sql_update [of ic_tenant_id f P tenant "incidents d"]
  by (simp add: foreign_data_def own_incidents_upd incident_keep_def)

lemma foreign_upd_services:
  assumes "service_keep f" and "\<And>r. P r \<Longrightarrow> sv_tenant_id r = tenant"
  shows "foreign_data tenant (d\<lparr>services := sql_update P f (services d)\<rparr>) = foreign_data tenant d"
  using assms filter_other_sql_update [of sv_tenant_id f P tenant "services d"]
  by (simp add: foreign_data_def own_incidents_def service_keep_def)

lemma foreign_add_incident:
  assumes "tables_ok n d" and "ic_id i = n" and "ic_tenant_id i = tenant"
  shows "foreign_data tenant (d\<lparr>incidents := incidents d @ [i]\<rparr>) = foreign_data tenant d"
proof -
  have own: "own_incidents tenant (d\<lparr>incidents := incidents d @ [i]\<rparr>) = insert n (own_incidents tenant d)"
    using assms(2,3) by (auto simp: own_incidents_def)
  have "\<forall>u\<in>set (incident_updates d). iu_IncidentID u \<noteq> n" "\<forall>l\<in>set (incident_services d). fst l \<noteq> n"
    using assms(1) by (force simp: tables_ok_def)+
  then show ?thesis
    using assms(3) by (auto simp: foreign_data_def own intro!: filter_cong)
qed

interpretation iso: repo_invariant "isolated tenant F" for tenant F
proof unfold_locales
  fix w w' :: world assume iso: "isolated tenant F w" and same: "same_data w w'"
  from ok.I_same [OF _ same] iso have "world_ok w'" by (simp add: isolated_def)
  moreover from same have "map_option tx_begin (tx w') = map_option tx_begin (tx w)" by (simp add: same_data_def)
  then have "(\<forall>t. tx w' = Some t \<longrightarrow> foreign_data tenant (tx_begin t) = F) = (\<forall>t. tx w = Some t \<longrightarrow> foreign_data tenant (tx_begin t) = F)"
    by (cases "tx w"; cases "tx w'") auto
  ultimately show "isolated tenant F w'"
    using iso session_of_same_data [OF same] same_dataD(1,3) [OF same] by (simp add: isolated_def)
next
  fix w and s :: service_row
  assume "isolated tenant F w" "app_tenant_id (pool_session w) = Some (sv_tenant_id s)" "sv_id s = next_id w" "service_checks s"
  then show "isolated tenant F (add_service s w)"
    using ok.I_add_service [of w s] isolated_session [of tenant F w]
    by (auto simp: isolated_def add_service_def session_of_def foreign_data_def own_incidents_def)
next
  fix w P and f :: "service_row \<Rightarrow> service_row" assume iso: "isolated tenant F w" and f: "service_keep f"
  let ?Q = "\<lambda>r :: service_row. rls_visible w (pool_session w) (sv_tenant_id r) \<and> P r"
  have "foreign_data tenant ((db w)\<lparr>services := sql_update ?Q f (services (db w))\<rparr>) = F"
    using foreign_upd_services [OF f, of ?Q tenant "db w"] isolated_visible [OF iso] iso
    by (auto simp: visible_def isolated_def)
  then show "isolated tenant F (upd_services (pool_session w) P f w)"
    using iso ok.I_upd_services [of w f P] f by (simp add: isolated_def upd_services_def session_of_def)
next
  fix w and i :: incident_row
  assume iso: "isolated tenant F w" and i: "app_tenant_id (pool_session w) = Some (ic_tenant_id i)" "ic_id i = next_id w" "incident_inv i"
  then have "ic_tenant_id i = tenant" using isolated_session [OF iso] by (metis option.inject)
  with iso i show "isolated tenant F (add_incident i w)"
    using ok.I_add_incident [of w i] foreign_add_incident [of "next_id w" "db w" i tenant]
    by (auto simp: isolated_def add_incident_def session_of_def world_ok_def)
next
  fix w P and f :: "incident_row \<Rightarrow> incident_row" assume iso: "isolated tenant F w" and f: "incident_keep f"
  let ?Q = "\<lambda>r :: incident_row. visible w (ic_tenant_id r) \<and> P r"
  have "foreign_data tenant ((db w)\<lparr>incidents := sql_update ?Q f (incidents (db w))\<rparr>) = F"
    using foreign_upd_incidents [OF f, of ?Q tenant "db w"] isolated_visible [OF iso] iso
    by (auto simp: isolated_def)
  then show "isolated tenant F (upd_incidents P f w)"
    using iso ok.I_upd_incidents [of w f P] f by (simp add: isolated_def upd_incidents_def session_of_def)
next
  fix w and u :: IncidentUpdate
  assume iso: "isolated tenant F w" and u: "owns (iu_IncidentID u) w" "iu_ID u = next_id w"
  from isolated_owns [OF iso] u(1) have "iu_IncidentID u \<in> own_incidents tenant (db w)" by simp
  with iso u show "isolated tenant F (add_update u w)"
    using ok.I_add_update [of w u] by (auto simp: isolated_def add_update_def session_of_def foreign_data_def own_incidents_def)
next
  fix w and l :: "uuid \<times> uuid"
  assume iso: "isolated tenant F w"
    and l: "owns (fst l) w" "l \<notin> set (incident_services (db w))" "\<exists>r\<in>set (services (db w)). sv_id r = snd l"
  from isolated_owns [OF iso] l(1) have "fst l \<in> own_incidents tenant (db w)" by simp
  with iso l show "isolated tenant F (add_link l w)"
    using ok.I_add_link [of w l] by (auto simp: isolated_def add_link_def session_of_def foreign_data_def own_incidents_def)
qed (auto simp: isolated_def session_of_def no_session_def)

lemma session_of_Some: "session_of w = Some s \<Longrightarrow> \<exists>t. tx w = Some t \<and> tx_session t = s"
  by (auto simp: session_of_def)

lemma isolated_end:
  assumes "isolated tenant F w"
  shows "foreign_data tenant (db (tx_rollback w)) = F" "foreign_data tenant (db (snd (tx_commit w))) = F"
proof -
  from assms obtain t where t: "tx w = Some t" "foreign_data tenant (tx_begin t) = F" "foreign_data tenant (db w) = F"
    by (auto simp: isolated_def dest: session_of_Some)
  then show "foreign_data tenant (db (tx_rollback w)) = F" by (simp add: tx_rollback_def)
  obtain r w' where c: "tx_commit w = (r, w')" by fastforce
  with t tx_commit_ok [of w w'] tx_commit_err [of w _ w' t]
  show "foreign_data tenant (db (snd (tx_commit w))) = F" by (cases r) auto
qed


definition two_tenants :: world where
  "two_tenants = run_calls [(1, BeginTx 3), (2, DoServiceCreate (sample_service ''api'')),
     (3, DoIncidentCreate (sample_incident ''down'') [0]), (4, CommitTx)] fresh_world"


subsection \<open>What a tenant can see\<close>

text \<open>A healthy transaction of a tenant, with row-level security in force.\<close>

definition in_tenant :: "uuid \<Rightarrow> world \<Rightarrow> bool" where
  "in_tenant tenant w \<longleftrightarrow> healthy w \<and> \<not> bypass_rls w \<and> tx w \<noteq> None \<and> app_tenant_id (pool_session w) = Some tenant"

lemma in_tenant_visible: "in_tenant tenant w \<Longrightarrow> visible w k \<longleftrightarrow> k = tenant"
  by (auto simp: in_tenant_def visible_def rls_visible_def)

lemma in_tenant_pool_try: "in_tenant tenant w \<Longrightarrow> pool_try w k = k w"
  by (simp add: in_tenant_def)

lemma in_tenant_run: "in_tenant tenant w \<Longrightarrow> run_in_tx f w = f w"
  by (auto simp: in_tenant_def run_in_tx_def)

lemma in_tenant_find_foreign:
  "in_tenant tenant w \<Longrightarrow> iid \<notin> own_incidents tenant (db w) \<Longrightarrow> find_row (\<lambda>r. ic_id r = iid \<and> P r) (visible_incidents w) = None"
  "in_tenant tenant w \<Longrightarrow> iid \<notin> own_incidents tenant (db w) \<Longrightarrow> find_incident iid w = None"
  by (auto simp: find_incident_def find_row_None visible_incidents_def in_tenant_visible own_incidents_def)

text \<open>Another tenant's incident does not exist. In a tenant's transaction every operation on
  an incident identifier that is not one of its own incidents returns \<open>ErrNotFound\<close> and changes
  nothing, and it does so alike whether the identifier is unknown or another tenant's incident.\<close>

theorem foreign_incident_not_found:
  assumes "in_tenant tenant w" and "iid \<notin> own_incidents tenant (db w)"
  shows "AddUpdate t iid body author ai w = (Inl ErrNotFound, w) \<and> Transition t c iid st note author w = (Inl ErrNotFound, w) \<and>
    SetSeverity iid sev w = (Inl ErrNotFound, w) \<and> SetDescription iid d w = (Inl ErrNotFound, w) \<and>
    SetPendingCloseComment iid d w = (Inl ErrNotFound, w) \<and> ConfirmPendingClose t iid d w = (Inl ErrNotFound, w) \<and>
    DiscardCloseProposal iid w = (Inl ErrNotFound, w) \<and> ListUpdates iid w = (Inl ErrNotFound, w) \<and>
    ListUpdatesPaginated iid p n w = (Inl ErrNotFound, w)"
proof -
  note try_w = in_tenant_pool_try [OF assms(1)] and run_w = in_tenant_run [OF assms(1)]
    and find_w = in_tenant_find_foreign [OF assms]
  have m: "mustExist iid w = (Inl ErrNotFound, w)" by (simp add: mustExist_def try_w find_w)
  show ?thesis
    by (simp only: AddUpdate_def Transition_def transition_def run_w try_w find_w m SetSeverity_def SetDescription_def
      SetPendingCloseComment_def set_unresolved_def ConfirmPendingClose_def confirmPendingClose_def
      DiscardCloseProposal_def ListUpdates_def ListUpdatesPaginated_def option.case db_bind_simps simp_thms)
qed

theorem foreign_incident_not_found_witness:
  "fst (Transition 9 9 1 ''resolved'' [] None (within_tenant 7 two_tenants)) = Inl ErrNotFound \<and>
   ic_id ` set (incidents (db two_tenants)) = {1}"
proof -
  have d: "faults two_tenants = [] \<and> \<not> bypass_rls two_tenants \<and> map ic_id (incidents (db two_tenants)) = [1] \<and>
      map ic_tenant_id (incidents (db two_tenants)) = [3]" by code_simp
  then have "in_tenant 7 (within_tenant 7 two_tenants)" by (simp add: in_tenant_def) (simp add: within_tenant_def)
  moreover from d obtain r where r: "incidents (db two_tenants) = [r]" "ic_id r = 1" "ic_tenant_id r = 3"
    by (cases "incidents (db two_tenants)") auto
  then have "1 \<notin> own_incidents 7 (db (within_tenant 7 two_tenants))" by (auto simp: own_incidents_def)
  moreover from r have "ic_id ` set (incidents (db two_tenants)) = {1}" by simp
  ultimately show ?thesis by (simp add: foreign_incident_not_found)
qed

text \<open>The rows a tenant owns. Timeline entries and service links have no tenant of their own: they
  belong to the incident they name.\<close>

definition own_data ::
    "uuid \<Rightarrow> tables \<Rightarrow> service_row list \<times> incident_row list \<times> IncidentUpdate list \<times> (uuid \<times> uuid) list" where
  "own_data tenant d =
     (filter (\<lambda>r. sv_tenant_id r = tenant) (services d), filter (\<lambda>r. ic_tenant_id r = tenant) (incidents d),
      filter (\<lambda>u. iu_IncidentID u \<in> own_incidents tenant d) (incident_updates d),
      filter (\<lambda>l. fst l \<in> own_incidents tenant d) (incident_services d))"

lemma in_tenant_services: "in_tenant tenant w \<Longrightarrow> visible_services P w = filter P (fst (own_data tenant (db w)))"
  unfolding visible_services_def own_data_def by (simp add: in_tenant_visible conj_commute)

lemma in_tenant_incidents: "in_tenant tenant w \<Longrightarrow> visible_incidents w = fst (snd (own_data tenant (db w)))"
  unfolding visible_incidents_def own_data_def by (simp add: in_tenant_visible)

lemma own_linked_ids:
  "iid \<in> own_incidents tenant d \<Longrightarrow> linked_ids iid d = map snd (filter (\<lambda>l. fst l = iid) (snd (snd (snd (own_data tenant d)))))"
  by (auto simp: linked_ids_def own_data_def intro!: arg_cong [where f = "map snd"] filter_cong)

lemma own_timeline:
  "iid \<in> own_incidents tenant d \<Longrightarrow>
   timeline_of iid d = order_desc iu_CreatedAt (filter (\<lambda>u. iu_IncidentID u = iid) (fst (snd (snd (own_data tenant d)))))"
  by (auto simp: timeline_of_def own_data_def intro!: arg_cong [where f = "order_desc iu_CreatedAt"] filter_cong)

lemma own_incidents_visible: "in_tenant tenant w \<Longrightarrow> own_incidents tenant (db w) = ic_id ` set (visible_incidents w)"
  by (auto simp: own_incidents_def visible_incidents_def in_tenant_visible)

lemma own_incidents_data: "own_data tenant d = own_data tenant d' \<Longrightarrow> own_incidents tenant d = own_incidents tenant d'"
proof -
  have "own_incidents tenant e = ic_id ` set (fst (snd (own_data tenant e)))" for e
    by (simp add: own_incidents_def own_data_def)
  then show "own_data tenant d = own_data tenant d' \<Longrightarrow> own_incidents tenant d = own_incidents tenant d'" by simp
qed

lemma with_service_ids_own:
  assumes "in_tenant tenant w" and "ic_id ` set rs \<subseteq> own_incidents tenant (db w)"
  shows "with_service_ids rs w = (Inr (map (\<lambda>r. scan_admin (linked_ids (ic_id r) (db w)) r) rs), w)"
  using assms(2) by (induction rs) (simp_all add: in_tenant_pool_try [OF assms(1)])

lemma in_tenant_mustExist:
  "in_tenant tenant w \<Longrightarrow> mustExist iid w = (if iid \<in> own_incidents tenant (db w) then Inr () else Inl ErrNotFound, w)"
  by (auto simp: mustExist_def in_tenant_pool_try find_incident_def find_row_None own_incidents_visible split: option.splits)

text \<open>A tenant's reads depend on its own rows only. Two databases that hold the same rows of the
  tenant, whatever else they hold, give the same answers to the service lists and look-ups, the
  incident list with its service links, the timelines, the names of the affected services and
  the open-incident counts and look-ups made in the tenant's transaction.\<close>

theorem tenant_reads_see_own_rows_only:
  assumes "in_tenant tenant w" and "in_tenant tenant w'" and "own_data tenant (db w) = own_data tenant (db w')"
  shows "fst (ServiceGet sid w) = fst (ServiceGet sid w') \<and> fst (ServiceList w) = fst (ServiceList w') \<and>
    fst (ListPollingManual w) = fst (ListPollingManual w') \<and>
    fst (IncidentListPaginated p n w) = fst (IncidentListPaginated p n w') \<and>
    fst (ListUpdates iid w) = fst (ListUpdates iid w') \<and> fst (CountOpen w) = fst (CountOpen w') \<and>
    fst (CountOpenBreakdown w) = fst (CountOpenBreakdown w')"
proof -
  note r = in_tenant_pool_try [OF assms(1)] in_tenant_pool_try [OF assms(2)]
    in_tenant_services [OF assms(1)] in_tenant_services [OF assms(2)]
    in_tenant_incidents [OF assms(1)] in_tenant_incidents [OF assms(2)]
  have own: "own_incidents tenant (db w') = own_incidents tenant (db w)" using own_incidents_data [OF assms(3)] by simp
  have links: "linked_ids k (db w') = linked_ids k (db w)" "timeline_of k (db w') = timeline_of k (db w)"
    if "k \<in> own_incidents tenant (db w)" for k
    using that own assms(3) by (simp_all add: own_linked_ids own_timeline)
  have vis: "visible_incidents w' = visible_incidents w" "visible_services P w' = visible_services P w" for P
    using r(3-6) assms(3) by simp_all
  have "fst (IncidentListPaginated p n w') = fst (IncidentListPaginated p n w)"
  proof -
    define got where "got = sql_page n (nat (row_offset p n)) (order_desc ic_created_at (visible_incidents w))"
    have "set got \<subseteq> set (visible_incidents w)"
      using set_sql_page [of n "nat (row_offset p n)" "order_desc ic_created_at (visible_incidents w)"] by (simp add: got_def)
    then have sub: "ic_id ` set got \<subseteq> own_incidents tenant (db w)" by (auto simp: own_incidents_visible [OF assms(1)])
    show ?thesis
      using with_service_ids_own [OF assms(1) sub] with_service_ids_own [OF assms(2), of got] sub own links
      by (auto simp: IncidentListPaginated_def page_try_def pool_fail_def Let_def r(1,2) vis countIncidents_def got_def [unfolded One_nat_def, symmetric])
  qed
  then show ?thesis
    using links own
    by (auto simp: ServiceGet_def ServiceList_def ListPollingManual_def ListUpdates_def CountOpen_def countIncidents_def
        CountOpenBreakdown_def Let_def r(1,2) vis in_tenant_mustExist [OF assms(1)] in_tenant_mustExist [OF assms(2)])
qed

theorem tenant_reads_see_own_rows_only_witness:
  "fst (IncidentListPaginated 1 10 (within_tenant 7 two_tenants)) = fst (IncidentListPaginated 1 10 (within_tenant 7 fresh_world)) \<and>
   incidents (db two_tenants) \<noteq> incidents (db fresh_world)"
proof -
  have d: "faults two_tenants = [] \<and> \<not> bypass_rls two_tenants \<and> own_data 7 (db two_tenants) = own_data 7 (db fresh_world)"
    by code_simp
  then have "in_tenant 7 (within_tenant 7 two_tenants)" "in_tenant 7 (within_tenant 7 fresh_world)"
    by (simp_all add: in_tenant_def fresh_world_def) (simp_all add: within_tenant_def)
  moreover have "incidents (db two_tenants) \<noteq> incidents (db fresh_world)" by code_simp
  ultimately show ?thesis
    using tenant_reads_see_own_rows_only [of 7 "within_tenant 7 two_tenants" "within_tenant 7 fresh_world"] d by simp
qed

end
