(* ===== verification/Incident_Lifecycle.thy ===== *)
theory Incident_Lifecycle
  imports Tenant_Isolation
begin

text \<open>
  What the incident writes of \<open>internal/db/incident_repository.go\<close> promise: a failed operation
  leaves nothing behind, a status change is applied and reported once, a closing comment is
  applied only when it is the one the operator read, and the enrichment does not touch a resolved
  incident.
\<close>

subsection \<open>Failure leaves nothing behind\<close>

definition aborted :: "world \<Rightarrow> bool" where
  "aborted w \<longleftrightarrow> (\<exists>t. tx w = Some t \<and> tx_aborted t)"

text \<open>An outcome within a transaction fails cleanly when an error means that no row was written or
  that the transaction can only roll back.\<close>

definition fails_clean :: "world \<Rightarrow> 'a db_result \<Rightarrow> bool" where
  "fails_clean w m \<longleftrightarrow> (tx w \<noteq> None \<longrightarrow> (\<forall>e w'. m = (Inl e, w') \<longrightarrow> db w' = db w \<or> aborted w'))"

text \<open>The stronger form for an outcome that has already written: an error aborts.\<close>

definition fails_aborted :: "world \<Rightarrow> 'a db_result \<Rightarrow> bool" where
  "fails_aborted w m \<longleftrightarrow> (tx w \<noteq> None \<longrightarrow> (\<forall>e w'. m = (Inl e, w') \<longrightarrow> aborted w'))"

lemma fails_clean_same: "db w' = db w \<Longrightarrow> fails_clean w (r, w')"
  by (simp add: fails_clean_def)

lemma fails_Inr [simp, intro!]: "fails_clean w (Inr a, w')" "fails_aborted w (Inr a, w')"
  by (simp_all add: fails_clean_def fails_aborted_def)

lemma fails_refl [simp, intro!]: "fails_clean w (r, w)"
  by (simp add: fails_clean_def)

lemma aborted_abort_tx: "tx w \<noteq> None \<Longrightarrow> aborted (abort_tx w)"
  by (auto simp: aborted_def abort_tx_def)

lemma fails_pool_fail [simp, intro!]: "fails_clean w (pool_fail w)" "fails_aborted w (pool_fail w)"
  by (auto simp: fails_clean_def fails_aborted_def pool_fail_def aborted_abort_tx)

lemma fails_aborted_clean: "fails_aborted w m \<Longrightarrow> fails_clean w m"
  by (auto simp: fails_clean_def fails_aborted_def)

lemma pool_exec_fails: "pool_exec w = (False, w') \<Longrightarrow> tx w \<noteq> None \<Longrightarrow> aborted w'"
  by (auto simp: pool_exec_def own_exec_def aborted_def abort_tx_def split: option.splits if_splits list.splits)

lemma pool_exec_runs: "pool_exec w = (True, w') \<Longrightarrow> db w' = db w \<and> tx w' = tx w"
  by (auto simp: pool_exec_def own_exec_def split: option.splits if_splits list.splits)

lemma fails_pool_try:
  assumes "\<And>v. same_data w v \<Longrightarrow> tx v = tx w \<Longrightarrow> fails_clean v (k v)"
  shows "fails_clean w (pool_try w k)"
proof (cases "pool_exec w")
  case (Pair ok v)
  show ?thesis
  proof (cases ok)
    case True
    with Pair pool_exec_runs [of w v] same_data_pool [of w True v] assms [of v] show ?thesis
      by (auto simp: pool_try_def fails_clean_def)
  next
    case False
    with Pair pool_exec_fails [of w v] show ?thesis by (auto simp: pool_try_def fails_clean_def)
  qed
qed

lemma fails_aborted_pool_try:
  assumes "\<And>v. same_data w v \<Longrightarrow> tx v = tx w \<Longrightarrow> fails_aborted v (k v)"
  shows "fails_aborted w (pool_try w k)"
proof (cases "pool_exec w")
  case (Pair ok v)
  show ?thesis
  proof (cases ok)
    case True
    with Pair pool_exec_runs [of w v] same_data_pool [of w True v] assms [of v] show ?thesis
      by (auto simp: pool_try_def fails_aborted_def)
  next
    case False
    with Pair pool_exec_fails [of w v] show ?thesis by (auto simp: pool_try_def fails_aborted_def)
  qed
qed

text \<open>After a step that may have written, what follows must abort on an error; after a step that
  has not, it must fail cleanly.\<close>

lemma fails_bind_write:
  assumes "fails_clean w m" and "\<And>a v. m = (Inr a, v) \<Longrightarrow> tx w \<noteq> None \<Longrightarrow> tx v \<noteq> None \<and> fails_aborted v (f a v)"
  shows "fails_clean w (db_bind m f)"
proof (cases "db_bind m f")
  case (Pair r w')
  from this show ?thesis
    by (cases rule: db_bind_cases) (use Pair assms in \<open>auto simp: fails_clean_def fails_aborted_def\<close>)
qed

lemma fails_aborted_bind:
  assumes "fails_aborted w m" and "\<And>a v. m = (Inr a, v) \<Longrightarrow> tx w \<noteq> None \<Longrightarrow> tx v \<noteq> None \<and> fails_aborted v (f a v)"
  shows "fails_aborted w (db_bind m f)"
proof (cases "db_bind m f")
  case (Pair r w')
  from this show ?thesis
    by (cases rule: db_bind_cases) (use Pair assms in \<open>auto simp: fails_aborted_def\<close>)
qed

lemma fails_bind_read:
  assumes "fails_clean w m" and "\<And>a v. m = (Inr a, v) \<Longrightarrow> db v = db w \<and> (tx w \<noteq> None \<longrightarrow> tx v \<noteq> None) \<and> fails_clean v (f a v)"
  shows "fails_clean w (db_bind m f)"
proof (cases "db_bind m f")
  case (Pair r w')
  from this show ?thesis
  proof (cases rule: db_bind_cases)
    case (failed e)
    with Pair assms(1) show ?thesis by (simp add: fails_clean_def)
  next
    case (ran a v)
    with Pair assms(2) [of a v] show ?thesis by (auto simp: fails_clean_def)
  qed
qed

subsection \<open>The steps of a write\<close>

lemma pool_try_ok:
  assumes "pool_try w k = (Inr a, w')"
  obtains v where "same_data w v" "tx v = tx w" "db v = db w" "k v = (Inr a, w')"
  using assms pool_exec_runs [of w] same_data_pool [of w]
  by (auto simp: pool_try_def split: prod.splits if_splits)

lemma mustExist_ok: "mustExist iid w = (Inr a, v) \<Longrightarrow> tx v = tx w \<and> db v = db w \<and> same_data w v \<and> owns iid v"
proof -
  assume m: "mustExist iid w = (Inr a, v)"
  then have "tx v = tx w \<and> db v = db w \<and> same_data w v"
    unfolding mustExist_def by (elim pool_try_ok) (auto split: if_splits)
  with mustExist_owns [OF m] show ?thesis by simp
qed

lemma fails_abort [simp, intro!]: "fails_clean w (r, abort_tx w)" "fails_aborted w (r, abort_tx w)"
  by (auto simp: fails_clean_def fails_aborted_def aborted_abort_tx)

lemma insert_update_ok:
  assumes "insert_update iid body author ai created w = (Inr u, v)"
  shows "tx v = tx w" "next_id v = Suc (next_id w)"
    "u = \<lparr>iu_ID = next_id w, iu_IncidentID = iid, iu_Body = body, iu_CreatedAt = created, iu_AuthorID = author, iu_IsAISummary = ai\<rparr>"
    "db v = (db w)\<lparr>incident_updates := incident_updates (db w) @ [u]\<rparr>" "bypass_rls v = bypass_rls w"
  using assms unfolding insert_update_def Let_def
  by (elim pool_try_ok; force simp: pool_fail_def same_dataD split: if_splits)+

lemma fails_insert_update: "fails_aborted w (insert_update iid body author ai created w)"
  unfolding insert_update_def Let_def by (rule fails_aborted_pool_try) auto

lemma fails_link_services: "fails_aborted w (link_services iid sids w)"
proof (induction sids arbitrary: w)
  case (Cons sid sids)
  show ?case unfolding link_services.simps
    by (rule fails_aborted_bind, rule fails_aborted_pool_try)
      (auto simp: Cons.IH pool_fail_def elim!: pool_try_ok split: if_splits)
qed simp

lemma link_services_tx: "link_services iid sids w = (Inr a, v) \<Longrightarrow> tx v = tx w"
  by (induction sids arbitrary: w)
    (auto simp: pool_fail_def elim!: db_bind_cases pool_try_ok split: if_splits)

lemma fails_mustExist: "fails_clean w (mustExist iid w)"
  unfolding mustExist_def by (rule fails_pool_try) auto

lemma fails_after_update:
  assumes "\<And>a v. m = (Inr a, v) \<Longrightarrow> tx v = tx w \<and> db v = db w" and "fails_clean w m"
    and "\<And>v a. tx v = tx w \<Longrightarrow> db v = db w \<Longrightarrow> fails_clean v (f a v)"
  shows "fails_clean w (db_bind m f)"
  using assms by (intro fails_bind_read) auto

lemma fails_ops:
  "fails_clean w (incident_insert t i sids w)" "fails_clean w (AddUpdate t iid body author ai w)"
  "fails_clean w (set_unresolved iid f w)" "fails_clean w (SetSeverity iid sev w)" "fails_clean w (DiscardCloseProposal iid w)"
proof -
  show "fails_clean w (incident_insert t i sids w)" unfolding incident_insert_def Let_def
    by (rule fails_bind_write, rule fails_pool_try)
      (auto simp: pool_fail_def fails_link_services dest: link_services_tx intro!: fails_aborted_bind elim!: pool_try_ok split: option.splits if_splits)
  show "fails_clean w (AddUpdate t iid body author ai w)" unfolding AddUpdate_def
    by (rule fails_after_update) (auto simp: fails_mustExist fails_aborted_clean fails_insert_update dest: mustExist_ok)
  show "fails_clean w (set_unresolved iid f w)" unfolding set_unresolved_def
    by (rule fails_after_update) (auto simp: fails_mustExist intro!: fails_pool_try dest: mustExist_ok split: option.splits)
  show "fails_clean w (SetSeverity iid sev w)" unfolding SetSeverity_def
    by (rule fails_pool_try) (auto split: option.splits)
  show "fails_clean w (DiscardCloseProposal iid w)" unfolding DiscardCloseProposal_def
    by (rule fails_after_update) (auto simp: fails_mustExist intro!: fails_pool_try dest: mustExist_ok split: option.splits)
qed

lemma tx_upd_incidents [simp]: "tx (upd_incidents P f w) = tx w" "next_id (upd_incidents P f w) = next_id w"
  "visible (upd_incidents P f w) = visible w" "bypass_rls (upd_incidents P f w) = bypass_rls w"
  by (simp_all add: upd_incidents_def)

lemma fails_aborted_upd: "fails_aborted (upd_incidents P f w) m \<Longrightarrow> fails_aborted w m"
  by (simp add: fails_aborted_def)

lemma fails_upd_insert:
  assumes "\<And>a v. tx v = tx w \<Longrightarrow> fails_aborted v (f a v)"
  shows "fails_clean w (db_bind (insert_update iid body author ai t (upd_incidents P g w)) f)"
  by (rule fails_aborted_clean [OF fails_aborted_upd [of P g]], rule fails_aborted_bind)
    (use assms fails_insert_update in \<open>auto dest: insert_update_ok(1)\<close>)

lemma fails_transition: "fails_clean w (transition t c iid st note author w)"
  unfolding transition_def
proof (rule fails_pool_try, goal_cases)
  case (1 v)
  have "fails_aborted u (db_bind (if note = [] then (Inr (), u)
      else db_bind (insert_update iid note author False c u) (\<lambda>_ w. (Inr (), w))) (\<lambda>_ w. (Inr x, w)))" for u x
    by (cases "note = []") (auto intro!: fails_aborted_bind fails_insert_update dest: insert_update_ok(1) elim!: db_bind_cases)
  then show ?case by (auto intro!: fails_upd_insert fails_pool_try split: option.splits)
qed

lemma fails_confirm: "fails_clean w (confirmPendingClose t iid expected w)"
  unfolding confirmPendingClose_def Let_def
  by (rule fails_pool_try) (auto intro!: fails_pool_try fails_upd_insert split: option.splits)

lemma aborted_commit:
  assumes "aborted w" and "tx w = Some t"
  shows "fst (tx_commit w) = Inl DbError" "db (snd (tx_commit w)) = tx_begin t"
  using assms by (auto simp: aborted_def tx_commit_def tx_rollback_def)

text \<open>Within the request's transaction: what its commit leaves after a failed operation is either
  the tables as the operation found them, or those of the start of the transaction.\<close>

lemma fails_clean_commit:
  assumes "fails_clean w (Inl e, w')" and "tx w = Some t" and "map_option tx_begin (tx w') = map_option tx_begin (tx w)"
  shows "db w' = db w \<or> (fst (tx_commit w') = Inl DbError \<and> db (snd (tx_commit w')) = tx_begin t)"
proof (cases "db w' = db w")
  case False
  with assms(1,2) have a: "aborted w'" by (simp add: fails_clean_def)
  then obtain t' where "tx w' = Some t'" by (auto simp: aborted_def)
  with assms(2,3) aborted_commit [OF a] show ?thesis by simp
qed simp

text \<open>The invariant that the tables a rollback restores do not change within a tenant's transaction.\<close>

definition began :: "tables \<Rightarrow> world \<Rightarrow> bool" where
  "began d w \<longleftrightarrow> (\<exists>t. tx w = Some t \<and> tx_begin t = d \<and> app_tenant_id (tx_session t) \<noteq> None)"

interpretation bg: repo_invariant "began d" for d
proof unfold_locales
  fix w w' :: world assume "began d w" "same_data w w'"
  then show "began d w'" by (cases "tx w'") (auto simp: began_def same_data_def)
qed (auto simp: began_def session_of_def no_session_def add_service_def add_incident_def add_update_def add_link_def
    upd_services_def upd_incidents_def)

definition all_or_nothing :: "world \<Rightarrow> 'a db_result \<Rightarrow> bool" where
  "all_or_nothing w m \<longleftrightarrow>
     (case m of
        (Inr a, w') \<Rightarrow> True
      | (Inl e, w') \<Rightarrow> db w' = db w \<or>
          (fst (tx_commit w') = Inl DbError \<and> Some (db (snd (tx_commit w'))) = map_option tx_begin (tx w)))"

lemma all_or_nothingI:
  assumes "tx w = Some t" and "app_tenant_id (tx_session t) \<noteq> None" and "fails_clean w m" and "stays (began (tx_begin t)) w m"
  shows "all_or_nothing w m"
proof (cases m)
  case (Pair r w')
  from assms(1,2) have "began (tx_begin t) w" by (simp add: began_def)
  with assms(4) Pair have "began (tx_begin t) w'" by (auto dest: staysD)
  then have "map_option tx_begin (tx w') = map_option tx_begin (tx w)" using assms(1) by (auto simp: began_def)
  with Pair assms(1,3) fails_clean_commit [of w _ w' t] show ?thesis by (auto simp: all_or_nothing_def split: sum.splits)
qed

text \<open>C11. Incident writes are all or nothing. In a tenant's transaction, whichever statement of an
  operation fails, and for whatever reason, an operation that reports an error either wrote no
  row, or has aborted the transaction: its commit then reports an error and the tables are those
  the transaction began with. So no incident is left without its service links, no status
  change without its timeline entry, no close without its closing comment.\<close>

theorem incident_writes_all_or_nothing:
  assumes "tx w = Some t" and "app_tenant_id (tx_session t) \<noteq> None"
  shows "all_or_nothing w (IncidentCreate now i sids w) \<and> all_or_nothing w (AddUpdate now iid body author ai w) \<and>
    all_or_nothing w (Transition now clock iid st note author w) \<and> all_or_nothing w (SetSeverity iid sev w) \<and>
    all_or_nothing w (SetDescription iid d w) \<and> all_or_nothing w (SetPendingCloseComment iid d w) \<and>
    all_or_nothing w (ConfirmPendingClose now iid expected w) \<and> all_or_nothing w (DiscardCloseProposal iid w)"
proof -
  have run: "run_in_tx f w = f w" for f :: "world \<Rightarrow> 'b db_result" using assms(1) by (simp add: run_in_tx_def)
  show ?thesis
    by (intro conjI all_or_nothingI [OF assms])
      (simp_all add: IncidentCreate_def Transition_def ConfirmPendingClose_def SetDescription_def SetPendingCloseComment_def
        run fails_ops fails_transition fails_confirm bg.stays_incident_insert bg.stays_transition bg.stays_confirm
        bg.stays_set_unresolved incident_keep_def incident_inv_def)
qed

definition failing_world :: world where
  "failing_world = (within_tenant 3 two_tenants)\<lparr>faults := [False, True]\<rparr>"

theorem incident_writes_all_or_nothing_witness:
  "all_or_nothing failing_world (Transition 9 9 1 ''resolved'' [] None failing_world) \<and>
   fst (Transition 9 9 1 ''resolved'' [] None failing_world) = Inl DbError \<and>
   map ic_status (incidents (db (snd (Transition 9 9 1 ''resolved'' [] None failing_world)))) = [''resolved''] \<and>
   map ic_status (incidents (db (snd (tx_commit (snd (Transition 9 9 1 ''resolved'' [] None failing_world)))))) = [''investigating'']"
proof -
  obtain t where "tx failing_world = Some t" "app_tenant_id (tx_session t) \<noteq> None"
    by (simp add: failing_world_def within_tenant_def)
  from incident_writes_all_or_nothing [OF this] show ?thesis
    by (intro conjI; (blast | code_simp))
qed

subsection \<open>Status changes\<close>

lemma find_incident_upd:
  "incident_keep f \<Longrightarrow> find_incident k (upd_incidents P f w) = map_option (\<lambda>r. if P r then f r else r) (find_incident k w)"
  unfolding find_incident_def by (simp add: visible_incidents_upd find_row_sql_update incident_keep_def)

lemma unique_incident:
  assumes "world_ok w" and "find_incident iid w = Some r" and "s \<in> set (incidents (db w))" and "ic_id s = iid"
  shows "s = r"
proof -
  from find_row_Some [OF assms(2) [unfolded find_incident_def]] have "r \<in> set (incidents (db w))" "ic_id r = iid"
    by (auto simp: visible_incidents_def)
  with assms show ?thesis by (auto simp: world_ok_def tables_ok_def intro: distinct_key_unique)
qed

lemma find_status:
  assumes "world_ok w" and "find_incident iid w = Some r"
  shows "find_row (\<lambda>s. ic_id s = iid \<and> ic_status s \<noteq> st) (visible_incidents w) = (if ic_status r = st then None else Some r)"
proof -
  from find_row_Some [OF assms(2) [unfolded find_incident_def]] have r: "r \<in> set (visible_incidents w)" "ic_id r = iid" by auto
  have u: "s = r" if "s \<in> set (visible_incidents w)" "ic_id s = iid" for s
    using that unique_incident [OF assms] by (auto simp: visible_incidents_def)
  show ?thesis
  proof (cases "find_row (\<lambda>s. ic_id s = iid \<and> ic_status s \<noteq> st) (visible_incidents w)")
    case None
    with r show ?thesis by (auto simp: find_row_None)
  next
    case (Some s)
    from find_row_Some [OF this] u [of s] Some show ?thesis by auto
  qed
qed

lemma healthy_insert_update:
  assumes "healthy w" and "\<exists>r\<in>set (incidents (db w)). ic_id r = iid"
  shows "insert_update iid body author ai created w =
    (let u = \<lparr>iu_ID = next_id w, iu_IncidentID = iid, iu_Body = body, iu_CreatedAt = created, iu_AuthorID = author, iu_IsAISummary = ai\<rparr>
     in (Inr u, add_update u w))"
  using assms by (auto simp: insert_update_def add_update_def Let_def)

text \<open>The timeline entries of a status change.\<close>

definition status_entries :: "time \<Rightarrow> time \<Rightarrow> uuid \<Rightarrow> string \<Rightarrow> string \<Rightarrow> uuid option \<Rightarrow> uuid \<Rightarrow> IncidentUpdate list" where
  "status_entries dbnow clock iid status note author n =
     \<lparr>iu_ID = n, iu_IncidentID = iid, iu_Body = ''Status changed to '' @ status, iu_CreatedAt = dbnow,
      iu_AuthorID = None, iu_IsAISummary = False\<rparr> #
     (if note = [] then [] else
       [\<lparr>iu_ID = Suc n, iu_IncidentID = iid, iu_Body = note, iu_CreatedAt = clock, iu_AuthorID = author, iu_IsAISummary = False\<rparr>])"

lemma transition_changes:
  assumes "in_tenant tenant w" and "world_ok w" and "find_incident iid w = Some r" and "ic_status r \<noteq> status"
  shows "transition dbnow clock iid status note author w =
    (Inr (scan_state (enter_status dbnow status r), True),
     fold add_update (status_entries dbnow clock iid status note author (next_id w))
       (upd_incidents (\<lambda>r. ic_id r = iid \<and> ic_status r \<noteq> status) (enter_status dbnow status) w))"
proof -
  let ?w = "upd_incidents (\<lambda>r. ic_id r = iid \<and> ic_status r \<noteq> status) (enter_status dbnow status) w"
  from find_row_Some [OF assms(3) [unfolded find_incident_def]]
  have r: "r \<in> set (incidents (db w))" "ic_id r = iid" by (auto simp: visible_incidents_def)
  then have e: "\<exists>r\<in>set (incidents (db ?w)). ic_id r = iid"
  proof -
    have "ic_id ` set (incidents (db ?w)) = ic_id ` set (incidents (db w))"
      by (simp add: upd_incidents_def key_image_sql_update enter_status_def)
    with r show ?thesis by (metis (no_types, lifting) imageE image_eqI)
  qed
  have h: "healthy ?w" "healthy w" using assms(1) by (simp_all add: in_tenant_def upd_incidents_def)
  have ha: "healthy (add_update u v) = healthy v" "incidents (db (add_update u v)) = incidents (db v)" "next_id (add_update u v) = Suc (next_id v)" for u v
    by (simp_all add: add_update_def healthy_def)
  show ?thesis
    unfolding transition_def
    by (simp add: h find_status [OF assms(2,3)] assms(4) healthy_insert_update [OF h(1) e] Let_def status_entries_def
        healthy_insert_update ha e)
qed

lemma fold_add_update:
  "find_incident k (fold add_update us w) = find_incident k w"
  "incident_updates (db (fold add_update us w)) = incident_updates (db w) @ us"
  "services (db (fold add_update us w)) = services (db w)"
  "incident_services (db (fold add_update us w)) = incident_services (db w)"
  "in_tenant tenant (fold add_update us w) = in_tenant tenant w"
proof -
  have a: "find_incident k (add_update u w) = find_incident k w" "in_tenant tenant (add_update u w) = in_tenant tenant w" for u w
    by (simp_all add: find_incident_def visible_incidents_def add_update_def in_tenant_def healthy_def pool_session_def
        visible_def rls_visible_def)
  show "find_incident k (fold add_update us w) = find_incident k w"
    "incident_updates (db (fold add_update us w)) = incident_updates (db w) @ us"
    "services (db (fold add_update us w)) = services (db w)"
    "incident_services (db (fold add_update us w)) = incident_services (db w)"
    "in_tenant tenant (fold add_update us w) = in_tenant tenant w"
    by (induction us arbitrary: w) (simp_all add: a, simp_all add: add_update_def)
qed

lemma in_tenant_upd [simp]: "in_tenant tenant (upd_incidents P f w) = in_tenant tenant w"
  by (simp add: in_tenant_def upd_incidents_def healthy_def pool_session_def)

lemma transition_same:
  assumes "in_tenant tenant w" and "world_ok w" and "find_incident iid w = Some r" and "ic_status r = status"
  shows "transition dbnow clock iid status note author w = (Inr (scan_state r, False), w)"
  unfolding transition_def
  using assms by (simp add: find_status in_tenant_pool_try)


definition open_down :: "(time \<times> repo_call) list" where
  "open_down = [(1, BeginTx 3), (2, DoServiceCreate (sample_service ''api'')), (3, DoIncidentCreate (sample_incident ''down'') [0])]"

lemma open_down_in_tenant:
  "in_tenant 3 (run_calls open_down fresh_world)" "world_ok (run_calls open_down fresh_world)"
proof -
  have "faults (run_calls open_down fresh_world) = [] \<and> \<not> bypass_rls (run_calls open_down fresh_world) \<and>
      map_option tx_aborted (tx (run_calls open_down fresh_world)) = Some False \<and>
      app_tenant_id (pool_session (run_calls open_down fresh_world)) = Some 3" by code_simp
  then show "in_tenant 3 (run_calls open_down fresh_world)"
    by (auto simp: in_tenant_def healthy_def split: option.splits)
  show "world_ok (run_calls open_down fresh_world)"
    by (rule run_calls_world_ok) (simp add: world_ok_def fresh_world_def tables_ok_def no_rows_def)
qed


subsection \<open>Closing comments\<close>

definition closed_with :: "time \<Rightarrow> incident_row \<Rightarrow> incident_row" where
  "closed_with dbnow r = (enter_status dbnow ''resolved'' r)\<lparr>ic_pending_close_comment := None\<rparr>"

lemma confirm_changes:
  assumes "in_tenant tenant w" and "find_incident iid w = Some r" and "ic_pending_close_comment r = Some expected"
  shows "confirmPendingClose dbnow iid expected w =
    (Inr (scan_confirmed (closed_with dbnow r)),
     add_update \<lparr>iu_ID = next_id w, iu_IncidentID = iid, iu_Body = expected, iu_CreatedAt = dbnow, iu_AuthorID = None,
       iu_IsAISummary = True\<rparr> (upd_incidents (\<lambda>r. ic_id r = iid) (closed_with dbnow) w))"
proof -
  let ?w = "upd_incidents (\<lambda>r. ic_id r = iid) (closed_with dbnow) w"
  from find_row_Some [OF assms(2) [unfolded find_incident_def]]
  have r: "r \<in> set (incidents (db w))" "ic_id r = iid" by (auto simp: visible_incidents_def)
  have "ic_id ` set (incidents (db ?w)) = ic_id ` set (incidents (db w))"
    by (simp add: upd_incidents_def key_image_sql_update enter_status_def closed_with_def)
  with r have e: "\<exists>r\<in>set (incidents (db ?w)). ic_id r = iid" by (metis (no_types, lifting) imageE image_eqI)
  have h: "healthy ?w" using assms(1) by (simp add: in_tenant_def upd_incidents_def)
  have c: "(\<lambda>r. (enter_status dbnow ''resolved'' r)\<lparr>ic_pending_close_comment := None\<rparr>) = closed_with dbnow"
    by (simp add: closed_with_def fun_eq_iff)
  show ?thesis
    unfolding confirmPendingClose_def in_tenant_pool_try [OF assms(1)] c Let_def
    by (simp add: assms healthy_insert_update [OF h e] Let_def)
qed

text \<open>A closing comment is applied only as the operator read it, and once.
  \<open>ConfirmPendingClose\<close> succeeds exactly when the incident has a proposed comment and it is the
  one passed: it then resolves the incident, clears the proposal and appends the comment as an AI
  entry without an author. With another proposal it reports \<open>ErrCloseProposalChanged\<close>, with none
  \<open>ErrNoPendingProposal\<close>, and changes nothing; a repeated confirmation is such a case.\<close>

theorem ConfirmPendingClose_applies_reviewed_comment:
  assumes "in_tenant tenant w" and "find_incident iid w = Some r"
  shows "case ic_pending_close_comment r of
      None \<Rightarrow> ConfirmPendingClose dbnow iid expected w = (Inl ErrNoPendingProposal, w)
    | Some c \<Rightarrow>
        if c \<noteq> expected then ConfirmPendingClose dbnow iid expected w = (Inl ErrCloseProposalChanged, w)
        else (\<exists>w'. ConfirmPendingClose dbnow iid expected w = (Inr (scan_confirmed (closed_with dbnow r)), w') \<and>
          find_incident iid w' = Some (closed_with dbnow r) \<and>
          incident_updates (db w') = incident_updates (db w) @ [\<lparr>iu_ID = next_id w, iu_IncidentID = iid, iu_Body = c,
            iu_CreatedAt = dbnow, iu_AuthorID = None, iu_IsAISummary = True\<rparr>] \<and>
          ConfirmPendingClose dbnow2 iid expected2 w' = (Inl ErrNoPendingProposal, w'))"
proof (cases "ic_pending_close_comment r")
  case None
  with assms show ?thesis
    by (simp add: ConfirmPendingClose_def in_tenant_run [OF assms(1)] confirmPendingClose_def in_tenant_pool_try [OF assms(1)])
next
  case (Some c)
  show ?thesis
  proof (cases "c = expected")
    case True
    define u where "u = \<lparr>iu_ID = next_id w, iu_IncidentID = iid, iu_Body = expected, iu_CreatedAt = dbnow, iu_AuthorID = None,
       iu_IsAISummary = True\<rparr>"
    define w' where "w' = add_update u (upd_incidents (\<lambda>r. ic_id r = iid) (closed_with dbnow) w)"
    have w': "w' = fold add_update [u] (upd_incidents (\<lambda>r. ic_id r = iid) (closed_with dbnow) w)" by (simp add: w'_def)
    from find_row_Some [OF assms(2) [unfolded find_incident_def]] have r: "ic_id r = iid" by simp
    have keep: "incident_keep (closed_with dbnow)" using ok.keep_close [of dbnow] by (simp add: closed_with_def [abs_def])
    have f: "find_incident iid w' = Some (closed_with dbnow r)"
      unfolding w' fold_add_update find_incident_upd [OF keep] using assms(2) r by simp
    have t: "in_tenant tenant w'" using assms(1) unfolding w' fold_add_update by simp
    have "ic_pending_close_comment (closed_with dbnow r) = None" by (simp add: closed_with_def)
    then have again: "ConfirmPendingClose dbnow2 iid expected2 w' = (Inl ErrNoPendingProposal, w')"
      by (simp add: ConfirmPendingClose_def in_tenant_run [OF t] confirmPendingClose_def in_tenant_pool_try [OF t] f)
    from confirm_changes [OF assms, of expected dbnow] Some True
    have "ConfirmPendingClose dbnow iid expected w = (Inr (scan_confirmed (closed_with dbnow r)), w')"
      unfolding ConfirmPendingClose_def w'_def u_def by (simp add: in_tenant_run [OF assms(1)])
    moreover have "incident_updates (db w') = incident_updates (db w) @ [u]"
      unfolding w' fold_add_update by (simp add: upd_incidents_def)
    ultimately show ?thesis using Some True f again unfolding u_def by auto
  next
    case False
    with Some assms(2) show ?thesis
      by (simp add: ConfirmPendingClose_def in_tenant_run [OF assms(1)] confirmPendingClose_def in_tenant_pool_try [OF assms(1)])
  qed
qed

definition proposed :: world where
  "proposed = run_calls [(5, DoSetPendingCloseComment 1 ''fixed'')] (run_calls open_down fresh_world)"

theorem ConfirmPendingClose_applies_reviewed_comment_witness:
  "\<exists>w'. fst (ConfirmPendingClose 9 1 ''other'' proposed) = Inl ErrCloseProposalChanged \<and>
     snd (ConfirmPendingClose 9 1 ''fixed'' proposed) = w' \<and>
     fst (ConfirmPendingClose 10 1 ''fixed'' w') = Inl ErrNoPendingProposal"
proof -
  have "faults proposed = [] \<and> \<not> bypass_rls proposed \<and> map_option tx_aborted (tx proposed) = Some False \<and>
      app_tenant_id (pool_session proposed) = Some 3" by code_simp
  then have t: "in_tenant 3 proposed" by (auto simp: in_tenant_def healthy_def split: option.splits)
  have "map_option ic_pending_close_comment (find_incident 1 proposed) = Some (Some ''fixed'')" by code_simp
  then obtain r where r: "find_incident 1 proposed = Some r" "ic_pending_close_comment r = Some ''fixed''" by auto
  from ConfirmPendingClose_applies_reviewed_comment [OF t r(1), of 9 "''other''"]
    ConfirmPendingClose_applies_reviewed_comment [OF t r(1), of 9 "''fixed''" 10 "''fixed''"] r(2)
  show ?thesis by auto
qed

text \<open>A comment proposed before an incident was closed by hand stays confirmable afterwards, and
  confirming it moves the recorded resolution time and adds a second closing entry: an incident
  resolved at time 6 is recorded as resolved at time 9.\<close>

theorem confirm_close_moves_resolution_time:
  "map ic_resolved_at (incidents (db (run_calls [(6, DoTransition 1 ''resolved'' [] None)] proposed))) = [Some 6] \<and>
   map ic_resolved_at (incidents (db (run_calls [(6, DoTransition 1 ''resolved'' [] None),
     (9, DoConfirmPendingClose 1 ''fixed'')] proposed))) = [Some 9]"
  by (intro conjI; code_simp)

subsection \<open>The enrichment's writes\<close>

lemma set_unresolved_frame:
  assumes "set_unresolved iid f w = (res, w')"
  shows "filter (\<lambda>r. ic_status r = ''resolved'') (incidents (db w')) =
      filter (\<lambda>r. ic_status r = ''resolved'') (incidents (db w)) \<or> (\<exists>r. ic_status (f r) \<noteq> ic_status r)"
proof (cases "\<exists>r. ic_status (f r) \<noteq> ic_status r")
  case False
  then have f: "ic_status (f r) = ic_status r" for r by simp
  have upd: "filter (\<lambda>r. ic_status r = ''resolved'') (incidents (db (upd_incidents (\<lambda>r. ic_id r = iid \<and> ic_status r \<noteq> ''resolved'') f v))) =
      filter (\<lambda>r. ic_status r = ''resolved'') (incidents (db v))" for v
    unfolding upd_incidents_def by simp (rule filter_sql_update_inv, simp add: f)
  from assms show ?thesis unfolding set_unresolved_def mustExist_def
    by (auto simp: same_dataD upd elim!: db_bind_cases pool_try_cases split: option.splits if_splits)
qed simp

text \<open>The enrichment does not write to a resolved incident. Whatever fails and in whatever
  state of the context's transaction, \<open>SetDescription\<close> and \<open>SetPendingCloseComment\<close> leave every
  resolved incident, its timeline and every service as they are; on a healthy connection they
  report \<open>ErrIncidentAlreadyResolved\<close> for a resolved incident.\<close>

theorem enrichment_spares_resolved_incidents:
  "filter (\<lambda>r. ic_status r = ''resolved'') (incidents (db (snd (SetDescription iid d w)))) =
     filter (\<lambda>r. ic_status r = ''resolved'') (incidents (db w)) \<and>
   filter (\<lambda>r. ic_status r = ''resolved'') (incidents (db (snd (SetPendingCloseComment iid d w)))) =
     filter (\<lambda>r. ic_status r = ''resolved'') (incidents (db w))"
proof -
  obtain a u b v where "SetDescription iid d w = (a, u)" "SetPendingCloseComment iid d w = (b, v)" by fastforce
  then show ?thesis
    using set_unresolved_frame [of iid "\<lambda>r. r\<lparr>ic_description := Some d\<rparr>" w a u]
      set_unresolved_frame [of iid "\<lambda>r. r\<lparr>ic_pending_close_comment := Some d\<rparr>" w b v]
    by (auto simp: SetDescription_def SetPendingCloseComment_def)
qed

subsection \<open>The public incident list\<close>

definition page_world :: world where
  "page_world =
     (let w = run_calls [(1, BeginTx 3), (2, DoServiceCreate (sample_service ''api'')), (3, DoServiceCreate (sample_service ''web'')),
        (4, DoIncidentCreate (sample_incident ''down'') [0, 1]), (5, DoTransition 2 ''resolved'' [] None)] fresh_world
      in w\<lparr>db := (db w)\<lparr>status_page_services := map (\<lambda>sid. \<lparr>pl_status_page_id = 8, pl_service_id = sid, pl_group_id = None, pl_parent_service_id = None, pl_position = 0\<rparr>) [0, 1]\<rparr>\<rparr>)"

text \<open>The total of the public list counts an incident once per affected service of the page: one
  resolved incident that affects two of the page's services is listed once and counted twice on
  the first page, and counted once when the requested page is empty.\<close>

theorem ListPublicForStatusPage_overcounts:
  "map_option (\<lambda>(act, res, n). (length act, length res, n)) (case fst (ListPublicForStatusPage 6 8 30 1 10 page_world) of Inr x \<Rightarrow> Some x | _ \<Rightarrow> None)
     = Some (0, 1, 2) \<and>
   map_option (\<lambda>(act, res, n). (length act, length res, n)) (case fst (ListPublicForStatusPage 6 8 30 2 10 page_world) of Inr x \<Rightarrow> Some x | _ \<Rightarrow> None)
     = Some (0, 0, 1)"
  by (intro conjI; code_simp)

end
