(* ===== verification/Accounts.thy ===== *)
theory Accounts
  imports Invariants
begin

text \<open>
  Users, tenants, memberships and notification preferences:
  \<open>internal/db/user_repository.go\<close>, \<open>tenant_repository.go\<close>, \<open>system_tenant_lister.go\<close>,
  \<open>tenant_membership_repository.go\<close> and \<open>notification_preference_repository.go\<close>.
  \<open>users\<close> and \<open>preferences\<close> carry no row-level security; a tenant is visible to its own session,
  a membership to its tenant's and to its user's. The logo, slug, locale, billing address and
  colours of a tenant are left out.
\<close>

subsection \<open>Users\<close>

definition update_user :: "uuid \<Rightarrow> (User \<Rightarrow> User) \<Rightarrow> world \<Rightarrow> unit db_result" where
  "update_user uid f w =
     pool_try w (\<lambda>w.
       if sql_count (\<lambda>u. u_ID u = uid) (users (db w)) = 0 then (Inl ErrNotFound, w)
       else (Inr (), set_db (\<lambda>d. d\<lparr>users := sql_update (\<lambda>u. u_ID u = uid) f (users d)\<rparr>) w))"

definition new_user :: "uuid \<Rightarrow> time \<Rightarrow> User \<Rightarrow> User" where
  "new_user iid dbnow u = u\<lparr>u_ID := iid, u_CreatedAt := dbnow, u_SessionsRevokedAt := None\<rparr>"

definition UserCreate :: "time \<Rightarrow> User \<Rightarrow> world \<Rightarrow> User db_result" where
  "UserCreate dbnow u w =
     pool_try w (\<lambda>w.
       if sql_count (\<lambda>v. u_Email v = u_Email u) (users (db w)) \<noteq> 0 then pool_refuse ErrDuplicateEmail w
       else (let row = new_user (next_id w) dbnow u
             in (Inr (u\<lparr>u_ID := u_ID row, u_CreatedAt := dbnow\<rparr>),
                 (set_db (\<lambda>d. d\<lparr>users := users d @ [row]\<rparr>) w)\<lparr>next_id := Suc (next_id w)\<rparr>)))"

definition find_user :: "(User \<Rightarrow> bool) \<Rightarrow> world \<Rightarrow> User db_result" where
  "find_user P w =
     pool_try w (\<lambda>w. case find_row P (users (db w)) of None \<Rightarrow> (Inl ErrNotFound, w) | Some u \<Rightarrow> (Inr u, w))"

definition GetByEmail :: "string \<Rightarrow> world \<Rightarrow> User db_result" where
  "GetByEmail email = find_user (\<lambda>u. u_Email u = email)"

definition GetByID :: "uuid \<Rightarrow> world \<Rightarrow> User db_result" where
  "GetByID uid = find_user (\<lambda>u. u_ID u = uid)"

definition UpdateName :: "uuid \<Rightarrow> string \<Rightarrow> world \<Rightarrow> unit db_result" where
  "UpdateName uid name = update_user uid (\<lambda>u. u\<lparr>u_Name := name\<rparr>)"

definition UpdatePasswordHash :: "uuid \<Rightarrow> string \<Rightarrow> world \<Rightarrow> unit db_result" where
  "UpdatePasswordHash uid hash = update_user uid (\<lambda>u. u\<lparr>u_PasswordHash := hash\<rparr>)"

definition RevokeSessions :: "time \<Rightarrow> uuid \<Rightarrow> world \<Rightarrow> unit db_result" where
  "RevokeSessions dbnow uid = update_user uid (\<lambda>u. u\<lparr>u_SessionsRevokedAt := Some dbnow\<rparr>)"

definition MarkEmailVerified :: "time \<Rightarrow> uuid \<Rightarrow> world \<Rightarrow> unit db_result" where
  "MarkEmailVerified dbnow uid = update_user uid (\<lambda>u. u\<lparr>u_EmailVerifiedAt := Some dbnow\<rparr>)"

text \<open>\<open>BootstrapFirst\<close> takes a table lock, counts the users and inserts in a transaction of its own.\<close>

definition BootstrapFirst :: "time \<Rightarrow> User \<Rightarrow> world \<Rightarrow> (User \<times> bool) db_result" where
  "BootstrapFirst dbnow u w =
     own_try w (\<lambda>w. own_try w (\<lambda>w. own_try w (\<lambda>w.
       if users (db w) \<noteq> [] then (Inr (u, False), w)
       else own_try w (\<lambda>w.
         let row = (new_user (next_id w) dbnow u)\<lparr>u_EmailVerifiedAt := Some dbnow\<rparr>;
             created = u\<lparr>u_ID := u_ID row, u_EmailVerifiedAt := Some dbnow, u_CreatedAt := dbnow\<rparr>
         in own_try (w\<lparr>next_id := Suc (next_id w)\<rparr>)
              (\<lambda>w. (Inr (created, True), own_commit (\<lambda>d. d\<lparr>users := users d @ [row]\<rparr>) w))))))"

subsection \<open>Tenants\<close>

definition legacyPlaceholderTenantID :: uuid where
  "legacyPlaceholderTenantID = 0"

definition TenantGet :: "uuid \<Rightarrow> world \<Rightarrow> Tenant db_result" where
  "TenantGet tid w =
     pool_try w (\<lambda>w. case find_row (\<lambda>t. visible w (t_ID t) \<and> t_ID t = tid) (tenants (db w)) of
         None \<Rightarrow> (Inl ErrNotFound, w) | Some t \<Rightarrow> (Inr t, w))"

definition new_tenant :: "time \<Rightarrow> Tenant \<Rightarrow> Tenant" where
  "new_tenant dbnow t =
     \<lparr>t_ID = t_ID t, t_Name = t_Name t, t_Plan = ''free'', t_Status = ''active'', t_ContactEmail = t_ContactEmail t,
      t_LegalName = None, t_TaxID = None, t_TaxIDType = None, t_Website = None, t_Timezone = None, t_DeletedAt = None,
      t_CreatedAt = dbnow, t_LastDigestSentAt = None, t_LogoContentType = None\<rparr>"

definition tenant_insert :: "time \<Rightarrow> Tenant \<Rightarrow> world \<Rightarrow> Tenant db_result" where
  "tenant_insert dbnow t w =
     pool_try w (\<lambda>w.
       if \<not> visible w (t_ID t) \<or> sql_count (\<lambda>s. t_ID s = t_ID t) (tenants (db w)) \<noteq> 0 then pool_fail w
       else (Inr (t\<lparr>t_Plan := ''free'', t_Status := ''active'', t_CreatedAt := dbnow\<rparr>),
             set_db (\<lambda>d. d\<lparr>tenants := tenants d @ [new_tenant dbnow t]\<rparr>) w))"

text \<open>An update of the tenant by its identifier, returning the updated row.\<close>

definition update_tenant :: "uuid \<Rightarrow> (Tenant \<Rightarrow> bool) \<Rightarrow> (Tenant \<Rightarrow> Tenant) \<Rightarrow> world \<Rightarrow> Tenant db_result" where
  "update_tenant tid P f w =
     pool_try w (\<lambda>w. case find_row (\<lambda>t. visible w (t_ID t) \<and> t_ID t = tid \<and> P t) (tenants (db w)) of
         None \<Rightarrow> (Inl ErrNotFound, w)
       | Some t \<Rightarrow> (Inr (f t),
           set_db (\<lambda>d. d\<lparr>tenants := sql_update (\<lambda>t. visible w (t_ID t) \<and> t_ID t = tid \<and> P t) f (tenants d)\<rparr>) w))"

definition is_digit :: "char \<Rightarrow> bool" where
  "is_digit c \<longleftrightarrow> of_char c \<in> {48 .. 57 :: nat}"

definition validateTaxID :: "string option \<Rightarrow> string option \<Rightarrow> bool" where
  "validateTaxID taxID taxIDType =
     (case (taxID, taxIDType) of
        (Some s, Some ty) \<Rightarrow>
          (let digits = length (filter is_digit s)
           in if ty = ''cpf'' then digits = 11 else if ty = ''cnpj'' then digits = 14 else False)
      | _ \<Rightarrow> True)"

record TenantUpdate =
  tu_Name :: "string option"
  tu_ContactEmail :: "string option"
  tu_LegalName :: "string option"
  tu_TaxID :: "string option"
  tu_TaxIDType :: "string option"
  tu_Website :: "string option"
  tu_Timezone :: "string option"

text \<open>\<open>COALESCE(new, old)\<close> for a mandatory and for a nullable column.\<close>

definition or_keep :: "'a option \<Rightarrow> 'a \<Rightarrow> 'a" where
  "or_keep new old = (case new of None \<Rightarrow> old | Some x \<Rightarrow> x)"

definition or_keep_null :: "'a option \<Rightarrow> 'a option \<Rightarrow> 'a option" where
  "or_keep_null new old = (case new of None \<Rightarrow> old | Some x \<Rightarrow> Some x)"

definition TenantUpdateOp :: "uuid \<Rightarrow> TenantUpdate \<Rightarrow> world \<Rightarrow> Tenant db_result" where
  "TenantUpdateOp tid u w =
     (if \<not> validateTaxID (tu_TaxID u) (tu_TaxIDType u) then (Inl ErrInvalidTaxID, w)
      else update_tenant tid (\<lambda>_. True) (\<lambda>t. t\<lparr>t_Name := or_keep (tu_Name u) (t_Name t),
             t_ContactEmail := or_keep (tu_ContactEmail u) (t_ContactEmail t),
             t_LegalName := or_keep_null (tu_LegalName u) (t_LegalName t),
             t_TaxID := or_keep_null (tu_TaxID u) (t_TaxID t), t_TaxIDType := or_keep_null (tu_TaxIDType u) (t_TaxIDType t),
             t_Website := or_keep_null (tu_Website u) (t_Website t),
             t_Timezone := or_keep_null (tu_Timezone u) (t_Timezone t)\<rparr>) w)"

definition TenantSoftDelete :: "time \<Rightarrow> uuid \<Rightarrow> world \<Rightarrow> unit db_result" where
  "TenantSoftDelete dbnow tid w =
     db_bind (update_tenant tid (\<lambda>t. t_Status t = ''active'')
                (\<lambda>t. t\<lparr>t_Status := ''deleted'', t_DeletedAt := Some dbnow\<rparr>) w) (\<lambda>_ w. (Inr (), w))"

definition MarkDigestSent :: "uuid \<Rightarrow> time \<Rightarrow> world \<Rightarrow> unit db_result" where
  "MarkDigestSent tid sent w =
     db_bind (update_tenant tid (\<lambda>_. True) (\<lambda>t. t\<lparr>t_LastDigestSentAt := Some sent\<rparr>) w) (\<lambda>_ w. (Inr (), w))"

text \<open>The query of \<open>TenantRepository.List\<close> over the tenants a session sees, and the enumeration of
  \<open>SystemTenantLister\<close>, whose own transaction sets \<open>app.is_system\<close>.\<close>

definition iterable_tenants :: "(Tenant \<Rightarrow> bool) \<Rightarrow> tables \<Rightarrow> Tenant list" where
  "iterable_tenants seen d =
     sort_key t_CreatedAt (filter (\<lambda>t. seen t \<and> t_Status t = ''active'' \<and> t_ID t \<noteq> legacyPlaceholderTenantID) (tenants d))"

definition TenantList :: "world \<Rightarrow> Tenant list db_result" where
  "TenantList w = pool_try w (\<lambda>w. (Inr (iterable_tenants (\<lambda>t. visible w (t_ID t)) (db w)), w))"

definition SystemTenantList :: "world \<Rightarrow> Tenant list db_result" where
  "SystemTenantList w =
     own_try w (\<lambda>w. own_try w (\<lambda>w. own_try w (\<lambda>w. (Inr (iterable_tenants (\<lambda>_. True) (db w)), w))))"

subsection \<open>Memberships\<close>

record TenantMembership =
  tm_UserID :: uuid
  tm_TenantID :: uuid
  tm_Role :: string
  tm_CreatedAt :: time
  tm_Name :: string
  tm_Plan :: string

record TenantMember =
  me_UserID :: uuid
  me_Email :: string
  me_Role :: string

definition RoleOwner :: string where "RoleOwner = ''owner''"
definition RoleOperator :: string where "RoleOperator = ''operator''"
definition RoleViewer :: string where "RoleViewer = ''viewer''"

text \<open>The policy of \<open>tenant_memberships\<close>.\<close>

definition mb_visible :: "world \<Rightarrow> membership_row \<Rightarrow> bool" where
  "mb_visible w m \<longleftrightarrow> bypass_rls w \<or> app_user_id (pool_session w) = Some (mb_user_id m) \<or>
     app_tenant_id (pool_session w) = Some (mb_tenant_id m)"

definition mb_key :: "membership_row \<Rightarrow> uuid \<times> uuid" where
  "mb_key m = (mb_user_id m, mb_tenant_id m)"

definition MembershipCreate :: "time \<Rightarrow> uuid \<Rightarrow> uuid \<Rightarrow> string \<Rightarrow> world \<Rightarrow> time db_result" where
  "MembershipCreate dbnow uid tid role w =
     pool_try w (\<lambda>w.
       let m = \<lparr>mb_user_id = uid, mb_tenant_id = tid, mb_role = role, mb_created_at = dbnow\<rparr>
       in if \<not> mb_visible w m \<or> role \<notin> {RoleOwner, RoleOperator, RoleViewer} then pool_fail w
          else if mb_key m \<in> mb_key ` set (memberships (db w)) then pool_refuse ErrDuplicateMembership w
          else if sql_count (\<lambda>u. u_ID u = uid) (users (db w)) = 0 \<or> sql_count (\<lambda>t. t_ID t = tid) (tenants (db w)) = 0 then pool_fail w
          else (Inr dbnow, set_db (\<lambda>d. d\<lparr>memberships := memberships d @ [m]\<rparr>) w))"

definition scan_membership :: "Tenant option \<Rightarrow> membership_row \<Rightarrow> TenantMembership" where
  "scan_membership t m =
     \<lparr>tm_UserID = mb_user_id m, tm_TenantID = mb_tenant_id m, tm_Role = mb_role m, tm_CreatedAt = mb_created_at m,
      tm_Name = (case t of None \<Rightarrow> [] | Some t \<Rightarrow> t_Name t), tm_Plan = (case t of None \<Rightarrow> [] | Some t \<Rightarrow> t_Plan t)\<rparr>"

text \<open>The join with \<open>tenants\<close> on an active tenant, both sides under row-level security.\<close>

definition active_tenant :: "world \<Rightarrow> uuid \<Rightarrow> Tenant option" where
  "active_tenant w tid = find_row (\<lambda>t. visible w (t_ID t) \<and> t_ID t = tid \<and> t_Status t = ''active'') (tenants (db w))"

definition ListForUser :: "uuid \<Rightarrow> world \<Rightarrow> TenantMembership list db_result" where
  "ListForUser uid w =
     pool_try w (\<lambda>w. (Inr (map (\<lambda>m. scan_membership (active_tenant w (mb_tenant_id m)) m)
       (sort_key mb_created_at (filter (\<lambda>m. mb_visible w m \<and> mb_user_id m = uid \<and> active_tenant w (mb_tenant_id m) \<noteq> None)
          (memberships (db w))))), w))"

definition ListForTenant :: "uuid \<Rightarrow> world \<Rightarrow> TenantMembership list db_result" where
  "ListForTenant tid w =
     pool_try w (\<lambda>w. (Inr (map (scan_membership None)
       (sort_key mb_created_at (filter (\<lambda>m. mb_visible w m \<and> mb_tenant_id m = tid) (memberships (db w))))), w))"

definition ListMembersWithEmail :: "uuid \<Rightarrow> world \<Rightarrow> TenantMember list db_result" where
  "ListMembersWithEmail tid w =
     pool_try w (\<lambda>w. (Inr (concat (map (\<lambda>m. map (\<lambda>u. \<lparr>me_UserID = mb_user_id m, me_Email = u_Email u, me_Role = mb_role m\<rparr>)
         (filter (\<lambda>u. u_ID u = mb_user_id m) (users (db w))))
       (sort_key mb_created_at (filter (\<lambda>m. mb_visible w m \<and> mb_tenant_id m = tid) (memberships (db w)))))), w))"

definition find_membership :: "uuid \<Rightarrow> uuid \<Rightarrow> world \<Rightarrow> membership_row option" where
  "find_membership uid tid w = find_row (\<lambda>m. mb_visible w m \<and> mb_key m = (uid, tid)) (memberships (db w))"

definition GetRole :: "uuid \<Rightarrow> uuid \<Rightarrow> world \<Rightarrow> string db_result" where
  "GetRole uid tid w =
     pool_try w (\<lambda>w. case find_membership uid tid w of
         None \<Rightarrow> (Inl ErrNotFound, w)
       | Some m \<Rightarrow> if active_tenant w tid = None then (Inl ErrNotFound, w) else (Inr (mb_role m), w))"

definition isLastOwner :: "uuid \<Rightarrow> world \<Rightarrow> bool db_result" where
  "isLastOwner tid w =
     pool_try w (\<lambda>w. (Inr (sql_count (\<lambda>m. mb_visible w m \<and> mb_tenant_id m = tid \<and> mb_role m = RoleOwner)
       (memberships (db w)) \<le> 1), w))"

definition refuse_last_owner :: "uuid \<Rightarrow> string \<Rightarrow> world \<Rightarrow> unit db_result" where
  "refuse_last_owner tid role w =
     (if role = RoleOwner then db_bind (isLastOwner tid w) (\<lambda>last w. if last then (Inl ErrLastOwner, w) else (Inr (), w))
      else (Inr (), w))"

definition UpdateRole :: "uuid \<Rightarrow> uuid \<Rightarrow> string \<Rightarrow> world \<Rightarrow> unit db_result" where
  "UpdateRole uid tid role w =
     db_bind (if role = RoleOwner then (Inr (), w)
              else db_bind (GetRole uid tid w) (\<lambda>current w. refuse_last_owner tid current w))
       (\<lambda>_ w. pool_try w (\<lambda>w.
          if find_membership uid tid w = None then (Inl ErrNotFound, w)
          else if role \<notin> {RoleOwner, RoleOperator, RoleViewer} then pool_fail w
          else (Inr (), set_db (\<lambda>d. d\<lparr>memberships := sql_update (\<lambda>m. mb_visible w m \<and> mb_key m = (uid, tid))
                                  (\<lambda>m. m\<lparr>mb_role := role\<rparr>) (memberships d)\<rparr>) w)))"

definition MembershipDelete :: "uuid \<Rightarrow> uuid \<Rightarrow> world \<Rightarrow> unit db_result" where
  "MembershipDelete uid tid w =
     db_bind (pool_try w (\<lambda>w. case find_membership uid tid w of
           None \<Rightarrow> (Inl ErrNotFound, w) | Some m \<Rightarrow> (Inr (mb_role m), w)))
       (\<lambda>role w. db_bind (refuse_last_owner tid role w)
       (\<lambda>_ w. pool_try w (\<lambda>w.
          if find_membership uid tid w = None then (Inl ErrNotFound, w)
          else (Inr (), set_db (\<lambda>d. d\<lparr>memberships := sql_delete (\<lambda>m. mb_visible w m \<and> mb_key m = (uid, tid))
                                  (memberships d)\<rparr>) w))))"

definition CountForUser :: "uuid \<Rightarrow> world \<Rightarrow> nat db_result" where
  "CountForUser uid w =
     pool_try w (\<lambda>w. (Inr (sql_count (\<lambda>m. mb_visible w m \<and> mb_user_id m = uid) (memberships (db w))), w))"

subsection \<open>Notification preferences\<close>

definition NotificationDefaultEnabled :: "string \<Rightarrow> bool" where
  "NotificationDefaultEnabled ty \<longleftrightarrow> ty \<in> {''incident_opened'', ''incident_resolved'', ''domain_expiring'', ''domain_ns_drift''}"

definition notification_types :: "string list" where
  "notification_types = [''incident_opened'', ''incident_resolved'', ''weekly_digest'', ''domain_expiring'', ''domain_ns_drift'']"

definition stored_preference :: "uuid \<Rightarrow> string \<Rightarrow> tables \<Rightarrow> bool option" where
  "stored_preference uid ty d =
     map_option np_enabled (find_row (\<lambda>p. np_user_id p = uid \<and> np_type p = ty) (preferences d))"

definition PreferencesGet :: "uuid \<Rightarrow> world \<Rightarrow> (string \<Rightarrow> bool option) db_result" where
  "PreferencesGet uid w = pool_try w (\<lambda>w. (Inr (\<lambda>ty. stored_preference uid ty (db w)), w))"

text \<open>\<open>INSERT ... ON CONFLICT (user_id, notification_type) DO UPDATE\<close> per entry.\<close>

definition put_preference :: "uuid \<Rightarrow> string \<Rightarrow> bool \<Rightarrow> tables \<Rightarrow> tables" where
  "put_preference uid ty e d =
     (if stored_preference uid ty d = None
      then d\<lparr>preferences := preferences d @ [\<lparr>np_user_id = uid, np_type = ty, np_enabled = e\<rparr>]\<rparr>
      else d\<lparr>preferences := sql_update (\<lambda>p. np_user_id p = uid \<and> np_type p = ty) (\<lambda>p. p\<lparr>np_enabled := e\<rparr>) (preferences d)\<rparr>)"

fun PreferencesUpsert :: "uuid \<Rightarrow> (string \<times> bool) list \<Rightarrow> world \<Rightarrow> unit db_result" where
  "PreferencesUpsert uid [] w = (Inr (), w)"
| "PreferencesUpsert uid ((ty, e) # vs) w =
     db_bind (pool_try w (\<lambda>w. if ty \<notin> set notification_types then pool_fail w
         else (Inr (), set_db (put_preference uid ty e) w)))
       (\<lambda>_ w. PreferencesUpsert uid vs w)"

definition ResolveEnabledForUsers :: "uuid list \<Rightarrow> string \<Rightarrow> world \<Rightarrow> (uuid \<Rightarrow> bool option) db_result" where
  "ResolveEnabledForUsers uids ty w =
     (if uids = [] then (Inr (\<lambda>_. None), w)
      else pool_try w (\<lambda>w. (Inr (\<lambda>uid. if uid \<notin> set uids then None
         else Some (or_keep (stored_preference uid ty (db w)) (NotificationDefaultEnabled ty))), w)))"

subsection \<open>A tenant keeps an owner\<close>

definition has_owner :: "uuid \<Rightarrow> tables \<Rightarrow> bool" where
  "has_owner tid d \<longleftrightarrow> (\<exists>m\<in>set (memberships d). mb_tenant_id m = tid \<and> mb_role m = RoleOwner)"

definition members_ok :: "tables \<Rightarrow> bool" where
  "members_ok d \<longleftrightarrow> distinct (map mb_key (memberships d))"

definition owned :: "uuid \<Rightarrow> tables \<Rightarrow> bool" where
  "owned tid d \<longleftrightarrow> members_ok d \<and> has_owner tid d"

definition owner_inv :: "uuid \<Rightarrow> world \<Rightarrow> bool" where
  "owner_inv tid w \<longleftrightarrow> owned tid (db w) \<and> (\<forall>t. tx w = Some t \<longrightarrow> owned tid (tx_begin t))"

interpretation own: db_invariant "owner_inv tid" for tid
proof unfold_locales
  fix w w' :: world assume "owner_inv tid w" and same: "same_data w w'"
  moreover from same have "map_option tx_begin (tx w') = map_option tx_begin (tx w)" by (simp add: same_data_def)
  ultimately show "owner_inv tid w'" using same_dataD(1) [OF same]
    by (cases "tx w"; cases "tx w'") (auto simp: owner_inv_def)
qed (auto simp: owner_inv_def tx_rollback_def split: option.splits)

lemma owner_inv_set_db:
  "owner_inv tid w \<Longrightarrow> owned tid (f (db w)) \<Longrightarrow> owner_inv tid (set_db f w)"
  by (simp add: owner_inv_def set_db_def)

lemma session_of_set_db [simp]: "session_of (set_db f w) = session_of w"
  by (simp add: session_of_def set_db_def)

lemma stays_set_db:
  "(owner_inv tid w \<Longrightarrow> owned tid (f (db w))) \<Longrightarrow> stays (owner_inv tid) w (r, set_db f w)"
  by (simp add: stays_def owner_inv_set_db)

lemma length_filter_mono: "(\<And>x. x \<in> set xs \<Longrightarrow> P x \<Longrightarrow> Q x) \<Longrightarrow> length (filter P xs) \<le> length (filter Q xs)"
  by (induction xs) (auto simp: le_SucI)

lemma other_row:
  assumes "distinct (map key rs)" and "1 < sql_count P rs"
  shows "\<exists>r\<in>set rs. P r \<and> key r \<noteq> k"
proof (rule ccontr)
  assume "\<not> ?thesis"
  then have "sql_count P rs \<le> length (filter (\<lambda>r. key r = k) rs)"
    unfolding sql_count_def by (intro length_filter_mono) auto
  with filter_key_le1 [OF assms(1), of k] assms(2) show False by simp
qed

lemma mb_key_role [simp]: "mb_key (m\<lparr>mb_role := r\<rparr>) = mb_key m" "mb_tenant_id (m\<lparr>mb_role := r\<rparr>) = mb_tenant_id m"
  by (simp_all add: mb_key_def)

lemma mb_visible_same: "same_data w v \<Longrightarrow> mb_visible v = mb_visible w"
  by (simp add: mb_visible_def fun_eq_iff same_dataD)

lemma find_membership_same: "same_data w v \<Longrightarrow> find_membership u t v = find_membership u t w"
  by (simp add: find_membership_def mb_visible_same same_dataD)

text \<open>What a passed last-owner check tells of the tables.\<close>

lemma refuse_last_owner_passed:
  assumes "refuse_last_owner tid role w = (Inr (), v)"
  shows "same_data w v" "role = RoleOwner \<Longrightarrow> 1 < sql_count (\<lambda>m. mb_tenant_id m = tid \<and> mb_role m = RoleOwner) (memberships (db w))"
proof -
  show "same_data w v"
    using assms unfolding refuse_last_owner_def isLastOwner_def
    by (auto elim!: db_bind_cases pool_try_cases split: if_splits intro: same_data_trans)
  assume "role = RoleOwner"
  with assms have "1 < sql_count (\<lambda>m. mb_visible w m \<and> mb_tenant_id m = tid \<and> mb_role m = RoleOwner) (memberships (db w))"
    unfolding refuse_last_owner_def isLastOwner_def
    by (auto elim!: db_bind_cases pool_try_cases split: if_splits simp: mb_visible_same same_dataD)
  also have "\<dots> \<le> sql_count (\<lambda>m. mb_tenant_id m = tid \<and> mb_role m = RoleOwner) (memberships (db w))"
    unfolding sql_count_def by (rule length_filter_mono) simp
  finally show "1 < sql_count (\<lambda>m. mb_tenant_id m = tid \<and> mb_role m = RoleOwner) (memberships (db w))" .
qed

lemma keeps_other_owner:
  assumes "owned tid d" and "find_row (\<lambda>m. V m \<and> mb_key m = (u, t)) (memberships d) = Some m"
    and "mb_role m = RoleOwner \<Longrightarrow> 1 < sql_count (\<lambda>m. mb_tenant_id m = t \<and> mb_role m = RoleOwner) (memberships d)"
  shows "\<exists>r\<in>set (memberships d). mb_tenant_id r = tid \<and> mb_role r = RoleOwner \<and> mb_key r \<noteq> (u, t)"
proof (cases "tid = t \<and> mb_role m = RoleOwner")
  case True
  with assms(1,3) other_row [of mb_key "memberships d" "\<lambda>m. mb_tenant_id m = t \<and> mb_role m = RoleOwner" "(u, t)"]
  show ?thesis by (auto simp: owned_def members_ok_def)
next
  case False
  from find_row_Some [OF assms(2)] have m: "m \<in> set (memberships d)" "mb_key m = (u, t)" by auto
  from assms(1) obtain r where r: "r \<in> set (memberships d)" "mb_tenant_id r = tid" "mb_role r = RoleOwner"
    by (auto simp: owned_def has_owner_def)
  have "mb_key r \<noteq> (u, t)"
  proof
    assume "mb_key r = (u, t)"
    with m r assms(1) have "r = m" using distinct_key_unique [of mb_key "memberships d" r m] by (simp add: owned_def members_ok_def)
    with False r \<open>mb_key r = (u, t)\<close> show False by (simp add: mb_key_def)
  qed
  with r show ?thesis by blast
qed

lemma owned_update_other:
  assumes "owned tid d" and "r \<in> set (memberships d)" and "mb_tenant_id r = tid" and "mb_role r = RoleOwner" and "mb_key r \<noteq> k"
  shows "owned tid (d\<lparr>memberships := sql_update (\<lambda>m. V m \<and> mb_key m = k) (\<lambda>m. m\<lparr>mb_role := role\<rparr>) (memberships d)\<rparr>)"
    "owned tid (d\<lparr>memberships := sql_delete (\<lambda>m. V m \<and> mb_key m = k) (memberships d)\<rparr>)"
proof -
  have "r \<in> set (sql_update (\<lambda>m. V m \<and> mb_key m = k) (\<lambda>m. m\<lparr>mb_role := role\<rparr>) (memberships d))"
    using assms(2,5) by (auto simp: set_sql_update image_iff intro!: bexI [of _ r])
  with assms show "owned tid (d\<lparr>memberships := sql_update (\<lambda>m. V m \<and> mb_key m = k) (\<lambda>m. m\<lparr>mb_role := role\<rparr>) (memberships d)\<rparr>)"
    by (auto simp: owned_def members_ok_def has_owner_def map_sql_update_inv)
  from assms show "owned tid (d\<lparr>memberships := sql_delete (\<lambda>m. V m \<and> mb_key m = k) (memberships d)\<rparr>)"
    by (auto simp: owned_def members_ok_def has_owner_def sql_delete_def distinct_map_filter)
qed

lemma owned_promote:
  assumes "owned tid d"
  shows "owned tid (d\<lparr>memberships := sql_update Q (\<lambda>m. m\<lparr>mb_role := RoleOwner\<rparr>) (memberships d)\<rparr>)"
proof -
  from assms obtain r where r: "r \<in> set (memberships d)" "mb_tenant_id r = tid" "mb_role r = RoleOwner"
    by (auto simp: owned_def has_owner_def)
  then have "r\<lparr>mb_role := RoleOwner\<rparr> = r" by simp
  with r have "r \<in> set (sql_update Q (\<lambda>m. m\<lparr>mb_role := RoleOwner\<rparr>) (memberships d))"
    by (auto simp: set_sql_update image_iff intro!: bexI [of _ r])
  with r assms show ?thesis by (auto simp: owned_def members_ok_def has_owner_def map_sql_update_inv)
qed

lemma owned_change:
  assumes "owned tid d" and "find_row (\<lambda>m. V m \<and> mb_key m = (u, t)) (memberships d) = Some m"
    and "mb_role m = RoleOwner \<Longrightarrow> 1 < sql_count (\<lambda>m. mb_tenant_id m = t \<and> mb_role m = RoleOwner) (memberships d)"
  shows "owned tid (d\<lparr>memberships := sql_update (\<lambda>m. V m \<and> mb_key m = (u, t)) (\<lambda>m. m\<lparr>mb_role := role\<rparr>) (memberships d)\<rparr>)"
    "owned tid (d\<lparr>memberships := sql_delete (\<lambda>m. V m \<and> mb_key m = (u, t)) (memberships d)\<rparr>)"
proof -
  from keeps_other_owner [OF assms] obtain r where "r \<in> set (memberships d)" "mb_tenant_id r = tid" "mb_role r = RoleOwner" "mb_key r \<noteq> (u, t)"
    by blast
  from owned_update_other [OF assms(1) this] show
    "owned tid (d\<lparr>memberships := sql_update (\<lambda>m. V m \<and> mb_key m = (u, t)) (\<lambda>m. m\<lparr>mb_role := role\<rparr>) (memberships d)\<rparr>)"
    "owned tid (d\<lparr>memberships := sql_delete (\<lambda>m. V m \<and> mb_key m = (u, t)) (memberships d)\<rparr>)" .
qed

lemma stays_refuse_last_owner [simp]: "stays (owner_inv tid) w (refuse_last_owner t role w)"
  unfolding refuse_last_owner_def isLastOwner_def by (auto intro!: own.stays_db_bind own.stays_pool_try)

lemma stays_GetRole [simp]: "stays (owner_inv tid) w (GetRole u t w)"
  unfolding GetRole_def by (auto intro!: own.stays_pool_try split: option.splits)

lemma stays_refused [simp]: "stays (owner_inv tid) w (pool_refuse e w)"
  by (simp add: pool_refuse_def own.stays_same)

lemma stays_MembershipCreate: "stays (owner_inv tid) w (MembershipCreate dbnow u t role w)"
  unfolding MembershipCreate_def Let_def
proof (rule own.stays_pool_try, goal_cases)
  case (1 v)
  then show ?case
    by (auto simp: owner_inv_def owned_def members_ok_def has_owner_def intro!: stays_set_db)
qed

lemma stays_MembershipDelete: "stays (owner_inv tid) w (MembershipDelete u t w)"
  unfolding MembershipDelete_def
proof (rule own.stays_db_bind, goal_cases)
  case 1
  show ?case by (auto intro!: own.stays_pool_try split: option.splits)
next
  case (2 role v)
  then obtain m where m: "find_membership u t v = Some m" "mb_role m = role"
    by (auto elim!: pool_try_cases split: option.splits)
  show ?case
  proof (rule own.stays_db_bind, simp, rule own.stays_pool_try, goal_cases)
    case (1 a w1 w2)
    have passed: "refuse_last_owner t role v = (Inr (), w1)" using 1(1) by simp
    have same: "same_data v w2" using refuse_last_owner_passed(1) [OF passed] 1(2) by (rule same_data_trans)
    have count: "role = RoleOwner \<Longrightarrow> 1 < sql_count (\<lambda>m. mb_tenant_id m = t \<and> mb_role m = RoleOwner) (memberships (db w2))"
      using refuse_last_owner_passed(2) [OF passed] same_dataD(1) [OF same] by simp
    have f: "find_row (\<lambda>m. mb_visible w2 m \<and> mb_key m = (u, t)) (memberships (db w2)) = Some m"
      using m(1) find_membership_same [OF same] unfolding find_membership_def by metis
    have "owned tid (db w2) \<Longrightarrow> owned tid ((db w2)\<lparr>memberships := sql_delete (\<lambda>m. mb_visible w2 m \<and> mb_key m = (u, t)) (memberships (db w2))\<rparr>)"
      by (rule owned_change(2) [OF _ f]) (use count m(2) in auto)
    then show ?case by (auto simp: owner_inv_def intro!: stays_set_db)
  qed
qed

lemma stays_UpdateRole: "stays (owner_inv tid) w (UpdateRole u t role w)"
  unfolding UpdateRole_def
proof (rule own.stays_db_bind, goal_cases)
  case 1
  show ?case by (auto intro!: own.stays_db_bind)
next
  case (2 x v)
  show ?case
  proof (rule own.stays_pool_try, goal_cases)
    case (1 w2)
    show ?case
    proof (cases "role = RoleOwner")
      case True
      then show ?thesis by (auto intro!: stays_set_db owned_promote simp: owner_inv_def)
    next
      case False
      with 2 obtain m w1 where m: "find_membership u t w1 = Some m" "refuse_last_owner t (mb_role m) w1 = (Inr (), v)"
        by (auto simp: GetRole_def elim!: db_bind_cases pool_try_cases split: option.splits if_splits)
      have same: "same_data w1 w2" using refuse_last_owner_passed(1) [OF m(2)] 1 by (rule same_data_trans)
      have count: "mb_role m = RoleOwner \<Longrightarrow> 1 < sql_count (\<lambda>m. mb_tenant_id m = t \<and> mb_role m = RoleOwner) (memberships (db w2))"
        using refuse_last_owner_passed(2) [OF m(2)] same_dataD(1) [OF same] by simp
      have f: "find_row (\<lambda>m. mb_visible w2 m \<and> mb_key m = (u, t)) (memberships (db w2)) = Some m"
        using m(1) find_membership_same [OF same] unfolding find_membership_def by metis
      have "owned tid (db w2) \<Longrightarrow> owned tid ((db w2)\<lparr>memberships := sql_update (\<lambda>m. mb_visible w2 m \<and> mb_key m = (u, t)) (\<lambda>m. m\<lparr>mb_role := role\<rparr>) (memberships (db w2))\<rparr>)"
        by (rule owned_change(1) [OF _ f]) (use count in auto)
      then show ?thesis by (auto simp: owner_inv_def intro!: stays_set_db)
    qed
  qed
qed

text \<open>Any use of the membership operations, in sessions of any user and tenant.\<close>

datatype member_call =
    OpenTx "uuid option" "uuid option" | EndTx bool
  | AddMember uuid uuid string | ChangeRole uuid uuid string | RemoveMember uuid uuid

fun run_member_call :: "time \<Rightarrow> member_call \<Rightarrow> world \<Rightarrow> world" where
  "run_member_call t (OpenTx u tid) w = (if tx w = None then snd (BeginTenantTx u tid w) else w)"
| "run_member_call t (EndTx commit) w = (if commit then snd (tx_commit w) else tx_rollback w)"
| "run_member_call t (AddMember u tid role) w = snd (MembershipCreate t u tid role w)"
| "run_member_call t (ChangeRole u tid role) w = snd (UpdateRole u tid role w)"
| "run_member_call t (RemoveMember u tid) w = snd (MembershipDelete u tid w)"

definition run_member_calls :: "(time \<times> member_call) list \<Rightarrow> world \<Rightarrow> world" where
  "run_member_calls cs w = fold (\<lambda>(t, c). run_member_call t c) cs w"

lemma owner_inv_end: "owner_inv tid w \<Longrightarrow> owner_inv tid (tx_rollback w)" "owner_inv tid w \<Longrightarrow> owner_inv tid (snd (tx_commit w))"
proof -
  assume w: "owner_inv tid w"
  then show "owner_inv tid (tx_rollback w)" by (auto simp: owner_inv_def tx_rollback_def split: option.splits)
  show "owner_inv tid (snd (tx_commit w))"
  proof (cases "tx w")
    case None
    with w show ?thesis by (simp add: tx_commit_def)
  next
    case (Some t)
    obtain r w' where c: "tx_commit w = (r, w')" by fastforce
    show ?thesis
    proof (cases r)
      case (Inl e)
      with tx_commit_err [of w e w' t] c Some w show ?thesis by (simp add: owner_inv_def)
    next
      case (Inr x)
      with tx_commit_ok [of w w'] c w show ?thesis by (simp add: owner_inv_def)
    qed
  qed
qed

lemma owner_inv_begin: "owner_inv tid w \<Longrightarrow> tx w = None \<Longrightarrow> owner_inv tid (snd (BeginTenantTx u t w))"
proof -
  assume w: "owner_inv tid w" "tx w = None"
  obtain r w' where b: "BeginTenantTx u t w = (r, w')" by fastforce
  then show ?thesis
    using w BeginTenantTx_ok [of u t w w'] BeginTenantTx_err [of u t w _ w'] same_dataD(1) [of w w']
    by (cases r) (auto simp: owner_inv_def)
qed

lemma run_member_call_owned: "owner_inv tid w \<Longrightarrow> owner_inv tid (run_member_call t c w)"
  by (cases c)
    (auto intro: owner_inv_end owner_inv_begin dest: stays_snd [OF stays_MembershipCreate] stays_snd [OF stays_UpdateRole]
      stays_snd [OF stays_MembershipDelete])

text \<open>C18. A tenant keeps an owner. From tables where memberships are unique and the tenant has an
  owner, any sequence of adding members, changing roles and removing members, of any tenants and
  in transactions of any sessions, committed or rolled back, and with any statement failing,
  leaves the tenant with an owner.\<close>

theorem tenant_keeps_an_owner:
  assumes "members_ok (db w)" and "has_owner tid (db w)" and "tx w = None"
  shows "members_ok (db (run_member_calls cs w)) \<and> has_owner tid (db (run_member_calls cs w))"
proof -
  from assms have "owner_inv tid w" by (simp add: owner_inv_def owned_def)
  then have "owner_inv tid (run_member_calls cs w)"
    unfolding run_member_calls_def by (induction cs arbitrary: w) (auto simp: run_member_call_owned)
  then show ?thesis by (simp add: owner_inv_def owned_def)
qed

definition sample_user :: "string \<Rightarrow> User" where
  "sample_user email = \<lparr>u_ID = 0, u_Email = email, u_PasswordHash = ''h'', u_Name = [], u_Phone = None, u_SessionsRevokedAt = None,
     u_EmailVerifiedAt = Some 0, u_CreatedAt = 0\<rparr>"

definition sample_tenant :: Tenant where
  "sample_tenant = new_tenant 0 \<lparr>t_ID = 3, t_Name = ''acme'', t_Plan = [], t_Status = [], t_ContactEmail = [], t_LegalName = None,
     t_TaxID = None, t_TaxIDType = None, t_Website = None, t_Timezone = None, t_DeletedAt = None, t_CreatedAt = 0, t_LastDigestSentAt = None, t_LogoContentType = None\<rparr>"

definition two_owners :: world where
  "two_owners = fresh_world\<lparr>db := no_rows\<lparr>users := [(sample_user ''a'')\<lparr>u_ID := 1\<rparr>, (sample_user ''b'')\<lparr>u_ID := 2\<rparr>],
     tenants := [sample_tenant],
     memberships := map (\<lambda>u. \<lparr>mb_user_id = u, mb_tenant_id = 3, mb_role = RoleOwner, mb_created_at = 0\<rparr>) [1, 2]\<rparr>\<rparr>"

definition owner_calls :: "(time \<times> member_call) list" where
  "owner_calls = [(1, OpenTx None (Some 3)), (2, RemoveMember 1 3), (3, RemoveMember 2 3), (4, EndTx True)]"

theorem tenant_keeps_an_owner_witness:
  "has_owner 3 (db (run_member_calls owner_calls two_owners)) \<and>
   map mb_user_id (memberships (db (run_member_calls owner_calls two_owners))) = [2]"
proof -
  have "members_ok (db two_owners)" by (simp add: two_owners_def members_ok_def mb_key_def)
  moreover have "has_owner 3 (db two_owners)" by (simp add: two_owners_def has_owner_def)
  moreover have "tx two_owners = None" by (simp add: two_owners_def fresh_world_def)
  ultimately have "has_owner 3 (db (run_member_calls owner_calls two_owners))"
    by (rule conjunct2 [OF tenant_keeps_an_owner])
  moreover have "map mb_user_id (memberships (db (run_member_calls owner_calls two_owners))) = [2]" by code_simp
  ultimately show ?thesis by blast
qed

lemma bootstrap_again: "faults w = [] \<Longrightarrow> users (db w) \<noteq> [] \<Longrightarrow> fst (BootstrapFirst t u w) = Inr (u, False)"
  by (simp add: BootstrapFirst_def own_try_def own_exec_def)

lemma bootstrap_cases:
  assumes "BootstrapFirst t u w = (r, w')"
  shows "(\<exists>e. r = Inl e \<and> db w' = db w) \<or> (r = Inr (u, False) \<and> users (db w) \<noteq> [] \<and> db w' = db w) \<or>
    (\<exists>c row. r = Inr (c, True) \<and> users (db w) = [] \<and> users (db w') = [row] \<and> row = c\<lparr>u_SessionsRevokedAt := None\<rparr> \<and>
       u_Email c = u_Email u \<and> u_PasswordHash c = u_PasswordHash u \<and> u_EmailVerifiedAt c = Some t)"
  using assms unfolding BootstrapFirst_def
  by (auto simp: Let_def own_commit_def new_user_def same_dataD(1) elim!: own_try_cases split: if_splits)

text \<open>Bootstrap creates the first user and no other. \<open>BootstrapFirst\<close> creates a user exactly when
  there is none, with the given email and password hash and verified at once; when there is a
  user, or when any of its statements fails, the tables stay as they are.\<close>

theorem bootstrap_creates_only_the_first_user:
  "case BootstrapFirst t u w of
     (Inr (c, True), w') \<Rightarrow> users (db w) = [] \<and> users (db w') = [c\<lparr>u_SessionsRevokedAt := None\<rparr>] \<and>
        u_Email c = u_Email u \<and> u_PasswordHash c = u_PasswordHash u \<and> u_EmailVerifiedAt c = Some t \<and>
        fst (BootstrapFirst t2 u2 (w'\<lparr>faults := []\<rparr>)) = Inr (u2, False)
   | (Inr (c, False), w') \<Rightarrow> users (db w) \<noteq> [] \<and> db w' = db w
   | (Inl e, w') \<Rightarrow> db w' = db w"
proof (cases "BootstrapFirst t u w")
  case (Pair r w')
  from bootstrap_cases [OF Pair] show ?thesis
  proof (elim disjE exE conjE)
    fix c row
    assume *: "r = Inr (c, True)" "users (db w) = []" "users (db w') = [row]" "row = c\<lparr>u_SessionsRevokedAt := None\<rparr>"
      "u_Email c = u_Email u" "u_PasswordHash c = u_PasswordHash u" "u_EmailVerifiedAt c = Some t"
    with bootstrap_again [of "w'\<lparr>faults := []\<rparr>" t2 u2] show ?thesis unfolding Pair by simp
  qed (auto simp: Pair)
qed

text \<open>A session without a tenant sees no membership joined with its tenant: \<open>tenants\<close> is visible to the
  tenant's own session only.\<close>

lemma ListForUser_own_tenant:
  assumes "\<not> bypass_rls w" and "ListForUser uid w = (Inr ms, w')" and "m \<in> set ms"
  shows "app_tenant_id (pool_session w) = Some (tm_TenantID m)"
proof -
  obtain v where v: "same_data w v" and ms: "ms = map (\<lambda>m. scan_membership (active_tenant v (mb_tenant_id m)) m)
       (sort_key mb_created_at (filter (\<lambda>m. mb_visible v m \<and> mb_user_id m = uid \<and> active_tenant v (mb_tenant_id m) \<noteq> None)
          (memberships (db v))))"
    using assms(2) unfolding ListForUser_def by (auto elim!: pool_try_cases)
  from ms assms(3) obtain r where "m = scan_membership (active_tenant v (mb_tenant_id r)) r" and a: "active_tenant v (mb_tenant_id r) \<noteq> None"
    by auto
  then have r: "tm_TenantID m = mb_tenant_id r" by (simp add: scan_membership_def)
  from a obtain t where t: "active_tenant v (mb_tenant_id r) = Some t" by auto
  from find_row_Some [OF t [unfolded active_tenant_def]] have "visible v (t_ID t)" "t_ID t = mb_tenant_id r" by blast+
  with assms(1) r same_dataD(3,5) [OF v] show ?thesis by (simp add: visible_def rls_visible_def)
qed

lemma stored_put:
  "stored_preference u ty (put_preference uid ty' e d) = (if u = uid \<and> ty = ty' then Some e else stored_preference u ty d)"
proof (cases "stored_preference uid ty' d")
  case None
  then have "find_row (\<lambda>p. np_user_id p = uid \<and> np_type p = ty') (preferences d) = None" by (simp add: stored_preference_def)
  with None show ?thesis
    by (auto simp: put_preference_def stored_preference_def find_row_append split: option.splits)
next
  case (Some x)
  then obtain p where p: "find_row (\<lambda>p. np_user_id p = uid \<and> np_type p = ty') (preferences d) = Some p"
    by (auto simp: stored_preference_def)
  have "find_row (\<lambda>p. np_user_id p = u \<and> np_type p = ty) (sql_update (\<lambda>p. np_user_id p = uid \<and> np_type p = ty') (\<lambda>p. p\<lparr>np_enabled := e\<rparr>) (preferences d)) =
    map_option (\<lambda>p. if np_user_id p = uid \<and> np_type p = ty' then p\<lparr>np_enabled := e\<rparr> else p) (find_row (\<lambda>p. np_user_id p = u \<and> np_type p = ty) (preferences d))"
    by (rule find_row_sql_update) simp
  then have q: "stored_preference u ty (put_preference uid ty' e d) = map_option np_enabled
      (map_option (\<lambda>p. if np_user_id p = uid \<and> np_type p = ty' then p\<lparr>np_enabled := e\<rparr> else p) (find_row (\<lambda>p. np_user_id p = u \<and> np_type p = ty) (preferences d)))"
    using Some p by (simp add: put_preference_def stored_preference_def)
  show ?thesis
  proof (cases "u = uid \<and> ty = ty'")
    case True
    with q p find_row_Some [OF p] show ?thesis by simp
  next
    case False
    show ?thesis
    proof (cases "find_row (\<lambda>p. np_user_id p = u \<and> np_type p = ty) (preferences d)")
      case None
      with q False show ?thesis by (simp add: stored_preference_def)
    next
      case (Some r)
      from find_row_Some [OF this] False have "\<not> (np_user_id r = uid \<and> np_type r = ty')" by auto
      with q Some have "stored_preference u ty (put_preference uid ty' e d) = stored_preference u ty d"
        by (simp add: stored_preference_def)
      with False show ?thesis by auto
    qed
  qed
qed

lemma PreferencesUpsert_stores:
  "PreferencesUpsert uid vs w = (Inr (), w') \<Longrightarrow>
   stored_preference u ty (db w') =
     (case map_of (rev vs) ty of Some e \<Rightarrow> if u = uid then Some e else stored_preference u ty (db w)
      | None \<Rightarrow> stored_preference u ty (db w))"
proof (induction vs arbitrary: w)
  case (Cons v vs)
  obtain ty' e where v: "v = (ty', e)" by fastforce
  obtain w1 where w1: "same_data w w1" "PreferencesUpsert uid vs (set_db (put_preference uid ty' e) w1) = (Inr (), w')"
    using Cons.prems v by (auto simp: pool_fail_def elim!: db_bind_cases pool_try_cases split: if_splits)
  have "db (set_db (put_preference uid ty' e) w1) = put_preference uid ty' e (db w)"
    by (simp add: set_db_def same_dataD(1) [OF w1(1)])
  with Cons.IH [OF w1(2)] v show ?case
    by (auto simp: stored_put map_add_def split: option.splits)
qed simp

text \<open>Preferences read back as they were set. After a successful \<open>Upsert\<close> a user's
  preferences are the last value given for each type and what was stored before for the others,
  no other user's change, and resolving them for sending uses the stored value and else the
  default of the type.\<close>

theorem preferences_roundtrip:
  assumes "PreferencesUpsert uid vs w = (Inr (), w')" and "healthy w'"
  shows "fst (PreferencesGet u w') = Inr (\<lambda>ty.
      if u = uid \<and> map_of (rev vs) ty \<noteq> None then map_of (rev vs) ty else stored_preference u ty (db w)) \<and>
    fst (ResolveEnabledForUsers [u] ty w') = Inr (\<lambda>x. if x \<noteq> u then None else Some (
      or_keep (if u = uid \<and> map_of (rev vs) ty \<noteq> None then map_of (rev vs) ty else stored_preference u ty (db w))
        (NotificationDefaultEnabled ty)))"
  using PreferencesUpsert_stores [OF assms(1)] assms(2)
  by (auto simp: PreferencesGet_def ResolveEnabledForUsers_def fun_eq_iff split: option.splits)

theorem preferences_roundtrip_witness:
  "\<exists>w'. PreferencesUpsert 1 [(''weekly_digest'', True)] fresh_world = (Inr (), w') \<and>
     fst (ResolveEnabledForUsers [1] ''weekly_digest'' w') = Inr (\<lambda>x. if x \<noteq> 1 then None else Some True) \<and>
     fst (ResolveEnabledForUsers [2] ''weekly_digest'' w') = Inr (\<lambda>x. if x \<noteq> 2 then None else Some False)"
proof -
  obtain w' where w: "PreferencesUpsert 1 [(''weekly_digest'', True)] fresh_world = (Inr (), w')"
    by (simp add: notification_types_def)
  then have "healthy w'" by (auto simp: notification_types_def set_db_def)
  from preferences_roundtrip [OF w this, of 1 "''weekly_digest''"] preferences_roundtrip [OF w this, of 2 "''weekly_digest''"] w
  show ?thesis
    by (auto simp: or_keep_def stored_preference_def fresh_world_def no_rows_def NotificationDefaultEnabled_def)
qed

end
