(* ===== verification/Auth_Store.thy ===== *)
theory Auth_Store
  imports Accounts
begin

text \<open>
  The stores of the login: \<open>internal/db/session_repository.go\<close>, \<open>two_factor_repository.go\<close>,
  \<open>two_factor_challenge_repository.go\<close> and \<open>password_reset_repository.go\<close>. None of these tables
  carries row-level security.

  \<open>auth_edit\<close> is the relation every write of these stores, and every update of a user, stays in:
  what it may do to the tables of the login at a database time \<open>t\<close>. The locale \<open>lasting\<close> is the
  contract of a property of the tables that no edit ends; it gives a \<open>db_invariant\<close> and is
  interpreted on revoked sessions, spent challenges, recovery codes and reset tokens.
\<close>

subsection \<open>Sessions\<close>

definition SessionTTL :: duration where
  "SessionTTL = 24 * hour"

definition user_exists :: "uuid \<Rightarrow> tables \<Rightarrow> bool" where
  "user_exists uid d \<longleftrightarrow> sql_count (\<lambda>u. u_ID u = uid) (users d) \<noteq> 0"

definition new_session :: "uuid \<Rightarrow> time \<Rightarrow> uuid \<Rightarrow> string \<Rightarrow> string \<Rightarrow> Session" where
  "new_session sid dbnow uid ua ip =
     \<lparr>ss_ID = sid, ss_UserID = uid, ss_UserAgent = nullif_empty ua, ss_IP = nullif_empty ip, ss_CreatedAt = dbnow,
      ss_LastSeenAt = None, ss_RevokedAt = None\<rparr>"

definition SessionCreate :: "time \<Rightarrow> uuid \<Rightarrow> string \<Rightarrow> string \<Rightarrow> world \<Rightarrow> uuid db_result" where
  "SessionCreate dbnow uid ua ip w =
     pool_try w (\<lambda>w. if \<not> user_exists uid (db w) then pool_fail w
       else (Inr (next_id w),
         (set_db (\<lambda>d. d\<lparr>sessions := sessions d @ [new_session (next_id w) dbnow uid ua ip]\<rparr>) w)\<lparr>next_id := Suc (next_id w)\<rparr>))"

definition find_session :: "(Session \<Rightarrow> bool) \<Rightarrow> world \<Rightarrow> Session db_result" where
  "find_session P w =
     pool_try w (\<lambda>w. case find_row P (sessions (db w)) of None \<Rightarrow> (Inl ErrNotFound, w) | Some s \<Rightarrow> (Inr s, w))"

definition SessionGetByID :: "uuid \<Rightarrow> world \<Rightarrow> Session db_result" where
  "SessionGetByID sid = find_session (\<lambda>s. ss_ID s = sid)"

definition GetByIDAndUser :: "uuid \<Rightarrow> uuid \<Rightarrow> world \<Rightarrow> Session db_result" where
  "GetByIDAndUser sid uid = find_session (\<lambda>s. ss_ID s = sid \<and> ss_UserID s = uid)"

definition SessionListForUser :: "time \<Rightarrow> uuid \<Rightarrow> world \<Rightarrow> Session list db_result" where
  "SessionListForUser dbnow uid w =
     pool_try w (\<lambda>w. (Inr (order_desc ss_CreatedAt (filter (\<lambda>s. ss_UserID s = uid \<and> ss_RevokedAt s = None
         \<and> dbnow - 24 * hour \<le> ss_CreatedAt s) (sessions (db w)))), w))"

definition update_sessions :: "(Session \<Rightarrow> bool) \<Rightarrow> (Session \<Rightarrow> Session) \<Rightarrow> world \<Rightarrow> unit db_result" where
  "update_sessions P f w = pool_try w (\<lambda>w. (Inr (), set_db (\<lambda>d. d\<lparr>sessions := sql_update P f (sessions d)\<rparr>) w))"

definition SessionRevoke :: "time \<Rightarrow> uuid \<Rightarrow> world \<Rightarrow> unit db_result" where
  "SessionRevoke dbnow sid =
     update_sessions (\<lambda>s. ss_ID s = sid \<and> ss_RevokedAt s = None) (\<lambda>s. s\<lparr>ss_RevokedAt := Some dbnow\<rparr>)"

definition TouchLastSeen :: "time \<Rightarrow> uuid \<Rightarrow> world \<Rightarrow> unit db_result" where
  "TouchLastSeen dbnow sid =
     update_sessions (\<lambda>s. ss_ID s = sid \<and> (case ss_LastSeenAt s of None \<Rightarrow> True | Some l \<Rightarrow> l < dbnow - 5 * minute))
       (\<lambda>s. s\<lparr>ss_LastSeenAt := Some dbnow\<rparr>)"

definition RevokeAllForUser :: "time \<Rightarrow> uuid \<Rightarrow> world \<Rightarrow> unit db_result" where
  "RevokeAllForUser dbnow uid =
     update_sessions (\<lambda>s. ss_UserID s = uid \<and> ss_RevokedAt s = None) (\<lambda>s. s\<lparr>ss_RevokedAt := Some dbnow\<rparr>)"

subsection \<open>Second factor\<close>

definition CreatePendingSecret :: "time \<Rightarrow> uuid \<Rightarrow> string \<Rightarrow> world \<Rightarrow> unit db_result" where
  "CreatePendingSecret dbnow uid enc w =
     pool_try w (\<lambda>w. if \<not> user_exists uid (db w) then pool_fail w
       else (Inr (), set_db (\<lambda>d. d\<lparr>two_factor_secrets :=
           (if sql_count (\<lambda>s. tf_UserID s = uid) (two_factor_secrets d) = 0
            then two_factor_secrets d @ [\<lparr>tf_UserID = uid, tf_EncryptedSecret = enc, tf_EnabledAt = None, tf_CreatedAt = dbnow\<rparr>]
            else sql_update (\<lambda>s. tf_UserID s = uid) (\<lambda>s. s\<lparr>tf_EncryptedSecret := enc, tf_EnabledAt := None\<rparr>)
                   (two_factor_secrets d))\<rparr>) w))"

definition GetSecret :: "uuid \<Rightarrow> world \<Rightarrow> TwoFactorSecret db_result" where
  "GetSecret uid w =
     pool_try w (\<lambda>w. case find_row (\<lambda>s. tf_UserID s = uid) (two_factor_secrets (db w)) of
         None \<Rightarrow> (Inl ErrNotFound, w) | Some s \<Rightarrow> (Inr s, w))"

definition ConfirmSecret :: "time \<Rightarrow> uuid \<Rightarrow> world \<Rightarrow> unit db_result" where
  "ConfirmSecret dbnow uid w =
     pool_try w (\<lambda>w.
       if sql_count (\<lambda>s. tf_UserID s = uid \<and> tf_EnabledAt s = None) (two_factor_secrets (db w)) = 0 then (Inl ErrNotFound, w)
       else (Inr (), set_db (\<lambda>d. d\<lparr>two_factor_secrets := sql_update (\<lambda>s. tf_UserID s = uid \<and> tf_EnabledAt s = None)
                               (\<lambda>s. s\<lparr>tf_EnabledAt := Some dbnow\<rparr>) (two_factor_secrets d)\<rparr>) w))"

definition DeleteSecret :: "uuid \<Rightarrow> world \<Rightarrow> unit db_result" where
  "DeleteSecret uid w =
     pool_try w (\<lambda>w. (Inr (), set_db (\<lambda>d. d\<lparr>two_factor_secrets := sql_delete (\<lambda>s. tf_UserID s = uid) (two_factor_secrets d)\<rparr>) w))"

text \<open>\<open>CreateRecoveryCodes\<close> runs in a transaction of its own: \<open>BEGIN\<close>, the deletion, one insert per
  hash, \<open>COMMIT\<close>.\<close>

fun insert_codes :: "uuid \<Rightarrow> string list \<Rightarrow> world \<Rightarrow> unit db_result" where
  "insert_codes uid [] w = (Inr (), w)"
| "insert_codes uid (h # hs) w =
     own_try w (\<lambda>w. if \<not> user_exists uid (db w) then (Inl DbError, w)
       else insert_codes uid hs (w\<lparr>next_id := Suc (next_id w)\<rparr>))"

definition code_rows :: "uuid \<Rightarrow> uuid \<Rightarrow> string list \<Rightarrow> recovery_row list" where
  "code_rows n uid hashes =
     map (\<lambda>i. \<lparr>rc_id = n + i, rc_user_id = uid, rc_code_hash = hashes ! i, rc_used_at = None\<rparr>) [0 ..< length hashes]"

definition CreateRecoveryCodes :: "uuid \<Rightarrow> string list \<Rightarrow> world \<Rightarrow> unit db_result" where
  "CreateRecoveryCodes uid hashes w =
     own_try w (\<lambda>w. own_try w (\<lambda>w.
       let n = next_id w in
       db_bind (insert_codes uid hashes w) (\<lambda>_ w.
         own_try w (\<lambda>w. (Inr (), own_commit (\<lambda>d. d\<lparr>recovery_codes :=
           sql_delete (\<lambda>c. rc_user_id c = uid) (recovery_codes d) @ code_rows n uid hashes\<rparr>) w)))))"

definition ConsumeRecoveryCode :: "(string \<Rightarrow> string \<Rightarrow> bool) \<Rightarrow> time \<Rightarrow> uuid \<Rightarrow> string \<Rightarrow> world \<Rightarrow> bool db_result" where
  "ConsumeRecoveryCode matches dbnow uid code w =
     pool_try w (\<lambda>w.
       case find_row (\<lambda>c. rc_user_id c = uid \<and> rc_used_at c = None \<and> matches (rc_code_hash c) code) (recovery_codes (db w)) of
         None \<Rightarrow> (Inr False, w)
       | Some c \<Rightarrow> pool_try w (\<lambda>w.
           if sql_count (\<lambda>r. rc_id r = rc_id c \<and> rc_used_at r = None) (recovery_codes (db w)) = 0 then (Inr False, w)
           else (Inr True, set_db (\<lambda>d. d\<lparr>recovery_codes := sql_update (\<lambda>r. rc_id r = rc_id c \<and> rc_used_at r = None)
                               (\<lambda>r. r\<lparr>rc_used_at := Some dbnow\<rparr>) (recovery_codes d)\<rparr>) w)))"

definition DeleteRecoveryCodes :: "uuid \<Rightarrow> world \<Rightarrow> unit db_result" where
  "DeleteRecoveryCodes uid w =
     pool_try w (\<lambda>w. (Inr (), set_db (\<lambda>d. d\<lparr>recovery_codes := sql_delete (\<lambda>c. rc_user_id c = uid) (recovery_codes d)\<rparr>) w))"

subsection \<open>Challenges\<close>

definition ChallengeCreate :: "time \<Rightarrow> uuid \<Rightarrow> duration \<Rightarrow> world \<Rightarrow> (uuid \<times> time) db_result" where
  "ChallengeCreate dbnow uid ttl w =
     pool_try w (\<lambda>w. if \<not> user_exists uid (db w) then pool_fail w
       else (Inr (next_id w, dbnow + ttl),
         (set_db (\<lambda>d. d\<lparr>challenges := challenges d @
            [\<lparr>ch_ID = next_id w, ch_UserID = uid, ch_ExpiresAt = dbnow + ttl, ch_UsedAt = None, ch_CreatedAt = dbnow\<rparr>]\<rparr>) w)
         \<lparr>next_id := Suc (next_id w)\<rparr>))"

definition ChallengeLookup :: "uuid \<Rightarrow> world \<Rightarrow> TwoFactorChallenge db_result" where
  "ChallengeLookup jti w =
     pool_try w (\<lambda>w. case find_row (\<lambda>c. ch_ID c = jti) (challenges (db w)) of None \<Rightarrow> (Inl ErrNotFound, w) | Some c \<Rightarrow> (Inr c, w))"

definition claimable :: "time \<Rightarrow> uuid \<Rightarrow> TwoFactorChallenge \<Rightarrow> bool" where
  "claimable dbnow jti c \<longleftrightarrow> ch_ID c = jti \<and> ch_UsedAt c = None \<and> dbnow < ch_ExpiresAt c"

definition ChallengeMarkUsed :: "time \<Rightarrow> uuid \<Rightarrow> world \<Rightarrow> uuid option db_result" where
  "ChallengeMarkUsed dbnow jti w =
     pool_try w (\<lambda>w. case find_row (claimable dbnow jti) (challenges (db w)) of
         None \<Rightarrow> (Inr None, w)
       | Some c \<Rightarrow> (Inr (Some (ch_UserID c)),
           set_db (\<lambda>d. d\<lparr>challenges := sql_update (claimable dbnow jti) (\<lambda>c. c\<lparr>ch_UsedAt := Some dbnow\<rparr>) (challenges d)\<rparr>) w))"

subsection \<open>Password reset tokens\<close>

definition ResetCreate :: "uuid \<Rightarrow> string \<Rightarrow> time \<Rightarrow> world \<Rightarrow> uuid db_result" where
  "ResetCreate uid hash expires w =
     pool_try w (\<lambda>w. if \<not> user_exists uid (db w) \<or> sql_count (\<lambda>p. pr_TokenHash p = hash) (reset_tokens (db w)) \<noteq> 0 then pool_fail w
       else (Inr (next_id w),
         (set_db (\<lambda>d. d\<lparr>reset_tokens := reset_tokens d @
            [\<lparr>pr_ID = next_id w, pr_UserID = uid, pr_TokenHash = hash, pr_ExpiresAt = expires, pr_UsedAt = None\<rparr>]\<rparr>) w)
         \<lparr>next_id := Suc (next_id w)\<rparr>))"

definition GetByTokenHash :: "string \<Rightarrow> world \<Rightarrow> PasswordResetToken db_result" where
  "GetByTokenHash hash w =
     pool_try w (\<lambda>w. case find_row (\<lambda>p. pr_TokenHash p = hash) (reset_tokens (db w)) of
         None \<Rightarrow> (Inl ErrNotFound, w) | Some p \<Rightarrow> (Inr p, w))"

definition InvalidateOtherPending :: "time \<Rightarrow> uuid \<Rightarrow> uuid \<Rightarrow> world \<Rightarrow> unit db_result" where
  "InvalidateOtherPending dbnow uid exclude w =
     pool_try w (\<lambda>w. (Inr (), set_db (\<lambda>d. d\<lparr>reset_tokens :=
         sql_update (\<lambda>p. pr_UserID p = uid \<and> pr_ID p \<noteq> exclude \<and> pr_UsedAt p = None)
           (\<lambda>p. p\<lparr>pr_UsedAt := Some dbnow\<rparr>) (reset_tokens d)\<rparr>) w))"

definition ResetMarkUsed :: "time \<Rightarrow> uuid \<Rightarrow> world \<Rightarrow> unit db_result" where
  "ResetMarkUsed dbnow rid w =
     pool_try w (\<lambda>w. if sql_count (\<lambda>p. pr_ID p = rid) (reset_tokens (db w)) = 0 then (Inl ErrNotFound, w)
       else (Inr (), set_db (\<lambda>d. d\<lparr>reset_tokens := sql_update (\<lambda>p. pr_ID p = rid)
                               (\<lambda>p. p\<lparr>pr_UsedAt := Some dbnow\<rparr>) (reset_tokens d)\<rparr>) w))"

subsection \<open>What the writes may do\<close>

inductive auth_edit :: "nat \<Rightarrow> time \<Rightarrow> tables \<Rightarrow> tables \<Rightarrow> bool" for n t d where
  edit_user_new: "n \<le> u_ID u \<Longrightarrow> auth_edit n t d (d\<lparr>users := users d @ [u]\<rparr>)"
| edit_users: "(\<And>u. u_ID (f u) = u_ID u \<and> u_SessionsRevokedAt (f u) \<in> {u_SessionsRevokedAt u, Some t}) \<Longrightarrow>
    auth_edit n t d (d\<lparr>users := sql_update P f (users d)\<rparr>)"
| edit_session_new: "n \<le> ss_ID s \<Longrightarrow> auth_edit n t d (d\<lparr>sessions := sessions d @ [s]\<rparr>)"
| edit_sessions: "(\<And>s. ss_ID (f s) = ss_ID s \<and> ss_RevokedAt (f s) \<in> {ss_RevokedAt s, Some t}) \<Longrightarrow>
    auth_edit n t d (d\<lparr>sessions := sql_update P f (sessions d)\<rparr>)"
| edit_secrets: "auth_edit n t d (d\<lparr>two_factor_secrets := ss\<rparr>)"
| edit_codes: "(\<And>c. c \<in> set cs \<Longrightarrow> c \<in> set (recovery_codes d) \<or> rc_used_at c \<noteq> None \<or> n \<le> rc_id c) \<Longrightarrow>
    auth_edit n t d (d\<lparr>recovery_codes := cs\<rparr>)"
| edit_challenge_new: "n \<le> ch_ID c \<Longrightarrow> auth_edit n t d (d\<lparr>challenges := challenges d @ [c]\<rparr>)"
| edit_challenges: "(\<And>c. ch_ID (f c) = ch_ID c \<and> ch_UsedAt (f c) \<in> {ch_UsedAt c, Some t}) \<Longrightarrow>
    auth_edit n t d (d\<lparr>challenges := sql_update P f (challenges d)\<rparr>)"
| edit_reset_new: "n \<le> pr_ID p \<Longrightarrow> (\<And>q. q \<in> set (reset_tokens d) \<Longrightarrow> pr_TokenHash q \<noteq> pr_TokenHash p) \<Longrightarrow>
    auth_edit n t d (d\<lparr>reset_tokens := reset_tokens d @ [p]\<rparr>)"
| edit_resets: "(\<And>p. pr_TokenHash (f p) = pr_TokenHash p \<and> pr_ID (f p) = pr_ID p \<and> pr_UsedAt (f p) \<in> {pr_UsedAt p, Some t}) \<Longrightarrow>
    auth_edit n t d (d\<lparr>reset_tokens := sql_update P f (reset_tokens d)\<rparr>)"
| edit_preferences: "auth_edit n t d (d\<lparr>preferences := ps\<rparr>)"

text \<open>What an invariant must satisfy to pass through every operation of the stores.\<close>

locale auth_ops = db_invariant I for I :: "world \<Rightarrow> bool" +
  fixes T :: time
  assumes I_edit: "I w \<Longrightarrow> auth_edit (next_id w) t (db w) (f (db w)) \<Longrightarrow> T \<le> t \<Longrightarrow> I (set_db f w)"
    and I_next: "I w \<Longrightarrow> next_id w \<le> n \<Longrightarrow> I (w\<lparr>next_id := n\<rparr>)"
begin

lemma stays_edit:
  assumes "auth_edit (next_id w) t (db w) (f (db w))" and "T \<le> t"
  shows "stays I w (r, set_db f w)"
    "stays I w (r, (set_db f w)\<lparr>next_id := Suc (next_id w)\<rparr>)"
  using I_edit [of w t f, OF _ assms] I_next [of "set_db f w" "Suc (next_id w)"]
  by (auto simp: stays_def set_db_def session_of_def)

lemma stays_refuse [simp, intro!]: "stays (I) w (pool_refuse e w)"
  by (simp add: pool_refuse_def stays_same)

lemma stays_update_user:
  assumes "\<And>u. u_ID (f u) = u_ID u \<and> u_SessionsRevokedAt (f u) \<in> {u_SessionsRevokedAt u, Some t}" and "T \<le> t"
  shows "stays (I) w (update_user uid f w)"
  unfolding update_user_def using assms(2)
  by (auto intro!: stays_pool_try stays_edit [of _ t] edit_users [OF assms(1)])

lemma stays_user_ops:
  assumes "T \<le> t"
  shows "stays (I) w (find_user P w)" "stays (I) w (UpdateName uid name w)"
    "stays (I) w (UpdatePasswordHash uid hash w)" "stays (I) w (RevokeSessions t uid w)"
    "stays (I) w (MarkEmailVerified t uid w)"
  using assms
  by (auto simp: find_user_def UpdateName_def UpdatePasswordHash_def RevokeSessions_def MarkEmailVerified_def
      intro!: stays_pool_try stays_update_user [of _ t] split: option.splits)

lemma stays_update_sessions:
  assumes "\<And>s. ss_ID (f s) = ss_ID s \<and> ss_RevokedAt (f s) \<in> {ss_RevokedAt s, Some t}" and "T \<le> t"
  shows "stays (I) w (update_sessions P f w)"
  unfolding update_sessions_def using assms(2)
  by (auto intro!: stays_pool_try stays_edit [of _ t] edit_sessions [OF assms(1)])

lemma stays_session_ops:
  assumes "T \<le> t"
  shows "stays (I) w (SessionCreate t uid ua ip w)" "stays (I) w (find_session P w)"
    "stays (I) w (SessionListForUser t uid w)" "stays (I) w (SessionRevoke t sid w)"
    "stays (I) w (TouchLastSeen t sid w)" "stays (I) w (RevokeAllForUser t uid w)"
  using assms
  by (auto simp: SessionCreate_def find_session_def SessionListForUser_def SessionRevoke_def TouchLastSeen_def
      RevokeAllForUser_def new_session_def intro!: stays_pool_try stays_update_sessions [of _ t] stays_edit [of _ T] edit_session_new
      split: option.splits)

lemma stays_secret_ops:
  "stays (I) w (CreatePendingSecret t uid enc w)" "stays (I) w (GetSecret uid w)"
  "stays (I) w (ConfirmSecret t uid w)" "stays (I) w (DeleteSecret uid w)"
  by (auto simp: CreatePendingSecret_def GetSecret_def ConfirmSecret_def DeleteSecret_def
      intro!: stays_pool_try stays_edit [of _ T] edit_secrets split: option.splits)

lemma stays_code_ops:
  "stays (I) w (ConsumeRecoveryCode m t uid code w)" "stays (I) w (DeleteRecoveryCodes uid w)"
  by (auto simp: ConsumeRecoveryCode_def DeleteRecoveryCodes_def set_sql_update
      intro!: stays_pool_try stays_edit [of _ T] edit_codes split: option.splits)

lemma stays_challenge_ops:
  assumes "T \<le> t"
  shows "stays (I) w (ChallengeCreate t uid ttl w)" "stays (I) w (ChallengeLookup jti w)"
    "stays (I) w (ChallengeMarkUsed t jti w)"
  using assms
  by (auto simp: ChallengeCreate_def ChallengeLookup_def ChallengeMarkUsed_def
      intro!: stays_pool_try stays_edit [of _ t] edit_challenge_new edit_challenges split: option.splits)

lemma stays_reset_ops:
  assumes "T \<le> t"
  shows "stays (I) w (ResetCreate uid hash expires w)" "stays (I) w (GetByTokenHash hash w)"
    "stays (I) w (InvalidateOtherPending t uid ex w)" "stays (I) w (ResetMarkUsed t rid w)"
  using assms
  by (auto simp: sql_count_0_iff ResetCreate_def GetByTokenHash_def InvalidateOtherPending_def ResetMarkUsed_def
      intro!: stays_pool_try stays_edit [of _ t] edit_reset_new edit_resets split: option.splits)

end

text \<open>A property of the tables that holds now and at the start of the context's transaction, so that
  neither its commit nor its rollback ends it.\<close>

definition lasts :: "(nat \<Rightarrow> tables \<Rightarrow> bool) \<Rightarrow> world \<Rightarrow> bool" where
  "lasts J w \<longleftrightarrow> J (next_id w) (db w) \<and> (\<forall>x. tx w = Some x \<longrightarrow> J (next_id w) (tx_begin x))"

locale lasting =
  fixes J :: "nat \<Rightarrow> tables \<Rightarrow> bool" and T :: time
  assumes J_edit: "J n d \<Longrightarrow> auth_edit n t d d' \<Longrightarrow> T \<le> t \<Longrightarrow> J n d'"
    and J_later: "J n d \<Longrightarrow> n \<le> m \<Longrightarrow> J m d"

sublocale lasting < ops: auth_ops "lasts J" T
proof unfold_locales
  fix w w' :: world assume w: "lasts J w" "same_data w w'"
  then have "map_option tx_begin (tx w') = map_option tx_begin (tx w)" "db w' = db w" "next_id w' = next_id w"
    by (simp_all add: same_data_def)
  with w(1) show "lasts J w'" by (cases "tx w"; cases "tx w'") (auto simp: lasts_def)
next
  fix w :: world and t f assume "lasts J w" "auth_edit (next_id w) t (db w) (f (db w))" "T \<le> t"
  with J_edit [OF _ this(2,3)] show "lasts J (set_db f w)" by (simp add: lasts_def set_db_def)
qed (auto simp: lasts_def tx_rollback_def intro: J_later split: option.splits)

lemma staysI: "(\<And>r v. I w \<Longrightarrow> m = (r, v) \<Longrightarrow> I v \<and> session_of v = session_of w) \<Longrightarrow> stays I w m"
  by (cases m) (simp add: stays_def)

lemma insert_codes_frame:
  "insert_codes uid hs w = (r, w') \<Longrightarrow>
   same_data (w\<lparr>next_id := next_id w'\<rparr>) w' \<and> tx w' = tx w \<and> next_id w \<le> next_id w'"
proof (induction hs arbitrary: w)
  case (Cons h hs)
  from Cons.prems have "own_try w (\<lambda>v. if \<not> user_exists uid (db v) then (Inl DbError, v)
      else insert_codes uid hs (v\<lparr>next_id := Suc (next_id v)\<rparr>)) = (r, w')" by simp
  then show ?case
  proof (cases rule: own_try_cases)
    case failed
    then show ?thesis by (simp add: same_data_def)
  next
    case (ran v)
    with Cons.IH [of "v\<lparr>next_id := Suc (next_id v)\<rparr>"] show ?thesis
      by (auto simp: same_data_def split: if_splits)
  qed
qed (simp add: same_data_def)

context lasting begin

lemma lasts_later: "lasts J w \<Longrightarrow> next_id w \<le> n \<Longrightarrow> lasts J (w\<lparr>next_id := n\<rparr>)"
  by (auto simp: lasts_def intro: J_later)

lemma stays_CreateRecoveryCodes: "stays (lasts J) w (CreateRecoveryCodes uid hashes w)"
  unfolding CreateRecoveryCodes_def Let_def
proof (rule ops.stays_own_try, rule ops.stays_own_try, goal_cases)
  case (1 _ w0)
  have main: "lasts J v \<and> session_of v = session_of w0" if "lasts J w0" and "db_bind (insert_codes uid hashes w0)
      (\<lambda>_ w. own_try w (\<lambda>w. (Inr (), own_commit (\<lambda>d. d\<lparr>recovery_codes :=
         sql_delete (\<lambda>c. rc_user_id c = uid) (recovery_codes d) @ code_rows (next_id w0) uid hashes\<rparr>) w))) = (r, v)" for r v
    using that(2)
  proof (cases rule: db_bind_cases)
    case (failed e)
    from insert_codes_frame [OF failed(2)] lasts_later [OF that(1)] ops.I_same show ?thesis
      by (auto simp: session_of_def)
  next
    case (ran a w1)
    note f = insert_codes_frame [OF ran(1)]
    with lasts_later [OF that(1)] ops.I_same have w1: "lasts J w1" by blast
    from ran(2) show ?thesis
    proof (cases rule: own_try_cases)
      case failed
      with ops.I_same [OF w1] f show ?thesis by (auto simp: session_of_def)
    next
      case (ran w2)
      let ?f = "\<lambda>d. d\<lparr>recovery_codes := sql_delete (\<lambda>c. rc_user_id c = uid) (recovery_codes d) @ code_rows (next_id w0) uid hashes\<rparr>"
      have ed: "auth_edit (next_id w0) T d (?f d)" for d
        by (rule edit_codes) (auto simp: code_rows_def)
      have "next_id w0 \<le> next_id w2" using f ran(1) by (simp add: same_data_def)
      then have e: "J (next_id w0) d \<Longrightarrow> J (next_id w2) (?f d)" for d
        using J_later [of "next_id w0" "?f d" "next_id w2"] J_edit [OF _ ed, of d] by simp
      have "next_id w2 = next_id w1" "db w2 = db w0" "tx w2 = tx w0"
        using ran(1,2) f by (simp_all add: same_data_def)
      moreover have v: "v = own_commit ?f w2" using ran(3) by simp
      ultimately show ?thesis
      proof (cases "tx w0")
        case None
        then have "tx v = None" "db v = ?f (db w0)" "next_id v = next_id w2"
          unfolding v own_commit_def using \<open>db w2 = db w0\<close> \<open>tx w2 = tx w0\<close> by simp_all
        moreover from that(1) have "J (next_id w0) (db w0)" by (simp add: lasts_def)
        then have "J (next_id w2) (?f (db w0))" by (rule e)
        ultimately show ?thesis using None unfolding lasts_def session_of_def by simp
      next
        case (Some x)
        then have "tx v = Some (x\<lparr>tx_begin := ?f (tx_begin x)\<rparr>)" "db v = ?f (db w0)" "next_id v = next_id w2"
          unfolding v own_commit_def using \<open>db w2 = db w0\<close> \<open>tx w2 = tx w0\<close> by simp_all
        moreover from that(1) Some have "J (next_id w0) (db w0)" "J (next_id w0) (tx_begin x)"
          by (simp_all add: lasts_def)
        then have "J (next_id w2) (?f (db w0))" "J (next_id w2) (?f (tx_begin x))" by (simp_all only: e)
        ultimately show ?thesis using Some unfolding lasts_def session_of_def by simp
      qed
    qed
  qed
  show ?case by (rule staysI, rule main)
qed

lemma lasts_end: "lasts J w \<Longrightarrow> lasts J (tx_rollback w)" "lasts J w \<Longrightarrow> lasts J (snd (tx_commit w))"
proof -
  assume w: "lasts J w"
  then show "lasts J (tx_rollback w)" by (auto simp: lasts_def tx_rollback_def split: option.splits)
  show "lasts J (snd (tx_commit w))"
  proof (cases "tx w")
    case None
    with w show ?thesis by (simp add: tx_commit_def)
  next
    case (Some t)
    obtain r w' where c: "tx_commit w = (r, w')" by fastforce
    show ?thesis
    proof (cases r)
      case (Inl e)
      with tx_commit_err [of w e w' t] c Some w show ?thesis by (simp add: lasts_def)
    next
      case (Inr x)
      with tx_commit_ok [of w w'] c w show ?thesis by (simp add: lasts_def)
    qed
  qed
qed

lemma lasts_begin: "lasts J w \<Longrightarrow> tx w = None \<Longrightarrow> lasts J (snd (BeginTenantTx u t w))"
proof -
  assume w: "lasts J w" "tx w = None"
  obtain r w' where b: "BeginTenantTx u t w = (r, w')" by fastforce
  then show ?thesis
    using w BeginTenantTx_ok [of u t w w'] BeginTenantTx_err [of u t w _ w'] same_dataD(1,4) [of w w']
    by (cases r) (auto simp: lasts_def)
qed

end

subsection \<open>What lasts\<close>

definition spent_row :: "('r \<Rightarrow> uuid) \<Rightarrow> ('r \<Rightarrow> time option) \<Rightarrow> uuid \<Rightarrow> 'r list \<Rightarrow> bool" where
  "spent_row key mark k rs \<longleftrightarrow> (\<forall>r\<in>set rs. key r = k \<longrightarrow> mark r \<noteq> None)"

lemma spent_row_append: "spent_row key mark k rs \<Longrightarrow> k < n \<Longrightarrow> n \<le> key r \<Longrightarrow> spent_row key mark k (rs @ [r])"
  by (auto simp: spent_row_def)

lemma spent_row_update:
  assumes "spent_row key mark k rs" and "\<And>r. key (f r) = key r \<and> mark (f r) \<in> {mark r, Some t}"
  shows "spent_row key mark k (sql_update P f rs)"
proof -
  have "mark (f r) \<noteq> None" if "mark r \<noteq> None" for r using assms(2) [of r] that by auto
  then have "key (if P r then f r else r) = k \<longrightarrow> mark (if P r then f r else r) \<noteq> None" if "r \<in> set rs" for r
    using assms(1) assms(2) [of r] that by (auto simp: spent_row_def)
  then show ?thesis unfolding spent_row_def set_sql_update by blast
qed

definition session_revoked :: "uuid \<Rightarrow> nat \<Rightarrow> tables \<Rightarrow> bool" where
  "session_revoked sid n d \<longleftrightarrow> sid < n \<and> spent_row ss_ID ss_RevokedAt sid (sessions d)"

definition revoked_since :: "uuid \<Rightarrow> time \<Rightarrow> nat \<Rightarrow> tables \<Rightarrow> bool" where
  "revoked_since uid R n d \<longleftrightarrow> uid < n \<and>
     (\<forall>u\<in>set (users d). u_ID u = uid \<longrightarrow> (\<exists>r\<ge>R. u_SessionsRevokedAt u = Some r))"

definition challenge_spent :: "uuid \<Rightarrow> nat \<Rightarrow> tables \<Rightarrow> bool" where
  "challenge_spent jti n d \<longleftrightarrow> jti < n \<and> spent_row ch_ID ch_UsedAt jti (challenges d)"

definition code_spent :: "uuid \<Rightarrow> nat \<Rightarrow> tables \<Rightarrow> bool" where
  "code_spent rid n d \<longleftrightarrow> rid < n \<and> spent_row rc_id rc_used_at rid (recovery_codes d)"

text \<open>A reset token is looked up by its hash, which no other row may have.\<close>

definition reset_spent :: "string \<Rightarrow> nat \<Rightarrow> tables \<Rightarrow> bool" where
  "reset_spent h n d \<longleftrightarrow> h \<in> pr_TokenHash ` set (reset_tokens d) \<and>
     (\<forall>p\<in>set (reset_tokens d). pr_TokenHash p = h \<longrightarrow> pr_UsedAt p \<noteq> None)"

lemmas spent_defs = session_revoked_def challenge_spent_def code_spent_def reset_spent_def

lemma spent_later:
  "session_revoked k n d \<Longrightarrow> n \<le> m \<Longrightarrow> session_revoked k m d" "challenge_spent k n d \<Longrightarrow> n \<le> m \<Longrightarrow> challenge_spent k m d"
  "code_spent k n d \<Longrightarrow> n \<le> m \<Longrightarrow> code_spent k m d" "reset_spent h n d \<Longrightarrow> n \<le> m \<Longrightarrow> reset_spent h m d"
  by (simp_all add: spent_defs)

lemma session_revoked_edit: "auth_edit n t d d' \<Longrightarrow> session_revoked sid n d \<Longrightarrow> session_revoked sid n d'"
  by (cases rule: auth_edit.cases, assumption) (auto simp: session_revoked_def simp del: insert_iff intro: spent_row_append spent_row_update)

lemma challenge_spent_edit: "auth_edit n t d d' \<Longrightarrow> challenge_spent jti n d \<Longrightarrow> challenge_spent jti n d'"
  by (cases rule: auth_edit.cases, assumption) (auto simp: challenge_spent_def simp del: insert_iff intro: spent_row_append spent_row_update)

lemma reset_spent_edit:
  assumes "auth_edit n t d d'" and "reset_spent h n d"
  shows "reset_spent h n d'"
  using assms
proof (cases rule: auth_edit.cases)
  case (edit_resets f P)
  have "pr_UsedAt (f p) \<noteq> None" if "pr_UsedAt p \<noteq> None" for p
    using edit_resets(2) [of p] that by auto
  moreover have "pr_TokenHash (f p) = pr_TokenHash p" for p using edit_resets(2) [of p] by simp
  ultimately show ?thesis using assms(2) edit_resets(1)
    by (auto simp: reset_spent_def key_image_sql_update) (auto simp: set_sql_update)
next
  case (edit_reset_new p)
  from assms(2) have "\<exists>q\<in>set (reset_tokens d). pr_TokenHash q = h" by (auto simp: reset_spent_def)
  with edit_reset_new(3) have "pr_TokenHash p \<noteq> h" by metis
  with edit_reset_new(1) assms(2) show ?thesis by (simp add: reset_spent_def)
qed (auto simp: reset_spent_def)

lemma code_spent_edit:
  assumes "auth_edit n t d d'" and "code_spent rid n d"
  shows "code_spent rid n d'"
  using assms
proof (cases rule: auth_edit.cases)
  case (edit_codes cs)
  have "rc_used_at c \<noteq> None" if "c \<in> set cs" "rc_id c = rid" for c
    using edit_codes(2) [OF that(1)] that(2) assms(2) by (auto simp: code_spent_def spent_row_def)
  with edit_codes(1) assms(2) show ?thesis by (simp add: code_spent_def spent_row_def)
qed (simp_all add: code_spent_def)

lemma revoked_since_edit:
  assumes "auth_edit n t d d'" and "revoked_since uid R n d" and "R \<le> t"
  shows "revoked_since uid R n d'"
  using assms
proof (cases rule: auth_edit.cases)
  case (edit_users f P)
  have "\<exists>r\<ge>R. u_SessionsRevokedAt (f u) = Some r" if "\<exists>r\<ge>R. u_SessionsRevokedAt u = Some r" for u
    using edit_users(2) [of u] that assms(3) by auto
  with edit_users assms(2) show ?thesis by (auto simp: revoked_since_def set_sql_update)
qed (auto simp: revoked_since_def)

interpretation session: lasting "session_revoked sid" T for sid T
  by unfold_locales (blast intro: session_revoked_edit spent_later)+

interpretation global: lasting "revoked_since uid R" R for uid R
proof unfold_locales
  show "revoked_since uid R n d \<Longrightarrow> n \<le> m \<Longrightarrow> revoked_since uid R m d" for n m d
    by (simp add: revoked_since_def)
qed (blast intro: revoked_since_edit)

interpretation challenge: lasting "challenge_spent jti" T for jti T
  by unfold_locales (blast intro: challenge_spent_edit spent_later)+

interpretation code: lasting "code_spent rid" T for rid T
  by unfold_locales (blast intro: code_spent_edit spent_later)+

interpretation reset: lasting "reset_spent h" T for h T
  by unfold_locales (blast intro: reset_spent_edit spent_later)+

end
