(* ===== verification/Go_Net.thy ===== *)
theory Go_Net
  imports Vane_Prelude
begin

text \<open>
  \<open>net.SplitHostPort\<close> of the Go library and the client address the program takes from a request's
  \<open>RemoteAddr\<close> (\<open>captureSessionContext\<close> of \<open>internal/api/auth_handler.go\<close> and \<open>clientIP\<close> of
  \<open>internal/ratelimit/ip_limiter.go\<close>): the host part, or the whole address when it does not split.
\<close>

definition before_last :: "char \<Rightarrow> string \<Rightarrow> string" where
  "before_last c s = rev (tl (dropWhile (\<lambda>x. x \<noteq> c) (rev s)))"

definition SplitHost :: "string \<Rightarrow> string option" where
  "SplitHost hostport =
     (if CHR '':'' \<notin> set hostport then None
      else if hd hostport = CHR ''['' then
        (let after = tl (dropWhile (\<lambda>c. c \<noteq> CHR '']'') hostport) in
         if CHR '']'' \<notin> set hostport \<or> after = [] \<or> hd after \<noteq> CHR '':'' \<or> CHR '':'' \<in> set (tl after)
            \<or> CHR ''['' \<in> set (tl hostport) \<or> CHR '']'' \<in> set after then None
         else Some (takeWhile (\<lambda>c. c \<noteq> CHR '']'') (tl hostport)))
      else
        (let host = before_last CHR '':'' hostport in
         if CHR '':'' \<in> set host \<or> CHR ''['' \<in> set hostport \<or> CHR '']'' \<in> set hostport then None
         else Some host))"

definition remote_host :: "string \<Rightarrow> string" where
  "remote_host addr = (case SplitHost addr of Some host \<Rightarrow> host | None \<Rightarrow> addr)"

lemma before_last_append:
  assumes "c \<notin> set t"
  shows "before_last c (s @ c # t) = s"
proof -
  have "dropWhile (\<lambda>x. x \<noteq> c) (rev t @ c # rev s) = c # rev s"
    using assms by (subst dropWhile_append2) auto
  then show ?thesis by (simp add: before_last_def)
qed

text \<open>An IPv4 address or host name with a port gives the host; a bracketed IPv6 address loses its
  brackets; an address without a port is kept.\<close>

lemma remote_host_port:
  assumes "set host \<inter> {CHR '':'', CHR ''['', CHR '']''} = {}" and "set port \<inter> {CHR '':'', CHR ''['', CHR '']''} = {}"
  shows "remote_host (host @ CHR '':'' # port) = host"
proof -
  have "hd (host @ CHR '':'' # port) \<noteq> CHR ''[''" using assms by (cases host) auto
  then have "SplitHost (host @ CHR '':'' # port) = Some host"
    using assms before_last_append [of "CHR '':''" port host] by (auto simp: SplitHost_def)
  then show ?thesis by (simp add: remote_host_def)
qed

lemma remote_host_examples:
  "remote_host ''10.0.0.42:5123'' = ''10.0.0.42''" "remote_host ''[::1]:80'' = ''::1''" "remote_host ''::1'' = ''::1''"
  by code_simp+

end
