(* ===== verification/Auth.thy ===== *)
theory Auth
  imports Auth_Store Go_Net
begin

text \<open>
  Authentication: passwords and tokens (\<open>internal/auth\<close>), encryption at rest
  (\<open>internal/crypto/secretbox.go\<close>), the middleware \<open>RequireAuth\<close>, \<open>TenantContext\<close> and
  \<open>RequireRole\<close> (\<open>internal/api/middleware.go\<close>, \<open>tenant_context_middleware.go\<close>) and the handlers of
  \<open>internal/api/auth_handler.go\<close>, \<open>sessions_handler.go\<close> and \<open>password_reset_handler.go\<close>.

  \<^item> \<open>auth_env\<close> holds what the code takes from libraries: signing and parsing of tokens
    (\<open>golang-jwt\<close>; a token is of any type \<open>'tok\<close>), bcrypt, TOTP, AES-GCM, PBKDF2 and SHA-256, and the
    server's secrets. Random values are arguments, \<open>None\<close> when the source of randomness fails.
  \<^item> A handler takes the clock \<open>now\<close> of the process, the clock \<open>dbnow\<close> of the database, the decoded
    request (\<open>None\<close> for a body that does not decode) and the world, and returns its reply with the
    new world. \<open>TenantContext\<close> runs it in the transaction of the request.
\<close>

subsection \<open>Tokens\<close>

text \<open>The claims of the two kinds of token; decoding into a struct without \<open>tid\<close> and \<open>sid\<close> ignores them.
  The empty string of an identifier is \<open>None\<close>.\<close>

record token_claims =
  cl_Subject :: "uuid option"
  cl_ID :: "uuid option"
  cl_Audience :: "string list"
  cl_IssuedAt :: "time option"
  cl_ExpiresAt :: "time option"
  cl_TenantID :: "uuid option"
  cl_SessionID :: "uuid option"

record 'tok auth_env =
  jwt_sign :: "string \<Rightarrow> token_claims \<Rightarrow> 'tok option"
  jwt_parse :: "string \<Rightarrow> time \<Rightarrow> 'tok \<Rightarrow> token_claims option"
  bcrypt_generate :: "string \<Rightarrow> string option"
  bcrypt_matches :: "string \<Rightarrow> string \<Rightarrow> bool"
  totp_validate :: "string \<Rightarrow> string \<Rightarrow> time \<Rightarrow> bool"
  pbkdf2 :: "string \<Rightarrow> string"
  gcm_seal :: "string \<Rightarrow> string \<Rightarrow> string \<Rightarrow> string"
  gcm_open :: "string \<Rightarrow> string \<Rightarrow> string \<Rightarrow> string option"
  sha256 :: "string \<Rightarrow> string"
  session_secret :: string
  master_key :: string

definition numeric_date :: "time \<Rightarrow> time" where
  "numeric_date t = t - t mod second"

text \<open>What \<open>golang-jwt\<close> promises: a signed token whose dates are whole seconds parses, under the same
  secret and until it expires, to the claims it was signed with.\<close>

definition jwt_ok :: "'tok auth_env \<Rightarrow> bool" where
  "jwt_ok E \<longleftrightarrow> (\<forall>s c tok. jwt_sign E s c = Some tok \<longrightarrow>
     (\<forall>t. cl_IssuedAt c = Some t \<or> cl_ExpiresAt c = Some t \<longrightarrow> t mod second = 0) \<longrightarrow>
     (\<forall>now. jwt_parse E s now tok = (if \<exists>e. cl_ExpiresAt c = Some e \<and> e \<le> now then None else Some c)))"

definition MinPasswordLength :: nat where "MinPasswordLength = 8"
definition MaxPasswordLength :: nat where "MaxPasswordLength = 72"

definition ValidatePassword :: "string \<Rightarrow> bool" where
  "ValidatePassword plain \<longleftrightarrow> MinPasswordLength \<le> length plain \<and> length plain \<le> MaxPasswordLength"

definition HashPassword :: "'tok auth_env \<Rightarrow> string \<Rightarrow> string option" where
  "HashPassword E plain = bcrypt_generate E plain"

definition VerifyPassword :: "'tok auth_env \<Rightarrow> string \<Rightarrow> string \<Rightarrow> bool" where
  "VerifyPassword E hash plain = bcrypt_matches E hash plain"

definition session_claims :: "time \<Rightarrow> duration \<Rightarrow> uuid \<Rightarrow> uuid option \<Rightarrow> uuid \<Rightarrow> token_claims" where
  "session_claims now ttl admin tenant sid =
     \<lparr>cl_Subject = Some admin, cl_ID = None, cl_Audience = [], cl_IssuedAt = Some (numeric_date now),
      cl_ExpiresAt = Some (numeric_date (now + ttl)), cl_TenantID = tenant, cl_SessionID = Some sid\<rparr>"

definition issueSessionWithTTL :: "'tok auth_env \<Rightarrow> time \<Rightarrow> duration \<Rightarrow> uuid \<Rightarrow> uuid option \<Rightarrow> uuid option \<Rightarrow> 'tok option" where
  "issueSessionWithTTL E now ttl admin tenant sid =
     (case sid of None \<Rightarrow> None
      | Some s \<Rightarrow> jwt_sign E (session_secret E) (session_claims now ttl admin tenant s))"

definition IssueSessionWithTenant :: "'tok auth_env \<Rightarrow> time \<Rightarrow> uuid \<Rightarrow> uuid option \<Rightarrow> uuid option \<Rightarrow> 'tok option" where
  "IssueSessionWithTenant E now admin tenant sid = issueSessionWithTTL E now SessionTTL admin tenant sid"

record SessionClaims =
  sc_AdminID :: uuid
  sc_IssuedAt :: time
  sc_TenantID :: "uuid option"
  sc_SessionID :: uuid

definition VerifySessionClaims :: "'tok auth_env \<Rightarrow> time \<Rightarrow> 'tok \<Rightarrow> SessionClaims option" where
  "VerifySessionClaims E now tok =
     (case jwt_parse E (session_secret E) now tok of None \<Rightarrow> None
      | Some c \<Rightarrow> (case (cl_Subject c, cl_IssuedAt c) of
          (Some admin, Some issued) \<Rightarrow>
            if cl_Audience c \<noteq> [] then None
            else (case cl_SessionID c of None \<Rightarrow> None
              | Some sid \<Rightarrow> Some \<lparr>sc_AdminID = admin, sc_IssuedAt = issued, sc_TenantID = cl_TenantID c, sc_SessionID = sid\<rparr>)
        | _ \<Rightarrow> None))"

definition twoFactorChallengeAudience :: string where
  "twoFactorChallengeAudience = ''2fa_challenge''"

definition TwoFactorChallengeTTL :: duration where
  "TwoFactorChallengeTTL = 5 * minute"

definition challenge_claims :: "time \<Rightarrow> duration \<Rightarrow> uuid \<Rightarrow> uuid \<Rightarrow> token_claims" where
  "challenge_claims now ttl uid jti =
     \<lparr>cl_Subject = Some uid, cl_ID = Some jti, cl_Audience = [twoFactorChallengeAudience], cl_IssuedAt = Some (numeric_date now),
      cl_ExpiresAt = Some (numeric_date (now + ttl)), cl_TenantID = None, cl_SessionID = None\<rparr>"

definition IssueTwoFactorChallenge :: "'tok auth_env \<Rightarrow> time \<Rightarrow> uuid \<Rightarrow> uuid \<Rightarrow> 'tok option" where
  "IssueTwoFactorChallenge E now uid jti =
     jwt_sign E (session_secret E) (challenge_claims now TwoFactorChallengeTTL uid jti)"

definition VerifyTwoFactorChallenge :: "'tok auth_env \<Rightarrow> time \<Rightarrow> 'tok \<Rightarrow> (uuid \<times> uuid) option" where
  "VerifyTwoFactorChallenge E now tok =
     (case jwt_parse E (session_secret E) now tok of None \<Rightarrow> None
      | Some c \<Rightarrow> (case (cl_Subject c, cl_ID c) of
          (Some uid, Some jti) \<Rightarrow> if cl_Audience c = [twoFactorChallengeAudience] then Some (uid, jti) else None
        | _ \<Rightarrow> None))"

definition ValidateTOTPCode :: "'tok auth_env \<Rightarrow> time \<Rightarrow> string \<Rightarrow> string \<Rightarrow> bool" where
  "ValidateTOTPCode E now secret code = totp_validate E secret code now"

subsection \<open>Encryption at rest\<close>

definition gcm_nonce_size :: nat where "gcm_nonce_size = 12"

definition Encrypt :: "'tok auth_env \<Rightarrow> string option \<Rightarrow> string \<Rightarrow> string option" where
  "Encrypt E nonce plaintext =
     (case nonce of None \<Rightarrow> None | Some n \<Rightarrow> Some (n @ gcm_seal E (pbkdf2 E (master_key E)) n plaintext))"

definition Decrypt :: "'tok auth_env \<Rightarrow> string \<Rightarrow> string option" where
  "Decrypt E ciphertext =
     (if length ciphertext < gcm_nonce_size then None
      else gcm_open E (pbkdf2 E (master_key E)) (take gcm_nonce_size ciphertext) (drop gcm_nonce_size ciphertext))"

lemma Decrypt_Encrypt:
  assumes "\<And>k n p. gcm_open E k n (gcm_seal E k n p) = Some p" and "length n = gcm_nonce_size" and "Encrypt E (Some n) p = Some c"
  shows "Decrypt E c = Some p"
  using assms by (auto simp: Encrypt_def Decrypt_def)

subsection \<open>Replies\<close>

datatype 'tok cookie = SetSession 'tok | ClearSession

record me_membership =
  mm_tenant_id :: uuid
  mm_role :: string
  mm_name :: string
  mm_plan_tier :: string

record meResponse =
  mr_id :: uuid
  mr_email :: string
  mr_name :: string
  mr_phone :: "string option"
  mr_role :: string
  mr_active_tenant_id :: "uuid option"
  mr_memberships :: "me_membership list"
  mr_two_factor_enabled :: bool

record SessionView =
  sw_ID :: uuid
  sw_UserAgent :: "string option"
  sw_IP :: "string option"
  sw_CreatedAt :: time
  sw_LastSeenAt :: "time option"
  sw_Current :: bool

datatype 'tok reply_body =
    NoBody
  | ErrorBody string
  | StatusOk
  | LoginBody 'tok "uuid option"
  | ChallengeBody 'tok
  | MeBody meResponse
  | PreferencesBody "(string \<times> bool) list"
  | EnrollBody string string
  | RecoveryBody "string list"
  | SessionsBody "SessionView list"
  | JsonBody json

record 'tok reply =
  rp_status :: nat
  rp_cookie :: "'tok cookie option"
  rp_body :: "'tok reply_body"

type_synonym 'tok handled = "'tok reply \<times> world"

definition respond :: "nat \<Rightarrow> 'tok reply_body \<Rightarrow> 'tok reply" where
  "respond status b = \<lparr>rp_status = status, rp_cookie = None, rp_body = b\<rparr>"

definition writeInternalError :: "'tok reply" where
  "writeInternalError = respond 500 (ErrorBody ''internal server error'')"

definition writeUnauthorized :: "'tok reply" where
  "writeUnauthorized = respond 401 (ErrorBody ''unauthorized'')"

definition writeForbidden :: "'tok reply" where
  "writeForbidden = respond 403 (ErrorBody ''forbidden'')"

definition writeLoginError :: "'tok reply" where
  "writeLoginError = respond 401 (ErrorBody ''invalid email or password'')"

definition writeInvalidTwoFactorChallenge :: "'tok reply" where
  "writeInvalidTwoFactorChallenge = respond 401 (ErrorBody ''invalid or expired verification'')"

definition writeResetConfirmError :: "'tok reply" where
  "writeResetConfirmError = respond 401 (ErrorBody ''invalid or expired reset token'')"

definition weakPassword :: "'tok reply" where
  "weakPassword = respond 422 (ErrorBody ''password must be between 8 and 72 characters'')"

text \<open>Running a repository operation in a handler: one branch for its error, one for its result.\<close>

definition on_db :: "'a db_result \<Rightarrow> (db_error \<Rightarrow> world \<Rightarrow> 'r \<times> world) \<Rightarrow> ('a \<Rightarrow> world \<Rightarrow> 'r \<times> world) \<Rightarrow> 'r \<times> world" where
  "on_db m err ok = (case m of (Inl e, w) \<Rightarrow> err e w | (Inr a, w) \<Rightarrow> ok a w)"

lemma on_db_simps [simp]: "on_db (Inl e, w) err ok = err e w" "on_db (Inr a, w) err ok = ok a w"
  by (simp_all add: on_db_def)

abbreviation internal :: "db_error \<Rightarrow> world \<Rightarrow> 'tok handled" where
  "internal \<equiv> \<lambda>_ w. (writeInternalError, w)"

subsection \<open>Middleware\<close>

record auth_ctx =
  ax_User :: User
  ax_TenantID :: "uuid option"
  ax_SessionID :: uuid

text \<open>The token of a request: the bearer token, else the cookie.\<close>

definition request_token :: "'tok option \<Rightarrow> 'tok option \<Rightarrow> 'tok option" where
  "request_token bearer cookie = (case bearer of None \<Rightarrow> cookie | Some t \<Rightarrow> Some t)"

definition RequireAuth ::
    "'tok auth_env \<Rightarrow> time \<Rightarrow> time \<Rightarrow> 'tok option \<Rightarrow> (auth_ctx \<Rightarrow> world \<Rightarrow> 'tok handled) \<Rightarrow> world \<Rightarrow> 'tok handled" where
  "RequireAuth E now dbnow tok next w =
     (case tok of None \<Rightarrow> (writeUnauthorized, w)
      | Some tk \<Rightarrow> (case VerifySessionClaims E now tk of None \<Rightarrow> (writeUnauthorized, w)
        | Some c \<Rightarrow> on_db (GetByID (sc_AdminID c) w) (\<lambda>_ w. (writeUnauthorized, w)) (\<lambda>user w.
            if (case u_SessionsRevokedAt user of None \<Rightarrow> False | Some r \<Rightarrow> sc_IssuedAt c < r) then (writeUnauthorized, w)
            else on_db (SessionGetByID (sc_SessionID c) w) (\<lambda>_ w. (writeUnauthorized, w)) (\<lambda>sess w.
              if ss_RevokedAt sess \<noteq> None then (writeUnauthorized, w)
              else next \<lparr>ax_User = user, ax_TenantID = sc_TenantID c, ax_SessionID = ss_ID sess\<rparr>
                     (snd (TouchLastSeen dbnow (ss_ID sess) w))))))"

definition resolve_role :: "auth_ctx \<Rightarrow> world \<Rightarrow> string db_result" where
  "resolve_role ax w =
     (case ax_TenantID ax of None \<Rightarrow> (Inr [], w)
      | Some tid \<Rightarrow> (case GetRole (u_ID (ax_User ax)) tid w of
          (Inr role, w) \<Rightarrow> (Inr role, w)
        | (Inl e, w) \<Rightarrow> if e = ErrNotFound then (Inr [], w) else (Inl e, w)))"

definition TenantContext :: "(string \<Rightarrow> auth_ctx \<Rightarrow> world \<Rightarrow> 'tok handled) \<Rightarrow> auth_ctx \<Rightarrow> world \<Rightarrow> 'tok handled" where
  "TenantContext next ax w =
     on_db (BeginTenantTx (Some (u_ID (ax_User ax))) (ax_TenantID ax) w) internal (\<lambda>_ w.
       on_db (resolve_role ax w) (\<lambda>_ w. (writeInternalError, tx_rollback w)) (\<lambda>role w.
         case next role ax w of (rep, w) \<Rightarrow>
           (rep, if 500 \<le> rp_status rep then tx_rollback w else snd (tx_commit w))))"

definition RequireRole :: "string list \<Rightarrow> (string \<Rightarrow> auth_ctx \<Rightarrow> world \<Rightarrow> 'tok handled) \<Rightarrow> string \<Rightarrow> auth_ctx \<Rightarrow> world \<Rightarrow> 'tok handled" where
  "RequireRole roles next role ax w = (if role \<in> set roles then next role ax w else (writeForbidden, w))"

subsection \<open>Signing in\<close>

definition issueSessionForUser :: "'tok auth_env \<Rightarrow> time \<Rightarrow> time \<Rightarrow> string \<Rightarrow> string \<Rightarrow> User \<Rightarrow> world \<Rightarrow> 'tok handled" where
  "issueSessionForUser E now dbnow userAgent remoteAddr user w =
     on_db (BeginTenantTx (Some (u_ID user)) None w) internal (\<lambda>_ w.
       on_db (ListForUser (u_ID user) w) (\<lambda>_ w. (writeInternalError, tx_rollback w)) (\<lambda>ms w.
         on_db (tx_commit w) internal (\<lambda>_ w.
           if ms = [] then (respond 403 (ErrorBody ''account has no tenant access''), w)
           else (let tenant = (case ms of [m] \<Rightarrow> Some (tm_TenantID m) | _ \<Rightarrow> None) in
             on_db (SessionCreate dbnow (u_ID user) userAgent (remote_host remoteAddr) w) internal (\<lambda>sid w.
               case IssueSessionWithTenant E now (u_ID user) tenant (Some sid) of
                 None \<Rightarrow> (writeInternalError, w)
               | Some tok \<Rightarrow> (\<lparr>rp_status = 200, rp_cookie = Some (SetSession tok), rp_body = LoginBody tok tenant\<rparr>, w))))))"

definition issueTwoFactorChallenge :: "'tok auth_env \<Rightarrow> time \<Rightarrow> time \<Rightarrow> uuid \<Rightarrow> world \<Rightarrow> 'tok handled" where
  "issueTwoFactorChallenge E now dbnow uid w =
     on_db (ChallengeCreate dbnow uid TwoFactorChallengeTTL w) internal (\<lambda>(jti, _) w.
       case IssueTwoFactorChallenge E now uid jti of
         None \<Rightarrow> (writeInternalError, w)
       | Some tok \<Rightarrow> (respond 200 (ChallengeBody tok), w))"

definition Login ::
    "'tok auth_env \<Rightarrow> time \<Rightarrow> time \<Rightarrow> string \<Rightarrow> string \<Rightarrow> (string \<times> string) option \<Rightarrow> world \<Rightarrow> 'tok handled" where
  "Login E now dbnow userAgent remoteAddr req w =
     (case req of None \<Rightarrow> (writeLoginError, w)
      | Some (email, password) \<Rightarrow>
        on_db (GetByEmail email w) (\<lambda>e w. (if e = ErrNotFound then writeLoginError else writeInternalError, w)) (\<lambda>user w.
          if \<not> VerifyPassword E (u_PasswordHash user) password then (writeLoginError, w)
          else if u_EmailVerifiedAt user = None
          then (respond 403 (ErrorBody ''email not verified, check your inbox for the verification link''), w)
          else on_db (GetSecret (u_ID user) w)
            (\<lambda>e w. if e = ErrNotFound then issueSessionForUser E now dbnow userAgent remoteAddr user w else (writeInternalError, w))
            (\<lambda>secret w. if tf_EnabledAt secret \<noteq> None then issueTwoFactorChallenge E now dbnow (u_ID user) w
               else issueSessionForUser E now dbnow userAgent remoteAddr user w)))"

record 'tok verifyTwoFactorRequest =
  vr_ChallengeToken :: "'tok option"
  vr_Code :: string
  vr_RecoveryCode :: string

text \<open>The check of the second factor: a recovery code, when one is given, else the TOTP code.\<close>

definition check_factor ::
    "'tok auth_env \<Rightarrow> time \<Rightarrow> time \<Rightarrow> 'tok verifyTwoFactorRequest \<Rightarrow> TwoFactorSecret \<Rightarrow> uuid \<Rightarrow> (world \<Rightarrow> 'tok handled) \<Rightarrow> world \<Rightarrow> 'tok handled" where
  "check_factor E now dbnow req secret uid next w =
     (if vr_RecoveryCode req \<noteq> [] then
        on_db (ConsumeRecoveryCode (VerifyPassword E) dbnow uid (vr_RecoveryCode req) w) internal (\<lambda>consumed w.
          if consumed then next w else (writeInvalidTwoFactorChallenge, w))
      else (case Decrypt E (tf_EncryptedSecret secret) of None \<Rightarrow> (writeInternalError, w)
        | Some plain \<Rightarrow> if ValidateTOTPCode E now plain (vr_Code req) then next w else (writeInvalidTwoFactorChallenge, w)))"

definition VerifyTwoFactor ::
    "'tok auth_env \<Rightarrow> time \<Rightarrow> time \<Rightarrow> string \<Rightarrow> string \<Rightarrow> 'tok verifyTwoFactorRequest option \<Rightarrow> world \<Rightarrow> 'tok handled" where
  "VerifyTwoFactor E now dbnow userAgent remoteAddr body w =
     (case body of None \<Rightarrow> (writeInvalidTwoFactorChallenge, w)
      | Some req \<Rightarrow> (case vr_ChallengeToken req of None \<Rightarrow> (writeInvalidTwoFactorChallenge, w)
        | Some tok \<Rightarrow> (case VerifyTwoFactorChallenge E now tok of None \<Rightarrow> (writeInvalidTwoFactorChallenge, w)
          | Some (uid, jti) \<Rightarrow>
            on_db (ChallengeLookup jti w) (\<lambda>e w. (if e = ErrNotFound then writeInvalidTwoFactorChallenge else writeInternalError, w)) (\<lambda>ch w.
              if ch_UserID ch \<noteq> uid \<or> ch_UsedAt ch \<noteq> None \<or> ch_ExpiresAt ch < now then (writeInvalidTwoFactorChallenge, w)
              else on_db (GetSecret uid w) (\<lambda>e w. (if e = ErrNotFound then writeInvalidTwoFactorChallenge else writeInternalError, w)) (\<lambda>secret w.
                if tf_EnabledAt secret = None then (writeInvalidTwoFactorChallenge, w)
                else check_factor E now dbnow req secret uid (\<lambda>w.
                  on_db (ChallengeMarkUsed dbnow jti w) internal (\<lambda>claimed w.
                    if claimed = None then (writeInvalidTwoFactorChallenge, w)
                    else on_db (GetByID uid w) internal (\<lambda>user w.
                      issueSessionForUser E now dbnow userAgent remoteAddr user w))) w)))))"

subsection \<open>The signed-in user\<close>

definition me_memberships :: "TenantMembership list \<Rightarrow> me_membership list" where
  "me_memberships ms = map (\<lambda>m. \<lparr>mm_tenant_id = tm_TenantID m, mm_role = tm_Role m, mm_name = tm_Name m, mm_plan_tier = tm_Plan m\<rparr>) ms"

definition me_response :: "string \<Rightarrow> auth_ctx \<Rightarrow> User \<Rightarrow> TenantMembership list \<Rightarrow> bool \<Rightarrow> meResponse" where
  "me_response role ax u ms twofa =
     \<lparr>mr_id = u_ID u, mr_email = u_Email u, mr_name = u_Name u, mr_phone = u_Phone u, mr_role = role,
      mr_active_tenant_id = ax_TenantID ax, mr_memberships = me_memberships ms, mr_two_factor_enabled = twofa\<rparr>"

definition Me :: "string \<Rightarrow> auth_ctx \<Rightarrow> world \<Rightarrow> 'tok handled" where
  "Me role ax w =
     on_db (ListForUser (u_ID (ax_User ax)) w) internal (\<lambda>ms w.
       on_db (GetSecret (u_ID (ax_User ax)) w)
         (\<lambda>_ w. (respond 200 (MeBody (me_response role ax (ax_User ax) ms False)), w))
         (\<lambda>secret w. (respond 200 (MeBody (me_response role ax (ax_User ax) ms (tf_EnabledAt secret \<noteq> None))), w)))"

definition UpdateProfile :: "string option \<Rightarrow> string \<Rightarrow> auth_ctx \<Rightarrow> world \<Rightarrow> 'tok handled" where
  "UpdateProfile req role ax w =
     (if req = None \<or> req = Some [] then (respond 422 (ErrorBody ''name is required''), w)
      else (let name = the req; uid = u_ID (ax_User ax) in
        on_db (UpdateName uid name w) internal (\<lambda>_ w.
          on_db (ListForUser uid w) internal (\<lambda>ms w.
            (respond 200 (MeBody (me_response role ax ((ax_User ax)\<lparr>u_Name := name\<rparr>) ms False)), w)))))"

definition resolveNotificationPreferences :: "(string \<Rightarrow> bool option) \<Rightarrow> (string \<times> bool) list" where
  "resolveNotificationPreferences stored =
     map (\<lambda>ty. (ty, or_keep (stored ty) (NotificationDefaultEnabled ty))) notification_types"

definition GetNotificationPreferences :: "auth_ctx \<Rightarrow> world \<Rightarrow> 'tok handled" where
  "GetNotificationPreferences ax w =
     on_db (PreferencesGet (u_ID (ax_User ax)) w) internal (\<lambda>stored w.
       (respond 200 (PreferencesBody (resolveNotificationPreferences stored)), w))"

text \<open>The request carries an optional value per type, in the order of \<open>notification_types\<close>.\<close>

definition UpdateNotificationPreferences :: "bool option list option \<Rightarrow> auth_ctx \<Rightarrow> world \<Rightarrow> 'tok handled" where
  "UpdateNotificationPreferences req ax w =
     (case req of None \<Rightarrow> (respond 422 (ErrorBody ''invalid request body''), w)
      | Some vs \<Rightarrow>
        (let values = concat (map (\<lambda>(ty, v). case v of None \<Rightarrow> [] | Some e \<Rightarrow> [(ty, e)]) (zip notification_types vs)) in
         on_db (if values = [] then (Inr (), w) else PreferencesUpsert (u_ID (ax_User ax)) values w) internal (\<lambda>_ w.
           on_db (PreferencesGet (u_ID (ax_User ax)) w) internal (\<lambda>stored w.
             (respond 200 (PreferencesBody (resolveNotificationPreferences stored)), w)))))"

definition ChangePassword :: "'tok auth_env \<Rightarrow> time \<Rightarrow> (string \<times> string) option \<Rightarrow> auth_ctx \<Rightarrow> world \<Rightarrow> 'tok handled" where
  "ChangePassword E dbnow req ax w =
     (case req of None \<Rightarrow> (respond 401 (ErrorBody ''current password is incorrect''), w)
      | Some (current, new) \<Rightarrow>
        if \<not> VerifyPassword E (u_PasswordHash (ax_User ax)) current then (respond 401 (ErrorBody ''current password is incorrect''), w)
        else if \<not> ValidatePassword new then (weakPassword, w)
        else (case HashPassword E new of None \<Rightarrow> (writeInternalError, w)
          | Some hash \<Rightarrow> on_db (UpdatePasswordHash (u_ID (ax_User ax)) hash w) internal (\<lambda>_ w.
              (respond 200 StatusOk, snd (RevokeSessions dbnow (u_ID (ax_User ax)) w)))))"

definition Logout :: "time \<Rightarrow> auth_ctx \<Rightarrow> world \<Rightarrow> 'tok handled" where
  "Logout dbnow ax w =
     (\<lparr>rp_status = 200, rp_cookie = Some ClearSession, rp_body = NoBody\<rparr>, snd (SessionRevoke dbnow (ax_SessionID ax) w))"

definition SwitchTenant :: "'tok auth_env \<Rightarrow> time \<Rightarrow> uuid option \<Rightarrow> auth_ctx \<Rightarrow> world \<Rightarrow> 'tok handled" where
  "SwitchTenant E now req ax w =
     (case req of None \<Rightarrow> (respond 422 (ErrorBody ''tenant_id is required''), w)
      | Some tid \<Rightarrow> on_db (ListForUser (u_ID (ax_User ax)) w) internal (\<lambda>ms w.
          if \<not> (\<exists>m\<in>set ms. tm_TenantID m = tid) then (respond 403 (ErrorBody ''no access to that tenant''), w)
          else (case IssueSessionWithTenant E now (u_ID (ax_User ax)) (Some tid) (Some (ax_SessionID ax)) of
              None \<Rightarrow> (writeInternalError, w)
            | Some tok \<Rightarrow> (\<lparr>rp_status = 200, rp_cookie = Some (SetSession tok), rp_body = LoginBody tok (Some tid)\<rparr>, w))))"

subsection \<open>Enrolment in the second factor\<close>

text \<open>\<open>generated\<close> is what \<open>GenerateTOTPSecret\<close> yields: the secret and its URI.\<close>

definition Enroll :: "'tok auth_env \<Rightarrow> time \<Rightarrow> (string \<times> string) option \<Rightarrow> string option \<Rightarrow> auth_ctx \<Rightarrow> world \<Rightarrow> 'tok handled" where
  "Enroll E dbnow generated nonce ax w =
     (let uid = u_ID (ax_User ax);
          store = (\<lambda>w. case generated of None \<Rightarrow> (writeInternalError, w)
            | Some (secret, uri) \<Rightarrow> (case Encrypt E nonce secret of None \<Rightarrow> (writeInternalError, w)
              | Some enc \<Rightarrow> on_db (CreatePendingSecret dbnow uid enc w) internal (\<lambda>_ w. (respond 200 (EnrollBody secret uri), w))))
      in on_db (GetSecret uid w)
           (\<lambda>e w. if e = ErrNotFound then store w else (writeInternalError, w))
           (\<lambda>existing w. if tf_EnabledAt existing \<noteq> None
              then (respond 409 (ErrorBody ''two-factor authentication is already enabled''), w) else store w))"

definition recoveryCodeCount :: nat where "recoveryCodeCount = 10"

text \<open>The codes and their hashes, from the values \<open>generateRecoveryCode\<close> draws.\<close>

fun hash_codes :: "'tok auth_env \<Rightarrow> string option list \<Rightarrow> (string list \<times> string list) option" where
  "hash_codes E [] = Some ([], [])"
| "hash_codes E (drawn # rest) =
     (case drawn of None \<Rightarrow> None
      | Some code \<Rightarrow> (case HashPassword E code of None \<Rightarrow> None
        | Some hash \<Rightarrow> (case hash_codes E rest of None \<Rightarrow> None
          | Some (codes, hashes) \<Rightarrow> Some (code # codes, hash # hashes))))"

definition invalid_confirm_code :: "'tok reply" where
  "invalid_confirm_code = respond 422 (ErrorBody ''invalid verification code'')"

definition Confirm2FA ::
    "'tok auth_env \<Rightarrow> time \<Rightarrow> time \<Rightarrow> (nat \<Rightarrow> string option) \<Rightarrow> string option \<Rightarrow> auth_ctx \<Rightarrow> world \<Rightarrow> 'tok handled" where
  "Confirm2FA E now dbnow drawn req ax w =
     (let uid = u_ID (ax_User ax) in
      case req of None \<Rightarrow> (invalid_confirm_code, w)
      | Some code \<Rightarrow> on_db (GetSecret uid w) (\<lambda>e w. (if e = ErrNotFound then invalid_confirm_code else writeInternalError, w)) (\<lambda>pending w.
          case Decrypt E (tf_EncryptedSecret pending) of None \<Rightarrow> (writeInternalError, w)
          | Some plain \<Rightarrow>
            if \<not> ValidateTOTPCode E now plain code then (invalid_confirm_code, w)
            else on_db (ConfirmSecret dbnow uid w) internal (\<lambda>_ w.
              case hash_codes E (map drawn [0 ..< recoveryCodeCount]) of None \<Rightarrow> (writeInternalError, w)
              | Some (codes, hashes) \<Rightarrow> on_db (CreateRecoveryCodes uid hashes w) internal (\<lambda>_ w.
                  (respond 200 (RecoveryBody codes), w)))))"

definition Disable2FA :: "'tok auth_env \<Rightarrow> string option \<Rightarrow> auth_ctx \<Rightarrow> world \<Rightarrow> 'tok handled" where
  "Disable2FA E req ax w =
     (case req of None \<Rightarrow> (respond 401 (ErrorBody ''current password is incorrect''), w)
      | Some current \<Rightarrow>
        if \<not> VerifyPassword E (u_PasswordHash (ax_User ax)) current then (respond 401 (ErrorBody ''current password is incorrect''), w)
        else on_db (DeleteSecret (u_ID (ax_User ax)) w) internal (\<lambda>_ w.
          on_db (DeleteRecoveryCodes (u_ID (ax_User ax)) w) internal (\<lambda>_ w. (respond 200 StatusOk, w))))"

subsection \<open>The sessions of the user\<close>

definition sessionToView :: "Session \<Rightarrow> bool \<Rightarrow> SessionView" where
  "sessionToView s current =
     \<lparr>sw_ID = ss_ID s, sw_UserAgent = ss_UserAgent s, sw_IP = ss_IP s, sw_CreatedAt = ss_CreatedAt s,
      sw_LastSeenAt = ss_LastSeenAt s, sw_Current = current\<rparr>"

definition SessionsList :: "time \<Rightarrow> auth_ctx \<Rightarrow> world \<Rightarrow> 'tok handled" where
  "SessionsList dbnow ax w =
     on_db (SessionListForUser dbnow (u_ID (ax_User ax)) w) internal (\<lambda>rows w.
       (respond 200 (SessionsBody (map (\<lambda>s. sessionToView s (ss_ID s = ax_SessionID ax)) rows)), w))"

text \<open>The path identifier is \<open>None\<close> when it is no UUID: the lookup then fails in the database, which
  aborts the request's transaction.\<close>

definition SessionsRevoke :: "time \<Rightarrow> uuid option \<Rightarrow> auth_ctx \<Rightarrow> world \<Rightarrow> 'tok handled" where
  "SessionsRevoke dbnow path ax w =
     (let notFound = respond 404 (ErrorBody ''session not found'') in
      case path of None \<Rightarrow> (case pool_exec w of (ok, w) \<Rightarrow> if ok then (notFound, abort_tx w) else (writeInternalError, w))
      | Some sid \<Rightarrow>
        if sid = ax_SessionID ax
        then (respond 409 (ErrorBody ''cannot revoke the current session - use POST /api/auth/logout instead''), w)
        else on_db (GetByIDAndUser sid (u_ID (ax_User ax)) w) (\<lambda>e w. (if e = ErrNotFound then notFound else writeInternalError, w)) (\<lambda>_ w.
          on_db (SessionRevoke dbnow sid w) internal (\<lambda>_ w. (respond 200 StatusOk, w))))"

subsection \<open>Password reset\<close>

definition resetTokenTTL :: duration where "resetTokenTTL = 1 * hour"

definition hashResetToken :: "'tok auth_env \<Rightarrow> string \<Rightarrow> string" where
  "hashResetToken E raw = sha256 E raw"

text \<open>The goroutine of \<open>Request\<close>, up to the mail; \<open>raw\<close> is the token drawn.\<close>

definition issueAndSendPasswordReset :: "'tok auth_env \<Rightarrow> time \<Rightarrow> string option \<Rightarrow> uuid \<Rightarrow> world \<Rightarrow> world" where
  "issueAndSendPasswordReset E now raw uid w =
     (case raw of None \<Rightarrow> w
      | Some tok \<Rightarrow> snd (ResetCreate uid (hashResetToken E tok) (now + resetTokenTTL) w))"

definition PasswordResetRequest :: "'tok auth_env \<Rightarrow> time \<Rightarrow> string option \<Rightarrow> string option \<Rightarrow> world \<Rightarrow> 'tok handled" where
  "PasswordResetRequest E now raw req w =
     (case req of None \<Rightarrow> (respond 200 StatusOk, w)
      | Some email \<Rightarrow> on_db (GetByEmail email w) (\<lambda>_ w. (respond 200 StatusOk, w)) (\<lambda>admin w.
          (respond 200 StatusOk, issueAndSendPasswordReset E now raw (u_ID admin) w)))"

definition PasswordResetConfirm :: "'tok auth_env \<Rightarrow> time \<Rightarrow> time \<Rightarrow> (string \<times> string) option \<Rightarrow> world \<Rightarrow> 'tok handled" where
  "PasswordResetConfirm E now dbnow body w =
     (case body of None \<Rightarrow> (writeResetConfirmError, w)
      | Some (tok, new) \<Rightarrow>
        on_db (GetByTokenHash (hashResetToken E tok) w) (\<lambda>e w. (if e = ErrNotFound then writeResetConfirmError else writeInternalError, w)) (\<lambda>t w.
          if pr_UsedAt t \<noteq> None \<or> pr_ExpiresAt t < now then (writeResetConfirmError, w)
          else if \<not> ValidatePassword new then (weakPassword, w)
          else (case HashPassword E new of None \<Rightarrow> (writeInternalError, w)
            | Some hash \<Rightarrow> on_db (UpdatePasswordHash (pr_UserID t) hash w) internal (\<lambda>_ w.
                on_db (ResetMarkUsed dbnow (pr_ID t) w) internal (\<lambda>_ w.
                  (respond 200 StatusOk,
                   snd (RevokeSessions dbnow (pr_UserID t) (snd (InvalidateOtherPending dbnow (pr_UserID t) (pr_ID t) w)))))))))"

subsection \<open>Requests\<close>

datatype auth_action =
    AMe
  | AUpdateProfile "string option"
  | AGetPreferences
  | AUpdatePreferences "bool option list option"
  | AChangePassword "(string \<times> string) option"
  | ALogout
  | ASwitchTenant "uuid option"
  | AEnroll "(string \<times> string) option" "string option"
  | AConfirm2FA "nat \<Rightarrow> string option" "string option"
  | ADisable2FA "string option"
  | AListSessions
  | ARevokeSession "uuid option"

datatype 'tok auth_request =
    ReqLogin string string "(string \<times> string) option"
  | ReqVerify2FA string string "'tok verifyTwoFactorRequest option"
  | ReqResetRequest "string option" "string option"
  | ReqResetConfirm "(string \<times> string) option"
  | ReqAuthed "'tok option" auth_action

fun act :: "'tok auth_env \<Rightarrow> time \<Rightarrow> time \<Rightarrow> auth_action \<Rightarrow> string \<Rightarrow> auth_ctx \<Rightarrow> world \<Rightarrow> 'tok handled" where
  "act E now dbnow AMe role ax w = Me role ax w"
| "act E now dbnow (AUpdateProfile req) role ax w = UpdateProfile req role ax w"
| "act E now dbnow AGetPreferences role ax w = GetNotificationPreferences ax w"
| "act E now dbnow (AUpdatePreferences req) role ax w = UpdateNotificationPreferences req ax w"
| "act E now dbnow (AChangePassword req) role ax w = ChangePassword E dbnow req ax w"
| "act E now dbnow ALogout role ax w = Logout dbnow ax w"
| "act E now dbnow (ASwitchTenant req) role ax w = SwitchTenant E now req ax w"
| "act E now dbnow (AEnroll generated nonce) role ax w = Enroll E dbnow generated nonce ax w"
| "act E now dbnow (AConfirm2FA drawn req) role ax w = Confirm2FA E now dbnow drawn req ax w"
| "act E now dbnow (ADisable2FA req) role ax w = Disable2FA E req ax w"
| "act E now dbnow AListSessions role ax w = SessionsList dbnow ax w"
| "act E now dbnow (ARevokeSession path) role ax w = SessionsRevoke dbnow path ax w"

fun serve :: "'tok auth_env \<Rightarrow> time \<Rightarrow> time \<Rightarrow> 'tok auth_request \<Rightarrow> world \<Rightarrow> 'tok handled" where
  "serve E now dbnow (ReqLogin ua addr req) w = Login E now dbnow ua addr req w"
| "serve E now dbnow (ReqVerify2FA ua addr req) w = VerifyTwoFactor E now dbnow ua addr req w"
| "serve E now dbnow (ReqResetRequest raw req) w = PasswordResetRequest E now raw req w"
| "serve E now dbnow (ReqResetConfirm req) w = PasswordResetConfirm E now dbnow req w"
| "serve E now dbnow (ReqAuthed tok a) w = RequireAuth E now dbnow tok (TenantContext (act E now dbnow a)) w"

definition serve_all :: "'tok auth_env \<Rightarrow> (time \<times> time \<times> 'tok auth_request) list \<Rightarrow> world \<Rightarrow> world" where
  "serve_all E rs w = fold (\<lambda>(now, dbnow, r) w. snd (serve E now dbnow r w)) rs w"

subsection \<open>What the handlers keep\<close>

definition hstays :: "(world \<Rightarrow> bool) \<Rightarrow> world \<Rightarrow> 'r \<times> world \<Rightarrow> bool" where
  "hstays I w m \<longleftrightarrow> (I w \<longrightarrow> I (snd m) \<and> session_of (snd m) = session_of w)"

lemma hstays_refl [simp, intro!]: "hstays I w (r, w)"
  by (simp add: hstays_def)

lemma hstays_snd: "stays I w m \<Longrightarrow> hstays I w (r, snd m)"
  by (simp add: hstays_def stays_def)

lemma hstays_snd2: "stays I w m \<Longrightarrow> (\<And>v. stays I v (f v)) \<Longrightarrow> hstays I w (r, snd (f (snd m)))"
  by (simp add: hstays_def stays_def)

lemma hstays_on_db:
  assumes "stays I w m" and "\<And>e v. session_of v = session_of w \<Longrightarrow> hstays I v (err e v)"
    and "\<And>a v. session_of v = session_of w \<Longrightarrow> hstays I v (ok a v)"
  shows "hstays I w (on_db m err ok)"
proof (cases m)
  case (Pair r v)
  with assms show ?thesis by (cases r) (auto simp: hstays_def stays_def)
qed

lemma session_of_None [simp]: "session_of w = None \<longleftrightarrow> tx w = None"
  by (simp add: session_of_def)

context auth_ops begin

lemma stays_account_reads [simp, intro!]:
  "stays (I) w (ListForUser uid w)" "stays (I) w (GetRole uid tid w)" "stays (I) w (PreferencesGet uid w)"
  by (auto simp: ListForUser_def GetRole_def PreferencesGet_def intro!: stays_pool_try split: option.splits)

lemma stays_PreferencesUpsert [simp, intro!]: "stays (I) w (PreferencesUpsert uid vs w)"
proof (induction vs arbitrary: w)
  case (Cons v vs)
  obtain ty e where v: "v = (ty, e)" by fastforce
  have "auth_edit n T d (put_preference uid ty e d)" for n d
    by (auto simp: put_preference_def intro: edit_preferences)
  then show ?case unfolding v PreferencesUpsert.simps
    by (auto intro!: stays_db_bind Cons.IH stays_pool_try stays_edit [of _ T])
qed simp

lemma stays_resolve_role: "stays (I) w (resolve_role ax w)"
proof (cases "ax_TenantID ax")
  case (Some tid)
  obtain r v where g: "GetRole (u_ID (ax_User ax)) tid w = (r, v)" by fastforce
  have "stays (I) w (GetRole (u_ID (ax_User ax)) tid w)" by simp
  with Some g show ?thesis by (cases r) (auto simp: resolve_role_def stays_def)
qed (simp add: resolve_role_def stays_refl)

lemma hstays_act:
  assumes "T \<le> dbnow" and "\<And>uid hs v. (\<exists>drawn req. a = AConfirm2FA drawn req) \<Longrightarrow> stays I v (CreateRecoveryCodes uid hs v)"
  shows "hstays (I) w (act E now dbnow a role ax w)"
proof -
  note stays = stays_user_ops [OF assms(1)] stays_session_ops [OF assms(1)] stays_secret_ops stays_code_ops
    stays_challenge_ops [OF assms(1)] stays_reset_ops [OF assms(1)]
  have malformed: "hstays (I) w (case pool_exec w of (ok, w) \<Rightarrow> if ok then (r, abort_tx w) else (r', w))" for r r' :: "'a reply"
    using I_same same_data_pool [of w] session_of_same_data
    by (auto simp: hstays_def session_of_same_data [OF same_data_abort] split: prod.splits
        intro: I_same [OF _ same_data_abort])
  show ?thesis
    by (cases a; simp add: Me_def UpdateProfile_def GetNotificationPreferences_def UpdateNotificationPreferences_def
        ChangePassword_def Logout_def SwitchTenant_def Enroll_def Confirm2FA_def Disable2FA_def SessionsList_def
        SessionsRevoke_def GetByIDAndUser_def Let_def)
      (auto simp: GetByIDAndUser_def intro!: hstays_on_db stays assms(2) hstays_snd malformed split: option.splits)
qed

end

context lasting begin

lemma hstays_issueSession:
  assumes "T \<le> dbnow" and "tx w = None"
  shows "hstays (lasts J) w (issueSessionForUser E now dbnow ua addr user w)"
proof (cases "lasts J w")
  case True
  obtain r v where b: "BeginTenantTx (Some (u_ID user)) None w = (r, v)" by fastforce
  have v: "lasts J v" using lasts_begin [OF True assms(2)] b by (metis snd_conv)
  show ?thesis
  proof (cases r)
    case (Inl e)
    with b v assms(2) BeginTenantTx_err [of "Some (u_ID user)" None w e v] show ?thesis
      by (simp add: issueSessionForUser_def hstays_def session_of_def)
  next
    case (Inr x)
    obtain r1 v1 where l: "ListForUser (u_ID user) v = (r1, v1)" by fastforce
    have v1: "lasts J v1" "session_of v1 = session_of v"
      using ops.stays_account_reads(1) [of v "u_ID user"] v unfolding l by (simp_all add: stays_def)
    have tv: "tx v1 \<noteq> None"
      using v1(2) BeginTenantTx_ok(5) [of "Some (u_ID user)" None w v] b Inr by (auto simp: session_of_def)
    have gone: "tx (tx_rollback v1) = None" by (simp add: tx_rollback_def split: option.splits)
    show ?thesis
    proof (cases r1)
      case (Inl e)
      with b Inr l v1 gone assms(2) lasts_end(1) show ?thesis
        by (simp add: issueSessionForUser_def hstays_def session_of_def)
    next
      case (Inr ms)
      obtain r2 v2 where c: "tx_commit v1 = (r2, v2)" by fastforce
      have v2: "lasts J v2" using lasts_end(2) [OF v1(1)] c by (metis snd_conv)
      have t2: "tx v2 = None" using tv c tx_commit_ok(3) [of v1 v2] tx_commit_err(3) [of v1 _ v2] by (cases r2) auto
      have tail: "hstays (lasts J) v2 (on_db (SessionCreate dbnow (u_ID user) ua (remote_host addr) v2) internal
          (\<lambda>sid w. case IssueSessionWithTenant E now (u_ID user) tenant (Some sid) of
             None \<Rightarrow> (writeInternalError, w)
           | Some tok \<Rightarrow> (\<lparr>rp_status = 200, rp_cookie = Some (SetSession tok), rp_body = LoginBody tok tenant\<rparr>, w)))" for tenant
        by (rule hstays_on_db) (auto simp: ops.stays_session_ops(1) [OF assms(1)] split: option.splits)
      moreover have "session_of v2 = session_of w" using t2 assms(2) by (simp add: session_of_def)
      ultimately show ?thesis using b l \<open>r = Inr x\<close> Inr c v2
        by (cases r2) (auto simp: issueSessionForUser_def hstays_def Let_def)
    qed
  qed
qed (simp add: hstays_def)

end

context lasting begin

lemma hstays_public:
  assumes "T \<le> dbnow" and "tx w = None"
  shows "hstays (lasts J) w (Login E now dbnow ua addr req w)"
    "hstays (lasts J) w (VerifyTwoFactor E now dbnow ua addr body w)"
    "hstays (lasts J) w (PasswordResetRequest E now raw mail w)"
    "hstays (lasts J) w (PasswordResetConfirm E now dbnow conf w)"
proof -
  note stays = ops.stays_user_ops [OF assms(1)] ops.stays_session_ops [OF assms(1)] ops.stays_secret_ops ops.stays_code_ops
    ops.stays_challenge_ops [OF assms(1)] ops.stays_reset_ops [OF assms(1)]
  have issue: "hstays (lasts J) v (issueSessionForUser E now dbnow ua addr user v)" if "session_of v = session_of w" for user v
    using hstays_issueSession [OF assms(1)] that assms(2) by (metis session_of_None)
  have chall: "hstays (lasts J) v (issueTwoFactorChallenge E now dbnow uid v)" for v uid
    unfolding issueTwoFactorChallenge_def by (rule hstays_on_db) (auto simp: stays split: option.splits)
  show "hstays (lasts J) w (Login E now dbnow ua addr req w)"
    unfolding Login_def GetByEmail_def by (auto intro!: hstays_on_db stays issue chall split: option.splits)
  have factor: "hstays (lasts J) v (check_factor E now dbnow req' secret uid next v)"
    if "\<And>u. session_of u = session_of v \<Longrightarrow> hstays (lasts J) u (next u)" for v req' secret uid "next"
    unfolding check_factor_def using that by (auto intro!: hstays_on_db stays split: option.splits)
  show "hstays (lasts J) w (VerifyTwoFactor E now dbnow ua addr body w)"
    unfolding VerifyTwoFactor_def GetByID_def
    by (auto intro!: hstays_on_db stays issue factor split: option.splits)
  show "hstays (lasts J) w (PasswordResetRequest E now raw mail w)"
    unfolding PasswordResetRequest_def GetByEmail_def issueAndSendPasswordReset_def
    by (auto intro!: hstays_on_db stays hstays_snd split: option.splits)
  show "hstays (lasts J) w (PasswordResetConfirm E now dbnow conf w)"
    unfolding PasswordResetConfirm_def
    by (auto intro!: hstays_on_db stays hstays_snd2 split: option.splits)
qed

lemma hstays_authed:
  assumes "T \<le> dbnow" and "tx w = None"
  shows "hstays (lasts J) w (TenantContext (act E now dbnow a) ax w)"
proof (cases "lasts J w")
  case True
  obtain r v where b: "BeginTenantTx (Some (u_ID (ax_User ax))) (ax_TenantID ax) w = (r, v)" by fastforce
  have v: "lasts J v" using lasts_begin [OF True assms(2)] b by (metis snd_conv)
  show ?thesis
  proof (cases r)
    case (Inl e)
    with b v assms(2) BeginTenantTx_err(2) [OF b [unfolded Inl]] show ?thesis
      by (simp add: TenantContext_def hstays_def session_of_def)
  next
    case (Inr x)
    obtain r1 v1 where l: "resolve_role ax v = (r1, v1)" by fastforce
    have v1: "lasts J v1" using ops.stays_resolve_role [of v ax] v unfolding l by (simp add: stays_def)
    have end_None: "tx (tx_rollback u) = None" "tx (snd (tx_commit u)) = None" for u
      by (auto simp: tx_rollback_def tx_commit_def split: option.splits prod.splits)
    show ?thesis
    proof (cases r1)
      case (Inl e)
      with b Inr l v1 end_None assms(2) lasts_end show ?thesis
        by (simp add: TenantContext_def hstays_def session_of_def)
    next
      case (Inr role)
      obtain rep u where h: "act E now dbnow a role ax v1 = (rep, u)" by fastforce
      have "lasts J u" using ops.hstays_act [OF assms(1) stays_CreateRecoveryCodes, of v1 E now a role ax] v1 unfolding h by (simp add: hstays_def)
      with b \<open>r = Inr x\<close> l Inr h end_None assms(2) lasts_end show ?thesis
        by (simp add: TenantContext_def hstays_def session_of_def)
    qed
  qed
qed (simp add: hstays_def)

lemma hstays_serve:
  assumes "T \<le> dbnow" and "tx w = None"
  shows "hstays (lasts J) w (serve E now dbnow r w)"
proof (cases r)
  case (ReqAuthed tok a)
  have "hstays (lasts J) v (TenantContext (act E now dbnow a) ax (snd (TouchLastSeen dbnow sid v)))"
    if "session_of v = session_of w" for v ax sid
  proof -
    let ?t = "snd (TouchLastSeen dbnow sid v)"
    have t: "lasts J v \<longrightarrow> lasts J ?t \<and> session_of ?t = session_of v"
      using ops.stays_session_ops(5) [OF assms(1), of v sid] by (simp add: stays_def)
    show ?thesis
    proof (cases "lasts J v")
      case True
      with t that assms(2) have "tx ?t = None" by (metis session_of_None)
      from hstays_authed [OF assms(1) this, of E now a ax] True t show ?thesis by (simp add: hstays_def)
    qed (simp add: hstays_def)
  qed
  then show ?thesis unfolding ReqAuthed serve.simps RequireAuth_def GetByID_def SessionGetByID_def
    by (auto intro!: hstays_on_db ops.stays_user_ops [OF assms(1)] ops.stays_session_ops [OF assms(1)] split: option.splits)
qed (use hstays_public [OF assms] in simp_all)

lemma serve_all_lasts:
  assumes "lasts J w" and "tx w = None" and "\<forall>(now, t, r)\<in>set rs. T \<le> t"
  shows "lasts J (serve_all E rs w) \<and> tx (serve_all E rs w) = None"
  using assms
proof (induction rs arbitrary: w)
  case (Cons x rs)
  obtain now t r where x: "x = (now, t, r)" by (cases x)
  from Cons.prems x have "T \<le> t" by simp
  from hstays_serve [OF this Cons.prems(2), of E now r] Cons.prems(1,2)
  have "lasts J (snd (serve E now t r w))" "tx (snd (serve E now t r w)) = None"
    by (auto simp: hstays_def session_of_def)
  with Cons.IH [of "snd (serve E now t r w)"] Cons.prems(3) x show ?case by (simp add: serve_all_def)
qed (simp add: serve_all_def)

end

end
