(* ===== verification/Auth_Safety.thy ===== *)
theory Auth_Safety
  imports Auth
begin

text \<open>
  What authentication promises: a session that was revoked is never accepted again, a second factor
  cannot be skipped and a challenge, a recovery code or a reset token works once, session and
  challenge tokens cannot stand for each other, and a request that fails leaves no trace.
\<close>

subsection \<open>Revocation\<close>

lemma VerifySessionClaims_sid: "VerifySessionClaims E now tok = Some c \<Longrightarrow> tok' = Some tok \<Longrightarrow>
  session_revoked (sc_SessionID c) (next_id w) (db w) \<Longrightarrow>
  \<exists>w'. RequireAuth E now dbnow tok' next w = (writeUnauthorized, w') \<and> db w' = db w"
proof -
  assume c: "VerifySessionClaims E now tok = Some c" "tok' = Some tok" and r: "session_revoked (sc_SessionID c) (next_id w) (db w)"
  obtain r1 w1 where g: "GetByID (sc_AdminID c) w = (r1, w1)" by fastforce
  have d1: "db w1 = db w"
    using g by (auto simp: GetByID_def find_user_def same_dataD(1) elim!: pool_try_cases split: option.splits)
  obtain r2 w2 where s: "SessionGetByID (sc_SessionID c) w1 = (r2, w2)" by fastforce
  have d2: "db w2 = db w1"
    using s by (auto simp: SessionGetByID_def find_session_def same_dataD(1) elim!: pool_try_cases split: option.splits)
  have "ss_RevokedAt x \<noteq> None" if "r2 = Inr x" for x
  proof -
    from that s obtain v where "same_data w1 v" "find_row (\<lambda>s. ss_ID s = sc_SessionID c) (sessions (db v)) = Some x"
      by (auto simp: SessionGetByID_def find_session_def elim!: pool_try_cases split: option.splits)
    with find_row_Some [OF this(2)] d1 same_dataD(1) [OF this(1)] r show ?thesis
      by (auto simp: session_revoked_def spent_row_def)
  qed
  with c g s d1 d2 show ?thesis
    by (cases r1; cases r2) (auto simp: RequireAuth_def)
qed

text \<open>C6. A revoked session is never accepted again. Once the row of a session is revoked, after any
  sequence of requests to the authentication routes, with any tokens, at any times and with any
  statements failing, every token of that session is answered 401 and reaches no handler.\<close>

theorem revoked_session_never_accepted:
  assumes "session_revoked sid (next_id w) (db w)" and "tx w = None"
    and "VerifySessionClaims E now tok = Some c" and "sc_SessionID c = sid"
  shows "fst (RequireAuth E now dbnow (Some tok) next (serve_all E rs w)) = writeUnauthorized \<and>
    db (snd (RequireAuth E now dbnow (Some tok) next (serve_all E rs w))) = db (serve_all E rs w)"
proof -
  define T where "T = Min (insert 0 ((\<lambda>(now, t, r). t) ` set rs))"
  have T: "\<forall>(now, t, r)\<in>set rs. T \<le> t" unfolding T_def by (auto intro!: Min_le rev_image_eqI)
  have "lasts (session_revoked sid) w" using assms(1,2) by (simp add: lasts_def)
  then have "lasts (session_revoked sid) (serve_all E rs w)"
    using session.serve_all_lasts [OF _ assms(2) T] by blast
  then have "session_revoked (sc_SessionID c) (next_id (serve_all E rs w)) (db (serve_all E rs w))"
    by (simp add: lasts_def assms(4))
  from VerifySessionClaims_sid [OF assms(3) refl this, of dbnow "next"] show ?thesis by auto
qed

subsection \<open>A concrete server\<close>

text \<open>Tokens that carry their secret and claims, a hash that prepends a letter, and a TOTP code equal
  to the secret; a database whose role bypasses row-level security, with one verified user who owns
  one tenant and has one session.\<close>

definition sample_env :: "(string \<times> token_claims) auth_env" where
  "sample_env = \<lparr>jwt_sign = (\<lambda>s c. Some (s, c)),
     jwt_parse = (\<lambda>s now tok. if fst tok \<noteq> s \<or> (case cl_ExpiresAt (snd tok) of None \<Rightarrow> False | Some e \<Rightarrow> e \<le> now) then None else Some (snd tok)),
     bcrypt_generate = (\<lambda>p. Some (CHR ''h'' # p)), bcrypt_matches = (\<lambda>h p. h = CHR ''h'' # p),
     totp_validate = (\<lambda>secret code now. secret = code), pbkdf2 = (\<lambda>k. k), gcm_seal = (\<lambda>k n p. p), gcm_open = (\<lambda>k n c. Some c),
     sha256 = (\<lambda>x. x), session_secret = ''s'', master_key = ''m''\<rparr>"

definition home_world :: world where
  "home_world = fresh_world\<lparr>bypass_rls := True, next_id := 10, db := no_rows\<lparr>
     users := [(sample_user ''a'')\<lparr>u_ID := 1, u_PasswordHash := ''hpassword''\<rparr>], tenants := [sample_tenant],
     memberships := [\<lparr>mb_user_id = 1, mb_tenant_id = 3, mb_role = RoleOwner, mb_created_at = 0\<rparr>],
     sessions := [new_session 5 0 1 [] []]\<rparr>\<rparr>"

definition home_token :: "string \<times> token_claims" where
  "home_token = (''s'', session_claims 0 SessionTTL 1 (Some 3) 5)"

lemma home_token_verifies:
  "VerifySessionClaims sample_env second home_token = Some \<lparr>sc_AdminID = 1, sc_IssuedAt = 0, sc_TenantID = Some 3, sc_SessionID = 5\<rparr>"
  by code_simp

definition after_logout :: world where
  "after_logout = snd (serve sample_env second second (ReqAuthed (Some home_token) ALogout) home_world)"

theorem revoked_session_never_accepted_witness:
  "fst (serve sample_env second second (ReqAuthed (Some home_token) AMe) home_world) =
     respond 200 (MeBody \<lparr>mr_id = 1, mr_email = ''a'', mr_name = [], mr_phone = None, mr_role = ''owner'', mr_active_tenant_id = Some 3,
       mr_memberships = [\<lparr>mm_tenant_id = 3, mm_role = ''owner'', mm_name = ''acme'', mm_plan_tier = ''free''\<rparr>],
       mr_two_factor_enabled = False\<rparr>) \<and>
   fst (RequireAuth sample_env second second (Some home_token) (TenantContext Me)
      (serve_all sample_env [(minute, minute, ReqLogin [] [] (Some (''a'', ''password'')))] after_logout)) = writeUnauthorized"
proof -
  have "session_revoked 5 (next_id after_logout) (db after_logout)" by code_simp
  moreover have "tx after_logout = None" by code_simp
  ultimately have "fst (RequireAuth sample_env second second (Some home_token) (TenantContext Me)
      (serve_all sample_env [(minute, minute, ReqLogin [] [] (Some (''a'', ''password'')))] after_logout)) = writeUnauthorized"
    using home_token_verifies by (rule conjunct1 [OF revoked_session_never_accepted]) simp
  moreover have "fst (serve sample_env second second (ReqAuthed (Some home_token) AMe) home_world) =
     respond 200 (MeBody \<lparr>mr_id = 1, mr_email = ''a'', mr_name = [], mr_phone = None, mr_role = ''owner'', mr_active_tenant_id = Some 3,
       mr_memberships = [\<lparr>mm_tenant_id = 3, mm_role = ''owner'', mm_name = ''acme'', mm_plan_tier = ''free''\<rparr>],
       mr_two_factor_enabled = False\<rparr>)" by code_simp
  ultimately show ?thesis by blast
qed

subsection \<open>Two kinds of token\<close>

lemma numeric_date_whole [simp]: "numeric_date t mod second = 0"
  by (simp add: numeric_date_def mod_diff_left_eq [symmetric])

lemma numeric_date_le: "numeric_date t \<le> t" "t - second < numeric_date t"
  by (simp_all add: numeric_date_def)

lemma jwt_okD:
  assumes "jwt_ok E" and "jwt_sign E s c = Some tok" and "cl_IssuedAt c = Some (numeric_date a)"
    and "cl_ExpiresAt c = Some (numeric_date b)"
  shows "jwt_parse E s t tok = (if numeric_date b \<le> t then None else Some c)"
proof -
  have "\<forall>t. cl_IssuedAt c = Some t \<or> cl_ExpiresAt c = Some t \<longrightarrow> t mod second = 0" using assms(3,4) by auto
  with assms(1,2) have "jwt_parse E s t tok = (if \<exists>e. cl_ExpiresAt c = Some e \<and> e \<le> t then None else Some c)"
    unfolding jwt_ok_def by blast
  with assms(4) show ?thesis by simp
qed

text \<open>C20. Session and challenge tokens read back as they were issued, and neither is ever taken for the
  other. A session token verifies, until it expires, to the user, tenant and session it was issued
  for, with its issue time cut to the second, so never later than the true one; a challenge token
  verifies to its user and challenge; a session token is refused as a challenge and a challenge
  token is refused as a session, at every time.\<close>

theorem session_and_challenge_tokens:
  assumes "jwt_ok E" and "IssueSessionWithTenant E now uid tenant (Some sid) = Some tok"
    and "IssueTwoFactorChallenge E now uid2 jti = Some tok2"
  shows "VerifySessionClaims E t tok =
      (if numeric_date (now + SessionTTL) \<le> t then None
       else Some \<lparr>sc_AdminID = uid, sc_IssuedAt = numeric_date now, sc_TenantID = tenant, sc_SessionID = sid\<rparr>) \<and>
    numeric_date now \<le> now \<and>
    VerifyTwoFactorChallenge E t tok2 =
      (if numeric_date (now + TwoFactorChallengeTTL) \<le> t then None else Some (uid2, jti)) \<and>
    VerifyTwoFactorChallenge E t tok = None \<and> VerifySessionClaims E t tok2 = None"
proof -
  have p: "jwt_parse E (session_secret E) t tok = (if numeric_date (now + SessionTTL) \<le> t then None
      else Some (session_claims now SessionTTL uid tenant sid))"
    using assms(2) by (intro jwt_okD [OF assms(1)]) (auto simp: IssueSessionWithTenant_def issueSessionWithTTL_def session_claims_def)
  have "jwt_parse E (session_secret E) t tok2 = (if numeric_date (now + TwoFactorChallengeTTL) \<le> t then None
      else Some (challenge_claims now TwoFactorChallengeTTL uid2 jti))"
    using assms(3) by (intro jwt_okD [OF assms(1)]) (auto simp: IssueTwoFactorChallenge_def challenge_claims_def)
  with p show ?thesis
    by (auto simp: VerifySessionClaims_def VerifyTwoFactorChallenge_def session_claims_def challenge_claims_def numeric_date_le)
qed

lemma sample_env_ok: "jwt_ok sample_env"
  by (auto simp: jwt_ok_def sample_env_def split: option.splits)

theorem session_and_challenge_tokens_witness:
  "VerifySessionClaims sample_env (hour + 7) (''s'', session_claims 7 SessionTTL 1 None 5) =
      Some \<lparr>sc_AdminID = 1, sc_IssuedAt = 0, sc_TenantID = None, sc_SessionID = 5\<rparr> \<and>
   VerifySessionClaims sample_env 9 (''s'', challenge_claims 7 TwoFactorChallengeTTL 1 6) = None"
proof -
  have i: "IssueSessionWithTenant sample_env 7 1 None (Some 5) = Some (''s'', session_claims 7 SessionTTL 1 None 5)"
    "IssueTwoFactorChallenge sample_env 7 1 6 = Some (''s'', challenge_claims 7 TwoFactorChallengeTTL 1 6)"
    by (simp_all add: IssueSessionWithTenant_def issueSessionWithTTL_def IssueTwoFactorChallenge_def sample_env_def)
  from session_and_challenge_tokens [OF sample_env_ok i, of "hour + 7"]
    session_and_challenge_tokens [OF sample_env_ok i, of 9]
  show ?thesis by (simp add: numeric_date_def duration_defs SessionTTL_def)
qed

subsection \<open>The second factor\<close>

definition signs_in :: "'tok reply \<Rightarrow> bool" where
  "signs_in rep \<longleftrightarrow> (case rp_cookie rep of Some (SetSession _) \<Rightarrow> True | _ \<Rightarrow> False) \<or>
     (case rp_body rep of LoginBody _ _ \<Rightarrow> True | _ \<Rightarrow> False)"

lemma signs_in_errors [simp]: "\<not> signs_in (respond n (ErrorBody e))" "\<not> signs_in (respond n (ChallengeBody t))"
  "\<not> signs_in writeInternalError" "\<not> signs_in writeLoginError" "\<not> signs_in writeInvalidTwoFactorChallenge"
  by (simp_all add: signs_in_def respond_def writeInternalError_def writeLoginError_def writeInvalidTwoFactorChallenge_def)

definition two_factor_on :: "uuid \<Rightarrow> tables \<Rightarrow> bool" where
  "two_factor_on uid d \<longleftrightarrow> (case find_row (\<lambda>s. tf_UserID s = uid) (two_factor_secrets d) of None \<Rightarrow> False
     | Some s \<Rightarrow> tf_EnabledAt s \<noteq> None)"

lemma on_db_cases:
  assumes "on_db m err ok = r"
  obtains (failed) e w where "m = (Inl e, w)" "err e w = r"
  | (ran) a w where "m = (Inr a, w)" "ok a w = r"
  using assms by (cases m; cases "fst m") auto

lemma find_user_db: "find_user P w = (r, v) \<Longrightarrow> db v = db w \<and> (\<forall>u. r = Inr u \<longrightarrow> find_row P (users (db w)) = Some u)"
  by (auto simp: find_user_def same_dataD(1) elim!: pool_try_cases split: option.splits)

lemma GetSecret_db: "GetSecret uid w = (r, v) \<Longrightarrow> db v = db w \<and>
    (\<forall>s. r = Inr s \<longrightarrow> find_row (\<lambda>s. tf_UserID s = uid) (two_factor_secrets (db w)) = Some s) \<and>
    (r = Inl ErrNotFound \<longrightarrow> find_row (\<lambda>s. tf_UserID s = uid) (two_factor_secrets (db w)) = None)"
  by (auto simp: GetSecret_def same_dataD(1) elim!: pool_try_cases split: option.splits)

lemma ChallengeLookup_db: "ChallengeLookup jti w = (r, v) \<Longrightarrow> db v = db w \<and>
    (\<forall>c. r = Inr c \<longrightarrow> find_row (\<lambda>c. ch_ID c = jti) (challenges (db w)) = Some c)"
  by (auto simp: ChallengeLookup_def same_dataD(1) elim!: pool_try_cases split: option.splits)

lemma challenge_no_session: "\<not> signs_in (fst (issueTwoFactorChallenge E now dbnow uid w))"
  by (auto simp: issueTwoFactorChallenge_def on_db_def split: sum.splits option.splits prod.splits)

lemma Login_two_factor:
  assumes "find_row (\<lambda>u. u_Email u = email) (users (db w)) = Some u" and "two_factor_on (u_ID u) (db w)"
  shows "\<not> signs_in (fst (Login E now dbnow ua addr (Some (email, pw)) w))"
proof -
  obtain r v where g: "find_user (\<lambda>u. u_Email u = email) w = (r, v)" by fastforce
  show ?thesis
  proof (cases r)
    case (Inr x)
    with find_user_db [OF g] assms(1) have v: "db v = db w" "x = u" by auto
    obtain r2 v2 where s: "GetSecret (u_ID u) v = (r2, v2)" by fastforce
    from GetSecret_db [OF s] v assms(2) g Inr show ?thesis
      by (cases r2) (auto simp: Login_def GetByEmail_def s two_factor_on_def challenge_no_session)
  qed (simp add: Login_def GetByEmail_def g)
qed

lemma signs_in_on_db:
  assumes "signs_in (fst (on_db m err ok))" and "\<And>e v. \<not> signs_in (fst (err e v))"
  obtains a v where "m = (Inr a, v)" "on_db m err ok = ok a v"
  using assms by (cases m; cases "fst m") auto

text \<open>The keys of the login's tables are unique and were all drawn before.\<close>

definition keys_ok :: "world \<Rightarrow> bool" where
  "keys_ok w \<longleftrightarrow> distinct (map ch_ID (challenges (db w))) \<and> (\<forall>c\<in>set (challenges (db w)). ch_ID c < next_id w) \<and>
     distinct (map rc_id (recovery_codes (db w))) \<and> (\<forall>c\<in>set (recovery_codes (db w)). rc_id c < next_id w)"

lemma spent_row_claim:
  assumes "distinct (map key rs)" and "find_row P rs = Some r" and "\<And>x. key (f x) = key x" and "mark (f r) \<noteq> None"
  shows "spent_row key mark (key r) (sql_update P f rs)"
proof -
  from find_row_Some [OF assms(2)] have r: "r \<in> set rs" "P r" by auto
  have "mark (if P x then f x else x) \<noteq> None" if "x \<in> set rs" "key (if P x then f x else x) = key r" for x
  proof -
    have "x = r" using distinct_key_unique [OF assms(1) that(1) r(1)] that(2) assms(3) by (simp split: if_splits)
    with r(2) assms(4) show ?thesis by simp
  qed
  then show ?thesis unfolding spent_row_def set_sql_update by blast
qed

lemma MarkUsed_spends:
  assumes "ChallengeMarkUsed t jti w = (Inr (Some u), v)" and "tx w = None" and "jti < next_id w"
    and "distinct (map ch_ID (challenges (db w)))"
  shows "lasts (challenge_spent jti) v \<and> tx v = None"
proof -
  from assms(1) obtain x c where x: "same_data w x" "find_row (claimable t jti) (challenges (db x)) = Some c"
    and v: "v = set_db (\<lambda>d. d\<lparr>challenges := sql_update (claimable t jti) (\<lambda>c. c\<lparr>ch_UsedAt := Some t\<rparr>) (challenges d)\<rparr>) x"
    by (auto simp: ChallengeMarkUsed_def elim!: pool_try_cases split: option.splits)
  have "ch_ID c = jti" using find_row_Some [OF x(2)] by (simp add: claimable_def)
  then have "spent_row ch_ID ch_UsedAt jti (sql_update (claimable t jti) (\<lambda>c. c\<lparr>ch_UsedAt := Some t\<rparr>) (challenges (db x)))"
    using spent_row_claim [of ch_ID "challenges (db x)" "claimable t jti" c "\<lambda>c. c\<lparr>ch_UsedAt := Some t\<rparr>" ch_UsedAt] x assms(4)
    by (simp add: same_dataD(1))
  moreover have "tx x = None" using x(1) assms(2) by (simp add: same_data_def)
  ultimately show ?thesis using assms(3) x(1) by (simp add: v lasts_def challenge_spent_def set_db_def same_dataD(4))
qed

lemma Consume_spends:
  assumes "ConsumeRecoveryCode m t uid code w = (Inr True, v)" and "tx w = None" and "keys_ok w"
  obtains c where "c \<in> set (recovery_codes (db w))" "rc_user_id c = uid" "rc_used_at c = None" "m (rc_code_hash c) code"
    "lasts (code_spent (rc_id c)) v" "tx v = None" "next_id v = next_id w" "challenges (db v) = challenges (db w)"
proof -
  from assms(1) obtain x c y where x: "same_data w x" "same_data x y"
    and f: "find_row (\<lambda>c. rc_user_id c = uid \<and> rc_used_at c = None \<and> m (rc_code_hash c) code) (recovery_codes (db x)) = Some c"
    and v: "v = set_db (\<lambda>d. d\<lparr>recovery_codes := sql_update (\<lambda>r. rc_id r = rc_id c \<and> rc_used_at r = None)
                               (\<lambda>r. r\<lparr>rc_used_at := Some t\<rparr>) (recovery_codes d)\<rparr>) y"
    by (auto simp: ConsumeRecoveryCode_def elim!: pool_try_cases split: option.splits if_splits)
  from same_data_trans [OF x] have d: "db y = db w" "next_id y = next_id w" "tx y = None"
    using assms(2) by (auto simp: same_data_def)
  from find_row_Some [OF f] have c: "c \<in> set (recovery_codes (db w))" "rc_user_id c = uid" "rc_used_at c = None" "m (rc_code_hash c) code"
    using x(1) by (auto simp: same_dataD(1))
  have "spent_row rc_id rc_used_at (rc_id c) (recovery_codes (db v))"
    using c(1) by (auto simp: v set_db_def d spent_row_def set_sql_update)
  with c assms(3) d have "lasts (code_spent (rc_id c)) v"
    by (auto simp: lasts_def code_spent_def keys_ok_def v set_db_def)
  with c d that show ?thesis by (simp add: v set_db_def)
qed

definition factor_shown :: "'tok auth_env \<Rightarrow> time \<Rightarrow> 'tok verifyTwoFactorRequest \<Rightarrow> TwoFactorSecret \<Rightarrow> uuid \<Rightarrow> world \<Rightarrow> world \<Rightarrow> bool" where
  "factor_shown E now req secret uid w w' \<longleftrightarrow>
     (if vr_RecoveryCode req = [] then
        (\<exists>plain. Decrypt E (tf_EncryptedSecret secret) = Some plain \<and> ValidateTOTPCode E now plain (vr_Code req))
      else (\<exists>c\<in>set (recovery_codes (db w)). rc_user_id c = uid \<and> rc_used_at c = None \<and>
         VerifyPassword E (rc_code_hash c) (vr_RecoveryCode req) \<and> code_spent (rc_id c) (next_id w') (db w')))"

text \<open>The last steps of \<open>VerifyTwoFactor\<close>: claiming the challenge and issuing the session.\<close>

definition claim_challenge :: "'tok auth_env \<Rightarrow> time \<Rightarrow> time \<Rightarrow> string \<Rightarrow> string \<Rightarrow> uuid \<Rightarrow> uuid \<Rightarrow> world \<Rightarrow> 'tok handled" where
  "claim_challenge E now dbnow ua addr uid jti w =
     on_db (ChallengeMarkUsed dbnow jti w) internal (\<lambda>claimed w.
       if claimed = None then (writeInvalidTwoFactorChallenge, w)
       else on_db (GetByID uid w) internal (\<lambda>user w. issueSessionForUser E now dbnow ua addr user w))"

lemma claim_and_issue:
  assumes "signs_in (fst (claim_challenge E now dbnow ua addr uid jti w))"
    and "tx w = None" and "jti < next_id w" and "distinct (map ch_ID (challenges (db w)))"
  shows "lasts (challenge_spent jti) (snd (claim_challenge E now dbnow ua addr uid jti w)) \<and>
    (lasts (code_spent k) w \<longrightarrow> lasts (code_spent k) (snd (claim_challenge E now dbnow ua addr uid jti w)))"
  using assms(1) [unfolded claim_challenge_def]
proof (rule signs_in_on_db)
  fix claimed :: "uuid option" and v
  let ?rest = "if claimed = None then (writeInvalidTwoFactorChallenge, v)
      else on_db (GetByID uid v) internal (\<lambda>user w. issueSessionForUser E now dbnow ua addr user w)"
  assume m: "ChallengeMarkUsed dbnow jti w = (Inr claimed, v)"
    and "on_db (ChallengeMarkUsed dbnow jti w) internal (\<lambda>claimed w.
       if claimed = None then (writeInvalidTwoFactorChallenge, w)
       else on_db (GetByID uid w) internal (\<lambda>user w. issueSessionForUser E now dbnow ua addr user w)) = ?rest"
  then have eq: "claim_challenge E now dbnow ua addr uid jti w = ?rest" by (simp add: claim_challenge_def)
  with assms(1) have c: "claimed \<noteq> None" by (cases claimed) auto
  with MarkUsed_spends m assms have s: "lasts (challenge_spent jti) v" "tx v = None" by blast+
  have stay: "hstays (lasts (challenge_spent jti)) v ?rest" "hstays (lasts (code_spent k)) v ?rest"
    unfolding GetByID_def using s(2)
    by (auto intro!: hstays_on_db challenge.ops.stays_user_ops [OF order_refl] code.ops.stays_user_ops [OF order_refl]
        challenge.hstays_issueSession [OF order_refl] code.hstays_issueSession [OF order_refl])
      (metis session_of_None)+
  moreover have "lasts (code_spent k) w \<longrightarrow> lasts (code_spent k) v"
    using code.ops.stays_challenge_ops(3) [OF order_refl, of k w dbnow jti] m by (simp add: stays_def)
  ultimately show ?thesis using s(1) by (simp add: eq hstays_def)
qed simp

lemma VerifyTwoFactor_signs_in:
  assumes "signs_in (fst (VerifyTwoFactor E now dbnow ua addr (Some req) w))" and "tx w = None" and "keys_ok w"
  shows "\<exists>tok uid jti ch secret. vr_ChallengeToken req = Some tok \<and> VerifyTwoFactorChallenge E now tok = Some (uid, jti) \<and>
    find_row (\<lambda>c. ch_ID c = jti) (challenges (db w)) = Some ch \<and> ch_UserID ch = uid \<and> ch_UsedAt ch = None \<and> now \<le> ch_ExpiresAt ch \<and>
    find_row (\<lambda>s. tf_UserID s = uid) (two_factor_secrets (db w)) = Some secret \<and> tf_EnabledAt secret \<noteq> None \<and>
    factor_shown E now req secret uid w (snd (VerifyTwoFactor E now dbnow ua addr (Some req) w)) \<and>
    lasts (challenge_spent jti) (snd (VerifyTwoFactor E now dbnow ua addr (Some req) w))"
proof -
  let ?V = "VerifyTwoFactor E now dbnow ua addr (Some req) w"
  obtain tok where tok: "vr_ChallengeToken req = Some tok"
    using assms(1) by (cases "vr_ChallengeToken req") (auto simp: VerifyTwoFactor_def)
  obtain uid jti where v: "VerifyTwoFactorChallenge E now tok = Some (uid, jti)"
    using assms(1) tok by (cases "VerifyTwoFactorChallenge E now tok") (auto simp: VerifyTwoFactor_def)
  let ?err = "\<lambda>(e :: db_error) (w :: world). (if e = ErrNotFound then writeInvalidTwoFactorChallenge else writeInternalError, w)"
  let ?factor = "\<lambda>secret (w :: world). if tf_EnabledAt secret = None then (writeInvalidTwoFactorChallenge, w)
        else check_factor E now dbnow req secret uid (claim_challenge E now dbnow ua addr uid jti) w"
  let ?look = "\<lambda>ch (w1 :: world). if ch_UserID ch \<noteq> uid \<or> ch_UsedAt ch \<noteq> None \<or> ch_ExpiresAt ch < now then (writeInvalidTwoFactorChallenge, w1)
      else on_db (GetSecret uid w1) ?err ?factor"
  have V: "?V = on_db (ChallengeLookup jti w) ?err ?look"
    unfolding VerifyTwoFactor_def claim_challenge_def [abs_def] by (simp only: tok v option.case prod.case)
  from assms(1) [unfolded V] obtain ch w1 where ch: "ChallengeLookup jti w = (Inr ch, w1)" and
    "on_db (ChallengeLookup jti w) ?err ?look = ?look ch w1"
    by (rule signs_in_on_db) simp
  then have eq1: "?V = ?look ch w1" by (simp only: V)
  let ?claim = "claim_challenge E now dbnow ua addr uid jti"
  have chk: "ch_UserID ch = uid" "ch_UsedAt ch = None" "now \<le> ch_ExpiresAt ch"
    using assms(1) unfolding eq1 by (auto split: if_splits)
  then have eq: "?V = on_db (GetSecret uid w1) ?err ?factor" by (simp add: eq1)
  from assms(1) [unfolded eq] obtain secret w2 where s: "GetSecret uid w1 = (Inr secret, w2)" and
    "on_db (GetSecret uid w1) ?err ?factor = ?factor secret w2"
    by (rule signs_in_on_db) simp
  then have eq2: "?V = ?factor secret w2" by (simp only: eq)
  have en: "tf_EnabledAt secret \<noteq> None" using assms(1) unfolding eq2 by (auto split: if_splits)
  have eq3: "?V = check_factor E now dbnow req secret uid ?claim w2" by (simp only: eq2 en if_False)
  have "same_data w w1" using ch unfolding ChallengeLookup_def by (auto elim!: pool_try_cases split: option.splits)
  moreover have "same_data w1 w2" using s unfolding GetSecret_def by (auto elim!: pool_try_cases split: option.splits)
  ultimately have same: "same_data w w2" by (rule same_data_trans)
  then have w2: "tx w2 = None" "keys_ok w2" "db w2 = db w" using assms(2,3) by (auto simp: same_data_def keys_ok_def)
  have rows: "find_row (\<lambda>c. ch_ID c = jti) (challenges (db w)) = Some ch"
    "find_row (\<lambda>s. tf_UserID s = uid) (two_factor_secrets (db w)) = Some secret"
    using ChallengeLookup_db [OF ch] GetSecret_db [OF s] by auto
  from find_row_Some [OF rows(1)] assms(3) have jti: "jti < next_id w2" "distinct (map ch_ID (challenges (db w2)))"
    using same w2 by (auto simp: keys_ok_def same_dataD(4))
  have "factor_shown E now req secret uid w (snd ?V) \<and> lasts (challenge_spent jti) (snd ?V)"
  proof (cases "vr_RecoveryCode req = []")
    case True
    then obtain plain where p: "Decrypt E (tf_EncryptedSecret secret) = Some plain"
      using assms(1) unfolding eq3 by (auto simp: check_factor_def split: option.splits)
    with True assms(1) have t: "ValidateTOTPCode E now plain (vr_Code req)"
      unfolding eq3 by (auto simp: check_factor_def split: if_splits)
    with p True have e: "?V = ?claim w2" by (simp add: eq3 check_factor_def)
    from claim_and_issue [OF assms(1) [unfolded e] w2(1) jti] e p t True show ?thesis
      by (auto simp: factor_shown_def)
  next
    case False
    let ?next = "\<lambda>consumed (w :: world). if consumed then ?claim w else (writeInvalidTwoFactorChallenge, w)"
    let ?consume = "ConsumeRecoveryCode (VerifyPassword E) dbnow uid (vr_RecoveryCode req) w2"
    have eq: "?V = on_db ?consume internal ?next" using False by (simp add: eq3 check_factor_def)
    from assms(1) [unfolded eq] obtain consumed w3 where co: "?consume = (Inr consumed, w3)" and "on_db ?consume internal ?next = ?next consumed w3"
      by (rule signs_in_on_db) simp
    then have eq4: "?V = ?next consumed w3" by (simp only: eq)
    with assms(1) have "consumed = True" by (cases consumed) auto
    with co eq4 have c: "?consume = (Inr True, w3)" and e: "?V = ?claim w3" by simp_all
    from Consume_spends [OF c w2(1,2)] obtain r where r: "r \<in> set (recovery_codes (db w2))" "rc_user_id r = uid" "rc_used_at r = None"
      "VerifyPassword E (rc_code_hash r) (vr_RecoveryCode req)" "lasts (code_spent (rc_id r)) w3" "tx w3 = None"
      "next_id w3 = next_id w2" "challenges (db w3) = challenges (db w2)" by metis
    from claim_and_issue [OF assms(1) [unfolded e] r(6), of "rc_id r"] jti r have l:
      "lasts (challenge_spent jti) (snd (?claim w3))" "lasts (code_spent (rc_id r)) (snd (?claim w3))" by auto
    with r(1-4) w2(3) False show ?thesis by (auto simp: e factor_shown_def lasts_def)
  qed
  with tok v rows chk en show ?thesis by auto
qed

text \<open>C7. A second factor cannot be skipped. With two-factor authentication on, a password alone never
  signs its user in. Completing a login signs in only with a challenge token that verifies, whose
  challenge is the user's own, unspent and not expired, while the factor is still on, and with a
  valid TOTP code or an unused recovery code, which is spent by it. Statements may fail.\<close>

theorem second_factor_required:
  assumes "tx w = None" and "keys_ok w" and "find_row (\<lambda>u. u_Email u = email) (users (db w)) = Some u"
    and "two_factor_on (u_ID u) (db w)"
  shows "\<not> signs_in (fst (Login E now dbnow ua addr (Some (email, pw)) w)) \<and>
    (signs_in (fst (VerifyTwoFactor E now dbnow ua addr (Some req) w)) \<longrightarrow>
     (\<exists>tok uid jti ch secret. vr_ChallengeToken req = Some tok \<and> VerifyTwoFactorChallenge E now tok = Some (uid, jti) \<and>
       find_row (\<lambda>c. ch_ID c = jti) (challenges (db w)) = Some ch \<and> ch_UserID ch = uid \<and> ch_UsedAt ch = None \<and> now \<le> ch_ExpiresAt ch \<and>
       find_row (\<lambda>s. tf_UserID s = uid) (two_factor_secrets (db w)) = Some secret \<and> tf_EnabledAt secret \<noteq> None \<and>
       factor_shown E now req secret uid w (snd (VerifyTwoFactor E now dbnow ua addr (Some req) w))))"
proof (intro conjI impI)
  show "\<not> signs_in (fst (Login E now dbnow ua addr (Some (email, pw)) w))" by (rule Login_two_factor [OF assms(3,4)])
next
  assume "signs_in (fst (VerifyTwoFactor E now dbnow ua addr (Some req) w))"
  from VerifyTwoFactor_signs_in [OF this assms(1,2)] show
    "\<exists>tok uid jti ch secret. vr_ChallengeToken req = Some tok \<and> VerifyTwoFactorChallenge E now tok = Some (uid, jti) \<and>
       find_row (\<lambda>c. ch_ID c = jti) (challenges (db w)) = Some ch \<and> ch_UserID ch = uid \<and> ch_UsedAt ch = None \<and> now \<le> ch_ExpiresAt ch \<and>
       find_row (\<lambda>s. tf_UserID s = uid) (two_factor_secrets (db w)) = Some secret \<and> tf_EnabledAt secret \<noteq> None \<and>
       factor_shown E now req secret uid w (snd (VerifyTwoFactor E now dbnow ua addr (Some req) w))"
    by blast
qed

definition guarded_world :: world where
  "guarded_world = home_world\<lparr>db := (db home_world)\<lparr>
     two_factor_secrets := [\<lparr>tf_UserID = 1, tf_EncryptedSecret = ''000000000000code'', tf_EnabledAt = Some 0, tf_CreatedAt = 0\<rparr>],
     recovery_codes := [\<lparr>rc_id = 6, rc_user_id = 1, rc_code_hash = ''hspare'', rc_used_at = None\<rparr>],
     challenges := [\<lparr>ch_ID = 7, ch_UserID = 1, ch_ExpiresAt = hour, ch_UsedAt = None, ch_CreatedAt = 0\<rparr>]\<rparr>\<rparr>"

definition challenge_token :: "string \<times> token_claims" where
  "challenge_token = (''s'', challenge_claims 0 TwoFactorChallengeTTL 1 7)"

definition with_recovery :: "(string \<times> token_claims) verifyTwoFactorRequest" where
  "with_recovery = \<lparr>vr_ChallengeToken = Some challenge_token, vr_Code = [], vr_RecoveryCode = ''spare''\<rparr>"

lemma guarded_facts:
  "tx guarded_world = None" "keys_ok guarded_world" "two_factor_on 1 (db guarded_world)"
  "find_row (\<lambda>u. u_Email u = ''a'') (users (db guarded_world)) = Some ((sample_user ''a'')\<lparr>u_ID := 1, u_PasswordHash := ''hpassword''\<rparr>)"
  by code_simp+

lemma guarded_signs_in: "signs_in (fst (VerifyTwoFactor sample_env second second [] [] (Some with_recovery) guarded_world))"
  by code_simp

theorem second_factor_required_witness:
  "signs_in (fst (VerifyTwoFactor sample_env second second [] [] (Some with_recovery) guarded_world)) \<and>
   \<not> signs_in (fst (Login sample_env second second [] [] (Some (''a'', ''password'')) guarded_world)) \<and>
   (\<exists>secret. factor_shown sample_env second with_recovery secret 1 guarded_world
      (snd (VerifyTwoFactor sample_env second second [] [] (Some with_recovery) guarded_world)))"
proof -
  let ?u = "(sample_user ''a'')\<lparr>u_ID := 1, u_PasswordHash := ''hpassword''\<rparr>"
  have on: "two_factor_on (u_ID ?u) (db guarded_world)" using guarded_facts(3) by simp
  from second_factor_required [OF guarded_facts(1,2,4) on, of sample_env second second "[]" "[]" "''password''" with_recovery]
  have t: "\<not> signs_in (fst (Login sample_env second second [] [] (Some (''a'', ''password'')) guarded_world))"
    and e: "\<exists>tok uid jti secret. vr_ChallengeToken with_recovery = Some tok \<and> VerifyTwoFactorChallenge sample_env second tok = Some (uid, jti) \<and>
      factor_shown sample_env second with_recovery secret uid guarded_world
        (snd (VerifyTwoFactor sample_env second second [] [] (Some with_recovery) guarded_world))"
    using guarded_signs_in by blast+
  have "VerifyTwoFactorChallenge sample_env second challenge_token = Some (1, 7)" by code_simp
  with e have "\<exists>secret. factor_shown sample_env second with_recovery secret 1 guarded_world
      (snd (VerifyTwoFactor sample_env second second [] [] (Some with_recovery) guarded_world))"
    by (auto simp: with_recovery_def)
  with t guarded_signs_in show ?thesis by blast
qed

lemma spent_challenge_refused:
  assumes "challenge_spent jti (next_id w) (db w)" and "tx w = None" and "keys_ok w"
    and "vr_ChallengeToken req = Some tok" and "VerifyTwoFactorChallenge E now tok = Some (uid, jti)"
  shows "\<not> signs_in (fst (VerifyTwoFactor E now dbnow ua addr (Some req) w))"
proof
  assume "signs_in (fst (VerifyTwoFactor E now dbnow ua addr (Some req) w))"
  from VerifyTwoFactor_signs_in [OF this assms(2,3)] assms(4,5) obtain ch where
    "find_row (\<lambda>c. ch_ID c = jti) (challenges (db w)) = Some ch" "ch_UsedAt ch = None" by auto
  with find_row_Some [OF this(1)] assms(1) show False by (auto simp: challenge_spent_def spent_row_def)
qed

text \<open>What holds of every world lasts: the handlers keep the transaction of the context.\<close>

interpretation anything: lasting "\<lambda>n d. True" T for T
  by unfold_locales simp_all

lemma spent_challenge_answer:
  assumes "challenge_spent jti (next_id w) (db w)"
    and "vr_ChallengeToken req = Some tok" and "VerifyTwoFactorChallenge E now tok = Some (uid, jti)"
  shows "\<not> signs_in (fst (VerifyTwoFactor E now dbnow ua addr (Some req) w))"
proof -
  obtain r v where l: "ChallengeLookup jti w = (r, v)" by fastforce
  show ?thesis
  proof (cases r)
    case (Inl e)
    with l assms(2,3) show ?thesis by (simp add: VerifyTwoFactor_def)
  next
    case (Inr ch)
    with ChallengeLookup_db [OF l] have "find_row (\<lambda>c. ch_ID c = jti) (challenges (db w)) = Some ch" by simp
    with find_row_Some [OF this] assms(1) have "ch_UsedAt ch \<noteq> None" by (auto simp: challenge_spent_def spent_row_def)
    then obtain t where "ch_UsedAt ch = Some t" by blast
    with l Inr assms(2,3) show ?thesis by (simp add: VerifyTwoFactor_def)
  qed
qed

lemma times_bound: "\<exists>T. \<forall>(now, t, r)\<in>set rs. T \<le> (t :: time)"
proof (rule exI)
  show "\<forall>(now, t, r)\<in>set rs. Min (insert 0 ((\<lambda>(now, t, r). t) ` set rs)) \<le> t"
    by (auto intro!: Min_le rev_image_eqI)
qed

text \<open>C19. A challenge signs in at most once. After a login was completed with it, whatever requests are
  served in between and whatever fails, no request with a token of the same challenge signs in,
  with any code or recovery code, at any time.\<close>

theorem challenge_works_once:
  assumes "tx w = None" and "keys_ok w" and "VerifyTwoFactor E now dbnow ua addr (Some req) w = (rep, w')" and "signs_in rep"
    and "vr_ChallengeToken req = Some tok" and "VerifyTwoFactorChallenge E now tok = Some (uid, jti)"
    and "vr_ChallengeToken req2 = Some tok2" and "VerifyTwoFactorChallenge E now2 tok2 = Some (uid2, jti)"
  shows "\<not> signs_in (fst (VerifyTwoFactor E now2 dbnow2 ua2 addr2 (Some req2) (serve_all E rs w')))"
proof -
  have s: "signs_in (fst (VerifyTwoFactor E now dbnow ua addr (Some req) w))" using assms(3,4) by simp
  from VerifyTwoFactor_signs_in [OF s assms(1,2)] assms(3,5,6) have l: "lasts (challenge_spent jti) w'" by auto
  have t: "tx w' = None"
  proof -
    have "hstays (lasts (\<lambda>n d. True)) w (VerifyTwoFactor E now dbnow ua addr (Some req) w)"
      by (rule anything.hstays_public(2) [OF order_refl assms(1)])
    with assms(1,3) show ?thesis by (simp add: hstays_def lasts_def session_of_def)
  qed
  from times_bound [of rs] obtain T where T: "\<forall>(now, t, r)\<in>set rs. T \<le> t" ..
  from challenge.serve_all_lasts [OF l t T] have "challenge_spent jti (next_id (serve_all E rs w')) (db (serve_all E rs w'))"
    by (simp add: lasts_def)
  from spent_challenge_answer [OF this assms(7,8)] show ?thesis .
qed

theorem challenge_works_once_witness:
  "signs_in (fst (VerifyTwoFactor sample_env second second [] [] (Some with_recovery) guarded_world)) \<and>
   \<not> signs_in (fst (VerifyTwoFactor sample_env second second [] [] (Some (with_recovery\<lparr>vr_Code := ''code'', vr_RecoveryCode := []\<rparr>))
      (serve_all sample_env [] (snd (VerifyTwoFactor sample_env second second [] [] (Some with_recovery) guarded_world)))))"
proof -
  obtain rep w' where v: "VerifyTwoFactor sample_env second second [] [] (Some with_recovery) guarded_world = (rep, w')" by fastforce
  then have s: "signs_in rep" using guarded_signs_in by simp
  have c: "VerifyTwoFactorChallenge sample_env second challenge_token = Some (1, 7)" by code_simp
  have r: "vr_ChallengeToken with_recovery = Some challenge_token"
    "vr_ChallengeToken (with_recovery\<lparr>vr_Code := ''code'', vr_RecoveryCode := []\<rparr>) = Some challenge_token"
    by (simp_all add: with_recovery_def)
  have "\<not> signs_in (fst (VerifyTwoFactor sample_env second second [] [] (Some (with_recovery\<lparr>vr_Code := ''code'', vr_RecoveryCode := []\<rparr>))
      (serve_all sample_env [] w')))"
    by (rule challenge_works_once [OF guarded_facts(1,2) v s r(1) c r(2) c])
  with s show ?thesis unfolding v fst_conv snd_conv by blast
qed

subsection \<open>Requests that fail\<close>

definition opened :: "tables \<Rightarrow> world \<Rightarrow> bool" where
  "opened d w \<longleftrightarrow> (\<exists>t. tx w = Some t \<and> tx_begin t = d \<and> tx_session t \<noteq> no_session)"

interpretation kept: auth_ops "opened d" T for d T
proof unfold_locales
  fix w w' :: world assume "opened d w" "same_data w w'"
  then show "opened d w'" by (cases "tx w'") (auto simp: opened_def same_data_def)
qed (auto simp: opened_def session_of_def set_db_def)

lemma act_opened:
  assumes "\<And>drawn req. a \<noteq> AConfirm2FA drawn req"
  shows "hstays (opened d) w (act E now dbnow a role ax w)"
  by (rule kept.hstays_act [OF order_refl]) (use assms in blast)


definition home_ctx :: "uuid option \<Rightarrow> auth_ctx" where
  "home_ctx tenant = \<lparr>ax_User = (sample_user ''a'')\<lparr>u_ID := 1, u_PasswordHash := ''hpassword''\<rparr>, ax_TenantID = tenant, ax_SessionID = 5\<rparr>"


subsection \<open>Password reset\<close>

lemma on_db_status:
  assumes "on_db m err ok = (rep, w')" and "rp_status rep = 200" and "\<And>e v. rp_status (fst (err e v)) \<noteq> 200"
  obtains a v where "m = (Inr a, v)" "ok a v = (rep, w')"
  using assms by (cases m; cases "fst m") (auto, metis fst_conv)

lemma error_status [simp]: "rp_status writeInternalError = 500" "rp_status writeResetConfirmError = 401"
  "rp_status weakPassword = 422" "rp_status (respond n b) = n" "rp_status writeUnauthorized = 401"
  by (simp_all add: writeInternalError_def writeResetConfirmError_def weakPassword_def writeUnauthorized_def respond_def)

lemma GetByTokenHash_db: "GetByTokenHash h w = (Inr t, v) \<Longrightarrow>
   same_data w v \<and> find_row (\<lambda>p. pr_TokenHash p = h) (reset_tokens (db w)) = Some t"
  by (auto simp: GetByTokenHash_def same_dataD(1) elim!: pool_try_cases split: option.splits)

lemma update_user_ok: "update_user uid f w = (Inr (), v) \<Longrightarrow>
   \<exists>x. same_data w x \<and> v = set_db (\<lambda>d. d\<lparr>users := sql_update (\<lambda>u. u_ID u = uid) f (users d)\<rparr>) x"
  by (auto simp: update_user_def elim!: pool_try_cases split: if_splits)

lemma ResetMarkUsed_ok: "ResetMarkUsed t rid w = (Inr (), v) \<Longrightarrow>
   \<exists>x. same_data w x \<and> v = set_db (\<lambda>d. d\<lparr>reset_tokens := sql_update (\<lambda>p. pr_ID p = rid) (\<lambda>p. p\<lparr>pr_UsedAt := Some t\<rparr>) (reset_tokens d)\<rparr>) x"
  by (auto simp: ResetMarkUsed_def elim!: pool_try_cases split: if_splits)

text \<open>The steps of a confirmation that was answered 200.\<close>

lemma confirm_steps:
  assumes "PasswordResetConfirm E now dbnow (Some (tok, new)) w = (rep, w')" and "rp_status rep = 200" and "tx w = None"
    and "distinct (map pr_TokenHash (reset_tokens (db w)))"
  obtains t h v where "find_row (\<lambda>p. pr_TokenHash p = hashResetToken E tok) (reset_tokens (db w)) = Some t"
    "pr_UsedAt t = None" "now \<le> pr_ExpiresAt t" "ValidatePassword new" "HashPassword E new = Some h"
    "lasts (reset_spent (hashResetToken E tok)) v" "tx v = None"
    "users (db v) = sql_update (\<lambda>u. u_ID u = pr_UserID t) (\<lambda>u. u\<lparr>u_PasswordHash := h\<rparr>) (users (db w))"
    "w' = snd (RevokeSessions dbnow (pr_UserID t) (snd (InvalidateOtherPending dbnow (pr_UserID t) (pr_ID t) v)))"
proof -
  let ?h = "hashResetToken E tok"
  from assms(1) [unfolded PasswordResetConfirm_def option.case prod.case] assms(2) obtain t w1 where
    g: "GetByTokenHash ?h w = (Inr t, w1)" and
    r1: "(if pr_UsedAt t \<noteq> None \<or> pr_ExpiresAt t < now then (writeResetConfirmError, w1)
          else if \<not> ValidatePassword new then (weakPassword, w1)
          else (case HashPassword E new of None \<Rightarrow> (writeInternalError, w1)
            | Some hash \<Rightarrow> on_db (UpdatePasswordHash (pr_UserID t) hash w1) internal (\<lambda>_ w.
                on_db (ResetMarkUsed dbnow (pr_ID t) w) internal (\<lambda>_ w.
                  (respond 200 StatusOk,
                   snd (RevokeSessions dbnow (pr_UserID t) (snd (InvalidateOtherPending dbnow (pr_UserID t) (pr_ID t) w)))))))) = (rep, w')"
    by (rule on_db_status) simp
  from r1 assms(2) obtain h where c: "pr_UsedAt t = None" "now \<le> pr_ExpiresAt t" "ValidatePassword new" "HashPassword E new = Some h"
    by (auto split: if_splits option.splits)
  with r1 have "on_db (UpdatePasswordHash (pr_UserID t) h w1) internal (\<lambda>_ w.
                on_db (ResetMarkUsed dbnow (pr_ID t) w) internal (\<lambda>_ w.
                  (respond 200 StatusOk,
                   snd (RevokeSessions dbnow (pr_UserID t) (snd (InvalidateOtherPending dbnow (pr_UserID t) (pr_ID t) w)))))) = (rep, w')"
    by simp
  from this assms(2) obtain u1 w2 where u: "UpdatePasswordHash (pr_UserID t) h w1 = (Inr u1, w2)" and
    r2: "on_db (ResetMarkUsed dbnow (pr_ID t) w2) internal (\<lambda>_ w. (respond 200 StatusOk,
          snd (RevokeSessions dbnow (pr_UserID t) (snd (InvalidateOtherPending dbnow (pr_UserID t) (pr_ID t) w))))) = (rep, w')"
    by (rule on_db_status) simp
  from r2 assms(2) obtain u2 v where m: "ResetMarkUsed dbnow (pr_ID t) w2 = (Inr u2, v)" and
    w': "w' = snd (RevokeSessions dbnow (pr_UserID t) (snd (InvalidateOtherPending dbnow (pr_UserID t) (pr_ID t) v)))"
    by (rule on_db_status) auto
  from GetByTokenHash_db [OF g] have f: "same_data w w1" "find_row (\<lambda>p. pr_TokenHash p = ?h) (reset_tokens (db w)) = Some t" by auto
  from update_user_ok [of "pr_UserID t"] u obtain x where x: "same_data w1 x"
    "w2 = set_db (\<lambda>d. d\<lparr>users := sql_update (\<lambda>u. u_ID u = pr_UserID t) (\<lambda>u. u\<lparr>u_PasswordHash := h\<rparr>) (users d)\<rparr>) x"
    by (force simp: UpdatePasswordHash_def)
  from ResetMarkUsed_ok [of dbnow "pr_ID t" w2 v] m obtain y where y: "same_data w2 y"
    "v = set_db (\<lambda>d. d\<lparr>reset_tokens := sql_update (\<lambda>p. pr_ID p = pr_ID t) (\<lambda>p. p\<lparr>pr_UsedAt := Some dbnow\<rparr>) (reset_tokens d)\<rparr>) y"
    by auto
  have d: "db y = (db w)\<lparr>users := sql_update (\<lambda>u. u_ID u = pr_UserID t) (\<lambda>u. u\<lparr>u_PasswordHash := h\<rparr>) (users (db w))\<rparr>"
    using f(1) x y by (simp add: same_dataD(1) set_db_def)
  have tx: "tx v = None" using f(1) x y assms(3) by (simp add: same_data_def set_db_def)
  from find_row_Some [OF f(2)] have t: "t \<in> set (reset_tokens (db w))" "pr_TokenHash t = ?h" by auto
  have "pr_UsedAt p \<noteq> None" if "p \<in> set (reset_tokens (db v))" "pr_TokenHash p = ?h" for p
  proof -
    from that(1) d y(2) obtain q where q: "q \<in> set (reset_tokens (db w))" "p = (if pr_ID q = pr_ID t then q\<lparr>pr_UsedAt := Some dbnow\<rparr> else q)"
      by (auto simp: set_db_def set_sql_update)
    with that(2) have "pr_TokenHash q = ?h" by (simp split: if_splits)
    with q(1) t assms(4) have "q = t" by (metis distinct_key_unique)
    with q(2) show ?thesis by simp
  qed
  moreover have "?h \<in> pr_TokenHash ` set (reset_tokens (db v))"
    using t d y(2) by (force simp: set_db_def key_image_sql_update)
  ultimately have "lasts (reset_spent ?h) v" using tx by (simp add: lasts_def reset_spent_def)
  with that f(2) c tx w' d y(2) show ?thesis by (simp add: set_db_def)
qed

lemma spent_reset_refused:
  assumes "reset_spent (hashResetToken E tok) n (db w)"
  shows "rp_status (fst (PasswordResetConfirm E now dbnow (Some (tok, new)) w)) \<noteq> 200"
proof -
  obtain r v where g: "GetByTokenHash (hashResetToken E tok) w = (r, v)" by fastforce
  show ?thesis
  proof (cases r)
    case (Inr t)
    from GetByTokenHash_db [OF g [unfolded Inr]] have f: "find_row (\<lambda>p. pr_TokenHash p = hashResetToken E tok) (reset_tokens (db w)) = Some t" by simp
    with find_row_Some [OF f] assms obtain y where "pr_UsedAt t = Some y" by (auto simp: reset_spent_def)
    with g Inr show ?thesis by (simp add: PasswordResetConfirm_def)
  qed (simp add: PasswordResetConfirm_def g)
qed

text \<open>C22. A reset token works once, in time, and sets the new password. A confirmation is answered 200
  only for a stored token that is unused and not expired, with a password of acceptable length; the
  user's password hash is then that of the new password, and no later confirmation with this token
  is answered 200, whatever requests are served in between and whatever statements fail.\<close>

theorem reset_token_works_once:
  assumes "PasswordResetConfirm E now dbnow (Some (tok, new)) w = (rep, w')" and "rp_status rep = 200" and "tx w = None"
    and "distinct (map pr_TokenHash (reset_tokens (db w)))"
  shows "\<exists>t h. find_row (\<lambda>p. pr_TokenHash p = hashResetToken E tok) (reset_tokens (db w)) = Some t \<and> pr_UsedAt t = None \<and>
      now \<le> pr_ExpiresAt t \<and> ValidatePassword new \<and> HashPassword E new = Some h \<and>
      map u_PasswordHash (users (db w')) =
        map (\<lambda>u. if u_ID u = pr_UserID t then h else u_PasswordHash u) (users (db w)) \<and>
      rp_status (fst (PasswordResetConfirm E now2 dbnow2 (Some (tok, new2)) (serve_all E rs w'))) \<noteq> 200"
  using assms
proof (rule confirm_steps)
  fix t h v
  assume t: "find_row (\<lambda>p. pr_TokenHash p = hashResetToken E tok) (reset_tokens (db w)) = Some t"
    "pr_UsedAt t = None" "now \<le> pr_ExpiresAt t" "ValidatePassword new" "HashPassword E new = Some h"
    and v: "lasts (reset_spent (hashResetToken E tok)) v" "tx v = None"
      "users (db v) = sql_update (\<lambda>u. u_ID u = pr_UserID t) (\<lambda>u. u\<lparr>u_PasswordHash := h\<rparr>) (users (db w))"
    and w': "w' = snd (RevokeSessions dbnow (pr_UserID t) (snd (InvalidateOtherPending dbnow (pr_UserID t) (pr_ID t) v)))"
  let ?x = "snd (InvalidateOtherPending dbnow (pr_UserID t) (pr_ID t) v)"
  have x: "lasts (reset_spent (hashResetToken E tok)) ?x" "session_of ?x = session_of v"
    using reset.ops.stays_reset_ops(3) [OF order_refl, of _ v dbnow] v(1) by (simp_all add: stays_def)
  have y: "lasts (reset_spent (hashResetToken E tok)) w'" "session_of w' = session_of ?x"
    using reset.ops.stays_user_ops(4) [OF order_refl, of _ ?x] x(1) by (simp_all add: stays_def w')
  then have "tx w' = None" using x(2) v(2) by (simp add: session_of_def)
  from times_bound [of rs] obtain T where "\<forall>(now, t, r)\<in>set rs. T \<le> t" ..
  from reset.serve_all_lasts [OF y(1) \<open>tx w' = None\<close> this] have
    "reset_spent (hashResetToken E tok) (next_id (serve_all E rs w')) (db (serve_all E rs w'))" by (simp add: lasts_def)
  from spent_reset_refused [OF this] have n: "rp_status (fst (PasswordResetConfirm E now2 dbnow2 (Some (tok, new2)) (serve_all E rs w'))) \<noteq> 200" .
  have "users (db ?x) = users (db v)"
    by (cases "InvalidateOtherPending dbnow (pr_UserID t) (pr_ID t) v")
      (auto simp: InvalidateOtherPending_def set_db_def same_dataD(1) elim!: pool_try_cases)
  moreover have "map u_PasswordHash (users (db w')) = map u_PasswordHash (users (db ?x))"
    unfolding w' by (cases "RevokeSessions dbnow (pr_UserID t) ?x")
      (auto simp: RevokeSessions_def update_user_def set_db_def same_dataD(1) map_sql_update_inv elim!: pool_try_cases split: if_splits)
  ultimately have "map u_PasswordHash (users (db w')) = map (\<lambda>u. if u_ID u = pr_UserID t then h else u_PasswordHash u) (users (db w))"
    using v(3) by (simp add: sql_update_def)
  with t n show ?thesis by blast
qed

definition reset_world :: world where
  "reset_world = home_world\<lparr>db := (db home_world)\<lparr>reset_tokens :=
     [\<lparr>pr_ID = 8, pr_UserID = 1, pr_TokenHash = ''tok'', pr_ExpiresAt = hour, pr_UsedAt = None\<rparr>]\<rparr>\<rparr>"

theorem reset_token_works_once_witness:
  "\<exists>w'. PasswordResetConfirm sample_env minute minute (Some (''tok'', ''new password'')) reset_world = (respond 200 StatusOk, w') \<and>
     rp_status (fst (PasswordResetConfirm sample_env minute minute (Some (''tok'', ''other password'')) (serve_all sample_env [] w'))) \<noteq> 200"
proof -
  obtain rep w' where c: "PasswordResetConfirm sample_env minute minute (Some (''tok'', ''new password'')) reset_world = (rep, w')" by fastforce
  have "fst (PasswordResetConfirm sample_env minute minute (Some (''tok'', ''new password'')) reset_world) = respond 200 StatusOk" by code_simp
  with c have r: "rep = respond 200 StatusOk" by simp
  then have s: "rp_status rep = 200" by simp
  have i: "tx reset_world = None" "distinct (map pr_TokenHash (reset_tokens (db reset_world)))"
    by (simp_all add: reset_world_def home_world_def fresh_world_def)
  from reset_token_works_once [OF c s i, of minute minute "''other password''" "[]"] c r show ?thesis by blast
qed

subsection \<open>Changing the password\<close>

lemma healthy_begin:
  assumes "faults w = []"
  shows "BeginTenantTx u t w = (Inr (), w\<lparr>tx := Some \<lparr>tx_session = \<lparr>app_user_id = u, app_tenant_id = t\<rparr>, tx_aborted = False, tx_begin = db w\<rparr>\<rparr>)"
  using assms by (simp add: BeginTenantTx_def Let_def own_try_def own_exec_def)

lemma healthy_role:
  assumes "healthy w"
  obtains role where "resolve_role ax w = (Inr role, w)"
proof (cases "ax_TenantID ax")
  case None
  with that show ?thesis by (simp add: resolve_role_def)
next
  case (Some tid)
  have "GetRole (u_ID (ax_User ax)) tid w \<in> {(Inl ErrNotFound, w)} \<union> range (\<lambda>r. (Inr r, w))"
    using assms by (auto simp: GetRole_def split: option.splits)
  with Some that show ?thesis by (auto simp: resolve_role_def)
qed

lemma global_revoked_refused:
  assumes "revoked_since uid R n (db w)" and "VerifySessionClaims E now tok = Some c" and "sc_AdminID c = uid" and "sc_IssuedAt c < R"
  shows "fst (RequireAuth E now dbnow (Some tok) next w) = writeUnauthorized"
proof -
  obtain r v where g: "find_user (\<lambda>u. u_ID u = uid) w = (r, v)" by fastforce
  show ?thesis
  proof (cases r)
    case (Inr u)
    with find_user_db [OF g] have "find_row (\<lambda>u. u_ID u = uid) (users (db w)) = Some u" by simp
    with find_row_Some [OF this] assms(1) obtain x where "u_SessionsRevokedAt u = Some x" "R \<le> x" by (auto simp: revoked_since_def)
    with assms(2-4) g Inr show ?thesis by (simp add: RequireAuth_def GetByID_def)
  qed (use assms(2,3) g in \<open>simp add: RequireAuth_def GetByID_def\<close>)
qed

lemma sql_count_update: "(\<And>r. P (f r) = P r) \<Longrightarrow> sql_count P (sql_update Q f rs) = sql_count P rs"
  by (induction rs) (auto simp: sql_count_def)

text \<open>The transaction of a password change on a database that does not fail.\<close>

lemma change_password_runs:
  assumes "faults w = []" and "VerifyPassword E (u_PasswordHash (ax_User ax)) current" and "ValidatePassword new"
    and "HashPassword E new = Some h" and "user_exists (u_ID (ax_User ax)) (db w)"
  shows "TenantContext (act E now dbnow (AChangePassword (Some (current, new)))) ax w =
    (respond 200 StatusOk, w\<lparr>tx := None, db := (db w)\<lparr>users := sql_update (\<lambda>u. u_ID u = u_ID (ax_User ax))
       (\<lambda>u. u\<lparr>u_PasswordHash := h, u_SessionsRevokedAt := Some dbnow\<rparr>) (users (db w))\<rparr>\<rparr>)"
proof -
  let ?b = "w\<lparr>tx := Some \<lparr>tx_session = \<lparr>app_user_id = Some (u_ID (ax_User ax)), app_tenant_id = ax_TenantID ax\<rparr>,
       tx_aborted = False, tx_begin = db w\<rparr>\<rparr>"
  have hb: "healthy ?b" using assms(1) by (simp add: healthy_def)
  obtain role where role: "resolve_role ax ?b = (Inr role, ?b)" using healthy_role [OF hb] by blast
  have n: "sql_count (\<lambda>u. u_ID u = u_ID (ax_User ax)) (users (db w)) \<noteq> 0" using assms(5) by (simp add: user_exists_def)
  have n': "sql_count (\<lambda>u. u_ID u = u_ID (ax_User ax)) (sql_update (\<lambda>u. u_ID u = u_ID (ax_User ax)) (\<lambda>u. u\<lparr>u_PasswordHash := h\<rparr>) (users (db w))) \<noteq> 0"
    using n by (simp add: sql_count_update)
  have two: "sql_update (\<lambda>u. u_ID u = k) (\<lambda>u. u\<lparr>u_SessionsRevokedAt := Some dbnow\<rparr>) (sql_update (\<lambda>u. u_ID u = k) (\<lambda>u. u\<lparr>u_PasswordHash := h\<rparr>) us) =
    sql_update (\<lambda>u. u_ID u = k) (\<lambda>u. u\<lparr>u_PasswordHash := h, u_SessionsRevokedAt := Some dbnow\<rparr>) us" for k us
    by (induction us) simp_all
  have u1: "UpdatePasswordHash (u_ID (ax_User ax)) h ?b = (Inr (), set_db (\<lambda>d. d\<lparr>users := sql_update (\<lambda>u. u_ID u = u_ID (ax_User ax)) (\<lambda>u. u\<lparr>u_PasswordHash := h\<rparr>) (users d)\<rparr>) ?b)" (is "_ = (_, ?c)")
    using hb n by (simp add: UpdatePasswordHash_def update_user_def)
  have hc: "healthy ?c" using hb by (simp add: set_db_def)
  have u2: "RevokeSessions dbnow (u_ID (ax_User ax)) ?c = (Inr (), set_db (\<lambda>d. d\<lparr>users := sql_update (\<lambda>u. u_ID u = u_ID (ax_User ax)) (\<lambda>u. u\<lparr>u_SessionsRevokedAt := Some dbnow\<rparr>) (users d)\<rparr>) ?c)"
    using hc n' by (simp add: RevokeSessions_def update_user_def set_db_def)
  show ?thesis
    using assms(1-4) by (simp add: TenantContext_def healthy_begin role ChangePassword_def u1 u2)
      (simp add: set_db_def tx_commit_def own_exec_def two respond_def)
qed

text \<open>Changing the password ends every session of the user, the caller's own included. After a
  change answered 200 at database time R, every token of the user issued before R is answered 401
  for good, whatever requests with later database times are served.\<close>

theorem password_change_ends_every_session:
  assumes "faults w = []" and "VerifyPassword E (u_PasswordHash (ax_User ax)) current" and "ValidatePassword new"
    and "HashPassword E new = Some h" and "user_exists (u_ID (ax_User ax)) (db w)" and "u_ID (ax_User ax) < next_id w"
    and "TenantContext (act E now R (AChangePassword (Some (current, new)))) ax w = (rep, w')"
    and "\<forall>(now, t, r)\<in>set rs. R \<le> t"
    and "VerifySessionClaims E now2 tok = Some c" and "sc_AdminID c = u_ID (ax_User ax)" and "sc_IssuedAt c < R"
  shows "rep = respond 200 StatusOk \<and>
    fst (RequireAuth E now2 dbnow2 (Some tok) next (serve_all E rs w')) = writeUnauthorized"
proof -
  from assms(7) change_password_runs [OF assms(1-5), of now R] have rep: "rep = respond 200 StatusOk"
    and w': "w' = w\<lparr>tx := None, db := (db w)\<lparr>users := sql_update (\<lambda>u. u_ID u = u_ID (ax_User ax))
       (\<lambda>u. u\<lparr>u_PasswordHash := h, u_SessionsRevokedAt := Some R\<rparr>) (users (db w))\<rparr>\<rparr>" by auto
  have l: "lasts (revoked_since (u_ID (ax_User ax)) R) w'"
    using assms(6) by (auto simp: w' lasts_def revoked_since_def set_sql_update)
  have "tx w' = None" by (simp add: w')
  from global.serve_all_lasts [OF l this assms(8)] have
    "revoked_since (u_ID (ax_User ax)) R (next_id (serve_all E rs w')) (db (serve_all E rs w'))" by (simp add: lasts_def)
  from global_revoked_refused [OF this assms(9-11)] rep show ?thesis by simp
qed

theorem password_change_ends_every_session_witness:
  "\<exists>w'. TenantContext (act sample_env second second (AChangePassword (Some (''password'', ''new password'')))) (home_ctx (Some 3)) home_world =
      (respond 200 StatusOk, w') \<and>
    fst (RequireAuth sample_env second second (Some home_token) (TenantContext Me) (serve_all sample_env [] w')) = writeUnauthorized"
proof -
  obtain rep w' where t: "TenantContext (act sample_env second second (AChangePassword (Some (''password'', ''new password'')))) (home_ctx (Some 3)) home_world = (rep, w')"
    by fastforce
  have "faults home_world = []" "VerifyPassword sample_env (u_PasswordHash (ax_User (home_ctx (Some 3)))) ''password''"
    "ValidatePassword ''new password''" "HashPassword sample_env ''new password'' = Some ''hnew password''"
    "user_exists (u_ID (ax_User (home_ctx (Some 3)))) (db home_world)" "u_ID (ax_User (home_ctx (Some 3))) < next_id home_world"
    by code_simp+
  from password_change_ends_every_session [OF this t _ home_token_verifies, of "[]" second "TenantContext Me"] t show ?thesis
    by (simp add: home_ctx_def)
qed

subsection \<open>Where the code does not do what it means to\<close>

lemma no_membership_without_tenant:
  assumes "\<not> bypass_rls w" and "ListForUser uid w = (Inr ms, w')" and "app_tenant_id (pool_session w) = None"
  shows "ms = []"
  using ListForUser_own_tenant [OF assms(1,2)] assms(3) by (cases ms) auto

lemma issueSession_refused:
  assumes "\<not> bypass_rls w"
  shows "\<not> signs_in (fst (issueSessionForUser E now dbnow ua addr user w))"
proof -
  obtain r v where b: "BeginTenantTx (Some (u_ID user)) None w = (r, v)" by fastforce
  show ?thesis
  proof (cases r)
    case (Inr x)
    then have v: "\<not> bypass_rls v" "app_tenant_id (pool_session v) = None"
      using BeginTenantTx_ok(3,5) [of "Some (u_ID user)" None w v] b assms by (simp_all add: pool_session_def)
    obtain r1 v1 where l: "ListForUser (u_ID user) v = (r1, v1)" by fastforce
    show ?thesis
    proof (cases r1)
      case (Inr ms)
      with no_membership_without_tenant [OF v(1) _ v(2)] l have "ms = []" by blast
      with b \<open>r = Inr x\<close> l Inr show ?thesis
        by (cases "tx_commit v1"; cases "fst (tx_commit v1)") (auto simp: issueSessionForUser_def on_db_def split: sum.splits)
    qed (simp add: issueSessionForUser_def b \<open>r = Inr x\<close> l)
  qed (simp add: issueSessionForUser_def b)
qed

lemma bypass_stays:
  "find_user P w = (r, v) \<Longrightarrow> bypass_rls v = bypass_rls w" "GetSecret uid w = (r', v) \<Longrightarrow> bypass_rls v = bypass_rls w"
  by (auto simp: find_user_def GetSecret_def same_dataD(3) elim!: pool_try_cases split: option.splits)

text \<open>C23. Under row-level security nobody can sign in or change tenant. \<open>ListForUser\<close> joins \<open>tenants\<close>,
  which is visible only to a session of that tenant; the transaction in which a login reads the
  user's memberships sets no tenant, so it finds none and the login is refused, for every user and
  password; and a signed-in user is refused every tenant but the active one.\<close>

theorem rls_refuses_login_and_switch:
  assumes "\<not> bypass_rls w"
  shows "\<not> signs_in (fst (Login E now dbnow ua addr req w)) \<and>
    (if ax_TenantID ax = Some tid then True
     else \<not> signs_in (fst (TenantContext (act E now dbnow (ASwitchTenant (Some tid))) ax w)))"
proof (intro conjI)
  show "\<not> signs_in (fst (Login E now dbnow ua addr req w))"
  proof (cases req)
    case (Some cred)
    obtain email pw where cred: "cred = (email, pw)" by fastforce
    obtain r v where g: "find_user (\<lambda>u. u_Email u = email) w = (r, v)" by fastforce
    show ?thesis
    proof (cases r)
      case (Inr u)
      obtain r2 v2 where s: "GetSecret (u_ID u) v = (r2, v2)" by fastforce
      have "\<not> bypass_rls v2" using bypass_stays(1) [OF g] bypass_stays(2) [OF s] assms by simp
      from issueSession_refused [OF this, of E now dbnow ua addr u] g s Inr Some cred show ?thesis
        by (cases r2) (auto simp: Login_def GetByEmail_def challenge_no_session)
    qed (simp add: Login_def GetByEmail_def g Some cred)
  qed (simp add: Login_def)
  show "if ax_TenantID ax = Some tid then True
     else \<not> signs_in (fst (TenantContext (act E now dbnow (ASwitchTenant (Some tid))) ax w))"
  proof (cases "ax_TenantID ax = Some tid")
    case False
    obtain r v where b: "BeginTenantTx (Some (u_ID (ax_User ax))) (ax_TenantID ax) w = (r, v)" by fastforce
    show ?thesis
    proof (cases r)
      case (Inr x)
      then have v: "\<not> bypass_rls v" "app_tenant_id (pool_session v) = ax_TenantID ax"
        using BeginTenantTx_ok(3,5) [of "Some (u_ID (ax_User ax))" "ax_TenantID ax" w v] b assms by (simp_all add: pool_session_def)
      obtain r1 v1 where l: "resolve_role ax v = (r1, v1)" by fastforce
      have v1: "\<not> bypass_rls v1" "pool_session v1 = pool_session v"
        using l v(1) by (auto simp: resolve_role_def GetRole_def same_dataD elim!: pool_try_cases split: option.splits sum.splits prod.splits if_splits)
      have "\<not> signs_in (fst (SwitchTenant E now (Some tid) ax v1))"
      proof (cases "ListForUser (u_ID (ax_User ax)) v1")
        case (Pair r2 v2)
        have "\<forall>m\<in>set ms. tm_TenantID m \<noteq> tid" if "r2 = Inr ms" for ms
          using ListForUser_own_tenant [OF v1(1) Pair [unfolded that]] v1(2) v(2) False by auto
        then show ?thesis unfolding SwitchTenant_def option.case Pair by (cases r2) auto
      qed
      with b \<open>r = Inr x\<close> l show ?thesis by (cases r1) (auto simp: TenantContext_def split: prod.splits)
    qed (simp add: TenantContext_def b)
  qed simp
qed

theorem rls_refuses_login_and_switch_witness:
  "\<not> signs_in (fst (Login sample_env second second [] [] (Some (''a'', ''password'')) (home_world\<lparr>bypass_rls := False\<rparr>))) \<and>
   signs_in (fst (Login sample_env second second [] [] (Some (''a'', ''password'')) home_world))"
proof
  have "\<not> bypass_rls (home_world\<lparr>bypass_rls := False\<rparr>)" by simp
  from rls_refuses_login_and_switch [OF this]
  show "\<not> signs_in (fst (Login sample_env second second [] [] (Some (''a'', ''password'')) (home_world\<lparr>bypass_rls := False\<rparr>)))" by blast
  show "signs_in (fst (Login sample_env second second [] [] (Some (''a'', ''password'')) home_world))" by code_simp
qed

text \<open>A password change can be reported and lost. The revocation of the sessions is meant to be
  best effort, its failure being only logged; but it runs in the request's transaction, which a
  failed statement aborts: the answer is 200 and the password is what it was.\<close>

theorem password_change_reported_and_lost:
  assumes "VerifyPassword E (u_PasswordHash (ax_User ax)) current" and "ValidatePassword new"
    and "HashPassword E new = Some h" and "user_exists (u_ID (ax_User ax)) (db w)"
    and "ax_TenantID ax = None" and "tx w = None" and "faults w = [False, False, False, True]"
  shows "\<exists>w'. TenantContext (act E now dbnow (AChangePassword (Some (current, new)))) ax w = (respond 200 StatusOk, w') \<and>
    db w' = db w"
proof -
  have n: "0 < sql_count (\<lambda>u. u_ID u = u_ID (ax_User ax)) (users (db w))" using assms(4) by (simp add: user_exists_def)
  then show ?thesis
    using assms by (simp add: TenantContext_def BeginTenantTx_def Let_def own_try_def own_exec_def resolve_role_def ChangePassword_def
        UpdatePasswordHash_def RevokeSessions_def update_user_def pool_try_def pool_exec_def set_db_def abort_tx_def
        tx_commit_def tx_rollback_def respond_def)
qed

theorem password_change_reported_and_lost_witness:
  "\<exists>w'. TenantContext (act sample_env second second (AChangePassword (Some (''password'', ''new password'')))) (home_ctx None)
      (home_world\<lparr>faults := [False, False, False, True]\<rparr>) = (respond 200 StatusOk, w') \<and> db w' = db home_world"
proof -
  let ?w = "home_world\<lparr>faults := [False, False, False, True]\<rparr>"
  have "VerifyPassword sample_env (u_PasswordHash (ax_User (home_ctx None))) ''password''"
    "ValidatePassword ''new password''" "HashPassword sample_env ''new password'' = Some ''hnew password''"
    "user_exists (u_ID (ax_User (home_ctx None))) (db ?w)" "ax_TenantID (home_ctx None) = None"
    "tx ?w = None" "faults ?w = [False, False, False, True]"
    by code_simp+
  from password_change_reported_and_lost [OF this, of second second] show ?thesis by simp
qed

end
