(* ===== verification/Notify.thy ===== *)
theory Notify
  imports Accounts "HOL-Library.Product_Lexorder"
begin

text \<open>
  \<open>internal/notify\<close>: who is emailed about an event of a tenant (\<open>service.go\<close>) and the data of the
  weekly digest (\<open>digest.go\<close>), with the data types of \<open>internal/email/provider.go\<close> they fill and
  \<open>TenantLocation\<close> of \<open>internal/email/format.go\<close>.

  \<^item> The email service is a parameter \<open>sender\<close>: it takes the address, the email and the world (it
    reads the tenant's provider settings) and says whether the provider accepted the email.
  \<^item> \<open>notify_service\<close> is the configured \<open>Service\<close>: whether \<open>WithIncidentDetails\<close> wired the lookups,
    the base URL of the dashboard and which time zone names the host knows.
  \<^item> An empty \<open>time.Time\<close> of an email is \<open>None\<close>.
\<close>

subsection \<open>Emails\<close>

datatype location = DefaultLocation | Zone string

datatype link = NoLink | Page string string | IncidentPage string uuid

record IncidentOpenedEmailData =
  eo_TenantName :: string
  eo_ServiceName :: string
  eo_IncidentTitle :: string
  eo_Severity :: string
  eo_Status :: string
  eo_OpenedAt :: time
  eo_Location :: "location option"
  eo_FirstUpdate :: "(time \<times> string) option"
  eo_DashboardURL :: link

record IncidentResolvedEmailData =
  er_TenantName :: string
  er_ServiceName :: string
  er_IncidentTitle :: string
  er_Severity :: string
  er_OpenedAt :: time
  er_ResolvedAt :: "time option"
  er_Location :: "location option"
  er_ResolutionSummary :: string
  er_DashboardURL :: link

record DomainExpiringEmailData =
  ee_TenantName :: string
  ee_Hostname :: string
  ee_DaysRemaining :: int
  ee_ThresholdDays :: int
  ee_DashboardURL :: link

record DomainNSDriftEmailData =
  en_TenantName :: string
  en_Hostname :: string
  en_ExpectedNS :: "string list"
  en_CurrentNS :: "string list"
  en_DashboardURL :: link

record DigestServiceRow =
  dr_Name :: string
  dr_UptimePercent :: rat

record DigestIncidentRow =
  dg_Title :: string
  dg_ServiceName :: string
  dg_Status :: string
  dg_OngoingAtPeriodEnd :: bool
  dg_Duration :: duration

record WeeklyDigestEmailData =
  wd_TenantName :: string
  wd_UptimePercent :: rat
  wd_IncidentsOpened :: int
  wd_IncidentsResolved :: int
  wd_PeriodStart :: time
  wd_PeriodEnd :: time
  wd_Location :: location
  wd_Services :: "DigestServiceRow list"
  wd_TotalServices :: nat
  wd_Incidents :: "DigestIncidentRow list"
  wd_TotalIncidents :: nat
  wd_MTTR :: duration
  wd_DashboardURL :: link
  wd_IncidentsURL :: link

datatype email =
    IncidentOpenedEmail IncidentOpenedEmailData
  | IncidentResolvedEmail IncidentResolvedEmailData
  | WeeklyDigestEmail WeeklyDigestEmailData
  | DomainExpiringEmail DomainExpiringEmailData
  | DomainNSDriftEmail DomainNSDriftEmailData

type_synonym sender = "string \<Rightarrow> email \<Rightarrow> world \<Rightarrow> bool \<times> world"

fun before_paren :: "string \<Rightarrow> string" where
  "before_paren [] = []"
| "before_paren (c # s) = (if take 2 (c # s) = '' ('' then [] else c # before_paren s)"

definition TenantLocation :: "(string \<Rightarrow> bool) \<Rightarrow> string option \<Rightarrow> location" where
  "TenantLocation known timezone =
     (case timezone of None \<Rightarrow> DefaultLocation
      | Some tz \<Rightarrow> (let name = before_paren (trim_space tz)
          in if name = [] \<or> \<not> known name then DefaultLocation else Zone name))"

subsection \<open>The service\<close>

record notify_service =
  ns_detailed :: bool
  ns_adminBaseURL :: string
  ns_known_zone :: "string \<Rightarrow> bool"

record IncidentSummary =
  su_IncidentID :: "uuid option"
  su_Title :: string
  su_Severity :: string
  su_ServiceName :: string
  su_TenantName :: string
  su_Status :: string
  su_OpenedAt :: time
  su_ResolvedAt :: "time option"
  su_Description :: string
  su_ResolutionSummary :: string

record DomainExpiringSummary =
  xs_DomainID :: "uuid option"
  xs_Hostname :: string
  xs_DaysRemaining :: int
  xs_ThresholdDays :: int
  xs_TenantName :: string

record DomainNSDriftSummary =
  xn_DomainID :: "uuid option"
  xn_Hostname :: string
  xn_ExpectedNS :: "string list"
  xn_CurrentNS :: "string list"
  xn_TenantName :: string

datatype notificationPayload =
    IncidentPayload IncidentSummary "location option"
  | ExpiringPayload DomainExpiringSummary
  | DriftPayload DomainNSDriftSummary

definition resolutionLookback :: nat where
  "resolutionLookback = 10"

definition trim_right_slash :: "string \<Rightarrow> string" where
  "trim_right_slash s = rev (dropWhile (\<lambda>c. c = CHR ''/'') (rev s))"

definition dashboardURL :: "notify_service \<Rightarrow> uuid option \<Rightarrow> link" where
  "dashboardURL S incidentID =
     (if ns_adminBaseURL S = [] then NoLink
      else case incidentID of None \<Rightarrow> NoLink | Some i \<Rightarrow> IncidentPage (trim_right_slash (ns_adminBaseURL S)) i)"

definition domainDashboardURL :: "notify_service \<Rightarrow> uuid option \<Rightarrow> link" where
  "domainDashboardURL S domainID =
     (if ns_adminBaseURL S = [] \<or> domainID = None then NoLink
      else Page (trim_right_slash (ns_adminBaseURL S)) ''/domains'')"

fun join_names :: "string list \<Rightarrow> string" where
  "join_names [] = []"
| "join_names [n] = n"
| "join_names (n # ns) = n @ '', '' @ join_names ns"

fun latestAuthoredNote :: "IncidentUpdate list \<Rightarrow> string" where
  "latestAuthoredNote [] = []"
| "latestAuthoredNote (u # us) =
     (if iu_AuthorID u \<noteq> None \<or> iu_IsAISummary u then iu_Body u else latestAuthoredNote us)"

text \<open>A lookup whose error is logged and changes nothing.\<close>

definition best_effort :: "'a db_result \<Rightarrow> ('a \<Rightarrow> 'b) \<Rightarrow> 'b \<Rightarrow> 'b \<times> world" where
  "best_effort m found missing = (case m of (Inl _, w) \<Rightarrow> (missing, w) | (Inr a, w) \<Rightarrow> (found a, w))"

definition enrich_tenant ::
    "notify_service \<Rightarrow> uuid \<Rightarrow> IncidentSummary \<Rightarrow> world \<Rightarrow> (IncidentSummary \<times> location option) \<times> world" where
  "enrich_tenant S tid su w =
     best_effort (TenantGet tid w)
       (\<lambda>t. (if su_TenantName su = [] then su\<lparr>su_TenantName := t_Name t\<rparr> else su,
             Some (TenantLocation (ns_known_zone S) (t_Timezone t))))
       (su, None)"

definition enrich_services :: "uuid \<Rightarrow> IncidentSummary \<Rightarrow> world \<Rightarrow> IncidentSummary \<times> world" where
  "enrich_services iid su w =
     (if su_ServiceName su \<noteq> [] then (su, w)
      else best_effort (ListServiceNames iid w) (\<lambda>names. su\<lparr>su_ServiceName := join_names names\<rparr>) su)"

definition enrich_resolution :: "string \<Rightarrow> uuid \<Rightarrow> IncidentSummary \<Rightarrow> world \<Rightarrow> IncidentSummary \<times> world" where
  "enrich_resolution ty iid su w =
     (if ty \<noteq> ''incident_resolved'' \<or> su_ResolutionSummary su \<noteq> [] then (su, w)
      else best_effort (ListUpdatesPaginated iid 1 resolutionLookback w)
        (\<lambda>(us, _). su\<lparr>su_ResolutionSummary := latestAuthoredNote us\<rparr>) su)"

definition enrichIncident ::
    "notify_service \<Rightarrow> uuid \<Rightarrow> string \<Rightarrow> IncidentSummary \<Rightarrow> world \<Rightarrow> notificationPayload \<times> world" where
  "enrichIncident S tid ty summary w =
     (if \<not> ns_detailed S then (IncidentPayload summary None, w)
      else case enrich_tenant S tid summary w of ((su, loc), w) \<Rightarrow>
        (case su_IncidentID summary of
           None \<Rightarrow> (IncidentPayload su loc, w)
         | Some iid \<Rightarrow>
             (case enrich_services iid su w of (su, w) \<Rightarrow>
               (case enrich_resolution ty iid su w of (su, w) \<Rightarrow> (IncidentPayload su loc, w)))))"

text \<open>\<open>send\<close>: the email of a payload. The four types are those of \<open>notification_types\<close> other than
  \<open>weekly_digest\<close>; the \<open>default\<close> branch, an unknown type or the payload of another one, is \<open>None\<close>.\<close>

fun email_of :: "string \<Rightarrow> notificationPayload \<Rightarrow> link \<Rightarrow> email option" where
  "email_of ty (IncidentPayload inc loc) url =
     (if ty = ''incident_opened'' then
        Some (IncidentOpenedEmail \<lparr>eo_TenantName = su_TenantName inc, eo_ServiceName = su_ServiceName inc,
          eo_IncidentTitle = su_Title inc, eo_Severity = su_Severity inc, eo_Status = su_Status inc,
          eo_OpenedAt = su_OpenedAt inc, eo_Location = loc,
          eo_FirstUpdate = (if su_Description inc = [] then None else Some (su_OpenedAt inc, su_Description inc)),
          eo_DashboardURL = url\<rparr>)
      else if ty = ''incident_resolved'' then
        Some (IncidentResolvedEmail \<lparr>er_TenantName = su_TenantName inc, er_ServiceName = su_ServiceName inc,
          er_IncidentTitle = su_Title inc, er_Severity = su_Severity inc, er_OpenedAt = su_OpenedAt inc,
          er_ResolvedAt = su_ResolvedAt inc, er_Location = loc, er_ResolutionSummary = su_ResolutionSummary inc,
          er_DashboardURL = url\<rparr>)
      else None)"
| "email_of ty (ExpiringPayload d) url =
     (if ty = ''domain_expiring'' then
        Some (DomainExpiringEmail \<lparr>ee_TenantName = xs_TenantName d, ee_Hostname = xs_Hostname d,
          ee_DaysRemaining = xs_DaysRemaining d, ee_ThresholdDays = xs_ThresholdDays d, ee_DashboardURL = url\<rparr>)
      else None)"
| "email_of ty (DriftPayload d) url =
     (if ty = ''domain_ns_drift'' then
        Some (DomainNSDriftEmail \<lparr>en_TenantName = xn_TenantName d, en_Hostname = xn_Hostname d,
          en_ExpectedNS = xn_ExpectedNS d, en_CurrentNS = xn_CurrentNS d, en_DashboardURL = url\<rparr>)
      else None)"

definition send :: "sender \<Rightarrow> string \<Rightarrow> string \<Rightarrow> notificationPayload \<Rightarrow> link \<Rightarrow> world \<Rightarrow> bool \<times> world" where
  "send M to ty payload url w = (case email_of ty payload url of None \<Rightarrow> (False, w) | Some m \<Rightarrow> M to m w)"

definition notifiable :: "TenantMember \<Rightarrow> bool" where
  "notifiable m \<longleftrightarrow> me_Role m = RoleOwner \<or> me_Role m = RoleOperator"

text \<open>The loop over the recipients: a failed send is logged, and the next recipient follows.\<close>

fun send_to_all ::
    "sender \<Rightarrow> string \<Rightarrow> notificationPayload \<Rightarrow> link \<Rightarrow> (uuid \<Rightarrow> bool option) \<Rightarrow> TenantMember list \<Rightarrow> world \<Rightarrow> world" where
  "send_to_all M ty payload url enabled [] w = w"
| "send_to_all M ty payload url enabled (m # ms) w =
     send_to_all M ty payload url enabled ms
       (if enabled (me_UserID m) \<noteq> Some True then w else snd (send M (me_Email m) ty payload url w))"

definition notify :: "sender \<Rightarrow> uuid \<Rightarrow> string \<Rightarrow> notificationPayload \<Rightarrow> link \<Rightarrow> world \<Rightarrow> unit db_result" where
  "notify M tid ty payload url w =
     db_bind (ListMembersWithEmail tid w) (\<lambda>members w.
       let recipients = filter notifiable members in
       if recipients = [] then (Inr (), w)
       else db_bind (ResolveEnabledForUsers (map me_UserID recipients) ty w)
              (\<lambda>enabled w. (Inr (), send_to_all M ty payload url enabled recipients w)))"

definition notifyIncident ::
    "notify_service \<Rightarrow> sender \<Rightarrow> uuid \<Rightarrow> string \<Rightarrow> IncidentSummary \<Rightarrow> world \<Rightarrow> unit db_result" where
  "notifyIncident S M tid ty summary w =
     (case enrichIncident S tid ty summary w of (payload, w) \<Rightarrow>
        notify M tid ty payload (dashboardURL S (su_IncidentID summary)) w)"

definition NotifyIncidentOpened :: "notify_service \<Rightarrow> sender \<Rightarrow> uuid \<Rightarrow> IncidentSummary \<Rightarrow> world \<Rightarrow> unit db_result" where
  "NotifyIncidentOpened S M tid summary = notifyIncident S M tid ''incident_opened'' summary"

definition NotifyIncidentResolved :: "notify_service \<Rightarrow> sender \<Rightarrow> uuid \<Rightarrow> IncidentSummary \<Rightarrow> world \<Rightarrow> unit db_result" where
  "NotifyIncidentResolved S M tid summary = notifyIncident S M tid ''incident_resolved'' summary"

definition NotifyDomainExpiring :: "notify_service \<Rightarrow> sender \<Rightarrow> uuid \<Rightarrow> DomainExpiringSummary \<Rightarrow> world \<Rightarrow> unit db_result" where
  "NotifyDomainExpiring S M tid d = notify M tid ''domain_expiring'' (ExpiringPayload d) (domainDashboardURL S (xs_DomainID d))"

definition NotifyDomainNSDrift :: "notify_service \<Rightarrow> sender \<Rightarrow> uuid \<Rightarrow> DomainNSDriftSummary \<Rightarrow> world \<Rightarrow> unit db_result" where
  "NotifyDomainNSDrift S M tid d = notify M tid ''domain_ns_drift'' (DriftPayload d) (domainDashboardURL S (xn_DomainID d))"

definition WeeklyDigestRecipients :: "uuid \<Rightarrow> world \<Rightarrow> TenantMember list db_result" where
  "WeeklyDigestRecipients tid w =
     db_bind (ListMembersWithEmail tid w) (\<lambda>members w.
       let candidates = filter notifiable members in
       if candidates = [] then (Inr candidates, w)
       else db_bind (ResolveEnabledForUsers (map me_UserID candidates) ''weekly_digest'' w)
              (\<lambda>enabled w. (Inr (filter (\<lambda>m. enabled (me_UserID m) = Some True) candidates), w)))"

definition SendWeeklyDigest :: "notify_service \<Rightarrow> sender \<Rightarrow> string \<Rightarrow> WeeklyDigestEmailData \<Rightarrow> world \<Rightarrow> bool \<times> world" where
  "SendWeeklyDigest S M to d w =
     (let page = (\<lambda>url p. if url = NoLink \<and> ns_adminBaseURL S \<noteq> [] then Page (trim_right_slash (ns_adminBaseURL S)) p else url)
      in M to (WeeklyDigestEmail (d\<lparr>wd_DashboardURL := page (wd_DashboardURL d) ''/overview'',
                                    wd_IncidentsURL := page (wd_IncidentsURL d) ''/incidents''\<rparr>)) w)"

subsection \<open>The recipients\<close>

lemma send_to_all_fold:
  "send_to_all M ty payload url enabled ms w =
     fold (\<lambda>m w. snd (send M (me_Email m) ty payload url w)) (filter (\<lambda>m. enabled (me_UserID m) = Some True) ms) w"
  by (induction ms arbitrary: w) auto

definition preference_enabled :: "uuid \<Rightarrow> string \<Rightarrow> tables \<Rightarrow> bool" where
  "preference_enabled uid ty d \<longleftrightarrow> or_keep (stored_preference uid ty d) (NotificationDefaultEnabled ty)"

definition wants :: "string \<Rightarrow> tables \<Rightarrow> TenantMember \<Rightarrow> bool" where
  "wants ty d m \<longleftrightarrow> notifiable m \<and> preference_enabled (me_UserID m) ty d"

lemma filter_enabled:
  "filter (\<lambda>m. (if me_UserID m \<in> me_UserID ` {m \<in> set ms. notifiable m} then Some (preference_enabled (me_UserID m) ty d) else None) = Some True)
     (filter notifiable ms) = filter (wants ty d) ms"
  unfolding filter_filter by (rule filter_cong) (auto simp: wants_def)

lemma ResolveEnabled_healthy:
  assumes "healthy w" and "uids \<noteq> []"
  shows "ResolveEnabledForUsers uids ty w =
    (Inr (\<lambda>uid. if uid \<in> set uids then Some (preference_enabled uid ty (db w)) else None), w)"
  using assms by (auto simp: ResolveEnabledForUsers_def preference_enabled_def)

lemma no_notifiable_wants: "filter notifiable ms = [] \<Longrightarrow> filter (wants ty d) ms = []"
  by (auto simp: filter_empty_conv wants_def)

lemma notify_healthy:
  assumes "healthy w" and "ListMembersWithEmail tid w = (Inr ms, w)"
  shows "notify M tid ty payload url w =
    (Inr (), fold (\<lambda>m w. snd (send M (me_Email m) ty payload url w)) (filter (wants ty (db w)) ms) w)"
proof (cases "filter notifiable ms = []")
  case True
  with assms no_notifiable_wants [OF True] show ?thesis by (simp add: notify_def)
next
  case False
  with assms show ?thesis
    by (simp add: notify_def Let_def ResolveEnabled_healthy send_to_all_fold filter_enabled del: filter_filter)
qed

definition member_entry :: "membership_row \<Rightarrow> User \<Rightarrow> TenantMember" where
  "member_entry m u = \<lparr>me_UserID = u_ID u, me_Email = u_Email u, me_Role = mb_role m\<rparr>"

lemma member_entry_simps [simp]:
  "me_UserID (member_entry m u) = u_ID u" "me_Email (member_entry m u) = u_Email u" "me_Role (member_entry m u) = mb_role m"
  by (simp_all add: member_entry_def)

definition members_of :: "membership_row list \<Rightarrow> User list \<Rightarrow> TenantMember list" where
  "members_of ms us =
     concat (map (\<lambda>m. map (\<lambda>u. \<lparr>me_UserID = mb_user_id m, me_Email = u_Email u, me_Role = mb_role m\<rparr>)
       (filter (\<lambda>u. u_ID u = mb_user_id m) us)) ms)"

lemma set_members_of:
  "x \<in> set (members_of ms us) \<longleftrightarrow> (\<exists>u m. u \<in> set us \<and> m \<in> set ms \<and> mb_user_id m = u_ID u \<and> x = member_entry m u)"
  by (auto simp: members_of_def member_entry_def image_iff) metis+

lemma distinct_members_of:
  assumes "distinct (map u_ID us)" and "distinct (map mb_user_id ms)"
  shows "distinct (map me_UserID (members_of ms us))"
  using assms(2)
proof (induction ms)
  case (Cons m ms)
  have "length (filter (\<lambda>u. u_ID u = mb_user_id m) us) \<le> 1" using filter_key_le1 [OF assms(1)] .
  then have "distinct (map (\<lambda>u. mb_user_id m) (filter (\<lambda>u. u_ID u = mb_user_id m) us))"
    by (cases "filter (\<lambda>u. u_ID u = mb_user_id m) us") auto
  moreover have "me_UserID ` set (members_of ms us) \<subseteq> mb_user_id ` set ms" by (auto simp: set_members_of) (metis image_eqI)
  ultimately show ?case using Cons by (auto simp: members_of_def comp_def)
qed (simp add: members_of_def)

lemma ListMembersWithEmail_healthy:
  assumes "healthy w" and "app_tenant_id (pool_session w) = Some tid"
  shows "ListMembersWithEmail tid w =
    (Inr (members_of (sort_key mb_created_at (filter (\<lambda>m. mb_tenant_id m = tid) (memberships (db w)))) (users (db w))), w)"
proof -
  have "mb_visible w m \<and> mb_tenant_id m = tid \<longleftrightarrow> mb_tenant_id m = tid" for m
    using assms(2) by (auto simp: mb_visible_def)
  with assms(1) show ?thesis by (simp add: ListMembersWithEmail_def members_of_def)
qed

lemma tenant_user_ids_distinct:
  assumes "members_ok d"
  shows "distinct (map mb_user_id (filter (\<lambda>m. mb_tenant_id m = tid) (memberships d)))"
proof -
  have "distinct (map mb_key (filter (\<lambda>m. mb_tenant_id m = tid) (memberships d)))"
    using assms by (simp add: members_ok_def distinct_map_filter)
  moreover have "inj_on mb_user_id (set (filter (\<lambda>m. mb_tenant_id m = tid) (memberships d)))"
    if "distinct (map mb_key (filter (\<lambda>m. mb_tenant_id m = tid) (memberships d)))"
    using that by (auto simp: distinct_map inj_on_def mb_key_def)
  ultimately show ?thesis by (simp add: distinct_map)
qed

text \<open>C25. A notification reaches every member who should get it, once: in a transaction of the
  tenant on a database that does not fail, \<open>notify\<close> succeeds and hands exactly one email to the
  sender, in turn, for each owner or operator of the tenant whose preference for the event is
  enabled (an unset preference taking the default), whatever the sender answers for the others: a
  failed send stops nothing.\<close>

theorem notify_emails_each_enabled_member_once:
  assumes "healthy w" and "app_tenant_id (pool_session w) = Some tid"
    and "members_ok (db w)" and "distinct (map u_ID (users (db w)))"
  shows "\<exists>ms. notify M tid ty payload url w = (Inr (), fold (\<lambda>m w. snd (send M (me_Email m) ty payload url w)) ms w) \<and>
    distinct (map me_UserID ms) \<and>
    set ms = {member_entry m u | u m.
      u \<in> set (users (db w)) \<and> m \<in> set (memberships (db w)) \<and> mb_key m = (u_ID u, tid) \<and>
      mb_role m \<in> {RoleOwner, RoleOperator} \<and> preference_enabled (u_ID u) ty (db w)}"
proof -
  define rows where "rows = sort_key mb_created_at (filter (\<lambda>m. mb_tenant_id m = tid) (memberships (db w)))"
  define ms where "ms = filter (wants ty (db w)) (members_of rows (users (db w)))"
  have "distinct (map mb_user_id rows)"
    using tenant_user_ids_distinct [OF assms(3), of tid] by (simp add: rows_def distinct_map)
  then have "distinct (map me_UserID ms)"
    unfolding ms_def by (intro distinct_map_filter distinct_members_of assms(4))
  moreover have "notify M tid ty payload url w = (Inr (), fold (\<lambda>m w. snd (send M (me_Email m) ty payload url w)) ms w)"
    unfolding ms_def using assms(1) ListMembersWithEmail_healthy [OF assms(1,2)]
    by (intro notify_healthy) (simp_all add: rows_def)
  moreover have "set ms = {member_entry m u | u m.
      u \<in> set (users (db w)) \<and> m \<in> set (memberships (db w)) \<and> mb_key m = (u_ID u, tid) \<and>
      mb_role m \<in> {RoleOwner, RoleOperator} \<and> preference_enabled (u_ID u) ty (db w)}"
    unfolding set_eq_iff by (auto simp: ms_def rows_def set_members_of wants_def notifiable_def mb_key_def; metis)
  ultimately show ?thesis by blast
qed

lemma emails_image: "me_Email ` {member_entry m u | u m. P u m} = u_Email ` {u. \<exists>m. P u m}"
proof -
  have "{member_entry m u | u m. P u m} = (\<lambda>(u, m). member_entry m u) ` {(u, m). P u m}" by auto
  then show ?thesis by (force simp: image_image image_iff)
qed

definition muted_operator :: world where
  "muted_operator = within_tenant 3 (fresh_world\<lparr>db := (db two_owners)\<lparr>
     memberships := memberships (db two_owners) @ [\<lparr>mb_user_id = 4, mb_tenant_id = 3, mb_role = RoleOperator, mb_created_at = 1\<rparr>,
       \<lparr>mb_user_id = 5, mb_tenant_id = 3, mb_role = RoleViewer, mb_created_at = 1\<rparr>],
     users := users (db two_owners) @ [(sample_user ''c'')\<lparr>u_ID := 4\<rparr>, (sample_user ''d'')\<lparr>u_ID := 5\<rparr>],
     preferences := [\<lparr>np_user_id = 2, np_type = ''incident_opened'', np_enabled = False\<rparr>]\<rparr>\<rparr>)"

lemma muted_rows:
  "memberships (db muted_operator) =
     [\<lparr>mb_user_id = 1, mb_tenant_id = 3, mb_role = RoleOwner, mb_created_at = 0\<rparr>,
      \<lparr>mb_user_id = 2, mb_tenant_id = 3, mb_role = RoleOwner, mb_created_at = 0\<rparr>,
      \<lparr>mb_user_id = 4, mb_tenant_id = 3, mb_role = RoleOperator, mb_created_at = 1\<rparr>,
      \<lparr>mb_user_id = 5, mb_tenant_id = 3, mb_role = RoleViewer, mb_created_at = 1\<rparr>]"
  "users (db muted_operator) = [(sample_user ''a'')\<lparr>u_ID := 1\<rparr>, (sample_user ''b'')\<lparr>u_ID := 2\<rparr>,
     (sample_user ''c'')\<lparr>u_ID := 4\<rparr>, (sample_user ''d'')\<lparr>u_ID := 5\<rparr>]"
  "preferences (db muted_operator) = [\<lparr>np_user_id = 2, np_type = ''incident_opened'', np_enabled = False\<rparr>]"
  by (simp_all add: muted_operator_def two_owners_def)

lemma muted_preferences:
  "preference_enabled (Suc 0) ''incident_opened'' (db muted_operator)" "\<not> preference_enabled 2 ''incident_opened'' (db muted_operator)"
  "preference_enabled 4 ''incident_opened'' (db muted_operator)"
  by (simp_all add: preference_enabled_def stored_preference_def muted_rows or_keep_def NotificationDefaultEnabled_def)

lemma viewer_not_notified: "RoleViewer \<noteq> RoleOwner" "RoleViewer \<noteq> RoleOperator"
  by (simp_all add: RoleOwner_def RoleOperator_def RoleViewer_def)

definition sample_opened :: notificationPayload where
  "sample_opened = IncidentPayload \<lparr>su_IncidentID = Some 9, su_Title = ''down'', su_Severity = ''critical'', su_ServiceName = ''api'',
     su_TenantName = ''acme'', su_Status = ''investigating'', su_OpenedAt = 5, su_ResolvedAt = None, su_Description = [],
     su_ResolutionSummary = []\<rparr> None"

theorem notify_emails_each_enabled_member_once_witness:
  "\<exists>ms :: TenantMember list. notify (\<lambda>_ _ w. (False, w)) 3 ''incident_opened'' sample_opened NoLink muted_operator =
      (Inr (), fold (\<lambda>m w. snd (send (\<lambda>_ _ w. (False, w)) (me_Email m) ''incident_opened'' sample_opened NoLink w)) ms muted_operator) \<and>
    distinct (map me_UserID ms) \<and> me_Email ` set ms = {''a'', ''c''}"
proof -
  have "healthy muted_operator" "app_tenant_id (pool_session muted_operator) = Some 3"
    by (simp_all add: muted_operator_def fresh_world_def)
  moreover have "members_ok (db muted_operator)" "distinct (map u_ID (users (db muted_operator)))"
    by (simp_all add: members_ok_def muted_rows mb_key_def sample_user_def)
  ultimately obtain ms where ms: "notify (\<lambda>_ _ w. (False, w)) 3 ''incident_opened'' sample_opened NoLink muted_operator =
      (Inr (), fold (\<lambda>m w. snd (send (\<lambda>_ _ w. (False, w)) (me_Email m) ''incident_opened'' sample_opened NoLink w)) ms muted_operator)"
      "distinct (map me_UserID ms)"
    and set: "set ms = {member_entry m u | u m.
      u \<in> set (users (db muted_operator)) \<and> m \<in> set (memberships (db muted_operator)) \<and> mb_key m = (u_ID u, 3) \<and>
      mb_role m \<in> {RoleOwner, RoleOperator} \<and> preference_enabled (u_ID u) ''incident_opened'' (db muted_operator)}"
    using notify_emails_each_enabled_member_once by blast
  have "me_Email ` set ms = u_Email ` {u \<in> set (users (db muted_operator)). \<exists>m\<in>set (memberships (db muted_operator)).
      mb_key m = (u_ID u, 3) \<and> mb_role m \<in> {RoleOwner, RoleOperator} \<and> preference_enabled (u_ID u) ''incident_opened'' (db muted_operator)}"
    unfolding set emails_image by (rule arg_cong [of _ _ "image u_Email"]) blast
  also have "\<dots> = set (map u_Email (filter (\<lambda>u. list_ex (\<lambda>m. mb_key m = (u_ID u, 3) \<and> mb_role m \<in> {RoleOwner, RoleOperator} \<and>
      preference_enabled (u_ID u) ''incident_opened'' (db muted_operator)) (memberships (db muted_operator))) (users (db muted_operator))))"
    by (simp add: list_ex_iff)
  also have "\<dots> = {''a'', ''c''}"
    unfolding muted_rows by (simp add: mb_key_def sample_user_def muted_preferences viewer_not_notified)
  finally have mails: "me_Email ` set ms = {''a'', ''c''}" by simp
  show ?thesis by (intro exI [of _ ms] conjI ms(1) ms(2) mails)
qed

subsection \<open>The weekly digest\<close>

definition DigestIncidentsCap :: nat where "DigestIncidentsCap = 10"
definition DigestServicesCap :: nat where "DigestServicesCap = 10"

record DigestServiceUptime =
  du_Name :: string
  du_UptimePercent :: rat

record WeeklyDigestInput =
  wi_Tenant :: Tenant
  wi_Services :: "DigestServiceUptime list"
  wi_Incidents :: "DigestIncident list"
  wi_IncidentsOpened :: int
  wi_IncidentsResolved :: int
  wi_PeriodStart :: time
  wi_PeriodEnd :: time

definition mean_uptime :: "DigestServiceUptime list \<Rightarrow> rat" where
  "mean_uptime ss =
     (if ss = [] then 100
      else fdiv (fold (\<lambda>s sum. fadd sum (du_UptimePercent s)) ss 0) (float_of_int (int (length ss))))"

definition service_rows :: "DigestServiceUptime list \<Rightarrow> DigestServiceRow list" where
  "service_rows ss =
     (let rows = map (\<lambda>s. \<lparr>dr_Name = du_Name s, dr_UptimePercent = du_UptimePercent s\<rparr>) ss;
          rows = (if DigestServicesCap < length rows then take DigestServicesCap (sort_key dr_UptimePercent rows) else rows)
      in sort_key dr_Name rows)"

definition resolved_in_period :: "time \<Rightarrow> DigestIncident \<Rightarrow> bool" where
  "resolved_in_period periodEnd inc \<longleftrightarrow> (case di_ResolvedAt inc of None \<Rightarrow> False | Some t \<Rightarrow> t < periodEnd)"

definition digest_duration :: "time \<Rightarrow> DigestIncident \<Rightarrow> duration" where
  "digest_duration periodEnd inc =
     (let finish = (case di_ResolvedAt inc of None \<Rightarrow> periodEnd | Some t \<Rightarrow> if t < periodEnd then t else periodEnd);
          duration = time_sub finish (di_CreatedAt inc)
      in if duration < 0 then 0 else duration)"

definition incident_row_of :: "time \<Rightarrow> DigestIncident \<Rightarrow> DigestIncidentRow" where
  "incident_row_of periodEnd inc =
     \<lparr>dg_Title = di_Title inc, dg_ServiceName = join_names (di_ServiceNames inc), dg_Status = di_Status inc,
      dg_OngoingAtPeriodEnd = (di_ResolvedAt inc \<noteq> None \<and> \<not> resolved_in_period periodEnd inc),
      dg_Duration = digest_duration periodEnd inc\<rparr>"

text \<open>The loop's \<open>resolvedTotal\<close> and \<open>resolvedCount\<close>: the incidents resolved inside the window.\<close>

definition resolved_durations :: "time \<Rightarrow> time \<Rightarrow> DigestIncident list \<Rightarrow> duration list" where
  "resolved_durations periodStart periodEnd incs =
     map (digest_duration periodEnd)
       (filter (\<lambda>inc. case di_ResolvedAt inc of None \<Rightarrow> False | Some t \<Rightarrow> t < periodEnd \<and> \<not> t < periodStart) incs)"

definition mttr :: "duration list \<Rightarrow> duration" where
  "mttr ds = (if ds = [] then 0 else go_quot (fold (\<lambda>d total. wrap64 (total + d)) ds 0) (int (length ds)))"

definition open_at_end :: "time \<Rightarrow> DigestIncident \<Rightarrow> bool" where
  "open_at_end periodEnd inc \<longleftrightarrow> (case di_ResolvedAt inc of None \<Rightarrow> True | Some t \<Rightarrow> \<not> t < periodEnd)"

text \<open>The stable sort of the row indices, open at the end first and then the longest, is one by the
  pair of both in lexicographic order.\<close>

definition cap_key :: "DigestIncidentRow list \<Rightarrow> DigestIncident list \<Rightarrow> time \<Rightarrow> nat \<Rightarrow> bool \<times> duration" where
  "cap_key rows source periodEnd i = (\<not> open_at_end periodEnd (source ! i), - dg_Duration (rows ! i))"

definition kept_indices :: "DigestIncidentRow list \<Rightarrow> DigestIncident list \<Rightarrow> time \<Rightarrow> nat list" where
  "kept_indices rows source periodEnd =
     sort (take DigestIncidentsCap (sort_key (cap_key rows source periodEnd) [0 ..< length rows]))"

definition capDigestIncidents :: "DigestIncidentRow list \<Rightarrow> DigestIncident list \<Rightarrow> time \<Rightarrow> DigestIncidentRow list" where
  "capDigestIncidents rows source periodEnd =
     (if length rows \<le> DigestIncidentsCap then rows
      else map (\<lambda>i. rows ! i) (kept_indices rows source periodEnd))"

definition BuildWeeklyDigestData :: "(string \<Rightarrow> bool) \<Rightarrow> WeeklyDigestInput \<Rightarrow> WeeklyDigestEmailData" where
  "BuildWeeklyDigestData known d =
     (let rows = map (incident_row_of (wi_PeriodEnd d)) (wi_Incidents d) in
      \<lparr>wd_TenantName = t_Name (wi_Tenant d), wd_UptimePercent = mean_uptime (wi_Services d),
       wd_IncidentsOpened = wi_IncidentsOpened d, wd_IncidentsResolved = wi_IncidentsResolved d,
       wd_PeriodStart = wi_PeriodStart d, wd_PeriodEnd = wi_PeriodEnd d,
       wd_Location = TenantLocation known (t_Timezone (wi_Tenant d)),
       wd_Services = service_rows (wi_Services d), wd_TotalServices = length (wi_Services d),
       wd_Incidents = capDigestIncidents rows (wi_Incidents d) (wi_PeriodEnd d), wd_TotalIncidents = length rows,
       wd_MTTR = mttr (resolved_durations (wi_PeriodStart d) (wi_PeriodEnd d) (wi_Incidents d)),
       wd_DashboardURL = NoLink, wd_IncidentsURL = NoLink\<rparr>)"

lemma kept_indices_sound:
  fixes rows source periodEnd
  assumes "DigestIncidentsCap < length rows"
  defines "key \<equiv> cap_key rows source periodEnd" and "ks \<equiv> kept_indices rows source periodEnd"
  shows "sorted ks" "distinct ks" "length ks = DigestIncidentsCap" "set ks \<subseteq> {..< length rows}"
    "\<lbrakk>i \<in> set ks; j < length rows; j \<notin> set ks\<rbrakk> \<Longrightarrow> key i \<le> key j"
proof -
  define order where "order = sort_key key [0 ..< length rows]"
  have ks: "ks = sort (take DigestIncidentsCap order)" by (simp add: ks_def kept_indices_def order_def key_def)
  have order: "sorted (map key order)" "distinct order" "set order = {..< length rows}" "length order = length rows"
    by (auto simp: order_def)
  show "sorted ks" by (simp add: ks)
  show "distinct ks" using order(2) by (simp add: ks)
  show "length ks = DigestIncidentsCap" using assms(1) order(4) by (simp add: ks)
  show "set ks \<subseteq> {..< length rows}" using order(3) set_take_subset [of DigestIncidentsCap order] by (simp add: ks)
  assume ij: "i \<in> set ks" "j < length rows" "j \<notin> set ks"
  then have "i \<in> set (take DigestIncidentsCap order)" "j \<in> set (drop DigestIncidentsCap order)"
    using order(3) set_append [of "take DigestIncidentsCap order" "drop DigestIncidentsCap order"] by (auto simp: ks)
  moreover have "sorted (map key (take DigestIncidentsCap order @ drop DigestIncidentsCap order))" using order(1) by simp
  ultimately show "key i \<le> key j" unfolding map_append sorted_append by auto
qed

text \<open>A capped digest lists ten incidents in the order given: no incident it leaves out was open at
  the end of the period while a listed one was not, and none of the same kind lasted longer.\<close>

theorem digest_lists_the_worst_incidents:
  assumes "DigestIncidentsCap < length (wi_Incidents d)"
  shows "\<exists>ks. sorted ks \<and> distinct ks \<and> length ks = DigestIncidentsCap \<and> set ks \<subseteq> {..< length (wi_Incidents d)} \<and>
    wd_Incidents (BuildWeeklyDigestData known d) = map (\<lambda>i. incident_row_of (wi_PeriodEnd d) (wi_Incidents d ! i)) ks \<and>
    (\<forall>i\<in>set ks. \<forall>j<length (wi_Incidents d). j \<notin> set ks \<longrightarrow>
       (open_at_end (wi_PeriodEnd d) (wi_Incidents d ! j) \<longrightarrow> open_at_end (wi_PeriodEnd d) (wi_Incidents d ! i)) \<and>
       (open_at_end (wi_PeriodEnd d) (wi_Incidents d ! i) = open_at_end (wi_PeriodEnd d) (wi_Incidents d ! j) \<longrightarrow>
          digest_duration (wi_PeriodEnd d) (wi_Incidents d ! j) \<le> digest_duration (wi_PeriodEnd d) (wi_Incidents d ! i)))"
proof -
  define rows where "rows = map (incident_row_of (wi_PeriodEnd d)) (wi_Incidents d)"
  define ks where "ks = kept_indices rows (wi_Incidents d) (wi_PeriodEnd d)"
  have len: "DigestIncidentsCap < length rows" "length rows = length (wi_Incidents d)" using assms by (simp_all add: rows_def)
  note sound = kept_indices_sound [OF len(1), where source = "wi_Incidents d" and periodEnd = "wi_PeriodEnd d", folded ks_def]
  have row: "dg_Duration (rows ! i) = digest_duration (wi_PeriodEnd d) (wi_Incidents d ! i)" if "i < length rows" for i
    using that by (simp add: rows_def incident_row_of_def)
  have "wd_Incidents (BuildWeeklyDigestData known d) = map (\<lambda>i. rows ! i) ks"
    using len(1) by (simp add: BuildWeeklyDigestData_def Let_def capDigestIncidents_def rows_def ks_def)
  also have "\<dots> = map (\<lambda>i. incident_row_of (wi_PeriodEnd d) (wi_Incidents d ! i)) ks"
    using sound(4) len(2) by (intro map_cong refl) (auto simp: rows_def)
  finally have "wd_Incidents (BuildWeeklyDigestData known d) = \<dots>" .
  moreover have "(open_at_end (wi_PeriodEnd d) (wi_Incidents d ! j) \<longrightarrow> open_at_end (wi_PeriodEnd d) (wi_Incidents d ! i)) \<and>
       (open_at_end (wi_PeriodEnd d) (wi_Incidents d ! i) = open_at_end (wi_PeriodEnd d) (wi_Incidents d ! j) \<longrightarrow>
          digest_duration (wi_PeriodEnd d) (wi_Incidents d ! j) \<le> digest_duration (wi_PeriodEnd d) (wi_Incidents d ! i))"
    if "i \<in> set ks" "j < length (wi_Incidents d)" "j \<notin> set ks" for i j
  proof -
    have "i < length rows" using that(1) sound(4) by auto
    with sound(5) [OF that(1) _ that(3)] that(2) len(2) show ?thesis by (auto simp: cap_key_def row)
  qed
  ultimately show ?thesis using sound(1-4) unfolding len(2) by (intro exI [of _ ks]) blast
qed

end
