(* ===== verification/Datadog.thy ===== *)
theory Datadog
  imports Burn_Rate "HOL-Library.List_Lexorder" "HOL-Library.Char_ord"
begin

text \<open>
  The Datadog client, \<open>internal/connectors/datadog/client.go\<close>, from the answer of the HTTP transport on:
  how an answer becomes one of the client's errors or a decoded body, and how the request and error
  counts of the short and the long window are cut out of an SLO's history.

  \<^item> The transport and the JSON decoder are parameters: a request is answered by an \<open>http_answer\<close>, whose
    body is \<open>None\<close> when it does not decode. A JSON object is an association list by key.
  \<^item> A timestamp is the number of nanoseconds since the Unix epoch; \<open>float64\<close> values of JSON are rationals.
  \<^item> The conversion of a \<open>float64\<close> outside the range of \<open>int64\<close>, which Go leaves to the machine, gives
    \<open>min_int64\<close> (amd64).
\<close>

subsection \<open>Answers\<close>

datatype dd_error = DDUnauthorized | DDTimeout | DDServer | DDNotFound | DDOther | Canceled

datatype 'b http_answer = NoAnswer bool | Answered nat "'b option"

definition dd_get :: "'b http_answer \<Rightarrow> dd_error + 'b option" where
  "dd_get answer =
     (case answer of
        NoAnswer timeout \<Rightarrow> Inl (if timeout then DDTimeout else DDOther)
      | Answered status body \<Rightarrow>
          if status = 401 \<or> status = 403 then Inl DDUnauthorized
          else if status = 404 then Inl DDNotFound
          else if 500 \<le> status then Inl DDServer
          else if status \<noteq> 200 then Inl DDOther
          else Inr body)"

definition dd_post :: "'b http_answer \<Rightarrow> dd_error + 'b option" where
  "dd_post answer =
     (case answer of
        NoAnswer timeout \<Rightarrow> Inl (if timeout then DDTimeout else DDOther)
      | Answered status body \<Rightarrow>
          if status = 401 \<or> status = 403 then Inl DDUnauthorized
          else if status = 404 then Inl DDNotFound
          else if 500 \<le> status then Inl DDServer
          else if status \<noteq> 200 then Inl DDOther
          else Inr body)"

definition decoded :: "dd_error + 'b option \<Rightarrow> dd_error + 'b" where
  "decoded r = (case r of Inl e \<Rightarrow> Inl e | Inr None \<Rightarrow> Inl DDOther | Inr (Some b) \<Rightarrow> Inr b)"

definition ValidateCredentials :: "'b http_answer \<Rightarrow> dd_error + unit" where
  "ValidateCredentials answer = (case dd_get answer of Inl e \<Rightarrow> Inl e | Inr _ \<Rightarrow> Inr ())"

subsection \<open>The history of an SLO\<close>

record SLOStatus =
  sl_State :: string
  sl_ErrorBudgetRemaining :: rat
  sl_SLI :: rat
  sl_Target :: rat
  sl_Timeframe :: string
  sl_RequestCount :: int

record SLOWindows =
  sw_Target :: rat
  sw_Timeframe :: string
  sw_State :: string
  sw_SLI :: rat
  sw_Short :: windowCounts
  sw_Long :: windowCounts
  sw_HasSeries :: bool

record sloHistoryMetric =
  hm_Sum :: "rat option"
  hm_Values :: "rat list"

record sloHistoryResponse =
  hr_SLIValue :: rat
  hr_State :: string
  hr_Interval :: rat
  hr_Times :: "rat list"
  hr_Numerator :: sloHistoryMetric
  hr_Denominator :: sloHistoryMetric
  hr_Thresholds :: "(string \<times> rat \<times> string) list"

definition historyBucket :: duration where
  "historyBucket = 60 * second"

definition math_round :: "rat \<Rightarrow> int" where
  "math_round x = (if x < 0 then - \<lfloor>- x + 1 / 2\<rfloor> else \<lfloor>x + 1 / 2\<rfloor>)"

definition int64_of :: "int \<Rightarrow> int" where
  "int64_of n = (if min_int64 \<le> n \<and> n \<le> max_int64 then n else min_int64)"

definition float_sum :: "rat list \<Rightarrow> rat" where
  "float_sum vs = fold (\<lambda>v acc. fadd acc v) vs 0"

definition metric_total :: "sloHistoryMetric \<Rightarrow> rat \<times> bool" where
  "metric_total m =
     (case hm_Sum m of Some s \<Rightarrow> (s, True)
      | None \<Rightarrow> if hm_Values m = [] then (0, False) else (float_sum (hm_Values m), True))"

definition pickThreshold :: "(string \<times> rat \<times> string) list \<Rightarrow> rat \<times> string" where
  "pickThreshold ts = (case sort_key fst ts of [] \<Rightarrow> (0, []) | (_, chosen) # _ \<Rightarrow> chosen)"

definition zero_counts :: windowCounts where
  "zero_counts = \<lparr>w_Requests = 0, w_Errors = 0\<rparr>"

definition counts_add :: "windowCounts \<Rightarrow> windowCounts \<Rightarrow> windowCounts" where
  "counts_add w v = \<lparr>w_Requests = wrap64 (w_Requests w + w_Requests v), w_Errors = wrap64 (w_Errors w + w_Errors v)\<rparr>"

definition countsFrom :: "rat \<Rightarrow> rat \<Rightarrow> windowCounts" where
  "countsFrom whole good =
     (let requests = max (int64_of (math_round whole)) 0;
          errs = wrap64 (requests - int64_of (math_round good))
      in \<lparr>w_Requests = requests, w_Errors = min (max errs 0) requests\<rparr>)"

definition bucketStart :: "rat \<Rightarrow> time" where
  "bucketStart ts =
     (if ts < 100000000000 then int64_of (math_round ts) * second else int64_of (math_round ts) * 1000000)"

text \<open>The truncation of the product to an \<open>int64\<close>; only positive intervals reach it.\<close>

definition seriesInterval :: "rat \<Rightarrow> rat list \<Rightarrow> duration" where
  "seriesInterval width stamps =
     (if 0 < width then int64_of \<lfloor>fmul width (float_of_int second)\<rfloor>
      else case stamps of a # b # _ \<Rightarrow> time_sub (bucketStart b) (bucketStart a) | _ \<Rightarrow> 0)"

definition time_unix :: "time \<Rightarrow> int" where
  "time_unix t = t div second"

text \<open>\<open>api from to\<close> answers \<open>GET /api/v1/slo/{id}/history\<close> for one SLO, in whole seconds.\<close>

type_synonym history_api = "int \<Rightarrow> int \<Rightarrow> sloHistoryResponse http_answer"

definition fetchHistory :: "history_api \<Rightarrow> time \<Rightarrow> time \<Rightarrow> dd_error + sloHistoryResponse" where
  "fetchHistory api from until = decoded (dd_get (api (time_unix from) (time_unix until)))"

definition FetchSLOStatus :: "history_api \<Rightarrow> time \<Rightarrow> time \<Rightarrow> dd_error + SLOStatus" where
  "FetchSLOStatus api from until =
     (case decoded (dd_get (api (time_unix from) (time_unix until))) of Inl e \<Rightarrow> Inl e
      | Inr r \<Rightarrow>
          (let requests = (case hm_Sum (hr_Denominator r) of Some s \<Rightarrow> s | None \<Rightarrow> 0);
               (target, timeframe) = pickThreshold (hr_Thresholds r)
           in Inr \<lparr>sl_State = hr_State r, sl_ErrorBudgetRemaining = fsub (hr_SLIValue r) target, sl_SLI = hr_SLIValue r,
                   sl_Target = target, sl_Timeframe = timeframe, sl_RequestCount = int64_of (math_round requests)\<rparr>))"

text \<open>The buckets of a response: start, total and good count, never past the shortest list.\<close>

definition bucket_list :: "sloHistoryResponse \<Rightarrow> (time \<times> windowCounts) list" where
  "bucket_list r =
     map (\<lambda>i. (bucketStart (hr_Times r ! i),
               countsFrom (hm_Values (hr_Denominator r) ! i)
                 (if i < length (hm_Values (hr_Numerator r)) then hm_Values (hr_Numerator r) ! i else 0)))
       [0 ..< min (length (hr_Times r)) (length (hm_Values (hr_Denominator r)))]"

fun add_buckets :: "time \<Rightarrow> time \<Rightarrow> (time \<times> windowCounts) list \<Rightarrow> windowCounts \<times> windowCounts \<Rightarrow> windowCounts \<times> windowCounts" where
  "add_buckets longStart shortStart [] acc = acc"
| "add_buckets longStart shortStart ((start, c) # bs) (short, long) =
     (if start < longStart then add_buckets longStart shortStart bs (short, long)
      else add_buckets longStart shortStart bs
             (if \<not> start < shortStart then counts_add short c else short, counts_add long c))"

definition usable_series :: "sloHistoryResponse \<Rightarrow> bool" where
  "usable_series r \<longleftrightarrow> hr_Times r \<noteq> [] \<and> hm_Values (hr_Denominator r) \<noteq> [] \<and>
     seriesInterval (hr_Interval r) (hr_Times r) \<le> historyBucket"

definition FetchSLOWindows :: "history_api \<Rightarrow> time \<Rightarrow> duration \<Rightarrow> duration \<Rightarrow> dd_error + SLOWindows" where
  "FetchSLOWindows api until short long =
     (let longStart = until - long; shortStart = until - short in
      case fetchHistory api (longStart - historyBucket) until of Inl e \<Rightarrow> Inl e
      | Inr r \<Rightarrow>
          (let (target, timeframe) = pickThreshold (hr_Thresholds r);
               windows = \<lparr>sw_Target = target, sw_Timeframe = timeframe, sw_State = hr_State r, sw_SLI = hr_SLIValue r,
                          sw_Short = zero_counts, sw_Long = zero_counts, sw_HasSeries = False\<rparr>
           in if usable_series r then
                (let (s, l) = add_buckets longStart shortStart (bucket_list r) (zero_counts, zero_counts)
                 in Inr (windows\<lparr>sw_Short := s, sw_Long := l, sw_HasSeries := True\<rparr>))
              else if \<not> snd (metric_total (hr_Denominator r)) then Inr windows
              else (case fetchHistory api shortStart until of Inl e \<Rightarrow> Inl e
                | Inr q \<Rightarrow> Inr (windows\<lparr>sw_HasSeries := True,
                    sw_Long := countsFrom (fst (metric_total (hr_Denominator r))) (fst (metric_total (hr_Numerator r))),
                    sw_Short := countsFrom (fst (metric_total (hr_Denominator q))) (fst (metric_total (hr_Numerator q)))\<rparr>))))"

subsection \<open>Searches\<close>

record SLOSummary =
  sm_ID :: string
  sm_Name :: string
  sm_SLOType :: string
  sm_ServiceTag :: string

definition search_query :: "string \<Rightarrow> string" where
  "search_query q = (if q \<noteq> [] \<and> CHR '':'' \<notin> set q then ''*'' @ q @ ''*'' else q)"

definition SearchSLOs ::
    "(string \<Rightarrow> (string \<times> string \<times> string \<times> string list) list http_answer) \<Rightarrow> string \<Rightarrow> dd_error + SLOSummary list" where
  "SearchSLOs api q =
     (case decoded (dd_get (api (search_query q))) of Inl e \<Rightarrow> Inl e
      | Inr slos \<Rightarrow> Inr (map (\<lambda>(i, name, ty, tags).
          \<lparr>sm_ID = i, sm_Name = name, sm_SLOType = ty, sm_ServiceTag = (case tags of [t] \<Rightarrow> t | _ \<Rightarrow> [])\<rparr>) slos))"

record CauseHint =
  hint_ErrorType :: string
  hint_ErrorMessage :: string

definition maxCauseMessageLength :: nat where
  "maxCauseMessageLength = 500"

record errorTrackingSearchResponse =
  et_Data :: "string list"
  et_Included :: "(string \<times> string \<times> string) list"

definition SearchErrorTrackingIssues :: "errorTrackingSearchResponse http_answer \<Rightarrow> dd_error + CauseHint option" where
  "SearchErrorTrackingIssues answer =
     (case decoded (dd_post answer) of Inl e \<Rightarrow> Inl e
      | Inr r \<Rightarrow> (case et_Data r of [] \<Rightarrow> Inr None
        | issue # _ \<Rightarrow> (case find_row (\<lambda>inc. fst inc = issue) (et_Included r) of None \<Rightarrow> Inr None
            | Some (_, ty, msg) \<Rightarrow> Inr (Some \<lparr>hint_ErrorType = ty, hint_ErrorMessage = take maxCauseMessageLength msg\<rparr>))))"

subsection \<open>The counts of the windows\<close>

definition counts_ok :: "windowCounts \<Rightarrow> bool" where
  "counts_ok c \<longleftrightarrow> 0 \<le> w_Errors c \<and> w_Errors c \<le> w_Requests c"

lemma counts_ok_zero [simp]: "counts_ok zero_counts"
  by (simp add: counts_ok_def zero_counts_def)

lemma countsFrom_ok [simp]: "counts_ok (countsFrom whole good)"
  by (simp add: countsFrom_def counts_ok_def Let_def)

lemma bucket_list_ok: "b \<in> set (bucket_list r) \<Longrightarrow> counts_ok (snd b)"
  by (auto simp: bucket_list_def)

definition requests_since :: "time \<Rightarrow> (time \<times> windowCounts) list \<Rightarrow> int" where
  "requests_since t bs = (\<Sum>b\<leftarrow>bs. if fst b < t then 0 else w_Requests (snd b))"

definition errors_since :: "time \<Rightarrow> (time \<times> windowCounts) list \<Rightarrow> int" where
  "errors_since t bs = (\<Sum>b\<leftarrow>bs. if fst b < t then 0 else w_Errors (snd b))"

lemmas since_defs = requests_since_def errors_since_def

lemma since_bounds:
  assumes "\<And>b. b \<in> set bs \<Longrightarrow> counts_ok (snd b)" and "t \<le> t'"
  shows "0 \<le> errors_since t bs" "errors_since t bs \<le> requests_since t bs"
    "requests_since t' bs \<le> requests_since t bs" "errors_since t' bs \<le> errors_since t bs"
proof -
  have "0 \<le> errors_since t bs \<and> errors_since t bs \<le> requests_since t bs \<and>
    requests_since t' bs \<le> requests_since t bs \<and> errors_since t' bs \<le> errors_since t bs"
    using assms(1)
  proof (induction bs)
    case (Cons b bs)
    from Cons.prems [of b] have "0 \<le> w_Errors (snd b)" "w_Errors (snd b) \<le> w_Requests (snd b)" by (simp_all add: counts_ok_def)
    with Cons assms(2) show ?case by (simp add: since_defs)
  qed (simp add: since_defs)
  then show "0 \<le> errors_since t bs" "errors_since t bs \<le> requests_since t bs"
    "requests_since t' bs \<le> requests_since t bs" "errors_since t' bs \<le> errors_since t bs" by simp_all
qed

lemma counts_add_exact:
  assumes "0 \<le> w_Requests a + w_Requests b" and "w_Requests a + w_Requests b \<le> max_int64"
    and "0 \<le> w_Errors a + w_Errors b" and "w_Errors a + w_Errors b \<le> max_int64"
  shows "counts_add a b = \<lparr>w_Requests = w_Requests a + w_Requests b, w_Errors = w_Errors a + w_Errors b\<rparr>"
  using assms int64_bounds(1) by (simp add: counts_add_def wrap64_id)

lemma windowCounts_eqI: "w_Requests a = w_Requests b \<Longrightarrow> w_Errors a = w_Errors b \<Longrightarrow> a = (b :: windowCounts)"
  by simp

text \<open>The loop over the buckets, from totals that do not overflow with them.\<close>

lemma add_buckets_exact:
  assumes "longStart \<le> shortStart" and "\<And>b. b \<in> set bs \<Longrightarrow> counts_ok (snd b)"
    and "counts_ok s" and "counts_ok l" and "w_Requests s \<le> w_Requests l"
    and "w_Requests l + requests_since longStart bs \<le> max_int64"
  shows "add_buckets longStart shortStart bs (s, l) =
    (\<lparr>w_Requests = w_Requests s + requests_since shortStart bs, w_Errors = w_Errors s + errors_since shortStart bs\<rparr>,
     \<lparr>w_Requests = w_Requests l + requests_since longStart bs, w_Errors = w_Errors l + errors_since longStart bs\<rparr>)"
  using assms(2-)
proof (induction bs arbitrary: s l)
  case (Cons b bs)
  obtain start c where b: "b = (start, c)" by (cases b)
  have c: "counts_ok c" using Cons.prems(1) [of b] by (simp add: b)
  have rest: "0 \<le> requests_since longStart bs"
    using since_bounds(1,2) [of bs longStart longStart] Cons.prems(1) by auto
  show ?case
  proof (cases "start < longStart")
    case True
    then have "start < shortStart" using assms(1) by simp
    with True Cons.IH [of s l] Cons.prems show ?thesis by (simp add: b since_defs)
  next
    case False
    have sum: "w_Requests l + w_Requests c + requests_since longStart bs \<le> max_int64"
      using Cons.prems(5) False by (simp add: b requests_since_def)
    have l: "counts_add l c = \<lparr>w_Requests = w_Requests l + w_Requests c, w_Errors = w_Errors l + w_Errors c\<rparr>"
      and s: "counts_add s c = \<lparr>w_Requests = w_Requests s + w_Requests c, w_Errors = w_Errors s + w_Errors c\<rparr>"
      using sum rest c Cons.prems(2,3,4) by (auto intro!: counts_add_exact simp: counts_ok_def)
    define s' where "s' = (if \<not> start < shortStart then counts_add s c else s)"
    have ok: "counts_ok s'" "counts_ok (counts_add l c)" "w_Requests s' \<le> w_Requests (counts_add l c)"
      using c Cons.prems(2,3,4) by (auto simp: s'_def l s counts_ok_def)
    have "add_buckets longStart shortStart (b # bs) (s, l) = add_buckets longStart shortStart bs (s', counts_add l c)"
      using False by (simp add: b s'_def)
    also have "\<dots> = (\<lparr>w_Requests = w_Requests s' + requests_since shortStart bs, w_Errors = w_Errors s' + errors_since shortStart bs\<rparr>,
       \<lparr>w_Requests = w_Requests (counts_add l c) + requests_since longStart bs,
        w_Errors = w_Errors (counts_add l c) + errors_since longStart bs\<rparr>)"
      using sum Cons.prems(1) by (intro Cons.IH ok) (auto simp: l)
    finally show ?thesis using False by (auto simp: b s'_def l s since_defs)
  qed
qed (simp_all add: since_defs)

text \<open>The windows are the sums of their buckets: when the history comes in buckets of at most a
  minute whose requests fit in an \<open>int64\<close>, \<open>FetchSLOWindows\<close> counts in each window exactly the requests
  and errors of the buckets that start in it, errors lie between 0 and the requests, and the short
  window is part of the long one.\<close>

theorem windows_sum_their_buckets:
  assumes "fetchHistory api (until - long - historyBucket) until = Inr r" and "usable_series r"
    and "0 \<le> short" and "short \<le> long" and "requests_since (until - long) (bucket_list r) \<le> max_int64"
  shows "\<exists>w. FetchSLOWindows api until short long = Inr w \<and> sw_HasSeries w \<and>
    w_Requests (sw_Long w) = requests_since (until - long) (bucket_list r) \<and>
    w_Errors (sw_Long w) = errors_since (until - long) (bucket_list r) \<and>
    w_Requests (sw_Short w) = requests_since (until - short) (bucket_list r) \<and>
    w_Errors (sw_Short w) = errors_since (until - short) (bucket_list r) \<and>
    counts_ok (sw_Short w) \<and> counts_ok (sw_Long w) \<and>
    w_Requests (sw_Short w) \<le> w_Requests (sw_Long w) \<and> w_Errors (sw_Short w) \<le> w_Errors (sw_Long w)"
proof -
  have le: "until - long \<le> until - short" using assms(4) by simp
  have "add_buckets (until - long) (until - short) (bucket_list r) (zero_counts, zero_counts) =
    (\<lparr>w_Requests = requests_since (until - short) (bucket_list r), w_Errors = errors_since (until - short) (bucket_list r)\<rparr>,
     \<lparr>w_Requests = requests_since (until - long) (bucket_list r), w_Errors = errors_since (until - long) (bucket_list r)\<rparr>)"
    using add_buckets_exact [OF le, of "bucket_list r" zero_counts zero_counts] bucket_list_ok assms(5)
    by (simp add: zero_counts_def counts_ok_zero [unfolded zero_counts_def])
  with assms(1,2) since_bounds [where bs = "bucket_list r", OF bucket_list_ok le]
    since_bounds(1,2) [where bs = "bucket_list r" and t = "until - short", OF bucket_list_ok order_refl]
  show ?thesis
    by (auto simp: FetchSLOWindows_def Let_def counts_ok_def split: prod.splits)
qed

definition sample_history :: sloHistoryResponse where
  "sample_history = \<lparr>hr_SLIValue = 99, hr_State = ''ok'', hr_Interval = 60, hr_Times = [3000, 3060, 6540, 6600],
     hr_Numerator = \<lparr>hm_Sum = None, hm_Values = [1, 90, 100, 40]\<rparr>,
     hr_Denominator = \<lparr>hm_Sum = None, hm_Values = [5, 100, 100, 50]\<rparr>, hr_Thresholds = [(''30d'', 99, ''30d'')]\<rparr>"

theorem windows_sum_their_buckets_witness:
  "\<exists>w. FetchSLOWindows (\<lambda>_ _. Answered 200 (Some sample_history)) (6660 * second) shortWindow longWindow = Inr w \<and>
    sw_Short w = \<lparr>w_Requests = 150, w_Errors = 10\<rparr> \<and> sw_Long w = \<lparr>w_Requests = 250, w_Errors = 20\<rparr>"
proof -
  have vals: "requests_since (6660 * second - longWindow) (bucket_list sample_history) = 250"
    "errors_since (6660 * second - longWindow) (bucket_list sample_history) = 20"
    "requests_since (6660 * second - shortWindow) (bucket_list sample_history) = 150"
    "errors_since (6660 * second - shortWindow) (bucket_list sample_history) = 10"
    by code_simp+
  have "fetchHistory (\<lambda>_ _. Answered 200 (Some sample_history)) (6660 * second - longWindow - historyBucket) (6660 * second) = Inr sample_history"
    by (simp add: fetchHistory_def dd_get_def decoded_def)
  moreover have "usable_series sample_history" by code_simp
  moreover have "0 \<le> shortWindow" "shortWindow \<le> longWindow" by (simp_all add: shortWindow_def longWindow_def duration_defs)
  moreover have "requests_since (6660 * second - longWindow) (bucket_list sample_history) \<le> max_int64"
    unfolding vals by (simp add: max_int64_def)
  ultimately obtain w where "FetchSLOWindows (\<lambda>_ _. Answered 200 (Some sample_history)) (6660 * second) shortWindow longWindow = Inr w"
    "w_Requests (sw_Long w) = 250" "w_Errors (sw_Long w) = 20" "w_Requests (sw_Short w) = 150" "w_Errors (sw_Short w) = 10"
    using windows_sum_their_buckets [of "\<lambda>_ _. Answered 200 (Some sample_history)" "6660 * second" longWindow sample_history shortWindow]
    unfolding vals by blast
  then show ?thesis by (intro exI [of _ w]) simp
qed

end
