(* ===== verification/Retry.thy ===== *)
theory Retry
  imports Datadog
begin

text \<open>
  \<open>internal/poller/retry.go\<close>: fetching from Datadog with retries. \<open>fetch a\<close> is what the call of attempt
  \<open>a\<close> returns, and \<open>canceled a\<close> says whether the context ends the wait that follows it. Besides its
  result a run returns its trace: the calls and the waits in order.
\<close>

subsection \<open>The loop\<close>

datatype retry_event = Call int | Wait duration

definition backoffBase :: duration where
  "backoffBase = 500 * 1000000"

definition isTransient :: "dd_error \<Rightarrow> bool" where
  "isTransient e \<longleftrightarrow> e = DDTimeout \<or> e = DDServer"

text \<open>The shift of the constant 1 takes the type of the multiplication, \<open>int64\<close>.\<close>

definition retry_delay :: "int \<Rightarrow> duration" where
  "retry_delay attempt = wrap64 (backoffBase * wrap64 (2 ^ nat (attempt - 1)))"

function retry_loop ::
    "(int \<Rightarrow> dd_error + 'a) \<Rightarrow> (int \<Rightarrow> bool) \<Rightarrow> 'a \<Rightarrow> int \<Rightarrow> dd_error option \<Rightarrow> int \<Rightarrow> (dd_error + 'a) \<times> retry_event list" where
  "retry_loop fetch canceled zero maxAttempts lastErr attempt =
     (if attempt \<le> maxAttempts then
        (case fetch attempt of
           Inr result \<Rightarrow> (Inr result, [Call attempt])
         | Inl e \<Rightarrow>
             if \<not> isTransient e then (Inl e, [Call attempt])
             else if attempt < maxAttempts then
               (if canceled attempt then (Inl Canceled, [Call attempt])
                else (case retry_loop fetch canceled zero maxAttempts (Some e) (attempt + 1) of
                        (r, tr) \<Rightarrow> (r, Call attempt # Wait (retry_delay attempt) # tr)))
             else (case retry_loop fetch canceled zero maxAttempts (Some e) (attempt + 1) of
                     (r, tr) \<Rightarrow> (r, Call attempt # tr)))
      else (case lastErr of None \<Rightarrow> Inr zero | Some e \<Rightarrow> Inl e, []))"
  by pat_completeness auto
termination
  by (relation "measure (\<lambda>(fetch, canceled, zero, m, lastErr, a). nat (m + 1 - a))") auto

declare retry_loop.simps [simp del]

definition retryFetch ::
    "(int \<Rightarrow> bool) \<Rightarrow> int \<Rightarrow> 'a \<Rightarrow> (int \<Rightarrow> dd_error + 'a) \<Rightarrow> (dd_error + 'a) \<times> retry_event list" where
  "retryFetch canceled maxAttempts zero fetch = retry_loop fetch canceled zero maxAttempts None 1"

definition no_windows :: SLOWindows where
  "no_windows = \<lparr>sw_Target = 0, sw_Timeframe = [], sw_State = [], sw_SLI = 0, sw_Short = zero_counts,
     sw_Long = zero_counts, sw_HasSeries = False\<rparr>"

definition no_status :: SLOStatus where
  "no_status = \<lparr>sl_State = [], sl_ErrorBudgetRemaining = 0, sl_SLI = 0, sl_Target = 0, sl_Timeframe = [], sl_RequestCount = 0\<rparr>"

text \<open>The provider of a tenant answers each attempt afresh.\<close>

record slo_provider =
  fetch_status :: "string \<Rightarrow> time \<Rightarrow> time \<Rightarrow> int \<Rightarrow> dd_error + SLOStatus"
  fetch_windows :: "string \<Rightarrow> time \<Rightarrow> duration \<Rightarrow> duration \<Rightarrow> int \<Rightarrow> dd_error + SLOWindows"

definition FetchWindowsWithRetry ::
    "(int \<Rightarrow> bool) \<Rightarrow> slo_provider \<Rightarrow> string \<Rightarrow> time \<Rightarrow> duration \<Rightarrow> duration \<Rightarrow> int \<Rightarrow> (dd_error + SLOWindows) \<times> retry_event list" where
  "FetchWindowsWithRetry canceled p sloID until short long maxAttempts =
     retryFetch canceled maxAttempts no_windows (fetch_windows p sloID until short long)"

definition FetchStatusWithRetry ::
    "(int \<Rightarrow> bool) \<Rightarrow> slo_provider \<Rightarrow> string \<Rightarrow> time \<Rightarrow> time \<Rightarrow> int \<Rightarrow> (dd_error + SLOStatus) \<times> retry_event list" where
  "FetchStatusWithRetry canceled p sloID from until maxAttempts =
     retryFetch canceled maxAttempts no_status (fetch_status p sloID from until)"

text \<open>The Datadog client as a provider: \<open>api a\<close> answers the requests of attempt \<open>a\<close> for an SLO.\<close>

definition datadog_provider :: "(int \<Rightarrow> string \<Rightarrow> history_api) \<Rightarrow> slo_provider" where
  "datadog_provider api = \<lparr>fetch_status = (\<lambda>slo from until a. FetchSLOStatus (api a slo) from until),
     fetch_windows = (\<lambda>slo until short long a. FetchSLOWindows (api a slo) until short long)\<rparr>"

subsection \<open>The policy of the comment\<close>

text \<open>An attempt ends the run when it succeeds, fails for good, is the last one, or its wait is
  canceled; the run is the attempts up to the first such one, a growing wait after each but it.\<close>

definition ends_at :: "(int \<Rightarrow> dd_error + 'a) \<Rightarrow> (int \<Rightarrow> bool) \<Rightarrow> int \<Rightarrow> int \<Rightarrow> bool" where
  "ends_at fetch canceled maxAttempts a \<longleftrightarrow>
     (case fetch a of Inr _ \<Rightarrow> True | Inl e \<Rightarrow> \<not> isTransient e \<or> a = maxAttempts \<or> canceled a)"

definition last_attempt :: "(int \<Rightarrow> dd_error + 'a) \<Rightarrow> (int \<Rightarrow> bool) \<Rightarrow> int \<Rightarrow> int \<Rightarrow> int" where
  "last_attempt fetch canceled maxAttempts a = hd (filter (ends_at fetch canceled maxAttempts) [a .. maxAttempts])"

definition outcome_of :: "(int \<Rightarrow> dd_error + 'a) \<Rightarrow> int \<Rightarrow> int \<Rightarrow> dd_error + 'a" where
  "outcome_of fetch maxAttempts k =
     (case fetch k of Inr r \<Rightarrow> Inr r | Inl e \<Rightarrow> if isTransient e \<and> k < maxAttempts then Inl Canceled else Inl e)"

definition retry_policy ::
    "(int \<Rightarrow> dd_error + 'a) \<Rightarrow> (int \<Rightarrow> bool) \<Rightarrow> int \<Rightarrow> int \<Rightarrow> (dd_error + 'a) \<times> retry_event list" where
  "retry_policy fetch canceled maxAttempts a =
     (let k = last_attempt fetch canceled maxAttempts a
      in (outcome_of fetch maxAttempts k, concat (map (\<lambda>i. [Call i, Wait (retry_delay i)]) [a .. k - 1]) @ [Call k]))"

lemma last_attempt_stop:
  "a \<le> m \<Longrightarrow> ends_at fetch canceled m a \<Longrightarrow> last_attempt fetch canceled m a = a"
  by (simp add: last_attempt_def upto_rec1)

lemma last_attempt_go:
  "a < m \<Longrightarrow> \<not> ends_at fetch canceled m a \<Longrightarrow> last_attempt fetch canceled m a = last_attempt fetch canceled m (a + 1)"
  by (simp add: last_attempt_def upto_rec1)

lemma ends_at_last: "ends_at fetch canceled m m"
  by (simp add: ends_at_def split: sum.splits)

lemma last_attempt_bounds:
  assumes "a \<le> m"
  shows "a \<le> last_attempt fetch canceled m a \<and> last_attempt fetch canceled m a \<le> m"
proof -
  have "m \<in> set (filter (ends_at fetch canceled m) [a .. m])" using assms ends_at_last [of fetch canceled m] by simp
  then have "filter (ends_at fetch canceled m) [a .. m] \<noteq> []" by (metis empty_iff empty_set)
  from hd_in_set [OF this] show ?thesis by (simp add: last_attempt_def)
qed

lemma retry_loop_policy:
  "a \<le> m \<Longrightarrow> retry_loop fetch canceled zero m lastErr a = retry_policy fetch canceled m a"
proof (induction "nat (m - a)" arbitrary: a lastErr)
  case 0
  then have a: "a = m" by simp
  have "\<not> m + 1 \<le> m" by simp
  then show ?case unfolding a
    by (subst retry_loop.simps)
      (auto simp: retry_policy_def last_attempt_stop [OF order_refl ends_at_last] outcome_of_def retry_loop.simps [of _ _ _ _ _ "m + 1"]
        split: sum.splits)
next
  case (Suc n)
  then have lt: "a < m" and n: "n = nat (m - (a + 1))" by simp_all
  show ?case
  proof (cases "ends_at fetch canceled m a")
    case True
    with lt show ?thesis
      by (subst retry_loop.simps)
        (auto simp: retry_policy_def last_attempt_stop ends_at_def outcome_of_def split: sum.splits)
  next
    case False
    then obtain e where e: "fetch a = Inl e" "isTransient e" "\<not> canceled a"
      by (auto simp: ends_at_def split: sum.splits)
    let ?k = "last_attempt fetch canceled m (a + 1)"
    have k: "a + 1 \<le> ?k" using last_attempt_bounds [of "a + 1" m fetch canceled] lt by simp
    have "retry_loop fetch canceled zero m (Some e) (a + 1) = retry_policy fetch canceled m (a + 1)"
      using Suc.hyps(1) [OF n] lt by simp
    moreover have "[a .. ?k - 1] = a # [a + 1 .. ?k - 1]" using k by (simp add: upto_rec1)
    ultimately show ?thesis using e lt False
      by (subst retry_loop.simps) (simp add: retry_policy_def last_attempt_go Let_def)
  qed
qed

subsection \<open>What a caller may rely on\<close>

definition maxFetchAttempts :: int where
  "maxFetchAttempts = 3"

definition calls_in :: "retry_event list \<Rightarrow> int list" where
  "calls_in tr = concat (map (\<lambda>ev. case ev of Call a \<Rightarrow> [a] | Wait _ \<Rightarrow> []) tr)"

definition waited :: "retry_event list \<Rightarrow> duration" where
  "waited tr = (\<Sum>ev\<leftarrow>tr. case ev of Call _ \<Rightarrow> 0 | Wait d \<Rightarrow> d)"

lemma calls_in_policy:
  assumes "1 \<le> m"
  shows "calls_in (snd (retry_policy fetch canceled m 1)) = [1 .. last_attempt fetch canceled m 1]"
proof -
  have "calls_in (concat (map (\<lambda>i. [Call i, Wait (retry_delay i)]) is)) = is" for "is"
    by (induction "is") (simp_all add: calls_in_def)
  moreover have "1 \<le> last_attempt fetch canceled m 1" using last_attempt_bounds [OF assms] by blast
  ultimately show ?thesis by (simp add: retry_policy_def Let_def calls_in_def upto_rec2)
qed

text \<open>\<open>retryFetch\<close> is the documented policy: with at least one attempt allowed it returns what the
  first attempt returned that succeeded, failed with an error that is not transient, or was the last
  one (or the context's error when a wait was canceled), after exactly the calls up to that attempt,
  in order, with the doubling wait between two of them and none after the last.\<close>

theorem retryFetch_follows_policy:
  assumes "1 \<le> maxAttempts"
  shows "retryFetch canceled maxAttempts zero fetch = retry_policy fetch canceled maxAttempts 1 \<and>
    calls_in (snd (retryFetch canceled maxAttempts zero fetch)) = [1 .. last_attempt fetch canceled maxAttempts 1] \<and>
    list_all (\<lambda>a. \<not> ends_at fetch canceled maxAttempts a) [1 .. last_attempt fetch canceled maxAttempts 1 - 1]"
proof -
  let ?f = "filter (ends_at fetch canceled maxAttempts) [1 .. maxAttempts]"
  let ?k = "last_attempt fetch canceled maxAttempts 1"
  have "\<not> ends_at fetch canceled maxAttempts a" if "1 \<le> a" "a < ?k" for a
  proof
    assume "ends_at fetch canceled maxAttempts a"
    moreover have "?k \<le> maxAttempts" using last_attempt_bounds [OF assms] by blast
    ultimately have "a \<in> set ?f" using that by simp
    moreover have "sorted ?f" by (simp add: sorted_wrt_filter)
    ultimately have "hd ?f \<le> a" by (cases ?f) auto
    with that(2) show False by (simp add: last_attempt_def)
  qed
  then show ?thesis
    using retry_loop_policy [OF assms, of fetch canceled zero None] calls_in_policy [OF assms, of fetch canceled]
    by (simp add: retryFetch_def list_all_iff)
qed

definition flaky :: "int \<Rightarrow> dd_error + nat" where
  "flaky a = (if a = 1 then Inl DDTimeout else if a = 2 then Inr 7 else Inl DDServer)"

theorem retryFetch_follows_policy_witness:
  "retryFetch (\<lambda>_. False) 3 0 flaky = (Inr 7, [Call 1, Wait 500000000, Call 2])"
proof -
  have "retryFetch (\<lambda>_. False) 3 0 flaky = retry_policy flaky (\<lambda>_. False) 3 1"
    using retryFetch_follows_policy [of 3 "\<lambda>_. False" 0 flaky] by simp
  also have "\<dots> = (Inr 7, [Call 1, Wait 500000000, Call 2])" by code_simp
  finally show ?thesis .
qed

lemma calls_le_attempts: "length (calls_in (snd (retryFetch canceled m zero fetch))) \<le> nat m"
proof (cases "1 \<le> m")
  case True
  with retry_loop_policy [OF True, of fetch canceled zero None] calls_in_policy [OF True, of fetch canceled]
    last_attempt_bounds [OF True, of fetch canceled] show ?thesis
    by (simp add: retryFetch_def nat_mono)
qed (simp add: retryFetch_def retry_loop.simps [of _ _ _ _ _ 1] calls_in_def)

lemma waited_append [simp]: "waited (a @ b) = waited a + waited b" "waited (Call i # tr) = waited tr"
  "waited (Wait d # tr) = d + waited tr" "waited [] = 0"
  by (simp_all add: waited_def)

lemma waited_three: "waited (snd (retryFetch canceled 3 zero fetch)) \<le> 3 * backoffBase"
proof -
  let ?k = "last_attempt fetch canceled 3 1"
  have "?k \<in> {1, 2, 3}" using last_attempt_bounds [of 1 3 fetch canceled] by auto
  moreover have "retryFetch canceled 3 zero fetch = retry_policy fetch canceled 3 1"
    by (simp add: retryFetch_def retry_loop_policy)
  moreover have "retry_delay 1 = backoffBase" "retry_delay 2 = 2 * backoffBase" by code_simp+
  moreover have "0 < backoffBase" by (simp add: backoffBase_def)
  ultimately show ?thesis by (auto simp: retry_policy_def Let_def upto_rec1)
qed

text \<open>C24. A fetch of the poller always comes back: whatever Datadog answers and whenever the context
  ends, both fetches of a cycle make between one and three calls and wait at most a second and a half
  in total, and an answer of unauthorized is never retried.\<close>

theorem poller_fetches_end:
  "length (calls_in (snd (FetchWindowsWithRetry canceled p slo until short long maxFetchAttempts))) \<in> {1 .. 3} \<and>
   length (calls_in (snd (FetchStatusWithRetry canceled p slo from until maxFetchAttempts))) \<in> {1 .. 3} \<and>
   waited (snd (FetchWindowsWithRetry canceled p slo until short long maxFetchAttempts)) \<le> 1500 * 1000000 \<and>
   waited (snd (FetchStatusWithRetry canceled p slo from until maxFetchAttempts)) \<le> 1500 * 1000000 \<and>
   snd (retryFetch canceled maxFetchAttempts no_windows (\<lambda>_. Inl DDUnauthorized)) = [Call 1]"
proof -
  have k: "1 \<le> last_attempt fetch canceled 3 1" for fetch :: "int \<Rightarrow> dd_error + 'b"
    using last_attempt_bounds [of 1 3 fetch canceled] by simp
  have calls: "length (calls_in (snd (retryFetch canceled 3 zero fetch))) \<in> {1 .. 3}"
    for zero and fetch :: "int \<Rightarrow> dd_error + 'b"
    using calls_le_attempts [of canceled 3 zero fetch] k [of fetch] calls_in_policy [of 3 fetch canceled]
    by (simp add: retryFetch_def retry_loop_policy)
  have "snd (retryFetch canceled 3 no_windows (\<lambda>_. Inl DDUnauthorized)) = [Call 1]"
    by (simp add: retryFetch_def retry_loop.simps [of _ _ _ _ _ 1] isTransient_def)
  then show ?thesis
    using calls [of no_windows "fetch_windows p slo until short long"] calls [of no_status "fetch_status p slo from until"]
      waited_three [of canceled no_windows "fetch_windows p slo until short long"]
      waited_three [of canceled no_status "fetch_status p slo from until"]
    by (simp add: FetchWindowsWithRetry_def FetchStatusWithRetry_def maxFetchAttempts_def backoffBase_def)
qed

end
