(* ===== verification/Analyzer.thy ===== *)
theory Analyzer
  imports Retry Notify Incident_Lifecycle Status_Intervals
begin

text \<open>
  \<open>internal/poller/analyzer.go\<close>: what a status transition of a service sets off. The synchronous part
  writes in the transaction of the poll cycle; the enrichments are goroutines which run later, each in
  a transaction of its own.

  \<^item> \<open>SLOAnalyzer\<close> is the mutable state: the slots of the semaphore in use, the time of the last
    dispatch per key, and the goroutines that have been started and have not returned.
  \<^item> \<open>analyzer_env\<close> is what the analyzer was built with: the notifier, the LLM service and the
    enrichment setting, which are code outside this model and read the database of the world they get.
  \<^item> A goroutine is an \<open>enrichment\<close>, a value that holds what its closure captured; \<open>run_enrichment\<close> is
    its body. A panic of a goroutine, which is recovered and logged, is not modelled.
  \<^item> \<open>now\<close> is the clock of the process (one reading for the two of \<open>tryAcquire\<close>), \<open>dbnow\<close> the database's.
\<close>

subsection \<open>Data\<close>

record datadog_client = slo_provider +
  search_issues :: "string \<Rightarrow> string \<Rightarrow> time \<Rightarrow> time \<Rightarrow> dd_error + CauseHint option"

type_synonym cause_provider = "string \<Rightarrow> string \<Rightarrow> time \<Rightarrow> time \<Rightarrow> dd_error + CauseHint option"

record AnalysisInput =
  ai_ServiceName :: string
  ai_SLOState :: string
  ai_SLI :: rat
  ai_Target :: rat
  ai_Timeframe :: string
  ai_ErrorBudgetRemaining :: rat
  ai_CauseType :: string
  ai_CauseMessage :: string
  ai_BurnRateShort :: float64
  ai_BurnRateLong :: float64
  ai_WindowErrors :: int
  ai_WindowRequests :: int
  ai_NoRecentTraffic :: bool

datatype enrichment_key = DegradedKey uuid | OutageKey uuid | CloseKey uuid

datatype enrichment =
    DegradedJob "uuid option" Service SLOStatus "ServiceReading option" uuid "cause_provider option"
  | OutageJob "uuid option" Service SLOStatus "ServiceReading option" uuid "cause_provider option"
  | ClosingJob "uuid option" AnalysisInput uuid

record SLOAnalyzer =
  az_sem :: nat
  az_lastDispatch :: "enrichment_key \<Rightarrow> time option"
  az_running :: "enrichment list"

type_synonym llm_call = "AnalysisInput \<Rightarrow> world \<Rightarrow> string option \<times> world"

record analyzer_env =
  ae_notifier :: "(notify_service \<times> sender) option"
  ae_cause_enabled :: "world \<Rightarrow> bool db_result"
  ae_GenerateDegraded :: llm_call
  ae_GenerateOutage :: llm_call
  ae_GenerateClosing :: llm_call

definition errorTrackingWindow :: duration where
  "errorTrackingWindow = 10 * minute"

definition maxConcurrentEnrichments :: nat where
  "maxConcurrentEnrichments = 4"

definition enrichmentCooldown :: duration where
  "enrichmentCooldown = 2 * minute"

definition genericOutageDescription :: "string \<Rightarrow> string" where
  "genericOutageDescription name = ''Uma indisponibilidade foi detectada automaticamente para '' @ name @ ''.''"

definition buildAnalysisInput :: "Service \<Rightarrow> SLOStatus \<Rightarrow> ServiceReading option \<Rightarrow> AnalysisInput" where
  "buildAnalysisInput svc st reading =
     (let i = \<lparr>ai_ServiceName = s_Name svc, ai_SLOState = sl_State st, ai_SLI = sl_SLI st, ai_Target = sl_Target st,
               ai_Timeframe = sl_Timeframe st, ai_ErrorBudgetRemaining = sl_ErrorBudgetRemaining st, ai_CauseType = [],
               ai_CauseMessage = [], ai_BurnRateShort = Fin 0, ai_BurnRateLong = Fin 0, ai_WindowErrors = 0,
               ai_WindowRequests = 0, ai_NoRecentTraffic = False\<rparr>
      in case reading of None \<Rightarrow> i
         | Some rd \<Rightarrow> i\<lparr>ai_BurnRateShort := rd_BurnShort rd, ai_BurnRateLong := rd_BurnLong rd,
             ai_WindowErrors := rd_ShortErrors rd, ai_WindowRequests := rd_ShortRequests rd,
             ai_NoRecentTraffic := (rd_ShortRequests rd \<le> 0)\<rparr>)"

subsection \<open>The gate\<close>

definition tryAcquire :: "time \<Rightarrow> enrichment_key \<Rightarrow> SLOAnalyzer \<Rightarrow> bool \<times> SLOAnalyzer" where
  "tryAcquire now key a =
     (if (case az_lastDispatch a key of None \<Rightarrow> False | Some before \<Rightarrow> time_sub now before < enrichmentCooldown) then (False, a)
      else if maxConcurrentEnrichments \<le> az_sem a then (False, a)
      else (True, a\<lparr>az_sem := Suc (az_sem a), az_lastDispatch := (az_lastDispatch a)(key := Some now)\<rparr>))"

definition release :: "SLOAnalyzer \<Rightarrow> SLOAnalyzer" where
  "release a = a\<lparr>az_sem := az_sem a - 1\<rparr>"

definition dispatch :: "time \<Rightarrow> enrichment_key \<Rightarrow> enrichment \<Rightarrow> SLOAnalyzer \<Rightarrow> SLOAnalyzer" where
  "dispatch now key job a =
     (case tryAcquire now key a of (acquired, a) \<Rightarrow>
        if acquired then a\<lparr>az_running := az_running a @ [job]\<rparr> else a)"

definition dispatchDegradedEnrichment ::
    "time \<Rightarrow> uuid option \<Rightarrow> Service \<Rightarrow> SLOStatus \<Rightarrow> ServiceReading option \<Rightarrow> uuid \<Rightarrow> cause_provider option \<Rightarrow> SLOAnalyzer \<Rightarrow> SLOAnalyzer" where
  "dispatchDegradedEnrichment now tenant svc st reading interval cause =
     dispatch now (DegradedKey (s_ID svc)) (DegradedJob tenant svc st reading interval cause)"

definition dispatchOutageEnrichment ::
    "time \<Rightarrow> uuid option \<Rightarrow> Service \<Rightarrow> SLOStatus \<Rightarrow> ServiceReading option \<Rightarrow> uuid \<Rightarrow> cause_provider option \<Rightarrow> SLOAnalyzer \<Rightarrow> SLOAnalyzer" where
  "dispatchOutageEnrichment now tenant svc st reading incident cause =
     dispatch now (OutageKey incident) (OutageJob tenant svc st reading incident cause)"

definition dispatchClosingCommentEnrichment ::
    "time \<Rightarrow> uuid option \<Rightarrow> Service \<Rightarrow> SLOStatus \<Rightarrow> ServiceReading option \<Rightarrow> uuid \<Rightarrow> SLOAnalyzer \<Rightarrow> SLOAnalyzer" where
  "dispatchClosingCommentEnrichment now tenant svc st reading incident =
     dispatch now (CloseKey incident) (ClosingJob tenant (buildAnalysisInput svc st reading) incident)"

subsection \<open>A transition\<close>

definition new_outage_incident :: "Service \<Rightarrow> Incident" where
  "new_outage_incident svc =
     \<lparr>i_ID = 0, i_Title = ''Indisponibilidade detectada: '' @ s_Name svc, i_Status = [], i_CreatedAt = 0, i_ResolvedAt = None,
      i_ServiceIDs = [], i_Description = Some (genericOutageDescription (s_Name svc)), i_PendingCloseComment = None,
      i_AutoCreated = True, i_Severity = []\<rparr>"

definition opened_summary :: "Service \<Rightarrow> Incident \<Rightarrow> IncidentSummary" where
  "opened_summary svc i =
     \<lparr>su_IncidentID = Some (i_ID i), su_Title = i_Title i, su_Severity = i_Severity i, su_ServiceName = s_Name svc,
      su_TenantName = [], su_Status = i_Status i, su_OpenedAt = i_CreatedAt i, su_ResolvedAt = None,
      su_Description = genericOutageDescription (s_Name svc), su_ResolutionSummary = []\<rparr>"

definition notify_opened :: "analyzer_env \<Rightarrow> uuid option \<Rightarrow> Service \<Rightarrow> Incident \<Rightarrow> world \<Rightarrow> world" where
  "notify_opened E tenant svc i w =
     (case (tenant, ae_notifier E) of
        (Some tid, Some (S, M)) \<Rightarrow> snd (NotifyIncidentOpened S M tid (opened_summary svc i) w)
      | _ \<Rightarrow> w)"

definition handleOutageTransition ::
    "analyzer_env \<Rightarrow> time \<Rightarrow> time \<Rightarrow> uuid option \<Rightarrow> Service \<Rightarrow> SLOStatus \<Rightarrow> ServiceReading option \<Rightarrow> cause_provider option \<Rightarrow>
     SLOAnalyzer \<Rightarrow> world \<Rightarrow> SLOAnalyzer \<times> world" where
  "handleOutageTransition E now dbnow tenant svc st reading cause a w =
     (case HasOpenIncidentForService (s_ID svc) w of
        (Inl _, w) \<Rightarrow> (a, w)
      | (Inr (Some _), w) \<Rightarrow> (a, w)
      | (Inr None, w) \<Rightarrow>
          (case IncidentCreate dbnow (new_outage_incident svc) [s_ID svc] w of
             (Inl _, w) \<Rightarrow> (a, w)
           | (Inr i, w) \<Rightarrow>
               (dispatchOutageEnrichment now tenant svc st reading (i_ID i) cause a, notify_opened E tenant svc i w)))"

definition handleRecoveryTransition ::
    "time \<Rightarrow> uuid option \<Rightarrow> Service \<Rightarrow> SLOStatus \<Rightarrow> ServiceReading option \<Rightarrow> SLOAnalyzer \<Rightarrow> world \<Rightarrow> SLOAnalyzer \<times> world" where
  "handleRecoveryTransition now tenant svc st reading a w =
     (case HasOpenIncidentForService (s_ID svc) w of
        (Inl _, w) \<Rightarrow> (a, w)
      | (Inr None, w) \<Rightarrow> (a, w)
      | (Inr (Some incident), w) \<Rightarrow>
          (case AllLinkedServicesOperational incident w of
             (Inl _, w) \<Rightarrow> (a, w)
           | (Inr recovered, w) \<Rightarrow>
               (if recovered then dispatchClosingCommentEnrichment now tenant svc st reading incident a else a, w)))"

definition HandleTransition ::
    "analyzer_env \<Rightarrow> time \<Rightarrow> time \<Rightarrow> uuid option \<Rightarrow> Service \<Rightarrow> string \<Rightarrow> string \<Rightarrow> SLOStatus \<Rightarrow> ServiceReading option \<Rightarrow> uuid \<Rightarrow>
     cause_provider option \<Rightarrow> SLOAnalyzer \<Rightarrow> world \<Rightarrow> SLOAnalyzer \<times> world" where
  "HandleTransition E now dbnow tenant svc previous new st reading interval cause a w =
     (if previous = new then (a, w)
      else let entering = (new = ''degraded''); leaving = (previous = ''degraded'' \<and> new \<noteq> ''degraded'');
               w = (if entering \<or> leaving then snd (UpdateStatusAnalysis (s_ID svc) None w) else w);
               a = (if entering then dispatchDegradedEnrichment now tenant svc st reading interval cause a else a)
           in if new = ''outage'' then handleOutageTransition E now dbnow tenant svc st reading cause a w
              else if new = ''operational'' then handleRecoveryTransition now tenant svc st reading a w
              else (a, w))"

subsection \<open>The goroutines\<close>

text \<open>\<open>openEnrichmentTx\<close>, the body and the deferred rollback: the body returns whether it reached its
  commit. \<open>SetIntervalAnalysis\<close> writes to \<open>status_intervals\<close> in this transaction, so a rollback or a
  failed commit undoes it too.\<close>

definition in_enrichment_tx :: "uuid option \<Rightarrow> (world \<Rightarrow> bool \<times> world) \<Rightarrow> world \<Rightarrow> world" where
  "in_enrichment_tx tenant body w =
     (case BeginTenantTx None tenant w of
        (Inl _, w) \<Rightarrow> w
      | (Inr _, w0) \<Rightarrow>
          (case body w0 of
             (False, w) \<Rightarrow> (tx_rollback w)\<lparr>intervals := intervals w0\<rparr>
           | (True, w) \<Rightarrow> (case tx_commit w of
               (Inl _, w) \<Rightarrow> w\<lparr>intervals := intervals w0\<rparr>
             | (Inr _, w) \<Rightarrow> w)))"

definition resolveCauseHint ::
    "analyzer_env \<Rightarrow> time \<Rightarrow> Service \<Rightarrow> cause_provider option \<Rightarrow> world \<Rightarrow> (string \<times> string) \<times> world" where
  "resolveCauseHint E now svc provider w =
     (case provider of None \<Rightarrow> (([], []), w)
      | Some search \<Rightarrow>
          (case ae_cause_enabled E w of
             (Inl _, w) \<Rightarrow> (([], []), w)
           | (Inr enabled, w) \<Rightarrow>
               if \<not> enabled \<or> s_SLOType svc \<noteq> ''metric'' \<or> s_DatadogServiceTag svc = [] then (([], []), w)
               else (case search (s_DatadogServiceTag svc) ''production'' (now - errorTrackingWindow) now of
                   Inr (Some h) \<Rightarrow> ((hint_ErrorType h, hint_ErrorMessage h), w)
                 | _ \<Rightarrow> (([], []), w))))"

definition generate ::
    "analyzer_env \<Rightarrow> time \<Rightarrow> llm_call \<Rightarrow> Service \<Rightarrow> SLOStatus \<Rightarrow> ServiceReading option \<Rightarrow> cause_provider option \<Rightarrow> world \<Rightarrow> string option \<times> world" where
  "generate E now call svc st reading cause w =
     (case resolveCauseHint E now svc cause w of ((ty, msg), w) \<Rightarrow>
        call ((buildAnalysisInput svc st reading)\<lparr>ai_CauseType := ty, ai_CauseMessage := msg\<rparr>) w)"

definition degraded_enrichment ::
    "analyzer_env \<Rightarrow> time \<Rightarrow> uuid option \<Rightarrow> Service \<Rightarrow> SLOStatus \<Rightarrow> ServiceReading option \<Rightarrow> uuid \<Rightarrow> cause_provider option \<Rightarrow> world \<Rightarrow> world" where
  "degraded_enrichment E now tenant svc st reading interval cause w =
     in_enrichment_tx tenant (\<lambda>w.
       case generate E now (ae_GenerateDegraded E) svc st reading cause w of
         (None, w) \<Rightarrow> (False, w)
       | (Some analysis, w) \<Rightarrow>
           if trim_space analysis = [] then (False, w)
           else (True, snd (SetIntervalAnalysis interval analysis (snd (UpdateStatusAnalysis (s_ID svc) (Some analysis) w))))) w"

definition outage_enrichment ::
    "analyzer_env \<Rightarrow> time \<Rightarrow> uuid option \<Rightarrow> Service \<Rightarrow> SLOStatus \<Rightarrow> ServiceReading option \<Rightarrow> uuid \<Rightarrow> cause_provider option \<Rightarrow> world \<Rightarrow> world" where
  "outage_enrichment E now tenant svc st reading incident cause w =
     in_enrichment_tx tenant (\<lambda>w.
       case generate E now (ae_GenerateOutage E) svc st reading cause w of
         (None, w) \<Rightarrow> (False, w)
       | (Some description, w) \<Rightarrow>
           if trim_space description = [] then (False, w)
           else (case SetDescription incident description w of (Inl _, w) \<Rightarrow> (False, w) | (Inr _, w) \<Rightarrow> (True, w))) w"

definition closing_enrichment :: "analyzer_env \<Rightarrow> uuid option \<Rightarrow> AnalysisInput \<Rightarrow> uuid \<Rightarrow> world \<Rightarrow> world" where
  "closing_enrichment E tenant input incident w =
     in_enrichment_tx tenant (\<lambda>w.
       case ae_GenerateClosing E input w of
         (None, w) \<Rightarrow> (False, w)
       | (Some comment, w) \<Rightarrow>
           if trim_space comment = [] then (False, w)
           else (case SetPendingCloseComment incident comment w of (Inl _, w) \<Rightarrow> (False, w) | (Inr _, w) \<Rightarrow> (True, w))) w"

fun run_enrichment :: "analyzer_env \<Rightarrow> time \<Rightarrow> enrichment \<Rightarrow> world \<Rightarrow> world" where
  "run_enrichment E now (DegradedJob tenant svc st reading interval cause) w = degraded_enrichment E now tenant svc st reading interval cause w"
| "run_enrichment E now (OutageJob tenant svc st reading incident cause) w = outage_enrichment E now tenant svc st reading incident cause w"
| "run_enrichment E now (ClosingJob tenant input incident) w = closing_enrichment E tenant input incident w"

text \<open>The goroutine at position \<open>n\<close> runs to its end and frees its slot.\<close>

definition finish_enrichment :: "analyzer_env \<Rightarrow> time \<Rightarrow> nat \<Rightarrow> SLOAnalyzer \<Rightarrow> world \<Rightarrow> SLOAnalyzer \<times> world" where
  "finish_enrichment E now n a w =
     (if length (az_running a) \<le> n then (a, w)
      else (release (a\<lparr>az_running := take n (az_running a) @ drop (Suc n) (az_running a)\<rparr>),
            run_enrichment E now (az_running a ! n) w))"

definition new_analyzer :: SLOAnalyzer where
  "new_analyzer = \<lparr>az_sem = 0, az_lastDispatch = (\<lambda>_. None), az_running = []\<rparr>"

subsection \<open>The gate holds\<close>

text \<open>Transitions of services and ends of goroutines in any order, at any time, on any world: other
  requests run in between.\<close>

inductive analyzer_step :: "SLOAnalyzer \<Rightarrow> SLOAnalyzer \<Rightarrow> bool" where
  transition: "HandleTransition E now dbnow tenant svc previous new st reading interval cause a w = (a', w') \<Longrightarrow>
    analyzer_step a a'"
| finished: "finish_enrichment E now n a w = (a', w') \<Longrightarrow> analyzer_step a a'"

definition gate_ok :: "SLOAnalyzer \<Rightarrow> bool" where
  "gate_ok a \<longleftrightarrow> az_sem a = length (az_running a) \<and> length (az_running a) \<le> maxConcurrentEnrichments"

definition cooled :: "time \<Rightarrow> enrichment_key \<Rightarrow> SLOAnalyzer \<Rightarrow> bool" where
  "cooled now key a \<longleftrightarrow> (case az_lastDispatch a key of None \<Rightarrow> True | Some t \<Rightarrow> enrichmentCooldown \<le> time_sub now t)"

text \<open>What a call may do to the analyzer: nothing, or start one goroutine through the gate.\<close>

definition gated :: "time \<Rightarrow> SLOAnalyzer \<Rightarrow> SLOAnalyzer \<Rightarrow> bool" where
  "gated now a a' \<longleftrightarrow> a' = a \<or> (\<exists>key job. cooled now key a \<and> az_sem a < maxConcurrentEnrichments \<and>
     a' = a\<lparr>az_sem := Suc (az_sem a), az_lastDispatch := (az_lastDispatch a)(key \<mapsto> now), az_running := az_running a @ [job]\<rparr>)"

lemma gated_refl [simp]: "gated now a a"
  by (simp add: gated_def)

lemma gated_dispatch: "gated now a (dispatch now key job a)"
proof (cases "cooled now key a \<and> az_sem a < maxConcurrentEnrichments")
  case True
  then have "dispatch now key job a = a\<lparr>az_sem := Suc (az_sem a), az_lastDispatch := (az_lastDispatch a)(key \<mapsto> now),
      az_running := az_running a @ [job]\<rparr>"
    by (auto simp: dispatch_def tryAcquire_def cooled_def split: option.splits)
  with True show ?thesis by (auto simp: gated_def)
next
  case False
  then have "dispatch now key job a = a"
    by (auto simp: dispatch_def tryAcquire_def cooled_def split: option.splits)
  then show ?thesis by simp
qed

lemmas dispatchers = dispatchDegradedEnrichment_def dispatchOutageEnrichment_def dispatchClosingCommentEnrichment_def

lemma gated_HandleTransition:
  "gated now a (fst (HandleTransition E now dbnow tenant svc previous new st reading interval cause a w))"
  by (auto simp: HandleTransition_def handleOutageTransition_def handleRecoveryTransition_def Let_def dispatchers gated_dispatch
      split: prod.splits sum.splits option.splits)

lemma gate_ok_gated: "gate_ok a \<Longrightarrow> gated now a a' \<Longrightarrow> gate_ok a'"
  by (auto simp: gated_def gate_ok_def)

lemma gate_ok_finish: "gate_ok a \<Longrightarrow> gate_ok (fst (finish_enrichment E now n a w))"
  by (auto simp: finish_enrichment_def gate_ok_def release_def)

lemma analyzer_step_ok:
  assumes "analyzer_step a a'" and "gate_ok a"
  shows "gate_ok a'"
  using assms
proof cases
  case (transition E now dbnow tenant svc previous new st reading interval cause w w')
  have "gated now a a'" using gated_HandleTransition transition by (metis fst_conv)
  with assms(2) show ?thesis by (rule gate_ok_gated)
next
  case (finished E now n w w')
  with assms(2) gate_ok_finish show ?thesis by (metis fst_conv)
qed

lemma analyzer_steps_ok:
  "analyzer_step\<^sup>*\<^sup>* a a' \<Longrightarrow> gate_ok a \<Longrightarrow> gate_ok a'"
  by (induction rule: rtranclp_induct) (auto intro: analyzer_step_ok)


definition quiet_env :: analyzer_env where
  "quiet_env = \<lparr>ae_notifier = None, ae_cause_enabled = (\<lambda>w. (Inr False, w)), ae_GenerateDegraded = (\<lambda>_ w. (Some ''slow'', w)),
     ae_GenerateOutage = (\<lambda>_ w. (Some ''down'', w)), ae_GenerateClosing = (\<lambda>_ w. (Some ''fixed'', w))\<rparr>"

definition degrade :: "SLOAnalyzer \<times> world" where
  "degrade = HandleTransition quiet_env 5 5 (Some 3) (sample_service ''api'') ''operational'' ''degraded'' no_status None 0 None
     new_analyzer (within_tenant 3 (one_service_world False))"


subsection \<open>One outage, one incident\<close>

definition open_auto :: "uuid \<Rightarrow> world \<Rightarrow> incident_row list" where
  "open_auto sid w = filter (\<lambda>r. (ic_id r, sid) \<in> set (incident_services (db w)) \<and> ic_status r \<noteq> ''resolved'' \<and> ic_auto_created r)
     (visible_incidents w)"

definition quiet_sender :: "sender \<Rightarrow> bool" where
  "quiet_sender M \<longleftrightarrow> (\<forall>to m w. same_data w (snd (M to m w)))"

definition quiet_notifier :: "analyzer_env \<Rightarrow> bool" where
  "quiet_notifier E \<longleftrightarrow> (case ae_notifier E of None \<Rightarrow> True | Some (S, M) \<Rightarrow> quiet_sender M)"

lemma same_data_best_effort: "same_data w (snd m) \<Longrightarrow> same_data w (snd (best_effort m f g))"
  by (auto simp: best_effort_def split: prod.splits sum.splits)

lemma reads_keep_data:
  "same_data w (snd (TenantGet tid w))" "same_data w (snd (ListServiceNames iid w))"
  "same_data w (snd (ListMembersWithEmail tid w))" "same_data w (snd (ResolveEnabledForUsers uids ty w))"
  "same_data w (snd (mustExist iid w))" "same_data w (snd (HasOpenIncidentForService sid w))"
  "same_data w (snd (AllLinkedServicesOperational iid w))"
  by (auto simp: TenantGet_def ListServiceNames_def ListMembersWithEmail_def ResolveEnabledForUsers_def mustExist_def
      HasOpenIncidentForService_def AllLinkedServicesOperational_def intro!: same_data_pool_try split: option.splits)

lemma ListUpdatesPaginated_keeps: "same_data w (snd (ListUpdatesPaginated iid page n w))"
  unfolding ListUpdatesPaginated_def
  by (auto simp: Let_def intro!: same_data_bind reads_keep_data same_data_pool_try same_data_page_try)

lemma enrichIncident_keeps:
  assumes "enrichIncident S tid ty su w = (p, w')"
  shows "same_data w w'"
proof -
  have t: "same_data v (snd (enrich_tenant S tid su v))" for v
    unfolding enrich_tenant_def by (rule same_data_best_effort [OF reads_keep_data(1)])
  have s: "same_data v (snd (enrich_services iid su v))" for iid su v
    by (simp add: enrich_services_def same_data_best_effort [OF reads_keep_data(2)])
  have r: "same_data v (snd (enrich_resolution ty iid su v))" for iid su v
    by (simp add: enrich_resolution_def same_data_best_effort [OF ListUpdatesPaginated_keeps])
  obtain su1 loc w1 where 1: "enrich_tenant S tid su w = ((su1, loc), w1)" by (cases "enrich_tenant S tid su w") fastforce
  show ?thesis
  proof (cases "ns_detailed S \<and> su_IncidentID su \<noteq> None")
    case True
    then obtain iid where iid: "su_IncidentID su = Some iid" by blast
    obtain su2 w2 where 2: "enrich_services iid su1 w1 = (su2, w2)" by fastforce
    obtain su3 w3 where 3: "enrich_resolution ty iid su2 w2 = (su3, w3)" by fastforce
    from assms True iid 1 2 3 have "w' = w3" by (simp add: enrichIncident_def)
    with t [of w] s [of w1 iid su1] r [of w2 iid su2] 1 2 3 show ?thesis by (auto intro: same_data_trans)
  next
    case False
    with assms t [of w] 1 show ?thesis by (auto simp: enrichIncident_def split: if_splits option.splits)
  qed
qed

lemma send_to_all_keeps: "quiet_sender M \<Longrightarrow> same_data w (send_to_all M ty p url en ms w)"
proof (induction ms arbitrary: w)
  case (Cons m ms)
  have "same_data w (snd (send M (me_Email m) ty p url w))"
    using Cons.prems by (auto simp: send_def quiet_sender_def split: option.splits)
  with Cons show ?case by (auto intro: same_data_trans)
qed simp

lemma notify_opened_keeps:
  assumes "quiet_notifier E"
  shows "same_data w (notify_opened E tenant svc i w)"
proof -
  have "same_data v (snd (notify M tid ty p url v))" if "quiet_sender M" for M tid ty p url v
    unfolding notify_def
    by (auto simp: Let_def intro!: same_data_bind reads_keep_data send_to_all_keeps that)
  then have "same_data w (snd (NotifyIncidentOpened S M tid su w))" if "quiet_sender M" for S M tid su
    unfolding NotifyIncidentOpened_def notifyIncident_def
    using that by (auto split: prod.splits dest!: enrichIncident_keeps intro: same_data_trans)
  with assms show ?thesis
    by (auto simp: notify_opened_def quiet_notifier_def split: option.splits)
qed

lemma open_auto_same: "same_data w v \<Longrightarrow> open_auto sid v = open_auto sid w"
  by (simp add: open_auto_def visible_incidents_def same_dataD)

lemma open_auto_upd_services: "open_auto sid (upd_services s P f w) = open_auto sid w"
  by (simp add: open_auto_def visible_incidents_def upd_services_def)

lemma find_row_filter_Nil: "find_row P rs = None \<longleftrightarrow> filter P rs = []"
  by (induction rs) auto

lemma HasOpen_in_tenant:
  assumes "in_tenant tid w"
  shows "HasOpenIncidentForService sid w = (Inr (case open_auto sid w of [] \<Rightarrow> None | r # _ \<Rightarrow> Some (ic_id r)), w)"
proof -
  have "find_row P rs = (case filter P rs of [] \<Rightarrow> None | r # _ \<Rightarrow> Some r)" for P and rs :: "incident_row list"
    by (induction rs) auto
  then show ?thesis
    by (simp add: HasOpenIncidentForService_def in_tenant_pool_try [OF assms] open_auto_def split: list.splits)
qed

lemma healthy_next_id [simp]: "healthy (w\<lparr>next_id := n\<rparr>) = healthy w"
  by (simp add: healthy_def)

lemma create_outage_incident:
  fixes svc :: Service
  defines "i \<equiv> new_outage_incident svc"
  assumes "in_tenant tid w" and "tables_ok (next_id w) (db w)" and "\<exists>r\<in>set (services (db w)). sv_id r = s_ID svc"
  obtains c w' where "IncidentCreate dbnow i [s_ID svc] w = (Inr c, w')" and "i_ID c = next_id w" and "in_tenant tid w'"
    and "incidents (db w') = incidents (db w) @ [new_incident_row (next_id w) tid dbnow i]"
    and "incident_services (db w') = incident_services (db w) @ [(next_id w, s_ID svc)]"
proof -
  let ?row = "new_incident_row (next_id w) tid dbnow i"
  let ?c = "i\<lparr>i_ID := ic_id ?row, i_Status := ic_status ?row, i_CreatedAt := ic_created_at ?row, i_Severity := ic_severity ?row\<rparr>"
  let ?w1 = "w\<lparr>db := (db w)\<lparr>incidents := incidents (db w) @ [?row]\<rparr>, next_id := Suc (next_id w)\<rparr>"
  let ?w2 = "?w1\<lparr>db := (db ?w1)\<lparr>incident_services := incident_services (db ?w1) @ [(next_id w, s_ID svc)]\<rparr>\<rparr>"
  have w: "healthy w" "tx w \<noteq> None" "app_tenant_id (pool_session w) = Some tid" using assms(2) by (simp_all add: in_tenant_def)
  have w1: "healthy ?w1" using w(1) by (simp add: healthy_def)
  have "fst ` set (incident_services (db w)) \<subseteq> ic_id ` set (incidents (db w))" "ic_id ` set (incidents (db w)) \<subseteq> {..< next_id w}"
    using assms(3) by (simp_all add: tables_ok_def)
  then have new: "(next_id w, s_ID svc) \<notin> set (incident_services (db w))"
    by (auto dest!: subsetD [OF _ imageI [of _ _ fst]])
  have row: "ic_id ?row = next_id w" "ic_severity ?row = ''moderate''"
    by (simp_all add: new_incident_row_def severity_or_default_def i_def new_outage_incident_def)
  have "incident_insert dbnow i [s_ID svc] w = (Inr ?c, ?w2)"
    using w w1 new bexE [OF assms(4)] by (auto simp: incident_insert_def Let_def row)
  then have created: "IncidentCreate dbnow i [s_ID svc] w = (Inr ?c, ?w2)"
    using w(2) by (auto simp: IncidentCreate_def run_in_tx_def)
  have tenant: "in_tenant tid ?w2" using assms(2) by (auto simp: in_tenant_def healthy_def pool_session_def)
  show ?thesis by (rule that [OF created _ tenant]) (simp_all add: row(1))
qed

text \<open>C9. One outage opens one incident: when a service of the tenant enters outage and the database
  does not fail, \<open>HandleTransition\<close> opens an incident linked to it with the generic description unless
  an automatically created one is still unresolved, and then it opens none: however often the service
  flaps, it has at most one.\<close>

theorem outage_opens_one_incident:
  assumes "in_tenant tid w" and "tables_ok (next_id w) (db w)" and "\<exists>r\<in>set (services (db w)). sv_id r = s_ID svc"
    and "quiet_notifier E" and "previous \<noteq> ''outage''"
    and "HandleTransition E now dbnow (Some tid) svc previous ''outage'' st reading interval cause a w = (a', w')"
  shows "if open_auto (s_ID svc) w = []
    then open_auto (s_ID svc) w' = [new_incident_row (next_id w) tid dbnow (new_outage_incident svc)]
    else open_auto (s_ID svc) w' = open_auto (s_ID svc) w"
proof -
  define w1 where "w1 = (if previous = ''degraded'' then snd (UpdateStatusAnalysis (s_ID svc) None w) else w)"
  let ?P = "\<lambda>r. (r :: service_row)\<lparr>sv_status_analysis := None\<rparr>"
  have w1: "w1 = w \<or> w1 = upd_services (pool_session w) (\<lambda>r. sv_id r = s_ID svc) ?P w"
    using assms(1) by (simp add: w1_def UpdateStatusAnalysis_def in_tenant_pool_try)
  have auto: "open_auto (s_ID svc) w1 = open_auto (s_ID svc) w" using w1 by (metis open_auto_upd_services)
  have same: "in_tenant tid w1" "next_id w1 = next_id w"
    "incidents (db w1) = incidents (db w)" "incident_services (db w1) = incident_services (db w)"
    using w1 assms(1) by (auto simp: in_tenant_def healthy_def pool_session_def upd_services_def)
  have "map sv_id (services (db w1)) = map sv_id (services (db w))"
    using w1 by (auto simp: upd_services_def map_sql_update_inv)
  then have ids: "sv_id ` set (services (db w1)) = sv_id ` set (services (db w))" by (metis list.set_map)
  have ok: "tables_ok (next_id w1) (db w1)"
    using w1 assms(2) tables_ok_upd_services [of "next_id w" "db w" ?P] by (auto simp: upd_services_def service_keep_def service_checks_def)
  have run: "handleOutageTransition E now dbnow (Some tid) svc st reading cause a w1 = (a', w')"
    using assms(5,6) by (auto simp: HandleTransition_def Let_def w1_def)
  show ?thesis
  proof (cases "open_auto (s_ID svc) w1")
    case Nil
    have "s_ID svc \<in> sv_id ` set (services (db w1))" unfolding ids using assms(3) by (auto intro: rev_image_eqI)
    then have svc: "\<exists>r\<in>set (services (db w1)). sv_id r = s_ID svc" by auto
    obtain c w2 where c: "IncidentCreate dbnow (new_outage_incident svc) [s_ID svc] w1 = (Inr c, w2)" "in_tenant tid w2"
      "incidents (db w2) = incidents (db w1) @ [new_incident_row (next_id w1) tid dbnow (new_outage_incident svc)]"
      "incident_services (db w2) = incident_services (db w1) @ [(next_id w1, s_ID svc)]"
      using create_outage_incident [OF same(1) ok svc] by metis
    have "w' = notify_opened E (Some tid) svc c w2"
      using run c(1) Nil by (simp add: handleOutageTransition_def HasOpen_in_tenant [OF same(1)])
    then have "open_auto (s_ID svc) w' = open_auto (s_ID svc) w2"
      using open_auto_same [OF notify_opened_keeps [OF assms(4)]] by simp
    moreover have old: "ic_id r \<noteq> next_id w1" if "r \<in> set (incidents (db w1))" for r
      using ok that unfolding tables_ok_def by auto
    have vis: "visible w2 = visible w1" using in_tenant_visible [OF c(2)] in_tenant_visible [OF same(1)] by (simp add: fun_eq_iff)
    have "open_auto (s_ID svc) w2 = open_auto (s_ID svc) w1 @ [new_incident_row (next_id w1) tid dbnow (new_outage_incident svc)]"
      using in_tenant_visible [OF same(1)] old
      by (auto simp: open_auto_def visible_incidents_def vis c(3,4) new_incident_row_def new_outage_incident_def intro!: filter_cong)
    ultimately show ?thesis using Nil auto same(2) by simp
  next
    case (Cons r rs)
    with run have "w' = w1" by (simp add: handleOutageTransition_def HasOpen_in_tenant [OF same(1)])
    moreover have "open_auto (s_ID svc) w \<noteq> []" using Cons unfolding auto by simp
    ultimately show ?thesis using auto by simp
  qed
qed

definition broken :: "SLOAnalyzer \<times> world" where
  "broken = HandleTransition quiet_env 5 5 (Some 3) (sample_service ''api'') ''operational'' ''outage'' no_status None 0 None
     new_analyzer (within_tenant 3 (one_service_world False))"

theorem outage_opens_one_incident_witness:
  "open_auto 0 (snd broken) = [new_incident_row 1 3 5 (new_outage_incident (sample_service ''api''))]"
proof -
  let ?w = "within_tenant 3 (one_service_world False)"
  have svc: "s_ID (sample_service ''api'') = 0" by (simp add: sample_service_def)
  have row: "services (db ?w) = [new_service_row 0 3 5 (sample_service ''api'')]" "next_id ?w = 1"
    by (simp_all add: one_service_world_def)
  have t: "in_tenant 3 ?w" by (simp add: in_tenant_def one_service_world_def fresh_world_def) (simp add: within_tenant_def)
  have ok: "tables_ok (next_id ?w) (db ?w)"
    by (simp add: tables_ok_def one_service_world_def no_rows_def new_service_row_checks) (simp add: new_service_row_def sample_service_def)
  have s: "\<exists>r\<in>set (services (db ?w)). sv_id r = s_ID (sample_service ''api'')"
    by (simp add: svc one_service_world_def new_service_row_def)
  have q: "quiet_notifier quiet_env" by (simp add: quiet_notifier_def quiet_env_def)
  have run: "HandleTransition quiet_env 5 5 (Some 3) (sample_service ''api'') ''operational'' ''outage'' no_status None 0 None
     new_analyzer ?w = (fst broken, snd broken)" by (simp add: broken_def)
  have none: "open_auto 0 ?w = []" by (simp add: open_auto_def one_service_world_def no_rows_def visible_incidents_def)
  show ?thesis using outage_opens_one_incident [OF t ok s q _ run] none unfolding row(2) svc by simp
qed

end
