(* ===== verification/Poller.thy ===== *)
theory Poller
  imports Analyzer Auth
begin

text \<open>
  \<open>internal/db/integration_repository.go\<close> and \<open>internal/poller/poller.go\<close>: one poll cycle.
  \<open>pollCycle\<close> takes every active tenant in turn, in a transaction scoped to it; \<open>pollOnce\<close> polls the
  tenant's services and records the outcome on its Datadog integration; \<open>pollService\<close> fetches,
  classifies and writes one service.

  \<^item> \<open>cycle\<close> is what a cycle takes from outside: the clock at each service, the database's \<open>now()\<close> in
    the transaction of each tenant, when a context ends a wait, how an error reads, the keys of \<open>crypto.Decrypt\<close>
    and the client the decrypted credentials give.
  \<^item> The state is the analyzer with the world. \<open>pollService\<close> returns the first error, as the code does.
  \<^item> The bound of a tenant's cycle to one interval is not modelled: it shows as failing statements.
\<close>

subsection \<open>The integration of a tenant\<close>

record Integration =
  in_ID :: uuid
  in_Provider :: string
  in_EncryptedAPIKey :: string
  in_EncryptedAppKey :: string
  in_Status :: string
  in_LastCheckedAt :: "time option"
  in_LastError :: "string option"

definition scan_integration :: "integration_row \<Rightarrow> Integration" where
  "scan_integration r = \<lparr>in_ID = ig_id r, in_Provider = ig_provider r, in_EncryptedAPIKey = ig_encrypted_api_key r,
     in_EncryptedAppKey = ig_encrypted_app_key r, in_Status = ig_status r, in_LastCheckedAt = ig_last_checked_at r,
     in_LastError = ig_last_error r\<rparr>"

definition visible_integrations :: "world \<Rightarrow> integration_row list" where
  "visible_integrations w = filter (\<lambda>r. visible w (ig_tenant_id r)) (integrations (db w))"

definition UpsertDatadog :: "string \<Rightarrow> string \<Rightarrow> world \<Rightarrow> unit db_result" where
  "UpsertDatadog apiKey appKey w =
     pool_try w (\<lambda>w.
       case app_tenant_id (pool_session w) of
         None \<Rightarrow> pool_fail w
       | Some tenant \<Rightarrow>
           if sql_count (\<lambda>r. ig_tenant_id r = tenant \<and> ig_provider r = ''datadog'') (integrations (db w)) = 0
           then (Inr (), (set_db (\<lambda>d. d\<lparr>integrations := integrations d @
                   [\<lparr>ig_id = next_id w, ig_tenant_id = tenant, ig_provider = ''datadog'', ig_encrypted_api_key = apiKey,
                     ig_encrypted_app_key = appKey, ig_status = ''active'', ig_last_checked_at = None, ig_last_error = None\<rparr>]\<rparr>) w)
                  \<lparr>next_id := Suc (next_id w)\<rparr>)
           else (Inr (), set_db (\<lambda>d. d\<lparr>integrations := sql_update (\<lambda>r. ig_tenant_id r = tenant \<and> ig_provider r = ''datadog'')
                   (\<lambda>r. r\<lparr>ig_encrypted_api_key := apiKey, ig_encrypted_app_key := appKey, ig_status := ''active'',
                          ig_last_checked_at := None, ig_last_error := None\<rparr>) (integrations d)\<rparr>) w))"

definition mark_datadog :: "(integration_row \<Rightarrow> integration_row) \<Rightarrow> world \<Rightarrow> unit db_result" where
  "mark_datadog f w =
     pool_try w (\<lambda>w. (Inr (), set_db (\<lambda>d. d\<lparr>integrations :=
       sql_update (\<lambda>r. visible w (ig_tenant_id r) \<and> ig_provider r = ''datadog'') f (integrations d)\<rparr>) w))"

definition MarkDatadogInvalid :: "time \<Rightarrow> string \<Rightarrow> world \<Rightarrow> unit db_result" where
  "MarkDatadogInvalid dbnow lastError =
     mark_datadog (\<lambda>r. r\<lparr>ig_status := ''invalid'', ig_last_error := Some lastError, ig_last_checked_at := Some dbnow\<rparr>)"

definition MarkDatadogChecked :: "time \<Rightarrow> world \<Rightarrow> unit db_result" where
  "MarkDatadogChecked dbnow =
     mark_datadog (\<lambda>r. r\<lparr>ig_status := ''active'', ig_last_error := None, ig_last_checked_at := Some dbnow\<rparr>)"

definition IntegrationListPaginated :: "nat \<Rightarrow> nat \<Rightarrow> world \<Rightarrow> (Integration list \<times> nat) db_result" where
  "IntegrationListPaginated page pageSize w =
     page_try page pageSize w (\<lambda>offset w.
       let rows = sort_key ig_provider (visible_integrations w);
           got = sql_page pageSize offset rows
       in if got = [] then pool_try w (\<lambda>w. (Inr ([], length (visible_integrations w)), w))
          else (Inr (map scan_integration got, length rows), w))"

definition GetDatadog :: "world \<Rightarrow> Integration db_result" where
  "GetDatadog w =
     pool_try w (\<lambda>w. case find_row (\<lambda>r. ig_provider r = ''datadog'') (visible_integrations w) of
         None \<Rightarrow> (Inl ErrNotFound, w) | Some r \<Rightarrow> (Inr (scan_integration r), w))"

subsection \<open>Classifying a service\<close>

definition recentWindowLag :: duration where
  "recentWindowLag = 60 * second"

definition sloTypeMetric :: string where
  "sloTypeMetric = ''metric''"

definition normalizeStatus :: "string \<Rightarrow> string" where
  "normalizeStatus state =
     (if state = ''ok'' then ''operational'' else if state = ''warning'' then ''degraded''
      else if state = ''breached'' then ''outage'' else ''degraded'')"

definition classifyByState :: "string \<Rightarrow> string" where
  "classifyByState state = normalizeStatus state"

definition sloStatusFromWindows :: "SLOWindows \<Rightarrow> SLOStatus" where
  "sloStatusFromWindows w =
     (let short = sw_Short w;
          sli = (if 0 < w_Requests short then
                   (let errs = min (max (w_Errors short) 0) (w_Requests short)
                    in fdiv (fmul 100 (float_of_int (w_Requests short - errs))) (float_of_int (w_Requests short)))
                 else if w_Requests (sw_Long w) \<le> 0 then 100 else sw_SLI w)
      in \<lparr>sl_State = sw_State w, sl_ErrorBudgetRemaining = fsub sli (sw_Target w), sl_SLI = sli, sl_Target = sw_Target w,
          sl_Timeframe = sw_Timeframe w, sl_RequestCount = w_Requests short\<rparr>)"

definition newServiceReading :: "windowCounts \<Rightarrow> windowCounts \<Rightarrow> rat \<Rightarrow> time option \<Rightarrow> time \<Rightarrow> ServiceReading" where
  "newServiceReading short long target previousErrorAt now =
     (let burnShort = burnRate (w_Errors short) (w_Requests short) target
      in \<lparr>rd_BurnShort = burnShort,
          rd_BurnLong = (if 0 < w_Requests long then burnRate (w_Errors long) (w_Requests long) target else burnShort),
          rd_ShortErrors = w_Errors short, rd_ShortRequests = w_Requests short, rd_ReadAt = now,
          rd_LastErrorAt = (if 0 < w_Errors short then Some now else previousErrorAt)\<rparr>)"

text \<open>The windows \<open>pollService\<close> goes on with, and the test for the burn path.\<close>

definition effective_windows :: "Service \<Rightarrow> SLOWindows \<Rightarrow> SLOWindows" where
  "effective_windows svc w =
     (if \<not> sw_HasSeries w \<and> s_SLOType svc = sloTypeMetric then w\<lparr>sw_Short := zero_counts, sw_Long := zero_counts\<rparr> else w)"

definition burn_path :: "Service \<Rightarrow> SLOWindows \<Rightarrow> bool" where
  "burn_path svc w \<longleftrightarrow> 0 < sw_Target w \<and> (sw_HasSeries w \<or> s_SLOType svc = sloTypeMetric)"

record observation =
  ob_current :: string
  ob_reading :: "ServiceReading option"
  ob_status :: SLOStatus

definition burn_observation :: "time \<Rightarrow> Service \<Rightarrow> SLOWindows \<Rightarrow> observation" where
  "burn_observation now svc w =
     \<lparr>ob_current = classifyBurn \<lparr>in_Short = sw_Short w, in_Long = sw_Long w, in_Target = sw_Target w,
        in_Previous = s_CurrentStatus svc, in_LastErrorAt = s_LastErrorAt svc,
        in_LastChangeAt = s_LastStatusChangeAt svc, in_Now = now\<rparr>,
      ob_reading = Some (newServiceReading (sw_Short w) (sw_Long w) (sw_Target w) (s_LastErrorAt svc) now),
      ob_status = sloStatusFromWindows w\<rparr>"

text \<open>\<open>canceled fallback a\<close>: the context ends the wait after attempt \<open>a\<close> of the first or the second fetch.\<close>

definition observe_service :: "(bool \<Rightarrow> int \<Rightarrow> bool) \<Rightarrow> datadog_client \<Rightarrow> time \<Rightarrow> Service \<Rightarrow> dd_error + observation" where
  "observe_service canceled p now svc =
     (let until = now - recentWindowLag in
      case fst (FetchWindowsWithRetry (canceled False) (slo_provider.truncate p) (s_SLOID svc) until shortWindow longWindow maxFetchAttempts) of
        Inl e \<Rightarrow> Inl e
      | Inr got \<Rightarrow>
          (let w = effective_windows svc got in
           if burn_path svc w then Inr (burn_observation now svc w)
           else (case fst (FetchStatusWithRetry (canceled True) (slo_provider.truncate p) (s_SLOID svc) (until - shortWindow) until maxFetchAttempts) of
                   Inl e \<Rightarrow> Inl e
                 | Inr st \<Rightarrow> Inr \<lparr>ob_current = classifyByState (sl_State st), ob_reading = None, ob_status = st\<rparr>)))"

subsection \<open>Polling\<close>

datatype poll_error = FetchFailed dd_error | StoreFailed db_error

record 'tok cycle =
  cy_env :: analyzer_env
  cy_clock :: "uuid \<Rightarrow> time"
  cy_dbnow :: "uuid \<Rightarrow> time"
  cy_canceled :: "uuid \<Rightarrow> bool \<Rightarrow> int \<Rightarrow> bool"
  cy_error_text :: "poll_error \<Rightarrow> string"
  cy_auth :: "'tok auth_env"
  cy_client :: "string \<Rightarrow> string \<Rightarrow> datadog_client"

definition write_status :: "time \<Rightarrow> Service \<Rightarrow> observation \<Rightarrow> world \<Rightarrow> unit db_result" where
  "write_status dbnow svc ob w =
     (case ob_reading ob of
        Some rd \<Rightarrow> UpdateStatusAndReading dbnow (s_ID svc) (ob_current ob) rd w
      | None \<Rightarrow> UpdateStatus dbnow (s_ID svc) (ob_current ob) w)"

definition pollService ::
    "'tok cycle \<Rightarrow> uuid \<Rightarrow> datadog_client \<Rightarrow> Service \<Rightarrow> SLOAnalyzer \<Rightarrow> world \<Rightarrow> (poll_error + unit) \<times> SLOAnalyzer \<times> world" where
  "pollService C tenant p svc a w =
     (let now = cy_clock C (s_ID svc); dbnow = cy_dbnow C tenant in
      case observe_service (cy_canceled C (s_ID svc)) p now svc of
        Inl e \<Rightarrow> (Inl (FetchFailed e), a, w)
      | Inr ob \<Rightarrow>
          (case OpenOrExtend (s_ID svc) (ob_current ob) (sl_ErrorBudgetRemaining (ob_status ob)) now w of
             (Inl e, w) \<Rightarrow> (Inl (StoreFailed e), a, w)
           | (Inr interval, w) \<Rightarrow>
               (case write_status dbnow svc ob w of
                  (Inl e, w) \<Rightarrow> (Inl (StoreFailed e), a, w)
                | (Inr _, w) \<Rightarrow>
                    (Inr (),
                     if ob_current ob \<noteq> s_CurrentStatus svc
                     then HandleTransition (cy_env C) now dbnow (Some tenant) svc (s_CurrentStatus svc) (ob_current ob)
                            (ob_status ob) (ob_reading ob) interval (Some (search_issues p)) a w
                     else (a, w)))))"

fun poll_services ::
    "'tok cycle \<Rightarrow> uuid \<Rightarrow> datadog_client \<Rightarrow> Service list \<Rightarrow> bool \<Rightarrow> poll_error option \<Rightarrow> SLOAnalyzer \<Rightarrow> world \<Rightarrow>
     (bool \<times> poll_error option) \<times> SLOAnalyzer \<times> world" where
  "poll_services C tenant p [] anySuccess lastErr a w = ((anySuccess, lastErr), a, w)"
| "poll_services C tenant p (svc # svcs) anySuccess lastErr a w =
     (if s_MonitorMode svc = ''polling'' then poll_services C tenant p svcs anySuccess lastErr a w
      else case pollService C tenant p svc a w of
          (Inl e, a, w) \<Rightarrow> poll_services C tenant p svcs anySuccess (Some e) a w
        | (Inr _, a, w) \<Rightarrow> poll_services C tenant p svcs True lastErr a w)"

definition pollOnce :: "'tok cycle \<Rightarrow> uuid \<Rightarrow> datadog_client \<Rightarrow> SLOAnalyzer \<Rightarrow> world \<Rightarrow> SLOAnalyzer \<times> world" where
  "pollOnce C tenant p a w =
     (case ServiceList w of
        (Inl _, w) \<Rightarrow> (a, w)
      | (Inr svcs, w) \<Rightarrow>
          (case poll_services C tenant p svcs False None a w of
             ((anySuccess, lastErr), a, w) \<Rightarrow>
               (a, if anySuccess then snd (MarkDatadogChecked (cy_dbnow C tenant) w)
                   else case lastErr of None \<Rightarrow> w
                     | Some e \<Rightarrow> snd (MarkDatadogInvalid (cy_dbnow C tenant) (cy_error_text C e) w))))"

text \<open>The resolver of \<open>newPollerFromStoredIntegration\<close> (\<open>internal/cli/serve.go\<close>).\<close>

definition resolveDatadogClient :: "'tok cycle \<Rightarrow> world \<Rightarrow> datadog_client db_result" where
  "resolveDatadogClient C w =
     db_bind (GetDatadog w) (\<lambda>i w.
       case Decrypt (cy_auth C) (in_EncryptedAPIKey i) of None \<Rightarrow> (Inl DbError, w)
       | Some apiKey \<Rightarrow> (case Decrypt (cy_auth C) (in_EncryptedAppKey i) of None \<Rightarrow> (Inl DbError, w)
           | Some appKey \<Rightarrow> (Inr (cy_client C apiKey appKey), w)))"

definition poll_tenant :: "'tok cycle \<Rightarrow> uuid \<Rightarrow> SLOAnalyzer \<Rightarrow> world \<Rightarrow> SLOAnalyzer \<times> world" where
  "poll_tenant C tenant a w =
     (case BeginTenantTx None (Some tenant) w of
        (Inl _, w) \<Rightarrow> (a, w)
      | (Inr _, w) \<Rightarrow>
          (case resolveDatadogClient C w of
             (Inl _, w) \<Rightarrow> (a, tx_rollback w)
           | (Inr p, w) \<Rightarrow> (case pollOnce C tenant p a w of (a, w) \<Rightarrow> (a, snd (tx_commit w)))))"

fun poll_tenants :: "'tok cycle \<Rightarrow> uuid list \<Rightarrow> SLOAnalyzer \<Rightarrow> world \<Rightarrow> SLOAnalyzer \<times> world" where
  "poll_tenants C [] a w = (a, w)"
| "poll_tenants C (t # ts) a w = (case poll_tenant C t a w of (a, w) \<Rightarrow> poll_tenants C ts a w)"

definition pollCycle :: "'tok cycle \<Rightarrow> SLOAnalyzer \<Rightarrow> world \<Rightarrow> SLOAnalyzer \<times> world" where
  "pollCycle C a w =
     (case SystemTenantList w of
        (Inl _, w) \<Rightarrow> (a, w)
      | (Inr ts, w) \<Rightarrow> poll_tenants C (map t_ID ts) a w)"

end
