(* ===== verification/Poll_Safety.thy ===== *)
theory Poll_Safety
  imports Poller
begin

text \<open>
  What a poll cycle keeps. The locale \<open>transition_invariant\<close> states what a status transition needs
  of an invariant, \<open>poll_invariant\<close> what a tenant's whole cycle needs: that the repository calls the
  poller makes keep it, the status writes for the observations \<open>ok\<close> allows only. The cycle is proved
  to keep such an invariant once, and the locale is interpreted on the data of the other tenants and
  on the domain of the status columns; a third interpretation follows the statuses through a
  transition, for the effect of polling one service.
\<close>

definition keeps :: "(world \<Rightarrow> bool) \<Rightarrow> world \<Rightarrow> world \<Rightarrow> bool" where
  "keeps I w w' \<longleftrightarrow> (I w \<longrightarrow> I w' \<and> session_of w' = session_of w)"

lemma stays_keeps: "stays I w m \<longleftrightarrow> keeps I w (snd m)"
  by (simp add: stays_def keeps_def)

lemma keeps_refl [simp, intro!]: "keeps I w w"
  by (simp add: keeps_def)

lemma keeps_trans: "keeps I u v \<Longrightarrow> keeps I v w \<Longrightarrow> keeps I u w"
  by (simp add: keeps_def)

locale transition_invariant = db_invariant +
  assumes I_create: "stays I w (IncidentCreate t i sids w)"
    and I_analysis: "stays I w (UpdateStatusAnalysis sid an w)"
begin

lemma keeps_same: "same_data w w' \<Longrightarrow> keeps I w w'"
  by (auto simp: keeps_def session_of_same_data intro: I_same)

lemma keeps_handleOutage:
  assumes "quiet_notifier E"
  shows "keeps I w (snd (handleOutageTransition E now dbnow tenant svc st rd cause a w))"
proof -
  obtain r w1 where 1: "HasOpenIncidentForService (s_ID svc) w = (r, w1)" by fastforce
  have k1: "keeps I w w1" using keeps_same [OF reads_keep_data(6)] 1 by (metis snd_conv)
  show ?thesis
  proof (cases "r = Inr None")
    case True
    obtain c w2 where 2: "IncidentCreate dbnow (new_outage_incident svc) [s_ID svc] w1 = (c, w2)" by fastforce
    have k2: "keeps I w1 w2" using I_create 2 by (metis stays_keeps snd_conv)
    have "keeps I w2 (notify_opened E tenant svc i w2)" for i
      by (rule keeps_same [OF notify_opened_keeps [OF assms]])
    with k1 k2 show ?thesis
      by (auto simp: handleOutageTransition_def 1 2 True split: sum.splits intro: keeps_trans)
  next
    case False
    with k1 show ?thesis by (auto simp: handleOutageTransition_def 1 split: sum.splits option.splits)
  qed
qed

lemma keeps_handleRecovery: "keeps I w (snd (handleRecoveryTransition now tenant svc st rd a w))"
proof -
  obtain r w1 where 1: "HasOpenIncidentForService (s_ID svc) w = (r, w1)" by fastforce
  have k1: "keeps I w w1" using keeps_same [OF reads_keep_data(6)] 1 by (metis snd_conv)
  have "keeps I w1 (snd (AllLinkedServicesOperational i w1))" for i by (rule keeps_same [OF reads_keep_data(7)])
  with k1 show ?thesis
    by (auto simp: handleRecoveryTransition_def 1 split: sum.splits option.splits prod.splits intro: keeps_trans)
      (metis keeps_trans snd_conv)+
qed

lemma keeps_HandleTransition:
  assumes "quiet_notifier E"
  shows "keeps I w (snd (HandleTransition E now dbnow tenant svc previous new st rd interval cause a w))"
proof -
  have "keeps I w (snd (UpdateStatusAnalysis (s_ID svc) None w))" using I_analysis by (simp add: stays_keeps)
  then show ?thesis
    using keeps_handleOutage [OF assms] keeps_handleRecovery
    by (auto simp: HandleTransition_def Let_def intro: keeps_trans)
qed

end

locale poll_invariant = transition_invariant +
  fixes ok :: "uuid \<Rightarrow> string \<Rightarrow> bool"
  assumes I_status: "ok sid st \<Longrightarrow> stays I w (UpdateStatus t sid st w)"
    and I_reading: "ok sid st \<Longrightarrow> stays I w (UpdateStatusAndReading t sid st rd w)"
    and I_interval: "ok sid st \<Longrightarrow> stays I w (OpenOrExtend sid st ebr seen w)"
    and I_mark: "(\<And>r. ig_tenant_id (f r) = ig_tenant_id r) \<Longrightarrow> stays I w (mark_datadog f w)"
begin

definition allowed :: "'c cycle \<Rightarrow> datadog_client \<Rightarrow> Service \<Rightarrow> bool" where
  "allowed C p svc \<longleftrightarrow> (\<forall>ob. observe_service (cy_canceled C (s_ID svc)) p (cy_clock C (s_ID svc)) svc = Inr ob \<longrightarrow>
     ok (s_ID svc) (ob_current ob))"

lemma keeps_pollService:
  assumes "quiet_notifier (cy_env C)" and "allowed C p svc"
  shows "keeps I w (snd (snd (pollService C tenant p svc a w)))"
proof (cases "observe_service (cy_canceled C (s_ID svc)) p (cy_clock C (s_ID svc)) svc")
  case (Inl e)
  then show ?thesis by (simp add: pollService_def)
next
  case (Inr ob)
  with assms(2) have ok: "ok (s_ID svc) (ob_current ob)" by (simp add: allowed_def)
  let ?open = "OpenOrExtend (s_ID svc) (ob_current ob) (sl_ErrorBudgetRemaining (ob_status ob)) (cy_clock C (s_ID svc)) w"
  obtain r1 w1 where 1: "?open = (r1, w1)" by fastforce
  have k1: "keeps I w w1" using I_interval [OF ok] 1 by (metis stays_keeps snd_conv)
  show ?thesis
  proof (cases r1)
    case (Inr interval)
    obtain r2 w2 where 2: "write_status (cy_dbnow C tenant) svc ob w1 = (r2, w2)" by fastforce
    have "stays I w1 (write_status (cy_dbnow C tenant) svc ob w1)"
      using I_status [OF ok] I_reading [OF ok] by (simp add: write_status_def split: option.splits)
    with 2 have k2: "keeps I w1 w2" by (simp add: stays_keeps)
    with k1 keeps_HandleTransition [OF assms(1)] show ?thesis
      by (auto simp: pollService_def Let_def \<open>observe_service _ _ _ _ = Inr ob\<close> 1 Inr 2 split: sum.splits intro: keeps_trans)
  qed (use k1 in \<open>simp add: pollService_def Inr 1\<close>)
qed

lemma keeps_poll_services:
  assumes "quiet_notifier (cy_env C)" and "list_all (allowed C p) svcs"
  shows "keeps I w (snd (snd (poll_services C tenant p svcs any err a w)))"
  using assms(2)
proof (induction svcs arbitrary: any err a w)
  case (Cons svc svcs)
  obtain r a1 w1 where 1: "pollService C tenant p svc a w = (r, a1, w1)" by (cases "pollService C tenant p svc a w") fastforce
  have "keeps I w w1" using keeps_pollService [OF assms(1), of p svc w tenant a] Cons.prems 1 by simp
  with Cons show ?case by (cases r) (auto simp: 1 intro: keeps_trans)
qed simp

lemma keeps_pollOnce:
  assumes "quiet_notifier (cy_env C)"
    and "\<And>svcs w'. ServiceList w = (Inr svcs, w') \<Longrightarrow> list_all (allowed C p) svcs"
  shows "keeps I w (snd (pollOnce C tenant p a w))"
proof -
  obtain r w1 where 1: "ServiceList w = (r, w1)" by fastforce
  have k1: "keeps I w w1" using stays_reads(10) [of w] 1 by (simp add: stays_keeps)
  show ?thesis
  proof (cases r)
    case (Inr svcs)
    obtain some err a2 w2 where 2: "poll_services C tenant p svcs False None a w1 = ((some, err), a2, w2)"
      by (cases "poll_services C tenant p svcs False None a w1") fastforce
    have k2: "keeps I w1 w2" using keeps_poll_services [OF assms(1), of p svcs w1 tenant False None a] assms(2) 1 Inr 2 by simp
    have "keeps I w2 (snd (MarkDatadogChecked t w2))" "keeps I w2 (snd (MarkDatadogInvalid t e w2))" for t e
      using I_mark by (simp_all add: stays_keeps [symmetric] MarkDatadogChecked_def MarkDatadogInvalid_def)
    with k1 k2 show ?thesis
      by (auto simp: pollOnce_def 1 Inr 2 split: option.splits intro: keeps_trans)
  qed (use k1 in \<open>simp add: pollOnce_def 1\<close>)
qed

lemma keeps_resolve: "keeps I w (snd (resolveDatadogClient C w))"
proof -
  have "stays I w (resolveDatadogClient C w)"
    unfolding resolveDatadogClient_def GetDatadog_def
    by (intro stays_db_bind stays_pool_try) (auto split: option.splits)
  then show ?thesis by (simp add: stays_keeps)
qed

end

sublocale repo_invariant \<subseteq> transition_invariant
  by unfold_locales auto

lemma stays_conj: "stays I w m \<Longrightarrow> stays J w m \<Longrightarrow> stays (\<lambda>w. I w \<and> J w) w m"
  by (simp add: stays_def)

subsection \<open>What \<open>OpenOrExtend\<close> leaves alone\<close>

lemma insert_and_commit_bypass:
  "insert_and_commit sid st ebr seen ivs w = (r, w') \<Longrightarrow> bypass_rls w' = bypass_rls w"
  by (elim insert_and_commit_cases) (auto dest: same_dataD(3))

lemma no_effect_bypass: "no_effect w w' \<Longrightarrow> bypass_rls w' = bypass_rls w"
  by (auto simp: no_effect_def dest: same_dataD(3))

lemma OpenOrExtend_bypass:
  assumes "OpenOrExtend sid st ebr seen w = (r, w')"
  shows "bypass_rls w' = bypass_rls w"
  using assms unfolding OpenOrExtend_def OpenOrExtendRacing_def
  by (auto elim!: own_try_no_effect simp: Let_def commit_rival_def no_effect_bypass split: option.splits if_splits
      dest!: insert_and_commit_bypass)

lemma filter_other_extend_close:
  assumes "\<forall>i\<in>set ivs. si_ID i = k \<longrightarrow> si_ServiceID i \<in> S"
  shows "filter (\<lambda>i. si_ServiceID i \<notin> S) (extend_interval k ebr seen ivs) = filter (\<lambda>i. si_ServiceID i \<notin> S) ivs"
    "filter (\<lambda>i. si_ServiceID i \<notin> S) (close_interval k seen ivs) = filter (\<lambda>i. si_ServiceID i \<notin> S) ivs"
  using assms by (induction ivs) (auto simp: extend_interval_def close_interval_def)

lemma open_interval_id:
  assumes "intervals_ok w" and "open_interval_of sid w = Some i"
  shows "\<forall>j\<in>set (intervals w). si_ID j = si_ID i \<longrightarrow> j = i"
  using assms open_interval_of_Some [OF assms(2)] by (auto simp: intervals_ok_def distinct_map inj_on_def)

lemma OpenOrExtend_others:
  assumes "intervals_ok w" and "sid \<in> S" and "OpenOrExtend sid st ebr seen w = (r, w')"
  shows "filter (\<lambda>i. si_ServiceID i \<notin> S) (intervals w') = filter (\<lambda>i. si_ServiceID i \<notin> S) (intervals w)"
  using assms(3) unfolding OpenOrExtend_def
proof (cases rule: OpenOrExtendRacing_cases)
  case (failed e)
  then show ?thesis by (simp add: no_effectD)
next
  case (extended i)
  have "\<forall>j\<in>set (intervals w). si_ID j = si_ID i \<longrightarrow> si_ServiceID j \<in> S"
    using open_interval_id [OF assms(1) extended(1)] open_interval_of_Some [OF extended(1)] assms(2) by auto
  with extended filter_other_extend_close show ?thesis by simp
next
  case (switched i j)
  have "\<forall>j\<in>set (intervals w). si_ID j = si_ID i \<longrightarrow> si_ServiceID j \<in> S"
    using open_interval_id [OF assms(1) switched(1)] open_interval_of_Some [OF switched(1)] assms(2) by auto
  with switched filter_other_extend_close assms(2) show ?thesis by (simp add: inserted_into_def)
next
  case (opened j)
  with assms(2) show ?thesis by (simp add: inserted_into_def commit_rival_def)
next
  case (lost e)
  then show ?thesis by (simp add: commit_rival_def)
qed

lemma OpenOrExtend_frame:
  assumes "OpenOrExtend sid st ebr seen w = (r, w')"
  shows "db w' = db w" "tx w' = tx w" "next_id w \<le> next_id w'"
  using assms unfolding OpenOrExtend_def
  by (auto elim!: OpenOrExtendRacing_cases simp: no_effectD inserted_into_def commit_rival_def)

subsection \<open>The other tenants\<close>

definition foreign_integrations :: "uuid \<Rightarrow> tables \<Rightarrow> integration_row list" where
  "foreign_integrations tenant d = filter (\<lambda>r. ig_tenant_id r \<noteq> tenant) (integrations d)"

definition own_services :: "uuid \<Rightarrow> tables \<Rightarrow> uuid set" where
  "own_services tenant d = sv_id ` {r \<in> set (services d). sv_tenant_id r = tenant}"

definition foreign_intervals :: "uuid set \<Rightarrow> world \<Rightarrow> StatusInterval list" where
  "foreign_intervals S w = filter (\<lambda>i. si_ServiceID i \<notin> S) (intervals w)"

definition rest_kept :: "uuid \<Rightarrow> uuid set \<Rightarrow> integration_row list \<Rightarrow> StatusInterval list \<Rightarrow> world \<Rightarrow> bool" where
  "rest_kept tenant S G J w \<longleftrightarrow> foreign_integrations tenant (db w) = G \<and>
     (\<forall>t. tx w = Some t \<longrightarrow> foreign_integrations tenant (tx_begin t) = G) \<and> foreign_intervals S w = J \<and> intervals_ok w"

lemma intervals_ok_more:
  "intervals_ok w \<Longrightarrow> intervals w' = intervals w \<Longrightarrow> next_id w \<le> next_id w' \<Longrightarrow> intervals_ok w'"
  by (auto simp: intervals_ok_def)

interpretation rest: repo_invariant "rest_kept tenant S G J" for tenant S G J
proof unfold_locales
  fix w w' :: world assume r: "rest_kept tenant S G J w" and same: "same_data w w'"
  note d = same_dataD [OF same]
  have "map_option tx_begin (tx w') = map_option tx_begin (tx w)" using same by (simp add: same_data_def)
  then have "(\<forall>t. tx w' = Some t \<longrightarrow> foreign_integrations tenant (tx_begin t) = G) =
      (\<forall>t. tx w = Some t \<longrightarrow> foreign_integrations tenant (tx_begin t) = G)"
    by (cases "tx w"; cases "tx w'") auto
  with r d show "rest_kept tenant S G J w'"
    by (auto simp: rest_kept_def foreign_intervals_def intro: intervals_ok_more [of w])
next
  fix w assume "rest_kept tenant S G J w" "session_of w = Some no_session"
  then show "rest_kept tenant S G J (tx_rollback w)"
    by (auto simp: rest_kept_def tx_rollback_def foreign_intervals_def session_of_def intro: intervals_ok_more [of w])
qed (auto simp: rest_kept_def foreign_integrations_def foreign_intervals_def intervals_ok_def add_service_def upd_services_def
    add_incident_def upd_incidents_def add_update_def add_link_def)

definition poll_isolated ::
    "uuid \<Rightarrow> uuid set \<Rightarrow> service_row list \<times> incident_row list \<times> IncidentUpdate list \<times> (uuid \<times> uuid) list \<Rightarrow>
     integration_row list \<Rightarrow> StatusInterval list \<Rightarrow> world \<Rightarrow> bool" where
  "poll_isolated tenant S F G J w \<longleftrightarrow> isolated tenant F w \<and> rest_kept tenant S G J w"

lemma world_ok_OpenOrExtend: "world_ok w \<Longrightarrow> OpenOrExtend sid st ebr seen w = (r, w') \<Longrightarrow> world_ok w'"
  using OpenOrExtend_frame [of sid st ebr seen w r w'] by (auto simp: world_ok_def intro: tables_ok_mono)

lemma poll_isolated_interval:
  assumes "sid \<in> S"
  shows "stays (poll_isolated tenant S F G J) w (OpenOrExtend sid st ebr seen w)"
proof -
  obtain r w' where o: "OpenOrExtend sid st ebr seen w = (r, w')" by fastforce
  note f = OpenOrExtend_frame [OF o] OpenOrExtend_bypass [OF o]
  have "poll_isolated tenant S F G J w'" if "poll_isolated tenant S F G J w"
  proof -
    from that have i: "isolated tenant F w" and r: "rest_kept tenant S G J w" by (simp_all add: poll_isolated_def)
    have "isolated tenant F w'" using i f world_ok_OpenOrExtend [OF _ o] by (simp add: isolated_def session_of_def)
    moreover have "intervals_ok w'" using r OpenOrExtendRacing_keeps_ok [of w None] o
      by (auto simp: rest_kept_def OpenOrExtend_def)
    ultimately show ?thesis
      using r f OpenOrExtend_others [OF _ assms o] by (simp add: poll_isolated_def rest_kept_def foreign_intervals_def)
  qed
  with f show ?thesis by (simp add: stays_def o session_of_def)
qed

lemma poll_isolated_mark:
  assumes "\<And>r. ig_tenant_id (f r) = ig_tenant_id r"
  shows "stays (poll_isolated tenant S F G J) w (mark_datadog f w)"
proof -
  obtain r w' where m: "mark_datadog f w = (r, w')" by fastforce
  have iso: "isolated tenant F x \<Longrightarrow> same_data x v \<Longrightarrow> isolated tenant F v" for x v by (rule iso.I_same)
  have rest: "rest_kept tenant S G J x \<Longrightarrow> same_data x v \<Longrightarrow> rest_kept tenant S G J v" for x v by (rule rest.I_same)
  have "poll_isolated tenant S F G J w' \<and> session_of w' = session_of w" if "poll_isolated tenant S F G J w"
    using m unfolding mark_datadog_def
  proof (cases rule: pool_try_cases)
    case failed
    with that iso rest show ?thesis by (auto simp: poll_isolated_def session_of_same_data)
  next
    case (ran v)
    let ?P = "\<lambda>r. visible v (ig_tenant_id r) \<and> ig_provider r = ''datadog''"
    from that iso [OF _ ran(1)] rest [OF _ ran(1)] have i: "isolated tenant F v" and k: "rest_kept tenant S G J v"
      by (simp_all add: poll_isolated_def)
    have "filter (\<lambda>r. ig_tenant_id r \<noteq> tenant) (sql_update ?P f (integrations (db v))) =
        filter (\<lambda>r. ig_tenant_id r \<noteq> tenant) (integrations (db v))"
      by (rule filter_other_sql_update) (auto simp: assms isolated_visible [OF i])
    moreover have "tables_ok n (d\<lparr>integrations := x\<rparr>) = tables_ok n d" for n d x by (simp add: tables_ok_def)
    moreover have "foreign_data tenant (d\<lparr>integrations := x\<rparr>) = foreign_data tenant d" for d x
      by (simp add: foreign_data_def own_incidents_def)
    ultimately show ?thesis
      using i k ran session_of_same_data [OF ran(1)]
      by (auto simp: poll_isolated_def isolated_def world_ok_def rest_kept_def set_db_def foreign_integrations_def
          foreign_intervals_def session_of_def intro: intervals_ok_more [of v])
  qed
  then show ?thesis by (simp add: stays_def m)
qed

interpretation polled: poll_invariant "poll_isolated tenant S F G J" "\<lambda>sid _. sid \<in> S" for tenant S F G J
proof unfold_locales
  fix w w' :: world assume "poll_isolated tenant S F G J w" "same_data w w'"
  then show "poll_isolated tenant S F G J w'" by (auto simp: poll_isolated_def intro: iso.I_same rest.I_same)
qed (auto simp: poll_isolated_def [abs_def] stays_conj poll_isolated_interval [unfolded poll_isolated_def [abs_def]]
    poll_isolated_mark [unfolded poll_isolated_def [abs_def]] intro: iso.I_begin iso.I_commit iso.I_rollback
    rest.I_begin rest.I_commit rest.I_rollback)

lemma resolve_same_data: "same_data w (snd (resolveDatadogClient C w))"
  unfolding resolveDatadogClient_def GetDatadog_def
  by (intro same_data_bind same_data_pool_try) (auto split: option.splits)

lemma scan_list_simps [simp]: "s_ID (scan_list_service r) = sv_id r" "s_CurrentStatus (scan_list_service r) = sv_current_status r"
  by (simp_all add: scan_list_service_def scan_page_service_def scan_service_def)

lemma ServiceList_ids:
  assumes "ServiceList w = (Inr svcs, w')"
  shows "\<forall>svc\<in>set svcs. \<exists>r\<in>set (services (db w)). svc = scan_list_service r \<and> visible w (sv_tenant_id r)"
  using assms unfolding ServiceList_def
  by (cases rule: pool_try_cases) (auto simp: visible_services_def same_dataD)

lemma poll_isolated_begin:
  assumes "world_ok w" and "intervals_ok w" and "\<not> bypass_rls w" and "BeginTenantTx None (Some tenant) w = (Inr (), w1)"
  shows "poll_isolated tenant S (foreign_data tenant (db w)) (foreign_integrations tenant (db w)) (foreign_intervals S w) w1"
  using BeginTenantTx_ok [OF assms(4)] assms(1-3)
  by (auto simp: poll_isolated_def isolated_def rest_kept_def session_of_def world_ok_def foreign_intervals_def
      intro: intervals_ok_more [of w])

lemma poll_isolated_end:
  assumes "poll_isolated tenant S F G J w" and "w' = tx_rollback w \<or> w' = snd (tx_commit w)"
  shows "foreign_data tenant (db w') = F \<and> foreign_integrations tenant (db w') = G \<and> foreign_intervals S w' = J \<and>
    tx w' = None \<and> world_ok w' \<and> intervals_ok w' \<and> bypass_rls w' = bypass_rls w"
proof -
  from assms(1) obtain t where t: "tx w = Some t" and k: "foreign_integrations tenant (tx_begin t) = G"
      "foreign_integrations tenant (db w) = G" "foreign_intervals S w = J" "intervals_ok w" "world_ok w"
    by (auto simp: poll_isolated_def isolated_def rest_kept_def dest: session_of_Some)
  have iso: "isolated tenant F w" using assms(1) by (simp add: poll_isolated_def)
  have ended: "world_ok w'" "foreign_data tenant (db w') = F"
    using assms(2) k(5) world_ok_rollback world_ok_commit isolated_end [OF iso] by auto
  moreover have "foreign_integrations tenant (db w') = G \<and> intervals w' = intervals w \<and> tx w' = None \<and>
      bypass_rls w' = bypass_rls w \<and> next_id w' = next_id w"
    using assms(2)
  proof
    assume "w' = tx_rollback w"
    with t k show ?thesis by (simp add: tx_rollback_def)
  next
    assume w': "w' = snd (tx_commit w)"
    obtain r v where "tx_commit w = (r, v)" by fastforce
    with w' t k show ?thesis
      using tx_commit_ok [of w v] tx_commit_err [of w _ v t] by (cases r) auto
  qed
  ultimately show ?thesis using k by (simp add: foreign_intervals_def intervals_ok_more [of w w'])
qed

lemma poll_tenant_isolated:
  assumes "world_ok w" and "intervals_ok w" and "\<not> bypass_rls w" and "tx w = None" and "quiet_notifier (cy_env C)"
    and "poll_tenant C tenant a w = (a', w')"
  shows "foreign_data tenant (db w') = foreign_data tenant (db w) \<and>
    foreign_integrations tenant (db w') = foreign_integrations tenant (db w) \<and>
    foreign_intervals (own_services tenant (db w)) w' = foreign_intervals (own_services tenant (db w)) w \<and>
    tx w' = None \<and> world_ok w' \<and> intervals_ok w' \<and> \<not> bypass_rls w'"
proof -
  let ?S = "own_services tenant (db w)"
  let ?I = "poll_isolated tenant ?S (foreign_data tenant (db w)) (foreign_integrations tenant (db w)) (foreign_intervals ?S w)"
  obtain r1 w1 where 1: "BeginTenantTx None (Some tenant) w = (r1, w1)" by fastforce
  show ?thesis
  proof (cases r1)
    case (Inl e)
    with 1 BeginTenantTx_err [of None "Some tenant" w e w1] have "same_data w w1" "tx w1 = tx w" by auto
    with assms Inl 1 same_dataD [of w w1] show ?thesis
      by (auto simp: poll_tenant_def foreign_intervals_def intro: intervals_ok_more [of w] ok.I_same)
  next
    case (Inr u)
    then have b: "BeginTenantTx None (Some tenant) w = (Inr (), w1)" using 1 by simp
    have I1: "?I w1" by (rule poll_isolated_begin) (use assms b in auto)
    obtain r2 w2 where 2: "resolveDatadogClient C w1 = (r2, w2)" by fastforce
    have I2: "?I w2" using polled.keeps_resolve [of tenant ?S _ _ _ w1 C] I1 2 by (simp add: keeps_def)
    have s2: "services (db w2) = services (db w)"
      using resolve_same_data [of w1 C] 2 same_dataD(1) [of w1 w2] BeginTenantTx_ok(1) [OF b] by simp
    show ?thesis
    proof (cases r2)
      case (Inl e)
      with assms(6) b 2 have "w' = tx_rollback w2" by (simp add: poll_tenant_def)
      with poll_isolated_end [OF I2, of w'] assms(3) I2 show ?thesis by (auto simp: poll_isolated_def isolated_def)
    next
      case (Inr p)
      obtain a3 w3 where 3: "pollOnce C tenant p a w2 = (a3, w3)" by fastforce
      have vis: "visible w2 k \<longleftrightarrow> k = tenant" for k
        using isolated_visible [of tenant "foreign_data tenant (db w)" w2 k] I2 by (simp add: poll_isolated_def)
      have "list_all (polled.allowed ?S C p) svcs" if "ServiceList w2 = (Inr svcs, v)" for svcs v
        using ServiceList_ids [OF that]
        by (auto simp: list_all_iff polled.allowed_def own_services_def s2 vis dest!: bspec)
      then have "keeps ?I w2 (snd (pollOnce C tenant p a w2))" by (rule polled.keeps_pollOnce [OF assms(5)])
      with I2 3 have I3: "?I w3" by (simp add: keeps_def)
      from assms(6) b 2 Inr 3 have "w' = snd (tx_commit w3)" by (simp add: poll_tenant_def)
      with poll_isolated_end [OF I3, of w'] I3 show ?thesis by (auto simp: poll_isolated_def isolated_def)
    qed
  qed
qed

text \<open>C4. Polling a tenant touches nothing of another tenant. From tables in order, with row-level
  security in force, and whatever Datadog answers, the clock shows and statement fails, the cycle of
  a tenant leaves the services, incidents, timelines and service links of the other tenants, their
  integrations and the status intervals of their services (a table without row-level security) as
  they were; it ends outside any transaction, with the tables in order.\<close>

theorem poll_leaves_other_tenants:
  assumes "world_ok w" and "intervals_ok w" and "\<not> bypass_rls w" and "tx w = None" and "quiet_notifier (cy_env C)"
    and "poll_tenant C tenant a w = (a', w')"
  shows "foreign_data tenant (db w') = foreign_data tenant (db w) \<and>
    foreign_integrations tenant (db w') = foreign_integrations tenant (db w) \<and>
    foreign_intervals (own_services tenant (db w)) w' = foreign_intervals (own_services tenant (db w)) w \<and>
    tx w' = None \<and> world_ok w' \<and> intervals_ok w' \<and> \<not> bypass_rls w'"
  by (rule poll_tenant_isolated [OF assms])

definition breached_client :: datadog_client where
  "breached_client = \<lparr>fetch_status = (\<lambda>_ _ _ _. Inr (no_status\<lparr>sl_State := ''breached''\<rparr>)), fetch_windows = (\<lambda>_ _ _ _ _. Inr no_windows),
     search_issues = (\<lambda>_ _ _ _. Inr None)\<rparr>"

definition sample_keys :: "unit auth_env" where
  "sample_keys = \<lparr>jwt_sign = (\<lambda>_ _. None), jwt_parse = (\<lambda>_ _ _. None), bcrypt_generate = (\<lambda>_. None), bcrypt_matches = (\<lambda>_ _. False),
     totp_validate = (\<lambda>_ _ _. False), pbkdf2 = (\<lambda>k. k), gcm_seal = (\<lambda>_ _ p. p), gcm_open = (\<lambda>_ _ c. Some c), sha256 = (\<lambda>s. s),
     session_secret = [], master_key = []\<rparr>"

definition sample_cycle :: "unit cycle" where
  "sample_cycle = \<lparr>cy_env = quiet_env, cy_clock = (\<lambda>_. 100 * second), cy_dbnow = (\<lambda>_. 100 * second), cy_canceled = (\<lambda>_ _ _. False),
     cy_error_text = (\<lambda>_. ''failed''), cy_auth = sample_keys, cy_client = (\<lambda>_ _. breached_client)\<rparr>"

definition two_polled :: world where
  "two_polled = fresh_world\<lparr>db := no_rows\<lparr> tenants := [sample_tenant],
     services := [new_service_row 0 3 5 (sample_service ''api''), new_service_row 1 7 5 (sample_service ''web'')],
     integrations := [\<lparr>ig_id = 2, ig_tenant_id = 3, ig_provider = ''datadog'', ig_encrypted_api_key = ''0123456789abkey'',
       ig_encrypted_app_key = ''0123456789abapp'', ig_status = ''active'', ig_last_checked_at = None, ig_last_error = None\<rparr>]\<rparr>,
     next_id := 3\<rparr>"

definition polled_three :: world where
  "polled_three = snd (poll_tenant sample_cycle 3 new_analyzer two_polled)"

lemma polled_three_eval:
  "map sv_current_status (services (db polled_three)) = [''outage'', ''not_configured'']"
  "length (incidents (db polled_three)) = 1" "map si_ServiceID (intervals polled_three) = [0]"
  "map ig_status (integrations (db polled_three)) = [''active'']"
  by code_simp+

lemma two_polled_ok: "world_ok two_polled" "intervals_ok two_polled" "\<not> bypass_rls two_polled" "tx two_polled = None"
  by (simp_all add: two_polled_def fresh_world_def no_rows_def world_ok_def tables_ok_def intervals_ok_def
      new_service_row_def sample_service_def service_checks_def nullif_empty_def)

lemma sample_cycle_quiet: "quiet_notifier (cy_env sample_cycle)"
  by (simp add: sample_cycle_def quiet_env_def quiet_notifier_def)

theorem poll_leaves_other_tenants_witness:
  "foreign_data 3 (db polled_three) = foreign_data 3 (db two_polled) \<and> tx polled_three = None \<and>
   map sv_current_status (services (db polled_three)) = [''outage'', ''not_configured''] \<and>
   length (incidents (db polled_three)) = 1 \<and> map si_ServiceID (intervals polled_three) = [0]"
  using poll_leaves_other_tenants [OF two_polled_ok sample_cycle_quiet, of 3 new_analyzer
      "fst (poll_tenant sample_cycle 3 new_analyzer two_polled)" polled_three] polled_three_eval
  by (simp add: polled_three_def)

subsection \<open>The statuses a cycle writes\<close>

definition known_statuses :: "string set" where
  "known_statuses = {''operational'', ''degraded'', ''outage'', ''not_configured''}"

definition statuses_ok :: "world \<Rightarrow> bool" where
  "statuses_ok w \<longleftrightarrow> list_all (\<lambda>r. sv_current_status r \<in> known_statuses) (services (db w)) \<and>
     (\<forall>t. tx w = Some t \<longrightarrow> list_all (\<lambda>r. sv_current_status r \<in> known_statuses) (services (tx_begin t))) \<and>
     list_all (\<lambda>i. si_Status i \<in> known_statuses) (intervals w)"

lemma observed_status_known:
  assumes "observe_service canceled p now svc = Inr ob"
  shows "ob_current ob \<in> known_statuses"
proof -
  have "classifyBurn i \<in> known_statuses" for i using classifyBurn_range [of i] by (simp add: known_statuses_def)
  moreover have "classifyByState s \<in> known_statuses" for s
    by (simp add: classifyByState_def normalizeStatus_def known_statuses_def)
  ultimately show ?thesis
    using assms by (auto simp: observe_service_def burn_observation_def Let_def split: sum.splits if_splits)
qed

text \<open>An invariant of services and status intervals alone is kept by the incident writes.\<close>

locale service_invariant = db_invariant +
  assumes I_frame: "I w \<Longrightarrow> services (db w') = services (db w) \<Longrightarrow> intervals w' = intervals w \<Longrightarrow> tx w' = tx w \<Longrightarrow> I w'"
    and I_annotate: "I w \<Longrightarrow> I (upd_services s P (\<lambda>r. r\<lparr>sv_status_analysis := an\<rparr>) w)"
begin

lemma stays_frame:
  "services (db w') = services (db w) \<Longrightarrow> intervals w' = intervals w \<Longrightarrow> tx w' = tx w \<Longrightarrow> stays I w (r, w')"
  by (auto simp: stays_def session_of_def intro: I_frame)

lemma stays_links: "stays I w (link_services iid sids w)"
  by (induction sids arbitrary: w) (auto intro!: stays_db_bind stays_pool_try stays_frame)

lemma stays_insert: "stays I w (incident_insert t i sids w)"
  unfolding incident_insert_def
  by (auto simp: Let_def intro!: stays_db_bind stays_pool_try stays_frame stays_links split: option.splits)

lemma stays_create: "stays I w (IncidentCreate t i sids w)"
  unfolding IncidentCreate_def by (intro stays_run_in_tx stays_insert)

lemma stays_upd:
  assumes "\<And>v s. I v \<Longrightarrow> I (upd_services s P f v)"
  shows "stays I w (pool_try w (\<lambda>w. (Inr (), upd_services (pool_session w) P f w)))"
  by (rule stays_pool_try) (simp add: stays_def assms, simp add: upd_services_def session_of_def)

lemma stays_annotate: "stays I w (UpdateStatusAnalysis sid an w)"
  unfolding UpdateStatusAnalysis_def by (intro stays_upd I_annotate)

end

sublocale service_invariant \<subseteq> transition_invariant
  by unfold_locales (rule stays_create stays_annotate)+

lemma list_all_status_update:
  "(\<And>r. sv_current_status (f r) = sv_current_status r \<or> Q (sv_current_status (f r))) \<Longrightarrow>
   list_all (\<lambda>r. Q (sv_current_status r)) rs \<Longrightarrow> list_all (\<lambda>r. Q (sv_current_status r)) (sql_update P f rs)"
  by (rule list_all_sql_update) (auto, metis)

interpretation domain: service_invariant statuses_ok
proof unfold_locales
  fix w w' :: world assume s: "statuses_ok w" and same: "same_data w w'"
  have "map_option tx_begin (tx w') = map_option tx_begin (tx w)" using same by (simp add: same_data_def)
  then have "(\<forall>t. tx w' = Some t \<longrightarrow> list_all (\<lambda>r. sv_current_status r \<in> known_statuses) (services (tx_begin t))) =
      (\<forall>t. tx w = Some t \<longrightarrow> list_all (\<lambda>r. sv_current_status r \<in> known_statuses) (services (tx_begin t)))"
    by (cases "tx w"; cases "tx w'") auto
  with s same_dataD [OF same] show "statuses_ok w'" by (simp add: statuses_ok_def)
qed (auto simp: statuses_ok_def tx_rollback_def upd_services_def intro: list_all_status_update split: option.splits)

lemma statuses_upd_services:
  assumes "\<And>r. sv_current_status (f r) \<in> known_statuses" and "statuses_ok v"
  shows "statuses_ok (upd_services s P f v)"
  using assms list_all_status_update [of f "\<lambda>st. st \<in> known_statuses"] by (simp add: statuses_ok_def upd_services_def)

lemma domain_status: "st \<in> known_statuses \<Longrightarrow> stays statuses_ok w (UpdateStatus t sid st w)"
    "st \<in> known_statuses \<Longrightarrow> stays statuses_ok w (UpdateStatusAndReading t sid st rd w)"
  unfolding UpdateStatus_def UpdateStatusAndReading_def
  by (intro domain.stays_upd statuses_upd_services; simp add: set_status_def)+

lemma domain_interval:
  assumes "st \<in> known_statuses"
  shows "stays statuses_ok w (OpenOrExtend sid st ebr seen w)"
proof -
  obtain r w' where o: "OpenOrExtend sid st ebr seen w = (r, w')" by fastforce
  note f = OpenOrExtend_frame [OF o]
  have "list_all (\<lambda>i. si_Status i \<in> known_statuses) (intervals w')"
    if l: "list_all (\<lambda>i. si_Status i \<in> known_statuses) (intervals w)"
    using o unfolding OpenOrExtend_def
    by (cases rule: OpenOrExtendRacing_cases)
      (use l assms in \<open>auto simp: no_effectD inserted_into_def commit_rival_def extend_interval_def close_interval_def
        intro: list_all_sql_update\<close>)
  with f show ?thesis by (auto simp: stays_def o statuses_ok_def session_of_def)
qed

interpretation domain_poll: poll_invariant statuses_ok "\<lambda>_ st. st \<in> known_statuses"
proof unfold_locales
  fix f :: "integration_row \<Rightarrow> integration_row" and w assume "\<And>r. ig_tenant_id (f r) = ig_tenant_id r"
  show "stays statuses_ok w (mark_datadog f w)"
    unfolding mark_datadog_def by (intro domain.stays_pool_try domain.stays_frame) (simp_all add: set_db_def)
qed (auto intro: domain_status domain_interval)

lemma statuses_ok_end:
  assumes "statuses_ok w"
  shows "statuses_ok (tx_rollback w)" "statuses_ok (snd (tx_commit w))"
proof -
  from assms show "statuses_ok (tx_rollback w)" by (auto simp: statuses_ok_def tx_rollback_def split: option.splits)
  obtain r w' where c: "tx_commit w = (r, w')" by fastforce
  show "statuses_ok (snd (tx_commit w))"
  proof (cases "tx w")
    case (Some t)
    with c assms tx_commit_ok [of w w'] tx_commit_err [of w _ w' t] show ?thesis by (cases r) (auto simp: statuses_ok_def)
  qed (use assms in \<open>simp add: tx_commit_def\<close>)
qed

lemma poll_tenant_statuses:
  assumes "statuses_ok w" and "tx w = None" and "quiet_notifier (cy_env C)"
  shows "statuses_ok (snd (poll_tenant C tenant a w))"
proof -
  obtain r1 w1 where 1: "BeginTenantTx None (Some tenant) w = (r1, w1)" by fastforce
  have I1: "statuses_ok w1"
    using assms(1,2) 1 BeginTenantTx_ok [of None "Some tenant" w w1] BeginTenantTx_err [of None "Some tenant" w _ w1] same_dataD [of w w1]
    by (cases r1) (auto simp: statuses_ok_def)
  obtain r2 w2 where 2: "resolveDatadogClient C w1 = (r2, w2)" by fastforce
  have I2: "statuses_ok w2" using domain_poll.keeps_resolve [of w1 C] I1 2 by (simp add: keeps_def)
  have "list_all (domain_poll.allowed C p) svcs" for p svcs
    by (auto simp: list_all_iff domain_poll.allowed_def intro: observed_status_known)
  then have I3: "statuses_ok (snd (pollOnce C tenant p a w2))" for p
    using domain_poll.keeps_pollOnce [OF assms(3), of w2 p tenant a] I2 by (simp add: keeps_def)
  show ?thesis
    using I1 statuses_ok_end(1) [OF I2] statuses_ok_end(2) [OF I3]
    by (auto simp: poll_tenant_def 1 2 split: sum.splits prod.splits) (metis snd_conv)
qed

definition polling_ok :: "world \<Rightarrow> bool" where
  "polling_ok w \<longleftrightarrow> world_ok w \<and> intervals_ok w \<and> statuses_ok w \<and> tx w = None \<and> \<not> bypass_rls w"

lemma poll_tenants_ok:
  assumes "polling_ok w" and "quiet_notifier (cy_env C)"
  shows "polling_ok (snd (poll_tenants C ts a w))"
  using assms(1)
proof (induction ts arbitrary: a w)
  case (Cons t ts)
  obtain a1 w1 where 1: "poll_tenant C t a w = (a1, w1)" by fastforce
  have "polling_ok w1"
    using Cons.prems poll_tenant_isolated [of w C t a a1 w1] poll_tenant_statuses [of w C t a] 1 assms(2)
    by (simp add: polling_ok_def)
  with Cons.IH [of w1 a1] 1 show ?case by simp
qed simp

lemma pollCycle_ok:
  assumes "polling_ok w" and "quiet_notifier (cy_env C)"
  shows "polling_ok (snd (pollCycle C a w))"
proof -
  obtain r w1 where 1: "SystemTenantList w = (r, w1)" by fastforce
  have "same_data w w1 \<and> tx w1 = tx w"
    using 1 unfolding SystemTenantList_def
    by (elim own_try_no_effect) (auto simp: no_effect_def intro: same_data_trans)
  then have "polling_ok w1"
    using assms(1) domain.I_same [of w w1] ok.I_same [of w w1] intervals_ok_same_data [of w w1] same_dataD(3) [of w w1]
    by (simp add: polling_ok_def)
  with poll_tenants_ok [OF _ assms(2)] show ?thesis by (auto simp: pollCycle_def 1 split: sum.splits)
qed

text \<open>C26. The status columns stay in their domain. Over any number of poll cycles, each with its own
  clock, answers and credentials, and with any statement of any of them failing, the status of every
  service and of every status interval is one of operational, degraded, outage and not configured,
  every service has at most one open interval, the tables stay in order and no transaction is left open.\<close>

theorem poll_cycles_keep_status_domain:
  assumes "polling_ok w" and "list_all (\<lambda>C. quiet_notifier (cy_env C)) Cs"
  shows "polling_ok (snd (fold (\<lambda>C (a, w). pollCycle C a w) Cs (a, w)))"
  using assms
proof (induction Cs arbitrary: a w)
  case (Cons C Cs)
  obtain a1 w1 where 1: "pollCycle C a w = (a1, w1)" by fastforce
  have "polling_ok w1" using pollCycle_ok [OF Cons.prems(1), of C a] Cons.prems(2) 1 by simp
  with Cons.IH [of w1 a1] Cons.prems(2) 1 show ?case by simp
qed simp

theorem poll_cycles_keep_status_domain_witness:
  "statuses_ok (snd (fold (\<lambda>C (a, w). pollCycle C a w) [sample_cycle, sample_cycle] (new_analyzer, two_polled))) \<and>
   map sv_current_status (services (db (snd (pollCycle sample_cycle new_analyzer two_polled)))) = [''outage'', ''not_configured'']"
proof -
  have "polling_ok two_polled"
    using two_polled_ok
    by (simp add: polling_ok_def statuses_ok_def known_statuses_def) (simp add: two_polled_def fresh_world_def new_service_row_def)
  moreover have "map sv_current_status (services (db (snd (pollCycle sample_cycle new_analyzer two_polled)))) = [''outage'', ''not_configured'']"
    by code_simp
  ultimately show ?thesis
    using poll_cycles_keep_status_domain [of two_polled "[sample_cycle, sample_cycle]" new_analyzer] sample_cycle_quiet
    by (simp add: polling_ok_def)
qed

subsection \<open>What polling one service records\<close>

definition status_view :: "service_row \<Rightarrow> uuid \<times> uuid \<times> string \<times> time option \<times> time option" where
  "status_view r = (sv_id r, sv_tenant_id r, sv_current_status r, sv_last_reading_at r, sv_last_error_at r)"

definition views_are :: "(uuid \<times> uuid \<times> string \<times> time option \<times> time option) list \<Rightarrow> StatusInterval list \<Rightarrow> world \<Rightarrow> bool" where
  "views_are vs ivs w \<longleftrightarrow> map status_view (services (db w)) = vs \<and> intervals w = ivs \<and>
     (\<forall>t. tx w = Some t \<and> tx_session t = no_session \<longrightarrow> map status_view (services (tx_begin t)) = vs)"

interpretation views: service_invariant "views_are vs ivs" for vs ivs
proof unfold_locales
  fix w w' :: world assume v: "views_are vs ivs w" and same: "same_data w w'"
  have "map_option tx_begin (tx w') = map_option tx_begin (tx w)" "map_option tx_session (tx w') = map_option tx_session (tx w)"
    using same by (simp_all add: same_data_def)
  then have "(\<forall>t. tx w' = Some t \<and> tx_session t = no_session \<longrightarrow> map status_view (services (tx_begin t)) = vs) =
      (\<forall>t. tx w = Some t \<and> tx_session t = no_session \<longrightarrow> map status_view (services (tx_begin t)) = vs)"
    by (cases "tx w"; cases "tx w'") auto
  with v same_dataD [OF same] show "views_are vs ivs w'" by (simp add: views_are_def)
next
  fix w assume "views_are vs ivs w" "session_of w = Some no_session"
  then show "views_are vs ivs (tx_rollback w)" by (auto simp: views_are_def tx_rollback_def session_of_def)
next
  fix w and s :: session and P an assume "views_are vs ivs w"
  then show "views_are vs ivs (upd_services s P (\<lambda>r. r\<lparr>sv_status_analysis := an\<rparr>) w)"
    by (simp add: views_are_def upd_services_def map_sql_update_inv status_view_def)
qed (auto simp: views_are_def)

lemma HandleTransition_views:
  assumes "quiet_notifier E" and "in_tenant tid w"
  shows "map status_view (services (db (snd (HandleTransition E now dbnow tenant svc old new st rd interval cause a w)))) =
      map status_view (services (db w))"
    "intervals (snd (HandleTransition E now dbnow tenant svc old new st rd interval cause a w)) = intervals w"
proof -
  let ?I = "views_are (map status_view (services (db w))) (intervals w)"
  have "app_tenant_id (pool_session w) = Some tid" "tx w \<noteq> None" using assms(2) by (auto simp: in_tenant_def)
  then have "?I w" by (auto simp: views_are_def pool_session_def no_session_def)
  moreover have "keeps ?I w (snd (HandleTransition E now dbnow tenant svc old new st rd interval cause a w))"
    by (rule views.keeps_HandleTransition [OF assms(1)])
  ultimately have "?I (snd (HandleTransition E now dbnow tenant svc old new st rd interval cause a w))" by (simp add: keeps_def)
  then show "map status_view (services (db (snd (HandleTransition E now dbnow tenant svc old new st rd interval cause a w)))) =
      map status_view (services (db w))"
    "intervals (snd (HandleTransition E now dbnow tenant svc old new st rd interval cause a w)) = intervals w"
    by (simp_all add: views_are_def)
qed

lemma no_open_after_close:
  assumes "intervals_ok w" and "open_interval_of sid w = Some i"
  shows "\<forall>j\<in>set (close_interval (si_ID i) seen (intervals w)). \<not> (si_ServiceID j = sid \<and> is_open j)"
proof -
  have "j = i" if "j \<in> set (intervals w)" "is_open j" "si_ServiceID j = sid" for j
    using assms(1) that open_interval_of_Some [OF assms(2)] by (auto simp: intervals_ok_def distinct_map inj_on_def)
  then have "\<forall>j\<in>set (filter is_open (close_interval (si_ID i) seen (intervals w))). si_ServiceID j \<noteq> sid"
    by (auto simp: close_interval_open)
  then show ?thesis by auto
qed

lemma OpenOrExtend_healthy:
  assumes "in_tenant tid w" and "intervals_ok w"
  obtains k w' i where "OpenOrExtend sid st ebr seen w = (Inr k, w')" and "in_tenant tid w'" and "db w' = db w"
    and "open_interval_of sid w' = Some i" and "si_Status i = st" and "si_LastSeenAt i = seen" and "si_ErrorBudgetRemaining i = ebr"
proof -
  have h: "healthy w" using assms(1) by (simp add: in_tenant_def)
  obtain r w' where o: "OpenOrExtend sid st ebr seen w = (r, w')" by fastforce
  show ?thesis
  proof (cases "open_interval_of sid w")
    case None
    let ?row = "\<lparr>si_ID = next_id w, si_ServiceID = sid, si_Status = st, si_ErrorBudgetRemaining = ebr, si_StartsAt = seen,
      si_LastSeenAt = seen, si_EndsAt = None, si_Analysis = None\<rparr>"
    have "\<not> (\<exists>i\<in>set (intervals w). si_ServiceID i = sid \<and> is_open i)"
      using None by (auto simp: open_interval_of_def find_row_None)
    then have "OpenOrExtend sid st ebr seen w = (Inr (next_id w), w\<lparr>intervals := intervals w @ [?row], next_id := Suc (next_id w)\<rparr>)"
      using None h by (simp add: OpenOrExtend_def OpenOrExtendRacing_def open_interval_of_def commit_rival_def insert_and_commit_def
          insertOpenInterval_def Let_def)
    moreover have "open_interval_of sid (w\<lparr>intervals := intervals w @ [?row], next_id := Suc (next_id w)\<rparr>) = Some ?row"
      using None by (simp add: open_interval_of_def find_row_append is_open_def)
    ultimately show ?thesis
      using that [of "next_id w" "w\<lparr>intervals := intervals w @ [?row], next_id := Suc (next_id w)\<rparr>" ?row] assms(1)
      by (simp add: in_tenant_def pool_session_def)
  next
    case (Some i)
    note i = open_interval_of_Some [OF Some]
    show ?thesis
    proof (cases "si_Status i = st")
      case True
      let ?w' = "w\<lparr>intervals := extend_interval (si_ID i) ebr seen (intervals w)\<rparr>"
      have "OpenOrExtend sid st ebr seen w = (Inr (si_ID i), ?w')"
        using Some True h by (simp add: OpenOrExtend_def OpenOrExtendRacing_def open_interval_of_def)
      moreover have "open_interval_of sid ?w' = Some (i\<lparr>si_ErrorBudgetRemaining := ebr, si_LastSeenAt := seen\<rparr>)"
        using Some by (simp add: open_interval_of_def extend_interval_def find_row_sql_update is_open_def)
      ultimately show ?thesis
        using that True assms(1) by (simp add: in_tenant_def pool_session_def)
    next
      case False
      let ?row = "\<lparr>si_ID = next_id w, si_ServiceID = sid, si_Status = st, si_ErrorBudgetRemaining = ebr, si_StartsAt = seen,
        si_LastSeenAt = seen, si_EndsAt = None, si_Analysis = None\<rparr>"
      let ?ivs = "close_interval (si_ID i) seen (intervals w)"
      let ?w' = "w\<lparr>intervals := ?ivs @ [?row], next_id := Suc (next_id w)\<rparr>"
      have none: "\<not> (\<exists>j\<in>set ?ivs. si_ServiceID j = sid \<and> is_open j)"
        using no_open_after_close [OF assms(2) Some, of seen] by blast
      then have "OpenOrExtend sid st ebr seen w = (Inr (next_id w), ?w')"
        using Some False h by (simp add: OpenOrExtend_def OpenOrExtendRacing_def open_interval_of_def insert_and_commit_def insertOpenInterval_def)
      moreover have "open_interval_of sid ?w' = Some ?row"
      proof -
        have "find_row (\<lambda>j. si_ServiceID j = sid \<and> is_open j) ?ivs = None" using none by (auto simp: find_row_None)
        then show ?thesis by (simp add: open_interval_of_def find_row_append is_open_def)
      qed
      ultimately show ?thesis
        using that [of "next_id w" ?w' ?row] assms(1) by (simp add: in_tenant_def pool_session_def)
    qed
  qed
qed

text \<open>What a row shows after the observation \<open>ob\<close> of a service of the tenant.\<close>

definition observed_view :: "uuid \<Rightarrow> Service \<Rightarrow> observation \<Rightarrow> service_row \<Rightarrow> uuid \<times> uuid \<times> string \<times> time option \<times> time option" where
  "observed_view tid svc ob r =
     (if sv_id r = s_ID svc \<and> sv_tenant_id r = tid
      then (sv_id r, tid, ob_current ob,
        (case ob_reading ob of None \<Rightarrow> sv_last_reading_at r | Some rd \<Rightarrow> Some (rd_ReadAt rd)),
        (case ob_reading ob of None \<Rightarrow> sv_last_error_at r | Some rd \<Rightarrow> rd_LastErrorAt rd))
      else status_view r)"

lemma write_status_in_tenant:
  assumes "in_tenant tid w"
  obtains w' where "write_status dbnow svc ob w = (Inr (), w')" and "in_tenant tid w'" and "intervals w' = intervals w"
    and "map status_view (services (db w')) =
      map (observed_view tid svc ob) (services (db w))"
proof -
  have upd: "map status_view (sql_update P f rs) = map (\<lambda>r. if P r then status_view (f r) else status_view r) rs"
    for P and f :: "service_row \<Rightarrow> service_row" and rs by (induction rs) auto
  have vis: "rls_visible w (pool_session w) k \<longleftrightarrow> k = tid" for k
    using in_tenant_visible [OF assms, of k] by (simp add: visible_def)
  define f where "f = (\<lambda>r. case ob_reading ob of None \<Rightarrow> set_status dbnow (ob_current ob) r
    | Some rd \<Rightarrow> (set_status dbnow (ob_current ob) r)\<lparr>sv_last_burn_rate_short := Some (rd_BurnShort rd),
          sv_last_burn_rate_long := Some (rd_BurnLong rd), sv_last_window_errors := Some (rd_ShortErrors rd),
          sv_last_window_requests := Some (rd_ShortRequests rd), sv_last_reading_at := Some (rd_ReadAt rd),
          sv_last_error_at := rd_LastErrorAt rd\<rparr>)"
  have "write_status dbnow svc ob w = (Inr (), upd_services (pool_session w) (\<lambda>r. sv_id r = s_ID svc) f w)"
    using assms by (cases "ob_reading ob")
      (simp_all add: write_status_def UpdateStatus_def UpdateStatusAndReading_def in_tenant_pool_try f_def)
  moreover have "in_tenant tid (upd_services (pool_session w) P f w)" for P
    using assms by (simp add: in_tenant_def upd_services_def pool_session_def)
  moreover have "intervals (upd_services (pool_session w) P f w) = intervals w" for P by (simp add: upd_services_def)
  moreover have "map status_view (services (db (upd_services (pool_session w) (\<lambda>r. sv_id r = s_ID svc) f w))) =
      map (observed_view tid svc ob) (services (db w))"
    by (simp add: upd_services_def upd vis) (auto simp: status_view_def observed_view_def f_def set_status_def split: option.splits)
  ultimately show ?thesis using that by blast
qed

lemma pollService_in_tenant:
  assumes "in_tenant tid w" and "intervals_ok w" and "quiet_notifier (cy_env C)"
    and "observe_service (cy_canceled C (s_ID svc)) p (cy_clock C (s_ID svc)) svc = Inr ob"
  obtains a' w' i where "pollService C tid p svc a w = (Inr (), a', w')"
    and "open_interval_of (s_ID svc) w' = Some i" and "si_Status i = ob_current ob"
    and "si_LastSeenAt i = cy_clock C (s_ID svc)" and "si_ErrorBudgetRemaining i = sl_ErrorBudgetRemaining (ob_status ob)"
    and "map status_view (services (db w')) =
      map (observed_view tid svc ob) (services (db w))"
    and "ob_current ob = s_CurrentStatus svc \<Longrightarrow> a' = a"
proof -
  let ?now = "cy_clock C (s_ID svc)" and ?dbnow = "cy_dbnow C tid"
  obtain k w1 i where 1: "OpenOrExtend (s_ID svc) (ob_current ob) (sl_ErrorBudgetRemaining (ob_status ob)) ?now w = (Inr k, w1)"
      "in_tenant tid w1" "db w1 = db w"
    and i: "open_interval_of (s_ID svc) w1 = Some i" "si_Status i = ob_current ob" "si_LastSeenAt i = ?now"
      "si_ErrorBudgetRemaining i = sl_ErrorBudgetRemaining (ob_status ob)"
    by (rule OpenOrExtend_healthy [OF assms(1,2)])
  obtain w2 where 2: "write_status ?dbnow svc ob w1 = (Inr (), w2)" "in_tenant tid w2" "intervals w2 = intervals w1"
    and view: "map status_view (services (db w2)) =
      map (observed_view tid svc ob) (services (db w1))"
    by (rule write_status_in_tenant [OF 1(2)])
  let ?h = "HandleTransition (cy_env C) ?now ?dbnow (Some tid) svc (s_CurrentStatus svc) (ob_current ob) (ob_status ob)
      (ob_reading ob) k (Some (search_issues p)) a w2"
  define out where "out = (if ob_current ob \<noteq> s_CurrentStatus svc then ?h else (a, w2))"
  have run: "pollService C tid p svc a w = (Inr (), fst out, snd out)"
    using assms(4) 1(1) 2(1) by (simp add: pollService_def out_def)
  have kept: "map status_view (services (db (snd out))) = map status_view (services (db w2))" "intervals (snd out) = intervals w2"
    using HandleTransition_views [OF assms(3) 2(2)] by (simp_all add: out_def)
  have "open_interval_of (s_ID svc) (snd out) = Some i" using i(1) kept(2) 2(3) by (simp add: open_interval_of_def)
  with run i kept view 1(3) show ?thesis by (intro that [of "fst out" "snd out" i]) (simp_all add: out_def)
qed


lemma sample_observation:
  "observe_service (cy_canceled sample_cycle 0) breached_client (cy_clock sample_cycle 0) (scan_list_service (new_service_row 0 3 5 (sample_service ''api''))) =
     Inr \<lparr>ob_current = ''outage'', ob_reading = None, ob_status = no_status\<lparr>sl_State := ''breached''\<rparr>\<rparr>"
  by code_simp


subsection \<open>A tenant that cannot be reached\<close>

definition unreachable :: "'c cycle \<Rightarrow> bool" where
  "unreachable C \<longleftrightarrow> (\<forall>k1 k2 svc. \<exists>e. observe_service (cy_canceled C (s_ID svc)) (cy_client C k1 k2) (cy_clock C (s_ID svc)) svc = Inl e)"

lemma poll_services_unreachable:
  assumes "\<And>svc. \<exists>e. observe_service (cy_canceled C (s_ID svc)) p (cy_clock C (s_ID svc)) svc = Inl e"
  shows "\<exists>err'. poll_services C tenant p svcs any err a w = ((any, err'), a, w)"
proof (induction svcs arbitrary: err)
  case (Cons svc svcs)
  obtain e where "observe_service (cy_canceled C (s_ID svc)) p (cy_clock C (s_ID svc)) svc = Inl e" using assms by blast
  then have "pollService C tenant p svc a w = (Inl (FetchFailed e), a, w)" by (simp add: pollService_def)
  with Cons.IH show ?case by simp
qed simp

definition marked_invalid :: "'c cycle \<Rightarrow> uuid \<Rightarrow> tables \<Rightarrow> tables \<Rightarrow> bool" where
  "marked_invalid C tenant d d' \<longleftrightarrow> (\<exists>P e. d' = d\<lparr>integrations := sql_update P
     (\<lambda>r. r\<lparr>ig_status := ''invalid'', ig_last_error := Some (cy_error_text C e), ig_last_checked_at := Some (cy_dbnow C tenant)\<rparr>)
     (integrations d)\<rparr>)"

lemma marked_invalid_refl [intro!, simp]: "marked_invalid C tenant d d"
proof -
  have "sql_update (\<lambda>_. False) f rs = rs" for f and rs :: "integration_row list" by (induction rs) auto
  then show ?thesis unfolding marked_invalid_def by (intro exI [of _ "\<lambda>_. False"] exI) simp
qed

lemma pollOnce_unreachable:
  assumes "\<And>svc. \<exists>e. observe_service (cy_canceled C (s_ID svc)) p (cy_clock C (s_ID svc)) svc = Inl e"
    and "pollOnce C tenant p a w = (a', w')"
  shows "a' = a \<and> marked_invalid C tenant (db w) (db w') \<and> intervals w' = intervals w \<and>
    map_option tx_begin (tx w') = map_option tx_begin (tx w)"
proof -
  obtain r w1 where 1: "ServiceList w = (r, w1)" by fastforce
  have s1: "same_data w w1"
    using 1 unfolding ServiceList_def by (cases rule: pool_try_cases) auto
  note d1 = same_dataD [OF s1] and t1 = s1 [unfolded same_data_def]
  show ?thesis
  proof (cases r)
    case (Inr svcs)
    obtain err where 2: "poll_services C tenant p svcs False None a w1 = ((False, err), a, w1)"
      using poll_services_unreachable [OF assms(1), of tenant svcs False None a w1] by blast
    show ?thesis
    proof (cases err)
      case (Some e)
      obtain r3 w3 where 3: "MarkDatadogInvalid (cy_dbnow C tenant) (cy_error_text C e) w1 = (r3, w3)" by fastforce
      then have "marked_invalid C tenant (db w1) (db w3) \<and> intervals w3 = intervals w1 \<and>
          map_option tx_begin (tx w3) = map_option tx_begin (tx w1)"
        unfolding MarkDatadogInvalid_def mark_datadog_def
      proof (cases rule: pool_try_cases)
        case failed
        with same_dataD(1,2) [OF failed(2)] show ?thesis by (simp add: same_data_def)
      next
        case (ran v)
        let ?P = "\<lambda>r. visible v (ig_tenant_id r) \<and> ig_provider r = ''datadog''"
        let ?f = "\<lambda>r. r\<lparr>ig_status := ''invalid'', ig_last_error := Some (cy_error_text C e), ig_last_checked_at := Some (cy_dbnow C tenant)\<rparr>"
        have w3: "db w3 = (db v)\<lparr>integrations := sql_update ?P ?f (integrations (db v))\<rparr>" "intervals w3 = intervals v" "tx w3 = tx v"
          using ran(2) by (auto simp: set_db_def)
        from w3(1) have "marked_invalid C tenant (db v) (db w3)" unfolding marked_invalid_def by blast
        with w3(2,3) same_dataD(1,2) [OF ran(1)] ran(1) show ?thesis by (simp add: same_data_def)
      qed
      with assms(2) 1 2 3 Inr Some d1 t1 show ?thesis by (simp add: pollOnce_def)
    qed (use assms(2) 1 2 Inr d1 t1 in \<open>simp add: pollOnce_def\<close>)
  qed (use assms(2) 1 d1 t1 in \<open>simp add: pollOnce_def\<close>)
qed

text \<open>A provider that cannot be reached changes no status. When every fetch of a tenant's cycle
  fails, for whatever reason and whichever statements fail too, the cycle starts no analysis and
  leaves every service, incident and status interval as it was; at most it marks the tenant's
  integration invalid with the error.\<close>

theorem unreachable_provider_changes_no_status:
  assumes "unreachable C" and "tx w = None" and "poll_tenant C tenant a w = (a', w')"
  shows "a' = a \<and> marked_invalid C tenant (db w) (db w') \<and> intervals w' = intervals w \<and> tx w' = None"
proof -
  obtain r1 w1 where 1: "BeginTenantTx None (Some tenant) w = (r1, w1)" by fastforce
  show ?thesis
  proof (cases r1)
    case (Inl e)
    with 1 BeginTenantTx_err [of None "Some tenant" w e w1] same_dataD [of w w1] assms(2,3) show ?thesis
      by (simp add: poll_tenant_def)
  next
    case (Inr u)
    then have b: "BeginTenantTx None (Some tenant) w = (Inr (), w1)" using 1 by simp
    note w1 = BeginTenantTx_ok [OF b]
    obtain r2 w2 where 2: "resolveDatadogClient C w1 = (r2, w2)" by fastforce
    have s2: "same_data w1 w2" using resolve_same_data [of w1 C] 2 by simp
    then obtain t2 where t2: "tx w2 = Some t2" "tx_begin t2 = db w" using w1(5) by (auto simp: same_data_def)
    show ?thesis
    proof (cases r2)
      case (Inl e)
      with assms(3) b 2 t2 w1 same_dataD [OF s2] show ?thesis by (auto simp: poll_tenant_def tx_rollback_def)
    next
      case (Inr p)
      then have "\<exists>k1 k2. p = cy_client C k1 k2"
        using 2 unfolding resolveDatadogClient_def by (elim db_bind_cases) (auto split: option.splits)
      then have un: "\<exists>e. observe_service (cy_canceled C (s_ID svc)) p (cy_clock C (s_ID svc)) svc = Inl e" for svc
        using assms(1) unfolding unreachable_def by blast
      obtain a3 w3 where 3: "pollOnce C tenant p a w2 = (a3, w3)" by fastforce
      from pollOnce_unreachable [OF un 3] t2 obtain t3
        where k: "a3 = a" "marked_invalid C tenant (db w2) (db w3)" "intervals w3 = intervals w2"
          "tx w3 = Some t3" "tx_begin t3 = db w" by auto
      obtain r4 w4 where 4: "tx_commit w3 = (r4, w4)" by fastforce
      have "marked_invalid C tenant (db w) (db w4) \<and> intervals w4 = intervals w3 \<and> tx w4 = None"
        using 4 k w1(1) same_dataD(1) [OF s2] tx_commit_ok [of w3 w4] tx_commit_err [of w3 _ w4 t3] by (cases r4) auto
      with assms(3) b 2 Inr 3 4 k w1 same_dataD [OF s2] show ?thesis by (simp add: poll_tenant_def)
    qed
  qed
qed

theorem unreachable_provider_changes_no_status_witness:
  "let C = sample_cycle\<lparr>cy_client := \<lambda>_ _. breached_client\<lparr>fetch_windows := \<lambda>_ _ _ _ _. Inl DDUnauthorized\<rparr>\<rparr>;
       w' = snd (poll_tenant C 3 new_analyzer two_polled)
   in services (db w') = services (db two_polled) \<and> intervals w' = [] \<and> map ig_status (integrations (db w')) = [''invalid'']"
proof -
  let ?C = "sample_cycle\<lparr>cy_client := \<lambda>_ _. breached_client\<lparr>fetch_windows := \<lambda>_ _ _ _ _. Inl DDUnauthorized\<rparr>\<rparr>"
  let ?run = "poll_tenant ?C 3 new_analyzer two_polled"
  have "fst (retryFetch c maxFetchAttempts no_windows (\<lambda>_. Inl DDUnauthorized)) = Inl DDUnauthorized" for c
    by (simp add: retryFetch_def retry_loop.simps [of _ _ _ _ _ 1] isTransient_def maxFetchAttempts_def)
  then have "unreachable ?C"
    by (simp add: unreachable_def observe_service_def FetchWindowsWithRetry_def slo_provider.truncate_def Let_def)
  from unreachable_provider_changes_no_status [OF this two_polled_ok(4), of 3 new_analyzer "fst ?run" "snd ?run"]
  have "marked_invalid ?C 3 (db two_polled) (db (snd ?run))" "intervals (snd ?run) = intervals two_polled" by simp_all
  moreover have "intervals two_polled = []" by (simp add: two_polled_def fresh_world_def)
  moreover have "map ig_status (integrations (db (snd ?run))) = [''invalid'']" by code_simp
  ultimately show ?thesis by (auto simp: marked_invalid_def)
qed

end
