(* ===== verification/Status_Pages.thy ===== *)
theory Status_Pages
  imports Tenant_Isolation "HOL-Library.Product_Lexorder"
begin

text \<open>
  \<open>internal/db/status_page_repository.go\<close> and \<open>ListForStatusPage\<close> of \<open>service_repository.go\<close>:
  status pages, their service groups and the placement of services on them.

  \<^item> The statements issued through the pool run under the session of the context's transaction;
    \<open>SetServices\<close>, \<open>AttachDomain\<close> and \<open>Delete\<close> begin a transaction of their own, which has no
    \<open>app.tenant_id\<close> (their callers have written nothing before, so it sees the same rows).
  \<^item> Row-level security: \<open>status_pages\<close>, \<open>domains\<close> and \<open>status_page_service_groups\<close> carry the policy
    \<open>tenant_isolation\<close>; a session without a tenant may also read published pages and their domains
    (\<open>public_published_read\<close>, migration 0025). \<open>status_page_services\<close> carries none. Foreign keys are
    checked against all rows.
\<close>

subsection \<open>Data\<close>

record StatusPage =
  pg_ID :: uuid
  pg_TenantID :: "uuid option"
  pg_Name :: string
  pg_Subdomain :: "string option"
  pg_DomainID :: "uuid option"
  pg_State :: string
  pg_TLSLastError :: "string option"
  pg_Environment :: string
  pg_CreatedAt :: time
  pg_ServiceIDs :: "uuid list"

record ServicePlacement =
  pm_ServiceID :: uuid
  pm_GroupID :: "uuid option"
  pm_ParentServiceID :: "uuid option"
  pm_Position :: int

record StatusPageServiceGroup =
  gr_ID :: uuid
  gr_StatusPageID :: uuid
  gr_Name :: string
  gr_Position :: int
  gr_CreatedAt :: time

record page_service = Service +
  ps_GroupID :: "uuid option"
  ps_GroupName :: "string option"
  ps_ParentServiceID :: "uuid option"
  ps_Position :: int

definition pendingTLSState :: string where "pendingTLSState = ''pending_tls''"

definition scan_page :: "uuid list \<Rightarrow> status_page_row \<Rightarrow> StatusPage" where
  "scan_page sids r =
     \<lparr>pg_ID = sp_id r, pg_TenantID = None, pg_Name = sp_name r, pg_Subdomain = sp_subdomain r, pg_DomainID = sp_domain_id r,
      pg_State = sp_state r, pg_TLSLastError = sp_tls_last_error r, pg_Environment = sp_environment r,
      pg_CreatedAt = sp_created_at r, pg_ServiceIDs = sids\<rparr>"

definition scan_group :: "group_row \<Rightarrow> StatusPageServiceGroup" where
  "scan_group g = \<lparr>gr_ID = sg_id g, gr_StatusPageID = sg_status_page_id g, gr_Name = sg_name g, gr_Position = sg_position g,
     gr_CreatedAt = sg_created_at g\<rparr>"

definition scan_placement :: "placement_row \<Rightarrow> ServicePlacement" where
  "scan_placement p = \<lparr>pm_ServiceID = pl_service_id p, pm_GroupID = pl_group_id p, pm_ParentServiceID = pl_parent_service_id p,
     pm_Position = pl_position p\<rparr>"

subsection \<open>Row-level security\<close>

definition page_readable :: "world \<Rightarrow> session \<Rightarrow> status_page_row \<Rightarrow> bool" where
  "page_readable w s r \<longleftrightarrow> rls_visible w s (sp_tenant_id r) \<or> (app_tenant_id s = None \<and> sp_state r = ''published'')"

definition domain_readable :: "world \<Rightarrow> session \<Rightarrow> domain_row \<Rightarrow> bool" where
  "domain_readable w s d \<longleftrightarrow> rls_visible w s (dm_tenant_id d) \<or>
     (app_tenant_id s = None \<and>
      (\<exists>r\<in>set (status_pages (db w)). page_readable w s r \<and> sp_domain_id r = Some (dm_id d) \<and> sp_state r = ''published''))"

definition readable_pages :: "world \<Rightarrow> status_page_row list" where
  "readable_pages w = filter (page_readable w (pool_session w)) (status_pages (db w))"

definition upd_pages :: "session \<Rightarrow> (status_page_row \<Rightarrow> bool) \<Rightarrow> (status_page_row \<Rightarrow> status_page_row) \<Rightarrow> world \<Rightarrow> world" where
  "upd_pages s P f w = set_db (\<lambda>d. d\<lparr>status_pages := sql_update (\<lambda>r. rls_visible w s (sp_tenant_id r) \<and> P r) f (status_pages d)\<rparr>) w"

subsection \<open>Creating a page\<close>

definition page_environment_ok :: "string \<Rightarrow> bool" where
  "page_environment_ok e \<longleftrightarrow> e \<in> {[], ''staging'', ''development''}"

definition domain_taken :: "uuid \<Rightarrow> string \<Rightarrow> uuid \<Rightarrow> tables \<Rightarrow> bool" where
  "domain_taken domainID subdomain pid d \<longleftrightarrow>
     (\<exists>r\<in>set (status_pages d). sp_id r \<noteq> pid \<and> sp_domain_id r = Some domainID \<and> sp_subdomain r = Some subdomain)"

definition domain_exists :: "uuid \<Rightarrow> tables \<Rightarrow> bool" where
  "domain_exists domainID d \<longleftrightarrow> (\<exists>r\<in>set (domains d). dm_id r = domainID)"

definition service_exists :: "uuid \<Rightarrow> tables \<Rightarrow> bool" where
  "service_exists sid d \<longleftrightarrow> (\<exists>r\<in>set (services d). sv_id r = sid)"

fun link_page_services :: "uuid \<Rightarrow> uuid list \<Rightarrow> world \<Rightarrow> unit db_result" where
  "link_page_services pid [] w = (Inr (), w)"
| "link_page_services pid (sid # sids) w =
     db_bind (pool_try w (\<lambda>w.
         if (\<exists>p\<in>set (status_page_services (db w)). pl_status_page_id p = pid \<and> pl_service_id p = sid) \<or> \<not> service_exists sid (db w)
         then pool_fail w
         else (Inr (), set_db (\<lambda>d. d\<lparr>status_page_services := status_page_services d @
                [\<lparr>pl_status_page_id = pid, pl_service_id = sid, pl_group_id = None, pl_parent_service_id = None, pl_position = 0\<rparr>]\<rparr>) w)))
       (\<lambda>_. link_page_services pid sids)"

definition page_insert :: "time \<Rightarrow> StatusPage \<Rightarrow> uuid list \<Rightarrow> world \<Rightarrow> StatusPage db_result" where
  "page_insert dbnow sp sids w =
     db_bind (pool_try w (\<lambda>w.
         case app_tenant_id (pool_session w) of
           None \<Rightarrow> pool_fail w
         | Some tenant \<Rightarrow>
             let row = \<lparr>sp_id = next_id w, sp_tenant_id = tenant, sp_name = pg_Name sp, sp_subdomain = pg_Subdomain sp,
                        sp_domain_id = pg_DomainID sp, sp_state = ''draft'', sp_tls_last_error = None,
                        sp_environment = pg_Environment sp, sp_created_at = dbnow\<rparr>
             in if \<not> page_environment_ok (pg_Environment sp) \<or>
                   opt_holds (\<lambda>d. \<not> domain_exists d (db w) \<or>
                      opt_holds (\<lambda>s. domain_taken d s (next_id w) (db w)) (pg_Subdomain sp)) (pg_DomainID sp)
                then pool_fail w
                else (Inr row, (set_db (\<lambda>d. d\<lparr>status_pages := status_pages d @ [row]\<rparr>) w)\<lparr>next_id := Suc (next_id w)\<rparr>)))
       (\<lambda>row w. db_bind (link_page_services (sp_id row) sids w)
          (\<lambda>_ w. (Inr (sp\<lparr>pg_ID := sp_id row, pg_State := sp_state row, pg_CreatedAt := sp_created_at row, pg_ServiceIDs := sids\<rparr>), w)))"

definition StatusPageCreate :: "time \<Rightarrow> StatusPage \<Rightarrow> uuid list \<Rightarrow> world \<Rightarrow> StatusPage db_result" where
  "StatusPageCreate dbnow sp sids = run_in_tx (page_insert dbnow sp sids)"

subsection \<open>Placements\<close>

text \<open>The first step: a parent that this call takes off the page is dropped.\<close>

definition sanitize_placement :: "uuid set \<Rightarrow> uuid set \<Rightarrow> ServicePlacement \<Rightarrow> ServicePlacement" where
  "sanitize_placement submitted existing p =
     (case pm_ParentServiceID p of
        None \<Rightarrow> p
      | Some parent \<Rightarrow>
          if parent = pm_ServiceID p then p
          else if parent \<notin> submitted \<and> parent \<in> existing then p\<lparr>pm_ParentServiceID := None\<rparr> else p)"

definition check_placement :: "uuid set \<Rightarrow> uuid set \<Rightarrow> uuid set \<Rightarrow> ServicePlacement \<Rightarrow> db_error option" where
  "check_placement groups submitted parents p =
     (if (case pm_GroupID p of None \<Rightarrow> False | Some g \<Rightarrow> g \<notin> groups) then Some ErrGroupCrossPage
      else case pm_ParentServiceID p of
          None \<Rightarrow> None
        | Some parent \<Rightarrow>
            if parent = pm_ServiceID p then Some ErrSelfReference
            else if parent \<notin> submitted then Some ErrParentNotInSet
            else if pm_ServiceID p \<in> parents then Some ErrMaxDepthExceeded else None)"

fun first_error :: "(ServicePlacement \<Rightarrow> db_error option) \<Rightarrow> ServicePlacement list \<Rightarrow> db_error option" where
  "first_error check [] = None"
| "first_error check (p # ps) = (case check p of Some e \<Rightarrow> Some e | None \<Rightarrow> first_error check ps)"

definition parents_of :: "ServicePlacement list \<Rightarrow> uuid set" where
  "parents_of ps = set (List.map_filter pm_ParentServiceID ps)"

definition validateAndSanitizeServicePlacements ::
    "ServicePlacement list \<Rightarrow> uuid set \<Rightarrow> uuid set \<Rightarrow> db_error + ServicePlacement list" where
  "validateAndSanitizeServicePlacements ps groups existing =
     (let submitted = set (map pm_ServiceID ps);
          sanitized = map (sanitize_placement submitted existing) ps
      in case first_error (check_placement groups submitted (parents_of sanitized)) sanitized of
           Some e \<Rightarrow> Inl e | None \<Rightarrow> Inr sanitized)"

definition group_exists :: "uuid \<Rightarrow> tables \<Rightarrow> bool" where
  "group_exists gid d \<longleftrightarrow> (\<exists>g\<in>set (service_groups d). sg_id g = gid)"

definition validGroupIDsTx :: "uuid \<Rightarrow> world \<Rightarrow> uuid set" where
  "validGroupIDsTx pid w =
     set (map sg_id (filter (\<lambda>g. rls_visible w no_session (sg_tenant_id g) \<and> sg_status_page_id g = pid) (service_groups (db w))))"

definition existingServiceIDsTx :: "uuid \<Rightarrow> world \<Rightarrow> uuid set" where
  "existingServiceIDsTx pid w =
     set (map pl_service_id (filter (\<lambda>p. pl_status_page_id p = pid) (status_page_services (db w))))"

text \<open>The inserts of \<open>SetServices\<close> into the rows its transaction sees.\<close>

fun insert_placements :: "uuid \<Rightarrow> ServicePlacement list \<Rightarrow> placement_row list \<Rightarrow> world \<Rightarrow> placement_row list db_result" where
  "insert_placements pid [] rows w = (Inr rows, w)"
| "insert_placements pid (p # ps) rows w =
     own_try w (\<lambda>w.
       if (\<exists>q\<in>set rows. pl_status_page_id q = pid \<and> pl_service_id q = pm_ServiceID p) \<or> \<not> service_exists (pm_ServiceID p) (db w) \<or>
          opt_holds (\<lambda>g. \<not> group_exists g (db w)) (pm_GroupID p) \<or>
          opt_holds (\<lambda>q. \<not> service_exists q (db w)) (pm_ParentServiceID p)
       then (Inl DbError, w)
       else insert_placements pid ps (rows @ [\<lparr>pl_status_page_id = pid, pl_service_id = pm_ServiceID p, pl_group_id = pm_GroupID p,
              pl_parent_service_id = pm_ParentServiceID p, pl_position = pm_Position p\<rparr>]) w)"

definition store_placements :: "uuid \<Rightarrow> ServicePlacement list \<Rightarrow> world \<Rightarrow> unit db_result" where
  "store_placements pid placements w =
     own_try w (\<lambda>w.
       db_bind (insert_placements pid placements (sql_delete (\<lambda>p. pl_status_page_id p = pid) (status_page_services (db w))) w)
         (\<lambda>rows w. own_try w (\<lambda>w. (Inr (), own_commit (\<lambda>d. d\<lparr>status_page_services := rows\<rparr>) w))))"

definition place_services :: "uuid \<Rightarrow> ServicePlacement list \<Rightarrow> uuid set \<Rightarrow> world \<Rightarrow> unit db_result" where
  "place_services pid placements groups w =
     own_try w (\<lambda>w.
       case validateAndSanitizeServicePlacements placements groups (existingServiceIDsTx pid w) of
         Inl e \<Rightarrow> (Inl e, w) | Inr sanitized \<Rightarrow> store_placements pid sanitized w)"

definition SetServices :: "uuid \<Rightarrow> ServicePlacement list \<Rightarrow> world \<Rightarrow> unit db_result" where
  "SetServices pid placements w =
     own_try w (\<lambda>w. own_try w (\<lambda>w.
       if \<not> (\<exists>r\<in>set (status_pages (db w)). page_readable w no_session r \<and> sp_id r = pid) then (Inl ErrNotFound, w)
       else own_try w (\<lambda>w. place_services pid placements (validGroupIDsTx pid w) w)))"

definition ListServicePlacements :: "uuid \<Rightarrow> world \<Rightarrow> ServicePlacement list db_result" where
  "ListServicePlacements pid w =
     pool_try w (\<lambda>w. (Inr (map scan_placement (sort_key pl_position
       (filter (\<lambda>p. pl_status_page_id p = pid) (status_page_services (db w))))), w))"

subsection \<open>Groups\<close>

text \<open>\<open>position\<close> is a 32-bit column: a computed value outside it is refused by the server, a
  parameter outside it by the driver before the statement is sent.\<close>

definition int4 :: "int \<Rightarrow> bool" where
  "int4 n \<longleftrightarrow> - (2 ^ 31) \<le> n \<and> n < 2 ^ 31"

definition visible_groups :: "uuid \<Rightarrow> world \<Rightarrow> group_row list" where
  "visible_groups pid w = filter (\<lambda>g. visible w (sg_tenant_id g) \<and> sg_status_page_id g = pid) (service_groups (db w))"

definition next_position :: "group_row list \<Rightarrow> int" where
  "next_position gs = (case map sg_position gs of [] \<Rightarrow> -1 | p # ps \<Rightarrow> foldr max ps p) + 1"

definition page_exists :: "uuid \<Rightarrow> tables \<Rightarrow> bool" where
  "page_exists pid d \<longleftrightarrow> (\<exists>r\<in>set (status_pages d). sp_id r = pid)"

definition CreateGroup :: "time \<Rightarrow> uuid \<Rightarrow> string \<Rightarrow> world \<Rightarrow> StatusPageServiceGroup db_result" where
  "CreateGroup dbnow pid name w =
     pool_try w (\<lambda>w.
       case app_tenant_id (pool_session w) of
         None \<Rightarrow> pool_fail w
       | Some tenant \<Rightarrow>
           let p = next_position (visible_groups pid w);
               row = \<lparr>sg_id = next_id w, sg_tenant_id = tenant, sg_status_page_id = pid, sg_name = name, sg_position = p,
                      sg_created_at = dbnow\<rparr>
           in if \<not> int4 p \<or> \<not> page_exists pid (db w) then pool_fail w
              else (Inr (scan_group row), (set_db (\<lambda>d. d\<lparr>service_groups := service_groups d @ [row]\<rparr>) w)\<lparr>next_id := Suc (next_id w)\<rparr>))"

definition group_matches :: "world \<Rightarrow> uuid \<Rightarrow> uuid \<Rightarrow> uuid \<Rightarrow> group_row \<Rightarrow> bool" where
  "group_matches w tenantID pid gid g \<longleftrightarrow>
     visible w (sg_tenant_id g) \<and> sg_id g = gid \<and> sg_status_page_id g = pid \<and> sg_tenant_id g = tenantID"

definition UpdateGroup :: "uuid \<Rightarrow> uuid \<Rightarrow> uuid \<Rightarrow> string \<Rightarrow> int \<Rightarrow> world \<Rightarrow> StatusPageServiceGroup db_result" where
  "UpdateGroup tenantID pid gid name position w =
     pool_try w (\<lambda>w.
       if \<not> int4 position then (Inl DbError, w)
       else let f = (\<lambda>g. g\<lparr>sg_name := name, sg_position := position\<rparr>)
            in case find_row (group_matches w tenantID pid gid) (service_groups (db w)) of
                 None \<Rightarrow> (Inl ErrNotFound, w)
               | Some g \<Rightarrow> (Inr (scan_group (f g)),
                   set_db (\<lambda>d. d\<lparr>service_groups := sql_update (group_matches w tenantID pid gid) f (service_groups d)\<rparr>) w))"

definition DeleteGroup :: "uuid \<Rightarrow> uuid \<Rightarrow> uuid \<Rightarrow> world \<Rightarrow> unit db_result" where
  "DeleteGroup tenantID pid gid w =
     pool_try w (\<lambda>w.
       if sql_count (group_matches w tenantID pid gid) (service_groups (db w)) = 0 then (Inl ErrNotFound, w)
       else (Inr (), set_db (\<lambda>d. d\<lparr>service_groups := sql_delete (group_matches w tenantID pid gid) (service_groups d),
              status_page_services := sql_update (\<lambda>p. pl_group_id p = Some gid) (\<lambda>p. p\<lparr>pl_group_id := None\<rparr>)
                (status_page_services d)\<rparr>) w))"

definition ListGroups :: "uuid \<Rightarrow> world \<Rightarrow> StatusPageServiceGroup list db_result" where
  "ListGroups pid w =
     pool_try w (\<lambda>w. (Inr (map scan_group (sort_key (\<lambda>g. (sg_position g, sg_id g)) (visible_groups pid w))), w))"

subsection \<open>Reading pages\<close>

definition service_links :: "uuid list \<Rightarrow> tables \<Rightarrow> uuid \<Rightarrow> uuid list" where
  "service_links pids d pid =
     map pl_service_id (filter (\<lambda>p. pl_status_page_id p = pid \<and> pid \<in> set pids) (status_page_services d))"

definition serviceIDsByStatusPage :: "uuid list \<Rightarrow> world \<Rightarrow> (uuid \<Rightarrow> uuid list) db_result" where
  "serviceIDsByStatusPage pids w =
     (if pids = [] then (Inr (\<lambda>_. []), w) else pool_try w (\<lambda>w. (Inr (service_links pids (db w)), w)))"

definition AttachedNamesByDomainIDs :: "uuid list \<Rightarrow> world \<Rightarrow> (uuid \<Rightarrow> string list) db_result" where
  "AttachedNamesByDomainIDs domainIDs w =
     (if domainIDs = [] then (Inr (\<lambda>_. []), w)
      else pool_try w (\<lambda>w. (Inr (\<lambda>d. map sp_name (sort_key sp_created_at
        (filter (\<lambda>r. sp_domain_id r = Some d \<and> d \<in> set domainIDs) (readable_pages w)))), w)))"

definition countStatusPages :: "world \<Rightarrow> nat db_result" where
  "countStatusPages w = pool_try w (\<lambda>w. (Inr (length (readable_pages w)), w))"

definition PageListPaginated :: "nat \<Rightarrow> nat \<Rightarrow> world \<Rightarrow> (StatusPage list \<times> nat) db_result" where
  "PageListPaginated page pageSize w =
     page_try page pageSize w (\<lambda>offset w.
       let rows = sort_key sp_name (readable_pages w);
           got = sql_page pageSize offset rows
       in db_bind (if got = [] then countStatusPages w else (Inr (length rows), w))
            (\<lambda>n w. db_bind (serviceIDsByStatusPage (map sp_id got) w)
              (\<lambda>links w. (Inr (map (\<lambda>r. scan_page (links (sp_id r)) r) got, n), w))))"

definition PageGetByID :: "uuid \<Rightarrow> world \<Rightarrow> StatusPage db_result" where
  "PageGetByID pid w =
     pool_try w (\<lambda>w.
       case find_row (\<lambda>r. sp_id r = pid) (readable_pages w) of
         None \<Rightarrow> (Inl ErrNotFound, w)
       | Some r \<Rightarrow> db_bind (serviceIDsByStatusPage [pid] w) (\<lambda>links w. (Inr (scan_page (links pid) r), w)))"

definition page_domain :: "world \<Rightarrow> status_page_row \<Rightarrow> domain_row option" where
  "page_domain w r =
     (case sp_domain_id r of
        None \<Rightarrow> None
      | Some d \<Rightarrow> find_row (\<lambda>x. domain_readable w (pool_session w) x \<and> dm_id x = d) (domains (db w)))"

definition page_hostname :: "world \<Rightarrow> status_page_row \<Rightarrow> string option" where
  "page_hostname w r =
     (case (sp_subdomain r, page_domain w r) of
        (Some s, Some d) \<Rightarrow> Some (s @ ''.'' @ dm_hostname d) | _ \<Rightarrow> None)"

definition PublicHostnameByID :: "uuid \<Rightarrow> world \<Rightarrow> string db_result" where
  "PublicHostnameByID pid w =
     pool_try w (\<lambda>w.
       case find_row (\<lambda>r. sp_id r = pid) (readable_pages w) of
         None \<Rightarrow> (Inl ErrNotFound, w)
       | Some r \<Rightarrow> (case page_hostname w r of None \<Rightarrow> (Inl ErrNoDomainAttached, w) | Some h \<Rightarrow> (Inr h, w)))"

definition StateByHostname :: "string \<Rightarrow> world \<Rightarrow> string db_result" where
  "StateByHostname hostname w =
     pool_try w (\<lambda>w.
       case find_row (\<lambda>r. page_hostname w r = Some hostname) (readable_pages w) of
         None \<Rightarrow> (Inl ErrNotFound, w) | Some r \<Rightarrow> (Inr (sp_state r), w))"

definition GetByHostname :: "string \<Rightarrow> world \<Rightarrow> StatusPage db_result" where
  "GetByHostname hostname w =
     pool_try w (\<lambda>w.
       case find_row (\<lambda>r. page_hostname w r = Some hostname) (readable_pages w) of
         None \<Rightarrow> (Inl ErrNotFound, w)
       | Some r \<Rightarrow> (Inr ((scan_page [] r)\<lparr>pg_TenantID := Some (sp_tenant_id r)\<rparr>), w))"

subsection \<open>Writing pages\<close>

definition AttachDomain :: "uuid \<Rightarrow> uuid \<Rightarrow> string \<Rightarrow> world \<Rightarrow> StatusPage db_result" where
  "AttachDomain pid domainID subdomain w =
     own_try w (\<lambda>w. own_try w (\<lambda>w.
       case find_row (\<lambda>r. rls_visible w no_session (sp_tenant_id r) \<and> sp_id r = pid) (status_pages (db w)) of
         None \<Rightarrow> (Inl ErrNotFound, w)
       | Some r \<Rightarrow>
           if sp_domain_id r \<noteq> None then (Inl ErrDomainAlreadyAttached, w)
           else own_try w (\<lambda>w.
             let f = (\<lambda>r. r\<lparr>sp_domain_id := Some domainID, sp_subdomain := Some subdomain, sp_state := pendingTLSState\<rparr>)
             in if \<not> domain_exists domainID (db w) then (Inl ErrInvalidDomain, w)
                else if domain_taken domainID subdomain pid (db w) then (Inl ErrDuplicateDomainSubdomain, w)
                else own_try w (\<lambda>w. (Inr (scan_page [] (f r)),
                  own_commit (\<lambda>d. d\<lparr>status_pages := sql_update (\<lambda>r. rls_visible w no_session (sp_tenant_id r) \<and> sp_id r = pid) f
                                (status_pages d)\<rparr>) w)))))"

definition PageUpdateEnvironment :: "uuid \<Rightarrow> string \<Rightarrow> world \<Rightarrow> StatusPage db_result" where
  "PageUpdateEnvironment pid environment w =
     pool_try w (\<lambda>w.
       case find_row (\<lambda>r. visible w (sp_tenant_id r) \<and> sp_id r = pid) (status_pages (db w)) of
         None \<Rightarrow> (Inl ErrNotFound, w)
       | Some r \<Rightarrow>
           if \<not> page_environment_ok environment then pool_fail w
           else let f = (\<lambda>r. r\<lparr>sp_environment := environment\<rparr>)
                in (Inr (scan_page [] (f r)), upd_pages (pool_session w) (\<lambda>r. sp_id r = pid) f w))"

definition PageDelete :: "uuid \<Rightarrow> world \<Rightarrow> unit db_result" where
  "PageDelete pid w =
     own_try w (\<lambda>w. own_try w (\<lambda>w. own_try w (\<lambda>w. own_try w (\<lambda>w.
       let gone = (\<lambda>d. d\<lparr>status_page_services := sql_delete (\<lambda>p. pl_status_page_id p = pid) (status_page_services d),
             service_groups := sql_delete (\<lambda>g. rls_visible w no_session (sg_tenant_id g) \<and> sg_status_page_id g = pid) (service_groups d),
             status_pages := sql_delete (\<lambda>r. rls_visible w no_session (sp_tenant_id r) \<and> sp_id r = pid) (status_pages d)\<rparr>)
       in if sql_count (\<lambda>r. rls_visible w no_session (sp_tenant_id r) \<and> sp_id r = pid) (status_pages (db w)) = 0
          then (Inl ErrNotFound, w)
          else if \<exists>g\<in>set (service_groups (gone (db w))). sg_status_page_id g = pid then (Inl DbError, w)
          else own_try w (\<lambda>w. (Inr (), own_commit gone w))))))"

definition mark_pages :: "string \<Rightarrow> (status_page_row \<Rightarrow> status_page_row) \<Rightarrow> world \<Rightarrow> unit db_result" where
  "mark_pages hostname f w =
     pool_try w (\<lambda>w.
       if sql_count (\<lambda>r. visible w (sp_tenant_id r) \<and> page_hostname w r = Some hostname) (status_pages (db w)) = 0
       then (Inl ErrNotFound, w)
       else (Inr (), upd_pages (pool_session w) (\<lambda>r. page_hostname w r = Some hostname) f w))"

definition MarkPublished :: "string \<Rightarrow> world \<Rightarrow> unit db_result" where
  "MarkPublished hostname = mark_pages hostname (\<lambda>r. r\<lparr>sp_state := ''published'', sp_tls_last_error := None\<rparr>)"

definition MarkTLSFailed :: "string \<Rightarrow> string \<Rightarrow> world \<Rightarrow> unit db_result" where
  "MarkTLSFailed hostname reason =
     mark_pages hostname (\<lambda>r. r\<lparr>sp_state := ''tls_failed'', sp_tls_last_error := Some reason\<rparr>)"

subsection \<open>The services of a page\<close>

text \<open>A placement joined with its service and, when the session sees it, its group; ungrouped
  services come last (\<open>NULLS LAST\<close>).\<close>

definition placed_group :: "world \<Rightarrow> placement_row \<Rightarrow> group_row option" where
  "placed_group w p =
     (case pl_group_id p of
        None \<Rightarrow> None
      | Some gid \<Rightarrow> find_row (\<lambda>g. visible w (sg_tenant_id g) \<and> sg_id g = gid) (service_groups (db w)))"

definition placed_rows :: "uuid \<Rightarrow> world \<Rightarrow> (service_row \<times> placement_row) list" where
  "placed_rows pid w =
     [(r, p). r \<leftarrow> visible_services live_row w, p \<leftarrow> status_page_services (db w), pl_service_id p = sv_id r \<and> pl_status_page_id p = pid]"

definition placement_order :: "world \<Rightarrow> placement_row \<Rightarrow> nat \<times> int \<times> uuid \<times> int" where
  "placement_order w p =
     (case placed_group w p of
        None \<Rightarrow> (1, 0, 0, pl_position p) | Some g \<Rightarrow> (0, sg_position g, sg_id g, pl_position p))"

definition scan_placed :: "world \<Rightarrow> service_row \<times> placement_row \<Rightarrow> page_service" where
  "scan_placed w rp = (case rp of (r, p) \<Rightarrow>
     \<lparr>s_ID = sv_id r, s_Name = sv_name r, s_SLOID = coalesce (sv_slo_id r), s_SLOName = [], s_SLOType = [],
      s_DatadogServiceTag = [], s_Environment = [], s_MonitorMode = [], s_PollType = None, s_PollTarget = None,
      s_PollIntervalSeconds = None, s_CurrentStatus = sv_current_status r, s_LastStatusChangeAt = sv_last_status_change_at r,
      s_StatusAnalysis = sv_status_analysis r, s_LastBurnRateShort = None, s_LastBurnRateLong = None,
      s_LastWindowErrors = None, s_LastWindowRequests = None, s_LastReadingAt = None, s_LastErrorAt = None,
      ps_GroupID = pl_group_id p, ps_GroupName = map_option sg_name (placed_group w p),
      ps_ParentServiceID = pl_parent_service_id p, ps_Position = pl_position p\<rparr>)"

definition ListForStatusPage :: "uuid \<Rightarrow> world \<Rightarrow> page_service list db_result" where
  "ListForStatusPage pid w =
     pool_try w (\<lambda>w. (Inr (map (scan_placed w) (sort_key (placement_order w \<circ> snd) (placed_rows pid w))), w))"

end
