(* ===== verification/Domains.thy ===== *)
theory Domains
  imports Status_Pages
begin

text \<open>
  \<open>internal/db/domain_repository.go\<close>: the registered root domains. Reads follow the policies of
  \<open>domains\<close> (the tenant's own, and for a session without a tenant those a published page uses);
  writes only the tenant's own. Hostnames are unique over all tenants.
\<close>

subsection \<open>Data\<close>

record Domain =
  d_ID :: uuid
  d_Hostname :: string
  d_CreatedAt :: time
  d_DomainType :: string
  d_Status :: string
  d_VerificationToken :: string
  d_VerifiedAt :: "time option"
  d_LastError :: "string option"
  d_ExpiresAt :: "time option"
  d_Registrar :: "string option"
  d_ExpectedNS :: "string list option"
  d_CurrentNS :: "string list option"
  d_NSDriftDetected :: bool
  d_LastRDAPCheckAt :: "time option"
  d_LastRDAPSuccessAt :: "time option"
  d_RDAPLastError :: "string option"

definition scan_domain :: "domain_row \<Rightarrow> Domain" where
  "scan_domain r =
     \<lparr>d_ID = dm_id r, d_Hostname = dm_hostname r, d_CreatedAt = dm_created_at r, d_DomainType = dm_domain_type r,
      d_Status = dm_status r, d_VerificationToken = dm_verification_token r, d_VerifiedAt = dm_verified_at r,
      d_LastError = dm_last_error r, d_ExpiresAt = dm_expires_at r, d_Registrar = dm_registrar r,
      d_ExpectedNS = dm_expected_ns r, d_CurrentNS = dm_current_ns r, d_NSDriftDetected = dm_ns_drift_detected r,
      d_LastRDAPCheckAt = dm_last_rdap_check_at r, d_LastRDAPSuccessAt = dm_last_rdap_success_at r,
      d_RDAPLastError = dm_rdap_last_error r\<rparr>"

text \<open>What \<open>SetVerificationResult\<close> returns: the health columns stay at their zero value.\<close>

definition scan_verified :: "domain_row \<Rightarrow> Domain" where
  "scan_verified r = (scan_domain r)\<lparr>d_ExpiresAt := None, d_Registrar := None, d_ExpectedNS := None, d_CurrentNS := None,
     d_NSDriftDetected := False, d_LastRDAPCheckAt := None, d_LastRDAPSuccessAt := None, d_RDAPLastError := None\<rparr>"

definition readable_domains :: "(domain_row \<Rightarrow> bool) \<Rightarrow> world \<Rightarrow> domain_row list" where
  "readable_domains P w = filter (\<lambda>d. domain_readable w (pool_session w) d \<and> P d) (domains (db w))"

definition upd_domains :: "(domain_row \<Rightarrow> bool) \<Rightarrow> (domain_row \<Rightarrow> domain_row) \<Rightarrow> world \<Rightarrow> world" where
  "upd_domains P f w = set_db (\<lambda>d. d\<lparr>domains := sql_update (\<lambda>r. visible w (dm_tenant_id r) \<and> P r) f (domains d)\<rparr>) w"

definition own_domain :: "uuid \<Rightarrow> world \<Rightarrow> domain_row option" where
  "own_domain did w = find_row (\<lambda>r. visible w (dm_tenant_id r) \<and> dm_id r = did) (domains (db w))"

subsection \<open>Operations\<close>

text \<open>\<open>token\<close> is what \<open>generateDomainVerificationToken\<close> drew; None is a failing random source.\<close>

definition DomainCreate :: "time \<Rightarrow> string option \<Rightarrow> Domain \<Rightarrow> world \<Rightarrow> Domain db_result" where
  "DomainCreate dbnow token domain w =
     (case token of
        None \<Rightarrow> (Inl DbError, w)
      | Some t \<Rightarrow> pool_try w (\<lambda>w.
          case app_tenant_id (pool_session w) of
            None \<Rightarrow> pool_fail w
          | Some tenant \<Rightarrow>
              let row = \<lparr>dm_id = next_id w, dm_tenant_id = tenant, dm_hostname = d_Hostname domain, dm_created_at = dbnow,
                         dm_domain_type = ''custom'', dm_status = ''pending'', dm_verification_token = t, dm_verified_at = None,
                         dm_last_error = None, dm_expires_at = None, dm_registrar = None, dm_expected_ns = None,
                         dm_current_ns = None, dm_ns_drift_detected = False, dm_last_rdap_check_at = None,
                         dm_last_rdap_success_at = None, dm_rdap_last_error = None\<rparr>
              in if \<exists>r\<in>set (domains (db w)). dm_hostname r = d_Hostname domain then pool_refuse ErrDuplicateHostname w
                 else (Inr (domain\<lparr>d_ID := dm_id row, d_CreatedAt := dbnow, d_DomainType := dm_domain_type row,
                         d_Status := dm_status row, d_VerificationToken := t, d_VerifiedAt := None, d_LastError := None\<rparr>),
                       (set_db (\<lambda>d. d\<lparr>domains := domains d @ [row]\<rparr>) w)\<lparr>next_id := Suc (next_id w)\<rparr>)))"

definition countDomains :: "uuid \<Rightarrow> world \<Rightarrow> nat db_result" where
  "countDomains tenantID w = pool_try w (\<lambda>w. (Inr (length (readable_domains (\<lambda>d. dm_tenant_id d = tenantID) w)), w))"

definition DomainListPaginated :: "uuid \<Rightarrow> nat \<Rightarrow> nat \<Rightarrow> world \<Rightarrow> (Domain list \<times> nat) db_result" where
  "DomainListPaginated tenantID page pageSize w =
     page_try page pageSize w (\<lambda>offset w.
       let rows = sort_key dm_hostname (readable_domains (\<lambda>d. dm_tenant_id d = tenantID) w);
           got = sql_page pageSize offset rows
       in db_bind (if got = [] then countDomains tenantID w else (Inr (length rows), w))
            (\<lambda>n w. (Inr (map scan_domain got, n), w)))"

definition DomainGetByID :: "uuid \<Rightarrow> world \<Rightarrow> Domain db_result" where
  "DomainGetByID did w =
     pool_try w (\<lambda>w. case readable_domains (\<lambda>d. dm_id d = did) w of
       [] \<Rightarrow> (Inl ErrNotFound, w) | r # _ \<Rightarrow> (Inr (scan_domain r), w))"

definition verification_result :: "string \<Rightarrow> string option \<Rightarrow> time \<Rightarrow> domain_row \<Rightarrow> domain_row" where
  "verification_result status lastError verifiedAt r = r\<lparr>dm_status := status, dm_last_error := lastError, dm_verified_at := Some verifiedAt\<rparr>"

definition SetVerificationResult :: "uuid \<Rightarrow> string \<Rightarrow> string option \<Rightarrow> time \<Rightarrow> world \<Rightarrow> Domain db_result" where
  "SetVerificationResult did status lastError verifiedAt w =
     pool_try w (\<lambda>w.
       case own_domain did w of
         None \<Rightarrow> (Inl ErrNotFound, w)
       | Some r \<Rightarrow>
           if status \<notin> {''pending'', ''verified'', ''error''} then pool_fail w
           else (Inr (scan_verified (verification_result status lastError verifiedAt r)),
                 upd_domains (\<lambda>r. dm_id r = did) (verification_result status lastError verifiedAt) w))"

definition health_result ::
    "time \<Rightarrow> time option \<Rightarrow> string option \<Rightarrow> string list option \<Rightarrow> bool \<Rightarrow> string option \<Rightarrow> domain_row \<Rightarrow> domain_row" where
  "health_result dbnow expiresAt registrar currentNS drift rdapErr r =
     r\<lparr>dm_expires_at := expiresAt, dm_registrar := registrar,
       dm_current_ns := (if currentNS = None then dm_current_ns r else currentNS),
       dm_expected_ns := (if dm_expected_ns r = None then currentNS else dm_expected_ns r),
       dm_ns_drift_detected := (if currentNS = None then dm_ns_drift_detected r else drift),
       dm_rdap_last_error := rdapErr, dm_last_rdap_check_at := Some dbnow,
       dm_last_rdap_success_at := (if rdapErr = None then Some dbnow else dm_last_rdap_success_at r)\<rparr>"

definition health_update ::
    "time \<Rightarrow> uuid \<Rightarrow> time option \<Rightarrow> string option \<Rightarrow> string list option \<Rightarrow> bool \<Rightarrow> string option \<Rightarrow> world \<Rightarrow> unit db_result" where
  "health_update dbnow did expiresAt registrar currentNS drift rdapErr w =
     pool_try w (\<lambda>w.
       if own_domain did w = None then (Inl ErrNotFound, w)
       else (Inr (), upd_domains (\<lambda>r. dm_id r = did) (health_result dbnow expiresAt registrar currentNS drift rdapErr) w))"

definition SetHealthCheckResult ::
    "time \<Rightarrow> uuid \<Rightarrow> time option \<Rightarrow> string option \<Rightarrow> string list option \<Rightarrow> bool \<Rightarrow> string option \<Rightarrow> world \<Rightarrow> unit db_result" where
  "SetHealthCheckResult dbnow did expiresAt registrar currentNS drift rdapErr =
     run_in_tx (health_update dbnow did expiresAt registrar currentNS drift rdapErr)"

definition DomainDelete :: "uuid \<Rightarrow> world \<Rightarrow> unit db_result" where
  "DomainDelete did w =
     pool_try w (\<lambda>w.
       if own_domain did w = None then (Inl ErrNotFound, w)
       else if \<exists>r\<in>set (status_pages (db w)). sp_domain_id r = Some did then pool_refuse ErrDomainInUse w
       else (Inr (), set_db (\<lambda>d. d\<lparr>domains := sql_delete (\<lambda>r. visible w (dm_tenant_id r) \<and> dm_id r = did) (domains d)\<rparr>) w))"

definition CountVerified :: "world \<Rightarrow> nat db_result" where
  "CountVerified w = pool_try w (\<lambda>w. (Inr (length (readable_domains (\<lambda>d. dm_status d = ''verified'') w)), w))"

definition DomainCountAll :: "uuid \<Rightarrow> world \<Rightarrow> nat db_result" where
  "DomainCountAll = countDomains"

end
