(* ===== verification/Publishing.thy ===== *)
theory Publishing
  imports Domains Go_Net
begin

text \<open>
  How a status page becomes public: \<open>internal/tls/manager.go\<close> (the decision function and the event
  callback CertMagic calls, both on a context without a transaction), \<open>internal/router/host_router.go\<close>
  (the dispatch of a request by its host name) and the path of a page's \<open>state\<close> through
  \<open>Create\<close>, \<open>AttachDomain\<close>, \<open>HostPolicy\<close> and \<open>OnEvent\<close>.
\<close>

subsection \<open>The certificate manager\<close>

datatype tls_error = NotRegistered | LookupFailed db_error | DraftPage | MarkFailed db_error

definition draftState :: string where "draftState = ''draft''"

text \<open>The store answers a missing host name with \<open>db.ErrNotFound\<close>, not with \<open>ErrHostnameNotFound\<close>.\<close>

definition HostPolicy :: "string \<Rightarrow> world \<Rightarrow> (tls_error + unit) \<times> world" where
  "HostPolicy hostname w =
     (case StateByHostname hostname w of
        (Inl e, w) \<Rightarrow> (Inl (LookupFailed e), w)
      | (Inr state, w) \<Rightarrow> if state = draftState then (Inl DraftPage, w) else (Inr (), w))"

definition tls_result :: "unit db_result \<Rightarrow> (tls_error + unit) \<times> world" where
  "tls_result m = (case m of (Inl e, w) \<Rightarrow> (Inl (MarkFailed e), w) | (Inr _, w) \<Rightarrow> (Inr (), w))"

text \<open>\<open>identifier\<close> is \<open>data["identifier"]\<close> when it is a string, \<open>failure\<close> the printed \<open>data["error"]\<close>.\<close>

definition OnEvent :: "string \<Rightarrow> string option \<Rightarrow> string option \<Rightarrow> world \<Rightarrow> (tls_error + unit) \<times> world" where
  "OnEvent event identifier failure w =
     (let hostname = coalesce identifier in
      if hostname = [] then (Inr (), w)
      else if event = ''cert_obtained'' then tls_result (MarkPublished hostname w)
      else if event = ''cert_failed'' then
        tls_result (MarkTLSFailed hostname (case failure of None \<Rightarrow> ''unknown error'' | Some e \<Rightarrow> e) w)
      else (Inr (), w))"

subsection \<open>The host router\<close>

datatype 'r routed = Fallback 'r | ServiceUnavailable | Served 'r

definition stripPort :: "string \<Rightarrow> string" where
  "stripPort = remote_host"

text \<open>\<open>public\<close> is the handler behind the router, given the page and its tenant; \<open>fallback\<close> the handler
  of every other host name.\<close>

definition HostRouter ::
    "(uuid \<Rightarrow> uuid \<Rightarrow> world \<Rightarrow> 'r \<times> world) \<Rightarrow> (world \<Rightarrow> 'r \<times> world) \<Rightarrow> string \<Rightarrow> world \<Rightarrow> 'r routed \<times> world" where
  "HostRouter public fallback host w =
     (let serve_fallback = (\<lambda>w. case fallback w of (r, w) \<Rightarrow> (Fallback r, w)) in
      case GetByHostname (stripPort host) w of
        (Inl e, w) \<Rightarrow> serve_fallback w
      | (Inr page, w) \<Rightarrow>
          if pg_State page \<noteq> ''published'' then serve_fallback w
          else (case BeginTenantTx None (pg_TenantID page) w of
                  (Inl e, w) \<Rightarrow> (ServiceUnavailable, w)
                | (Inr _, w) \<Rightarrow>
                    (case public (pg_ID page) (the (pg_TenantID page)) w of (r, w) \<Rightarrow> (Served r, tx_rollback w))))"

end
