(* ===== verification/Pagination.thy ===== *)
theory Pagination
  imports Accounts
begin

text \<open>
  What several handlers share: \<open>parsePage\<close> and the page envelope of \<open>internal/api/pagination.go\<close>,
  \<open>TenantRepository.Active\<close> and \<open>LogoServedURL\<close> of \<open>internal/db/tenant_repository.go\<close>.
\<close>

text \<open>\<open>strconv.Atoi\<close> on the query parameter: an optional sign and decimal digits, within an \<open>int\<close>.\<close>

definition digits_value :: "string \<Rightarrow> int" where
  "digits_value ds = foldl (\<lambda>n c. 10 * n + (of_char c - 48)) 0 ds"

definition Atoi :: "string \<Rightarrow> int option" where
  "Atoi s =
     (let neg = (s \<noteq> [] \<and> hd s = CHR ''-'');
          ds = (if s \<noteq> [] \<and> hd s \<in> {CHR ''-'', CHR ''+''} then tl s else s);
          n = (if neg then - digits_value ds else digits_value ds)
      in if ds = [] \<or> \<not> list_all is_digit ds \<or> n < min_int64 \<or> max_int64 < n then None else Some n)"

definition parsePage :: "string \<Rightarrow> nat" where
  "parsePage raw = (if raw = [] then 1 else case Atoi raw of None \<Rightarrow> 1 | Some n \<Rightarrow> if n < 1 then 1 else nat n)"

text \<open>The slice of one page: \<open>start\<close> is computed in Go's \<open>int\<close>; a negative start makes the slice
  expression panic, which is \<open>None\<close>.\<close>

definition page_slice :: "nat \<Rightarrow> nat \<Rightarrow> 'a list \<Rightarrow> 'a list option" where
  "page_slice page pageSize xs =
     (let start = row_offset page pageSize
      in if int (length xs) \<le> start then Some []
         else if start < 0 then None else Some (take pageSize (drop (nat start) xs)))"

definition json_page :: "json list \<Rightarrow> nat \<Rightarrow> nat \<Rightarrow> nat \<Rightarrow> json" where
  "json_page items n page pageSize =
     JObject [(''items'', JList items), (''total'', JInt (int n)), (''page'', JInt (int page)), (''page_size'', JInt (int pageSize))]"

definition Active :: "world \<Rightarrow> Tenant db_result" where
  "Active w =
     pool_try w (\<lambda>w.
       case sort_key t_CreatedAt (filter (\<lambda>t. visible w (t_ID t) \<and> t_ID t \<noteq> legacyPlaceholderTenantID \<and>
              (case app_tenant_id (pool_session w) of None \<Rightarrow> True | Some tid \<Rightarrow> t_ID t = tid)) (tenants (db w))) of
         [] \<Rightarrow> (Inl ErrNotFound, w) | t # _ \<Rightarrow> (Inr t, w))"

definition LogoServedURL :: "Tenant \<Rightarrow> string option" where
  "LogoServedURL t = map_option (\<lambda>_. ''/uploads/logo'') (t_LogoContentType t)"

end
