(* ===== verification/Public_Status.thy ===== *)
theory Public_Status
  imports Publishing Pagination History Retention
begin

text \<open>
  \<open>internal/api/public_status_handler.go\<close>: the public status page, composed from what the poller
  has recorded, inside the transaction \<open>HostRouter\<close> began for the page's tenant; the preview of it
  (\<open>public_status_preview_handler.go\<close>). The clock is
  read twice: \<open>checked\<close> by \<open>time.Until\<close>, \<open>now\<close> by \<open>composeResponse\<close>; \<open>local_midnight\<close> is the
  start of the day in the page's time zone.
\<close>

subsection \<open>The response\<close>

record publicHistoryBucketResponse =
  hb_Start :: time
  hb_Status :: string
  hb_Episodes :: "Episode list"

record publicServiceResponse =
  psr_ID :: uuid
  psr_Name :: string
  psr_Status :: string
  psr_LastUpdatedAt :: time
  psr_History :: "publicHistoryBucketResponse list"
  psr_UptimePercent :: "rat option"
  psr_StatusAnalysis :: "string option"
  psr_GroupID :: "uuid option"
  psr_GroupName :: "string option"
  psr_ParentServiceID :: "uuid option"
  psr_ParentServiceName :: "string option"

record publicIncidentResponse =
  pir_ID :: uuid
  pir_Title :: string
  pir_Status :: string
  pir_CreatedAt :: time
  pir_ResolvedAt :: "time option"
  pir_Updates :: "(string \<times> time) list"
  pir_Description :: "string option"

record publicStatusResponse =
  rs_CompanyName :: string
  rs_LogoURL :: "string option"
  rs_Services :: "publicServiceResponse list"
  rs_Active :: "publicIncidentResponse list"
  rs_Resolved :: "publicIncidentResponse list"
  rs_ResolvedTotal :: nat
  rs_ResolvedPage :: nat
  rs_Groups :: "(uuid \<times> string \<times> int) list"
  rs_DomainHealth :: "string option"
  rs_Environment :: string

definition incidentRetentionDays :: int where "incidentRetentionDays = 90"
definition publicResolvedIncidentsPageSize :: nat where "publicResolvedIncidentsPageSize = 10"
definition domainHealthExpiryAttentionDays :: int where "domainHealthExpiryAttentionDays = 30"

text \<open>The zero \<open>time.Time\<close>, 1 January of the year 1, relative to the Unix epoch.\<close>

definition zero_time :: time where "zero_time = - 62135596800 * second"

definition toPublicHistoryResponses :: "Bucket list \<Rightarrow> publicHistoryBucketResponse list" where
  "toPublicHistoryResponses bs = map (\<lambda>b. \<lparr>hb_Start = bk_Start b, hb_Status = bk_Status b, hb_Episodes = bk_Episodes b\<rparr>) bs"

definition toPublicGroupResponses :: "StatusPageServiceGroup list \<Rightarrow> (uuid \<times> string \<times> int) list" where
  "toPublicGroupResponses gs = map (\<lambda>g. (gr_ID g, gr_Name g, gr_Position g)) gs"

definition toPublicIncidentResponses :: "IncidentPublic list \<Rightarrow> publicIncidentResponse list" where
  "toPublicIncidentResponses is =
     map (\<lambda>p. let i = ip_Incident p in
       \<lparr>pir_ID = i_ID i, pir_Title = i_Title i, pir_Status = i_Status i, pir_CreatedAt = i_CreatedAt i,
        pir_ResolvedAt = i_ResolvedAt i, pir_Updates = map (\<lambda>u. (iu_Body u, iu_CreatedAt u)) (ip_Updates p),
        pir_Description = i_Description i\<rparr>) is"

subsection \<open>Composing it\<close>

definition nonzero_time :: "time option \<Rightarrow> bool" where
  "nonzero_time t \<longleftrightarrow> t \<noteq> None \<and> t \<noteq> Some zero_time"

definition resolveDomainHealth :: "time \<Rightarrow> StatusPage \<Rightarrow> world \<Rightarrow> string option db_result" where
  "resolveDomainHealth checked page w =
     (case pg_DomainID page of
        None \<Rightarrow> (Inr None, w)
      | Some did \<Rightarrow> db_bind (DomainGetByID did w) (\<lambda>d w.
          if \<not> nonzero_time (d_LastRDAPSuccessAt d) then (Inr None, w)
          else let expiringSoon = (case d_ExpiresAt d of
                     None \<Rightarrow> False
                   | Some e \<Rightarrow> e \<noteq> zero_time \<and> time_sub e checked \<le> domainHealthExpiryAttentionDays * 24 * hour)
               in (Inr (Some (if d_NSDriftDetected d \<or> expiringSoon then ''attention'' else ''ok'')), w)))"

text \<open>The two optional fields: any failure is logged and the fields are omitted.\<close>

definition page_extras :: "time \<Rightarrow> uuid \<Rightarrow> world \<Rightarrow> (string option \<times> string) \<times> world" where
  "page_extras checked pid w =
     (case PageGetByID pid w of
        (Inl e, w) \<Rightarrow> ((None, []), w)
      | (Inr page, w) \<Rightarrow>
          (case resolveDomainHealth checked page w of
             (Inl e, w) \<Rightarrow> ((None, pg_Environment page), w)
           | (Inr dh, w) \<Rightarrow> ((dh, pg_Environment page), w)))"

definition history_as_of :: "time \<Rightarrow> StatusInterval option \<Rightarrow> time" where
  "history_as_of now open_interval =
     (case open_interval of None \<Rightarrow> now | Some i \<Rightarrow> if si_LastSeenAt i < now then si_LastSeenAt i else now)"

definition service_response ::
    "(time \<Rightarrow> time) \<Rightarrow> time \<Rightarrow> rangeSpec \<Rightarrow> (uuid \<rightharpoonup> StatusInterval) \<Rightarrow> StatusInterval list \<Rightarrow> (uuid \<rightharpoonup> string) \<Rightarrow>
     page_service \<Rightarrow> publicServiceResponse" where
  "service_response local_midnight now rng open_intervals overlapping names s =
     (let own = filter (\<lambda>i. si_ServiceID i = s_ID s) overlapping;
          asOf = history_as_of now (open_intervals (s_ID s));
          uptime = UptimePercent own (now - rg_window rng) asOf
      in \<lparr>psr_ID = s_ID s, psr_Name = s_Name s, psr_Status = s_CurrentStatus s,
          psr_LastUpdatedAt = (case open_intervals (s_ID s) of None \<Rightarrow> zero_time | Some i \<Rightarrow> si_LastSeenAt i),
          psr_History = toPublicHistoryResponses
            (BuildBuckets local_midnight own now asOf (rg_bucketCount rng) (rg_bucketWidth rng)),
          psr_UptimePercent = (if snd uptime then Some (fst uptime) else None),
          psr_StatusAnalysis = (if s_CurrentStatus s = ''degraded'' then s_StatusAnalysis s else None),
          psr_GroupID = ps_GroupID s, psr_GroupName = ps_GroupName s, psr_ParentServiceID = ps_ParentServiceID s,
          psr_ParentServiceName = Option.bind (ps_ParentServiceID s) names\<rparr>)"

definition shown_service :: "page_service \<Rightarrow> bool" where
  "shown_service s \<longleftrightarrow> s_CurrentStatus s \<noteq> ''not_configured''"

definition composeResponse ::
    "(time \<Rightarrow> time) \<Rightarrow> time \<Rightarrow> time \<Rightarrow> time \<Rightarrow> uuid \<Rightarrow> nat \<Rightarrow> rangeSpec \<Rightarrow> world \<Rightarrow> publicStatusResponse db_result" where
  "composeResponse local_midnight dbnow checked now pid resolvedPage rng w =
     db_bind (ListForStatusPage pid w) (\<lambda>services w.
     db_bind (OpenIntervalsByService w) (\<lambda>open_intervals w.
     db_bind (ListPublicForStatusPage dbnow pid incidentRetentionDays resolvedPage publicResolvedIncidentsPageSize w)
       (\<lambda>(active, resolved, n) w.
     db_bind (Active w) (\<lambda>company w.
     db_bind (ListGroups pid w) (\<lambda>groups w.
       case page_extras checked pid w of ((domainHealth, environment), w) \<Rightarrow>
         let names = fold (\<lambda>s m. m(s_ID s \<mapsto> s_Name s)) services Map.empty;
             shown = filter shown_service services
         in db_bind (ListOverlapping (map s_ID shown) (now - rg_window rng) now w) (\<lambda>overlapping w.
              (Inr \<lparr>rs_CompanyName = t_Name company, rs_LogoURL = LogoServedURL company,
                    rs_Services = map (service_response local_midnight now rng open_intervals overlapping names) shown,
                    rs_Active = toPublicIncidentResponses active, rs_Resolved = toPublicIncidentResponses resolved,
                    rs_ResolvedTotal = n, rs_ResolvedPage = resolvedPage, rs_Groups = toPublicGroupResponses groups,
                    rs_DomainHealth = domainHealth, rs_Environment = environment\<rparr>, w)))))))"

subsection \<open>The handlers\<close>

datatype public_answer = InvalidRange | InternalError | PageNotFound | PublicPage publicStatusResponse

definition compose_answer :: "publicStatusResponse db_result \<Rightarrow> public_answer \<times> world" where
  "compose_answer m = (case m of (Inl e, w) \<Rightarrow> (InternalError, w) | (Inr r, w) \<Rightarrow> (PublicPage r, w))"

definition PublicGet ::
    "(time \<Rightarrow> time) \<Rightarrow> time \<Rightarrow> time \<Rightarrow> time \<Rightarrow> string \<Rightarrow> string \<Rightarrow> uuid option \<Rightarrow> world \<Rightarrow> public_answer \<times> world" where
  "PublicGet local_midnight dbnow checked now page_param range_param pid w =
     (case pid of
        None \<Rightarrow> (InternalError, w)
      | Some p \<Rightarrow> (case parseRange range_param of
          None \<Rightarrow> (InvalidRange, w)
        | Some rng \<Rightarrow> compose_answer (composeResponse local_midnight dbnow checked now p (parsePage page_param) rng w)))"

definition PreviewGet ::
    "(time \<Rightarrow> time) \<Rightarrow> time \<Rightarrow> time \<Rightarrow> time \<Rightarrow> string \<Rightarrow> string \<Rightarrow> uuid \<Rightarrow> world \<Rightarrow> public_answer \<times> world" where
  "PreviewGet local_midnight dbnow checked now page_param range_param pid w =
     (case PageGetByID pid w of
        (Inl e, w) \<Rightarrow> (if e = ErrNotFound then PageNotFound else InternalError, w)
      | (Inr _, w) \<Rightarrow> (case parseRange range_param of
          None \<Rightarrow> (InvalidRange, w)
        | Some rng \<Rightarrow> compose_answer (composeResponse local_midnight dbnow checked now pid (parsePage page_param) rng w)))"

text \<open>A request to a public host name, through the router.\<close>

definition public_request ::
    "(time \<Rightarrow> time) \<Rightarrow> time \<Rightarrow> time \<Rightarrow> time \<Rightarrow> string \<Rightarrow> string \<Rightarrow> (world \<Rightarrow> public_answer \<times> world) \<Rightarrow> string \<Rightarrow> world \<Rightarrow>
     public_answer routed \<times> world" where
  "public_request local_midnight dbnow checked now page_param range_param fallback =
     HostRouter (\<lambda>pid _. PublicGet local_midnight dbnow checked now page_param range_param (Some pid)) fallback"

end
