(* ===== verification/Page_Safety.thy ===== *)
theory Page_Safety
  imports Public_Status
begin

text \<open>
  Properties of the status pages: the service tree \<open>SetServices\<close> stores, the way a page is published,
  what the public host name serves, and what row-level security does to all three.
\<close>

subsection \<open>The service tree\<close>

text \<open>The shape the validation is meant to guarantee: groups of the page only, and a tree of depth two
  whose parents are roots of the same page.\<close>

definition flat_tree :: "uuid set \<Rightarrow> ServicePlacement list \<Rightarrow> bool" where
  "flat_tree groups ps \<longleftrightarrow> (\<forall>p\<in>set ps.
     (\<forall>g. pm_GroupID p = Some g \<longrightarrow> g \<in> groups) \<and>
     (\<forall>q. pm_ParentServiceID p = Some q \<longrightarrow> q \<noteq> pm_ServiceID p \<and>
        (\<exists>r\<in>set ps. pm_ServiceID r = q) \<and> (\<forall>r\<in>set ps. pm_ServiceID r = q \<longrightarrow> pm_ParentServiceID r = None)))"

lemma first_error_None: "first_error check ps = None \<longleftrightarrow> (\<forall>p\<in>set ps. check p = None)"
  by (induction ps) (auto split: option.splits)

lemma set_parents_of: "q \<in> parents_of ps \<longleftrightarrow> (\<exists>p\<in>set ps. pm_ParentServiceID p = Some q)"
  by (force simp: parents_of_def List.map_filter_def)

lemma sanitize_service [simp]: "pm_ServiceID (sanitize_placement S X p) = pm_ServiceID p"
  by (simp add: sanitize_placement_def split: option.splits)

lemma check_placement_None:
  "check_placement groups submitted parents p = None \<longleftrightarrow>
     (\<forall>g. pm_GroupID p = Some g \<longrightarrow> g \<in> groups) \<and>
     (\<forall>q. pm_ParentServiceID p = Some q \<longrightarrow> q \<noteq> pm_ServiceID p \<and> q \<in> submitted \<and> pm_ServiceID p \<notin> parents)"
  by (auto simp: check_placement_def split: option.splits)

lemma validate_iff:
  "validateAndSanitizeServicePlacements ps groups existing = Inr qs \<longleftrightarrow>
     qs = map (sanitize_placement (set (map pm_ServiceID ps)) existing) ps \<and> flat_tree groups qs"
proof -
  define S where "S = set (map pm_ServiceID ps)"
  define zs where "zs = map (sanitize_placement S existing) ps"
  have S: "q \<in> S \<longleftrightarrow> (\<exists>r\<in>set zs. pm_ServiceID r = q)" for q by (auto simp: S_def zs_def)
  have "(\<forall>p\<in>set zs. check_placement groups S (parents_of zs) p = None) \<longleftrightarrow> flat_tree groups zs"
  proof -
    have "pm_ServiceID p \<notin> parents_of zs \<longleftrightarrow> (\<forall>r\<in>set zs. pm_ParentServiceID r \<noteq> Some (pm_ServiceID p))" for p :: ServicePlacement
      by (auto simp: set_parents_of)
    moreover have "(\<forall>p\<in>set zs. pm_ParentServiceID p \<noteq> None \<longrightarrow> (\<forall>r\<in>set zs. pm_ParentServiceID r \<noteq> Some (pm_ServiceID p))) \<longleftrightarrow>
        (\<forall>p\<in>set zs. \<forall>q. pm_ParentServiceID p = Some q \<longrightarrow> (\<forall>r\<in>set zs. pm_ServiceID r = q \<longrightarrow> pm_ParentServiceID r = None))"
      by (metis not_None_eq)
    moreover define own where "own = (\<lambda>p :: ServicePlacement. (\<forall>g. pm_GroupID p = Some g \<longrightarrow> g \<in> groups) \<and>
        (\<forall>q. pm_ParentServiceID p = Some q \<longrightarrow> q \<noteq> pm_ServiceID p \<and> q \<in> S))"
    have "(\<forall>p\<in>set zs. check_placement groups S (parents_of zs) p = None) \<longleftrightarrow>
        (\<forall>p\<in>set zs. own p) \<and> (\<forall>p\<in>set zs. pm_ParentServiceID p \<noteq> None \<longrightarrow> pm_ServiceID p \<notin> parents_of zs)"
      unfolding check_placement_None own_def by blast
    moreover have "flat_tree groups zs \<longleftrightarrow> (\<forall>p\<in>set zs. own p) \<and>
        (\<forall>p\<in>set zs. \<forall>q. pm_ParentServiceID p = Some q \<longrightarrow> (\<forall>r\<in>set zs. pm_ServiceID r = q \<longrightarrow> pm_ParentServiceID r = None))"
      unfolding flat_tree_def own_def S by blast
    ultimately show ?thesis by (simp only:)
  qed
  then have "first_error (check_placement groups S (parents_of zs)) zs = None \<longleftrightarrow> flat_tree groups zs"
    by (simp only: first_error_None)
  then show ?thesis
    unfolding validateAndSanitizeServicePlacements_def Let_def S_def [symmetric] zs_def [symmetric]
    by (cases "first_error (check_placement groups S (parents_of zs)) zs") auto
qed

lemma insert_placements_ok:
  assumes "insert_placements pid ps rows w = (Inr rows', w')"
  shows "same_data w w' \<and> tx w' = tx w \<and> (\<exists>new. rows' = rows @ new \<and> map scan_placement new = ps \<and> (\<forall>p\<in>set new. pl_status_page_id p = pid))"
  using assms
proof (induction ps arbitrary: rows w)
  case (Cons p ps)
  let ?row = "\<lparr>pl_status_page_id = pid, pl_service_id = pm_ServiceID p, pl_group_id = pm_GroupID p,
                pl_parent_service_id = pm_ParentServiceID p, pl_position = pm_Position p\<rparr>"
  from Cons.prems obtain v where v: "same_data w v" "tx v = tx w" "insert_placements pid ps (rows @ [?row]) v = (Inr rows', w')"
    by (auto split: if_splits elim!: own_try_cases)
  from Cons.IH [OF v(3)] obtain new where new: "rows' = (rows @ [?row]) @ new" "map scan_placement new = ps"
      "\<forall>p\<in>set new. pl_status_page_id p = pid" "same_data v w'" "tx w' = tx v" by blast
  have "map scan_placement (?row # new) = p # ps" using new(2) by (simp add: scan_placement_def)
  with new v show ?case by (auto intro: same_data_trans intro!: exI [of _ "?row # new"])
qed auto

lemma insert_placements_err: "insert_placements pid ps rows w = (Inl e, w') \<Longrightarrow> same_data w w' \<and> tx w' = tx w"
  by (induction ps arbitrary: rows w) (auto split: if_splits elim!: own_try_cases intro: same_data_trans)

text \<open>The rows of one page.\<close>

definition page_rows :: "uuid \<Rightarrow> tables \<Rightarrow> placement_row list" where
  "page_rows pid d = filter (\<lambda>p. pl_status_page_id p = pid) (status_page_services d)"

text \<open>A statement on a connection of its own that succeeds runs on the same data.\<close>

definition same_own :: "world \<Rightarrow> world \<Rightarrow> bool" where
  "same_own w v \<longleftrightarrow> same_data w v \<and> tx v = tx w"

lemma same_own_refl [simp, intro]: "same_own w w"
  by (simp add: same_own_def)

lemma same_own_trans: "same_own u v \<Longrightarrow> same_own v w \<Longrightarrow> same_own u w"
  by (auto simp: same_own_def intro: same_data_trans)

lemma own_try_ok: "own_try w k = (Inr a, u) \<Longrightarrow> \<exists>v. same_own w v \<and> k v = (Inr a, u)"
  by (erule own_try_cases) (auto simp: same_own_def)

lemma same_own_keeps:
  assumes "same_own w v"
  shows "db v = db w" "intervals v = intervals w" "rls_visible v = rls_visible w" "bypass_rls v = bypass_rls w"
    "page_readable v = page_readable w" "tx v = tx w" "next_id v = next_id w"
  using assms by (auto simp: same_own_def same_data_def rls_visible_def page_readable_def fun_eq_iff)

lemma tx_ids_keep:
  assumes "same_own w v"
  shows "validGroupIDsTx pid v = validGroupIDsTx pid w" "existingServiceIDsTx pid v = existingServiceIDsTx pid w"
  by (simp_all add: validGroupIDsTx_def existingServiceIDsTx_def same_own_keeps [OF assms])

text \<open>What a stored placement list leaves: the page's old rows replaced, everything else as it was.\<close>

definition replaced_placements :: "uuid \<Rightarrow> ServicePlacement list \<Rightarrow> world \<Rightarrow> world \<Rightarrow> bool" where
  "replaced_placements pid qs w w' \<longleftrightarrow> intervals w' = intervals w \<and> (\<exists>new. map scan_placement new = qs \<and>
     (\<forall>p\<in>set new. pl_status_page_id p = pid) \<and>
     db w' = (db w)\<lparr>status_page_services := sql_delete (\<lambda>p. pl_status_page_id p = pid) (status_page_services (db w)) @ new\<rparr>)"

lemma replaced_placements_same: "same_own w v \<Longrightarrow> replaced_placements pid qs v w' = replaced_placements pid qs w w'"
  by (simp add: replaced_placements_def same_own_keeps)

lemma store_placements_ok:
  assumes "store_placements pid qs w = (Inr (), w')"
  shows "replaced_placements pid qs w w'"
proof -
  from own_try_ok [OF assms [unfolded store_placements_def]] obtain v u rows where v: "same_own w v"
      and ins: "insert_placements pid qs (sql_delete (\<lambda>p. pl_status_page_id p = pid) (status_page_services (db v))) v = (Inr rows, u)"
      and r: "own_try u (\<lambda>w. (Inr (), own_commit (\<lambda>d. d\<lparr>status_page_services := rows\<rparr>) w)) = (Inr (), w')"
    by (auto elim: db_bind_cases)
  from insert_placements_ok [OF ins] obtain new where new: "same_own v u"
      "rows = sql_delete (\<lambda>p. pl_status_page_id p = pid) (status_page_services (db v)) @ new" "map scan_placement new = qs"
      "\<forall>p\<in>set new. pl_status_page_id p = pid" by (auto simp: same_own_def)
  from own_try_ok [OF r] obtain u' where "same_own u u'" "w' = own_commit (\<lambda>d. d\<lparr>status_page_services := rows\<rparr>) u'" by auto
  with v new show ?thesis by (auto simp: replaced_placements_def own_commit_def same_own_keeps)
qed

lemma SetServices_ok:
  assumes "SetServices pid ps w = (Inr (), w')"
  shows "\<exists>qs. validateAndSanitizeServicePlacements ps (validGroupIDsTx pid w) (existingServiceIDsTx pid w) = Inr qs \<and>
    replaced_placements pid qs w w'"
proof -
  from own_try_ok [OF assms [unfolded SetServices_def]] obtain v1 where v1: "same_own w v1" and r1: "own_try v1 (\<lambda>w.
       if \<not> (\<exists>r\<in>set (status_pages (db w)). page_readable w no_session r \<and> sp_id r = pid) then (Inl ErrNotFound, w)
       else own_try w (\<lambda>w. place_services pid ps (validGroupIDsTx pid w) w)) = (Inr (), w')" by blast
  from own_try_ok [OF r1] obtain v2 where v2: "same_own v1 v2"
      and r2: "own_try v2 (\<lambda>w. place_services pid ps (validGroupIDsTx pid w) w) = (Inr (), w')" by (auto split: if_splits)
  from own_try_ok [OF r2] obtain v3 where v3: "same_own v2 v3" and r3: "place_services pid ps (validGroupIDsTx pid v3) v3 = (Inr (), w')"
    by blast
  from own_try_ok [OF r3 [unfolded place_services_def]] obtain v4 where v4: "same_own v3 v4" and r4:
      "(case validateAndSanitizeServicePlacements ps (validGroupIDsTx pid v3) (existingServiceIDsTx pid v4) of
          Inl e \<Rightarrow> (Inl e, v4) | Inr sanitized \<Rightarrow> store_placements pid sanitized v4) = (Inr (), w')" by blast
  then obtain qs where qs: "validateAndSanitizeServicePlacements ps (validGroupIDsTx pid v3) (existingServiceIDsTx pid v4) = Inr qs"
      and st: "store_placements pid qs v4 = (Inr (), w')"
    by (cases "validateAndSanitizeServicePlacements ps (validGroupIDsTx pid v3) (existingServiceIDsTx pid v4)") auto
  from v1 v2 v3 have w3: "same_own w v3" by (blast intro: same_own_trans)
  with v4 have w4: "same_own w v4" by (blast intro: same_own_trans)
  from store_placements_ok [OF st] qs show ?thesis
    by (simp add: tx_ids_keep(1) [OF w3] tx_ids_keep(2) [OF w4] replaced_placements_same [OF w4])
qed

lemma own_try_err:
  assumes "own_try w k = (Inl e, u)" and "\<And>v. same_own w v \<Longrightarrow> k v = (Inl e, u) \<Longrightarrow> same_own v u"
  shows "same_own w u"
  using assms(1) by (cases rule: own_try_cases) (use assms(2) in \<open>auto simp: same_own_def intro: same_data_trans\<close>)

lemma store_placements_err:
  assumes "store_placements pid qs w = (Inl e, w')"
  shows "same_own w w'"
proof (rule own_try_err [OF assms [unfolded store_placements_def]])
  fix v assume "db_bind (insert_placements pid qs (sql_delete (\<lambda>p. pl_status_page_id p = pid) (status_page_services (db v))) v)
      (\<lambda>rows w. own_try w (\<lambda>w. (Inr (), own_commit (\<lambda>d. d\<lparr>status_page_services := rows\<rparr>) w))) = (Inl e, w')"
  then show "same_own v w'"
    by (cases rule: db_bind_cases)
       (auto simp: same_own_def dest!: insert_placements_err insert_placements_ok elim!: own_try_cases intro: same_data_trans)
qed

lemma SetServices_err:
  assumes "SetServices pid ps w = (Inl e, w')"
  shows "same_own w w'"
  using assms unfolding SetServices_def
  by (elim own_try_err) (auto simp: place_services_def split: if_split_asm sum.split_asm elim!: own_try_err dest: store_placements_err)



subsection \<open>Publishing under enforced row-level security\<close>

datatype page_call =
    BeginRequest uuid uuid
  | CommitRequest
  | RollbackRequest
  | CallCreate StatusPage "uuid list"
  | CallAttach uuid uuid string
  | CallSetServices uuid "ServicePlacement list"
  | CallEnvironment uuid string
  | CallDelete uuid
  | CertDecision string
  | CertEvent string "string option" "string option"

text \<open>The certificate manager calls back on a context of its own, without a transaction.\<close>

fun run_page_call :: "time \<Rightarrow> page_call \<Rightarrow> world \<Rightarrow> world" where
  "run_page_call t (BeginRequest u tid) w = (if tx w = None then snd (BeginTenantTx (Some u) (Some tid) w) else w)"
| "run_page_call t CommitRequest w = snd (tx_commit w)"
| "run_page_call t RollbackRequest w = tx_rollback w"
| "run_page_call t (CallCreate sp sids) w = snd (StatusPageCreate t sp sids w)"
| "run_page_call t (CallAttach pid d s) w = snd (AttachDomain pid d s w)"
| "run_page_call t (CallSetServices pid ps) w = snd (SetServices pid ps w)"
| "run_page_call t (CallEnvironment pid e) w = snd (PageUpdateEnvironment pid e w)"
| "run_page_call t (CallDelete pid) w = snd (PageDelete pid w)"
| "run_page_call t (CertDecision h) w = (if tx w = None then snd (HostPolicy h w) else w)"
| "run_page_call t (CertEvent ev ident failure) w = (if tx w = None then snd (OnEvent ev ident failure w) else w)"

definition run_page_calls :: "(time \<times> page_call) list \<Rightarrow> world \<Rightarrow> world" where
  "run_page_calls cs w = fold (\<lambda>(t, c) w. run_page_call t c w) cs w"

definition none_published :: "status_page_row list \<Rightarrow> bool" where
  "none_published rs \<longleftrightarrow> (\<forall>r\<in>set rs. sp_state r \<noteq> ''published'')"

definition unpublished :: "world \<Rightarrow> bool" where
  "unpublished w \<longleftrightarrow> \<not> bypass_rls w \<and> none_published (status_pages (db w)) \<and>
     (case tx w of None \<Rightarrow> True | Some t \<Rightarrow> none_published (status_pages (tx_begin t)))"

lemma none_published_update:
  "none_published rs \<Longrightarrow> (\<And>r. sp_state (f r) = sp_state r) \<Longrightarrow> none_published (sql_update P f rs)"
  by (auto simp: none_published_def set_sql_update)

lemma none_published_delete: "none_published rs \<Longrightarrow> none_published (sql_delete P rs)"
  by (auto simp: none_published_def)

lemma unpublished_set_db:
  "unpublished w \<Longrightarrow> none_published (status_pages (f (db w))) \<Longrightarrow> unpublished (set_db f w)"
  by (simp add: unpublished_def set_db_def)

lemma unpublished_next_id [simp]: "unpublished (w\<lparr>next_id := n\<rparr>) = unpublished w"
  by (simp add: unpublished_def)

interpretation unpub: db_invariant unpublished
proof
  fix w w' assume "unpublished w" "same_data w w'"
  then show "unpublished w'" by (auto simp: unpublished_def same_data_def split: option.splits)
qed (auto simp: unpublished_def tx_rollback_def split: option.splits)

lemma unpublished_no_rows:
  assumes "unpublished w" and "\<not> bypass_rls w"
  shows "find_row (\<lambda>r. rls_visible w no_session (sp_tenant_id r) \<and> P r) rs = None"
  using assms by (simp add: find_row_None rls_fail_closed)

lemma unpublished_hidden:
  assumes "unpublished w"
  shows "\<not> rls_visible w no_session t" and "r \<in> set (status_pages (db w)) \<Longrightarrow> \<not> page_readable w no_session r"
  using assms by (auto simp: unpublished_def rls_fail_closed page_readable_def none_published_def)

lemma unpub_write:
  assumes "unpublished w \<Longrightarrow> none_published (status_pages (f (db w)))"
  shows "stays unpublished w (r, set_db f w)" and "stays unpublished w (r, (set_db f w)\<lparr>next_id := n\<rparr>)"
  using assms by (auto simp: stays_def session_of_def set_db_def unpublished_def)

lemma unpub_link: "stays unpublished w (link_page_services pid sids w)"
proof (induction sids arbitrary: w)
  case (Cons s sids)
  show ?case
    by (simp, rule unpub.stays_db_bind [OF unpub.stays_pool_try])
       (auto intro!: unpub_write Cons.IH simp: unpublished_def)
qed simp

lemma unpub_insert: "stays unpublished w (page_insert t sp sids w)"
  unfolding page_insert_def
proof (rule unpub.stays_db_bind [OF unpub.stays_pool_try])
  fix v
  show "stays unpublished v (case app_tenant_id (pool_session v) of None \<Rightarrow> pool_fail v
      | Some tenant \<Rightarrow>
             let row = \<lparr>sp_id = next_id v, sp_tenant_id = tenant, sp_name = pg_Name sp, sp_subdomain = pg_Subdomain sp,
                        sp_domain_id = pg_DomainID sp, sp_state = ''draft'', sp_tls_last_error = None,
                        sp_environment = pg_Environment sp, sp_created_at = t\<rparr>
             in if \<not> page_environment_ok (pg_Environment sp) \<or>
                   opt_holds (\<lambda>d. \<not> domain_exists d (db v) \<or>
                      opt_holds (\<lambda>s. domain_taken d s (next_id v) (db v)) (pg_Subdomain sp)) (pg_DomainID sp)
                then pool_fail v
                else (Inr row, (set_db (\<lambda>d. d\<lparr>status_pages := status_pages d @ [row]\<rparr>) v)\<lparr>next_id := Suc (next_id v)\<rparr>))"
    by (cases "app_tenant_id (pool_session v)")
       (auto simp: Let_def unpublished_def none_published_def intro!: unpub_write)
qed (rule unpub.stays_db_bind [OF unpub_link], simp)

lemma unpub_create: "stays unpublished w (StatusPageCreate t sp sids w)"
  unfolding StatusPageCreate_def by (rule unpub.stays_run_in_tx) (rule unpub_insert)

lemma unpub_attach: "stays unpublished w (AttachDomain pid d s w)"
proof -
  have "stays unpublished v (case find_row (\<lambda>r. rls_visible v no_session (sp_tenant_id r) \<and> sp_id r = pid) (status_pages (db v)) of
      None \<Rightarrow> (Inl ErrNotFound, v) | Some r \<Rightarrow> k r v)" for v and k :: "status_page_row \<Rightarrow> world \<Rightarrow> StatusPage db_result"
  proof (cases "unpublished v")
    case True
    then show ?thesis by (simp add: unpublished_no_rows unpublished_def)
  qed (simp add: stays_def)
  then show ?thesis unfolding AttachDomain_def by (intro unpub.stays_own_try)
qed

lemma unpub_set_services: "stays unpublished w (SetServices pid ps w)"
proof -
  have "stays unpublished v (if \<not> (\<exists>r\<in>set (status_pages (db v)). page_readable v no_session r \<and> sp_id r = pid)
      then (Inl ErrNotFound, v) else k v)" for v and k :: "world \<Rightarrow> unit db_result"
    using unpublished_hidden(2) [of v] by (cases "unpublished v") (auto simp: stays_def)
  then show ?thesis unfolding SetServices_def by (intro unpub.stays_own_try)
qed

lemma unpub_delete: "stays unpublished w (PageDelete pid w)"
proof -
  have "stays unpublished v (let g = gone v in if sql_count (\<lambda>r. rls_visible v no_session (sp_tenant_id r) \<and> sp_id r = pid)
      (status_pages (db v)) = 0 then (Inl ErrNotFound, v) else k g v)" for v gone and k :: "(tables \<Rightarrow> tables) \<Rightarrow> world \<Rightarrow> unit db_result"
    using unpublished_hidden(1) [of v] by (cases "unpublished v") (auto simp: stays_def sql_count_def)
  then show ?thesis unfolding PageDelete_def by (intro unpub.stays_own_try)
qed

lemma unpub_environment: "stays unpublished w (PageUpdateEnvironment pid e w)"
  unfolding PageUpdateEnvironment_def
proof (rule unpub.stays_pool_try)
  fix v
  have "stays unpublished v (r, upd_pages s (\<lambda>r. sp_id r = pid) (\<lambda>r. r\<lparr>sp_environment := e\<rparr>) v)" for r :: "db_error + StatusPage" and s
    unfolding upd_pages_def by (rule unpub_write) (auto simp: unpublished_def intro!: none_published_update)
  then show "stays unpublished v (case find_row (\<lambda>r. visible v (sp_tenant_id r) \<and> sp_id r = pid) (status_pages (db v)) of
         None \<Rightarrow> (Inl ErrNotFound, v)
       | Some r \<Rightarrow>
           if \<not> page_environment_ok e then pool_fail v
           else let f = (\<lambda>r. r\<lparr>sp_environment := e\<rparr>)
                in (Inr (scan_page [] (f r)), upd_pages (pool_session v) (\<lambda>r. sp_id r = pid) f v))"
    by (simp add: Let_def split: option.split)
qed

lemma unpublished_reads:
  assumes "unpublished w" and "tx w = None"
  shows "readable_pages w = []" and "\<not> visible w t"
  using assms unpublished_hidden [OF assms(1)]
  by (auto simp: readable_pages_def filter_empty_conv visible_def pool_session_def)

lemma unpub_mark:
  assumes "tx w = None"
  shows "stays unpublished w (mark_pages h f w)"
  unfolding mark_pages_def
proof (rule unpub.stays_pool_try)
  fix v assume v: "same_data w v"
  then have "tx v = None" using assms by (simp add: same_data_def)
  then show "stays unpublished v (if sql_count (\<lambda>r. visible v (sp_tenant_id r) \<and> page_hostname v r = Some h) (status_pages (db v)) = 0
      then (Inl ErrNotFound, v) else (Inr (), upd_pages (pool_session v) (\<lambda>r. page_hostname v r = Some h) f v))"
    by (cases "unpublished v") (auto simp: stays_def sql_count_def unpublished_reads)
qed

lemma stays_tls_result: "stays I w m \<Longrightarrow> I w \<Longrightarrow> I (snd (tls_result m))"
  by (auto simp: stays_def tls_result_def split: prod.splits sum.splits)

lemma unpub_event:
  assumes "unpublished w" and "tx w = None"
  shows "unpublished (snd (OnEvent ev ident failure w))"
  using assms stays_tls_result [OF unpub_mark]
  by (simp add: OnEvent_def Let_def MarkPublished_def MarkTLSFailed_def)

lemma HostPolicy_unpublished:
  assumes "unpublished w" and "tx w = None"
  shows "isl (fst (HostPolicy h w)) \<and> unpublished (snd (HostPolicy h w))"
proof -
  obtain r v where s: "StateByHostname h w = (r, v)" by fastforce
  then have "isl r \<and> unpublished v" unfolding StateByHostname_def
  proof (cases rule: pool_try_cases)
    case failed
    then show ?thesis using assms unpub.stays_same [OF failed(2)] by (auto simp: stays_def)
  next
    case (ran u)
    then have "unpublished u" "tx u = None" using assms unpub.stays_same [OF ran(1)] by (auto simp: stays_def same_data_def)
    then show ?thesis using ran(2) by (auto simp: unpublished_reads)
  qed
  then show ?thesis using s by (cases r) (auto simp: HostPolicy_def)
qed

lemma public_request_unpublished:
  assumes "unpublished w" and "tx w = None"
  shows "\<exists>a v. public_request local_midnight dbnow checked now page rng fallback host w = (Fallback a, v)"
proof -
  obtain r v where s: "GetByHostname (stripPort host) w = (r, v)" by fastforce
  then have "isl r" unfolding GetByHostname_def
  proof (cases rule: pool_try_cases)
    case (ran u)
    then have "unpublished u" "tx u = None" using assms unpub.stays_same [OF ran(1)] by (auto simp: stays_def same_data_def)
    then show ?thesis using ran(2) by (auto simp: unpublished_reads)
  qed simp
  then show ?thesis using s by (auto simp: public_request_def HostRouter_def Let_def isl_def split: prod.splits)
qed

lemma unpub_begin:
  assumes "unpublished w"
  shows "unpublished (snd (BeginTenantTx u t w))"
proof (cases "BeginTenantTx u t w")
  case (Pair r v)
  then show ?thesis
  proof (cases r)
    case (Inl e)
    then show ?thesis using Pair BeginTenantTx_err [of u t w e v] unpub.stays_same [of w v] assms by (simp add: stays_def)
  next
    case (Inr x)
    then have "BeginTenantTx u t w = (Inr (), v)" using Pair by simp
    from BeginTenantTx_ok [OF this] show ?thesis using assms Pair by (simp add: unpublished_def)
  qed
qed

lemma unpub_rollback: "unpublished w \<Longrightarrow> unpublished (tx_rollback w)"
  by (auto simp: unpublished_def tx_rollback_def split: option.splits)

lemma unpub_commit:
  assumes "unpublished w"
  shows "unpublished (snd (tx_commit w))"
proof -
  obtain ok v where v: "own_exec w = (ok, v)" by fastforce
  then have "unpublished v" using unpub.stays_same [OF same_data_own [OF v]] assms by (simp add: stays_def)
  then show ?thesis using assms v unpub_rollback [of v] unpub_rollback [of w]
    by (auto simp: tx_commit_def unpublished_def [of "v\<lparr>tx := None\<rparr>"] unpublished_def [of v] split: option.splits)
qed

lemma stays_holds: "stays I w m \<Longrightarrow> I w \<Longrightarrow> I (snd m)"
  by (simp add: stays_def)

lemma unpub_call: "unpublished w \<Longrightarrow> unpublished (run_page_call t c w)"
  by (cases c) (simp_all add: unpub_begin unpub_commit unpub_rollback unpub_event HostPolicy_unpublished
      stays_holds [OF unpub_create] stays_holds [OF unpub_attach] stays_holds [OF unpub_set_services] stays_holds [OF unpub_environment]
      stays_holds [OF unpub_delete])

lemma unpub_calls: "unpublished w \<Longrightarrow> unpublished (run_page_calls cs w)"
  unfolding run_page_calls_def by (induction cs arbitrary: w) (auto simp: unpub_call)

text \<open>C29. Under enforced row-level security no status page is ever published: \<open>AttachDomain\<close> and
  \<open>SetServices\<close> run in a transaction of their own and the certificate callbacks in none, so none of
  them has a tenant. From a database without published pages, after any sequence of requests,
  page operations and certificate callbacks, with any statement failures: no page is published, the
  certificate manager refuses every host name, and every request to a public host name goes to the fallback handler.\<close>

theorem rls_publishes_nothing:
  assumes "\<not> bypass_rls w" and "tx w = None" and "\<forall>r\<in>set (status_pages (db w)). sp_state r \<noteq> ''published''"
  shows "(\<forall>r\<in>set (status_pages (db (run_page_calls cs w))). sp_state r \<noteq> ''published'') \<and>
    (tx (run_page_calls cs w) = None \<longrightarrow>
      (\<forall>h. isl (fst (HostPolicy h (run_page_calls cs w)))) \<and>
      (\<forall>host. \<exists>a v. public_request local_midnight dbnow checked now page rng fallback host (run_page_calls cs w) = (Fallback a, v)))"
proof -
  have "unpublished w" using assms by (simp add: unpublished_def none_published_def)
  then have u: "unpublished (run_page_calls cs w)" by (rule unpub_calls)
  then have "\<forall>r\<in>set (status_pages (db (run_page_calls cs w))). sp_state r \<noteq> ''published''"
    by (simp add: unpublished_def none_published_def)
  with HostPolicy_unpublished [OF u] public_request_unpublished [OF u] show ?thesis by blast
qed

subsection \<open>From draft to published\<close>

lemma link_page_services_ok:
  "link_page_services pid sids w = (Inr (), w') \<Longrightarrow> status_pages (db w') = status_pages (db w)"
  by (induction sids arbitrary: w)
     (auto simp: set_db_def pool_fail_def same_data_def split: if_splits elim!: db_bind_cases pool_try_cases)

lemma page_insert_ok:
  assumes "page_insert t sp sids w = (Inr page, w')"
  shows "pg_ID page = next_id w \<and> (\<exists>row. status_pages (db w') = status_pages (db w) @ [row] \<and> sp_id row = next_id w \<and>
    sp_state row = ''draft'' \<and> sp_domain_id row = pg_DomainID sp)"
  using assms unfolding page_insert_def
proof (cases rule: db_bind_cases)
  case (ran row v)
  from ran(2) obtain u where u: "link_page_services (sp_id row) sids v = (Inr (), u)" "page = sp\<lparr>pg_ID := sp_id row, pg_State := sp_state row,
      pg_CreatedAt := sp_created_at row, pg_ServiceIDs := sids\<rparr>" "w' = u"
    by (auto elim!: db_bind_cases)
  from ran(1) have "status_pages (db v) = status_pages (db w) @ [row] \<and> sp_id row = next_id w \<and> sp_state row = ''draft'' \<and>
      sp_domain_id row = pg_DomainID sp"
    by (cases rule: pool_try_cases)
       (auto simp: Let_def set_db_def pool_fail_def same_data_def split: option.splits if_splits)
  with u link_page_services_ok [OF u(1)] show ?thesis by simp
qed simp


lemma healthy_own_commit [simp]: "healthy (own_commit f w) = healthy w"
  by (auto simp: healthy_def own_commit_def split: option.splits)

text \<open>What a session that sees every row reads.\<close>

lemma bypass_reads:
  assumes "bypass_rls w"
  shows "rls_visible w s t" "visible w t" "page_readable w s r" "domain_readable w s d" "readable_pages w = status_pages (db w)"
    "page_domain w r = (case sp_domain_id r of None \<Rightarrow> None | Some d \<Rightarrow> find_row (\<lambda>x. dm_id x = d) (domains (db w)))"
  using assms by (simp_all add: rls_visible_def visible_def page_readable_def domain_readable_def readable_pages_def page_domain_def
      split: option.splits)

lemma bypass_hostname:
  "bypass_rls w \<Longrightarrow> page_hostname w r = (case (sp_subdomain r, Option.bind (sp_domain_id r) (\<lambda>d. find_row (\<lambda>x. dm_id x = d) (domains (db w)))) of
     (Some s, Some d) \<Rightarrow> Some (s @ ''.'' @ dm_hostname d) | _ \<Rightarrow> None)"
  by (cases "sp_domain_id r") (simp_all add: page_hostname_def bypass_reads)

definition attach_row :: "uuid \<Rightarrow> string \<Rightarrow> status_page_row \<Rightarrow> status_page_row" where
  "attach_row d s r = r\<lparr>sp_domain_id := Some d, sp_subdomain := Some s, sp_state := pendingTLSState\<rparr>"

lemma AttachDomain_healthy:
  assumes "healthy w" and "bypass_rls w" and "find_row (\<lambda>r. sp_id r = pid) (status_pages (db w)) = Some r" and "sp_domain_id r = None"
    and "domain_exists d (db w)" and "\<not> domain_taken d s pid (db w)"
  shows "AttachDomain pid d s w = (Inr (scan_page [] (attach_row d s r)),
    own_commit (\<lambda>t. t\<lparr>status_pages := sql_update (\<lambda>r. sp_id r = pid) (attach_row d s) (status_pages t)\<rparr>) w)"
proof -
  have "rls_visible w no_session = (\<lambda>_. True)" using assms(2) by (simp add: rls_visible_def fun_eq_iff)
  then show ?thesis using assms by (simp add: AttachDomain_def Let_def attach_row_def [abs_def])
qed

lemma find_row_first:
  assumes "\<exists>r\<in>set rs. P r" and "\<And>r. r \<in> set rs \<Longrightarrow> P r \<Longrightarrow> Q r"
  shows "\<exists>r. find_row P rs = Some r \<and> r \<in> set rs \<and> Q r"
  using assms by (cases "find_row P rs") (auto simp: find_row_None dest: find_row_Some)

lemma MarkPublished_healthy:
  assumes "healthy w" and "bypass_rls w" and "\<exists>r\<in>set (status_pages (db w)). page_hostname w r = Some h"
  shows "MarkPublished h w = (Inr (), set_db (\<lambda>t. t\<lparr>status_pages := sql_update (\<lambda>r. page_hostname w r = Some h)
    (\<lambda>r. r\<lparr>sp_state := ''published'', sp_tls_last_error := None\<rparr>) (status_pages t)\<rparr>) w)"
  using assms by (auto simp: MarkPublished_def mark_pages_def upd_pages_def bypass_reads sql_count_0_iff)

lemma hostname_of_update [simp]:
  "page_hostname w (r\<lparr>sp_state := st, sp_tls_last_error := e\<rparr>) = page_hostname w r"
  by (simp add: page_hostname_def page_domain_def cong: option.case_cong)

lemma hostname_set_pages:
  "bypass_rls w \<Longrightarrow> page_hostname (set_db (\<lambda>t. t\<lparr>status_pages := f t\<rparr>) w) r = page_hostname w r"
  "bypass_rls w \<Longrightarrow> page_hostname (own_commit (\<lambda>t. t\<lparr>status_pages := f t\<rparr>) w) r = page_hostname w r"
  by (simp_all add: bypass_hostname set_db_def own_commit_def)

text \<open>The certificate event publishes every page with the host name, and the router then serves one of them.\<close>

lemma certificate_event_serves:
  assumes "bypass_rls w" and "healthy w" and "tx w = None" and "h \<noteq> []" and "stripPort host = h"
    and "\<exists>q\<in>set (status_pages (db w)). page_hostname w q = Some h"
    and only: "\<And>q. q \<in> set (status_pages (db w)) \<Longrightarrow> page_hostname w q = Some h \<Longrightarrow> sp_id q = pid"
  shows "\<exists>v tenant. OnEvent ''cert_obtained'' (Some h) None w = (Inr (), v) \<and> HostRouter public fallback host v =
      (Served (fst (public pid tenant (within_tenant tenant v))), tx_rollback (snd (public pid tenant (within_tenant tenant v))))"
proof -
  define v where "v = set_db (\<lambda>t. t\<lparr>status_pages := sql_update (\<lambda>r. page_hostname w r = Some h)
    (\<lambda>r. r\<lparr>sp_state := ''published'', sp_tls_last_error := None\<rparr>) (status_pages t)\<rparr>) w"
  have "MarkPublished h w = (Inr (), v)" unfolding v_def by (rule MarkPublished_healthy [OF assms(2,1,6)])
  then have event: "OnEvent ''cert_obtained'' (Some h) None w = (Inr (), v)"
    using assms(4) by (simp add: OnEvent_def tls_result_def coalesce_def)
  have v: "bypass_rls v" "healthy v" using assms(1-3) by (simp_all add: v_def set_db_def)
  have host: "page_hostname v q = page_hostname w q" for q unfolding v_def by (rule hostname_set_pages [OF assms(1)])
  have pages: "status_pages (db v) = sql_update (\<lambda>r. page_hostname w r = Some h)
      (\<lambda>r. r\<lparr>sp_state := ''published'', sp_tls_last_error := None\<rparr>) (status_pages (db w))" by (simp add: v_def set_db_def)
  obtain p where p: "p \<in> set (status_pages (db w))" "page_hostname w p = Some h" using assms(6) by blast
  then have "p\<lparr>sp_state := ''published'', sp_tls_last_error := None\<rparr> \<in> set (status_pages (db v))"
    by (auto simp: pages set_sql_update intro!: image_eqI [of _ _ p])
  with p have "\<exists>q\<in>set (status_pages (db v)). page_hostname v q = Some h" by (intro bexI) (simp_all add: host)
  moreover have "sp_id q = pid \<and> sp_state q = ''published''" if "q \<in> set (status_pages (db v))" "page_hostname v q = Some h" for q
    using that only by (auto simp: host pages set_sql_update split: if_splits)
  ultimately obtain q where "find_row (\<lambda>r. page_hostname v r = Some h) (status_pages (db v)) = Some q" "sp_id q = pid" "sp_state q = ''published''"
    using find_row_first [of "status_pages (db v)" "\<lambda>r. page_hostname v r = Some h" "\<lambda>q. sp_id q = pid \<and> sp_state q = ''published''"] by blast
  then have get: "GetByHostname h v = (Inr ((scan_page [] q)\<lparr>pg_TenantID := Some (sp_tenant_id q)\<rparr>), v)"
    "sp_id q = pid" "sp_state q = ''published''" using v by (simp_all add: GetByHostname_def bypass_reads)
  have begun: "BeginTenantTx None (Some t) v = (Inr (), within_tenant t v)" for t
    using v by (simp add: BeginTenantTx_def within_tenant_def)
  have "HostRouter public fallback host v =
      (Served (fst (public pid (sp_tenant_id q) (within_tenant (sp_tenant_id q) v))),
       tx_rollback (snd (public pid (sp_tenant_id q) (within_tenant (sp_tenant_id q) v))))"
    unfolding HostRouter_def Let_def assms(5) get(1) by (simp add: scan_page_def get begun split: prod.split)
  with event show ?thesis by blast
qed

text \<open>C31. When the service's database role sees every row and no statement fails, publishing works: a page without a domain
  that is attached to an existing domain under a host name no other page has is accepted by the certificate
  manager, the certificate event publishes it, and from then on requests to the host name are answered
  by the public handler of a page with this id.\<close>

theorem attached_page_goes_live:
  assumes "bypass_rls w" and "healthy w" and "tx w = None"
    and "find_row (\<lambda>r. sp_id r = pid) (status_pages (db w)) = Some r" and "sp_domain_id r = None"
    and "find_row (\<lambda>x. dm_id x = d) (domains (db w)) = Some dr" and "h = s @ ''.'' @ dm_hostname dr"
    and "\<forall>r\<in>set (status_pages (db w)). sp_id r \<noteq> pid \<longrightarrow> page_hostname w r \<noteq> Some h"
    and "AttachDomain pid d s w = (x, w1)" and "HostPolicy h w1 = (y, w2)" and "OnEvent ''cert_obtained'' (Some h) None w2 = (z, w3)"
    and "stripPort host = h"
  shows "\<not> isl x \<and> y = Inr () \<and> z = Inr () \<and>
    (\<exists>tenant. HostRouter public fallback host w3 =
      (Served (fst (public pid tenant (within_tenant tenant w3))), tx_rollback (snd (public pid tenant (within_tenant tenant w3)))))"
proof -
  have taken: "\<not> domain_taken d s pid (db w)"
    using assms(1,6,7,8) by (auto simp: domain_taken_def bypass_hostname)
  have "domain_exists d (db w)" using find_row_Some [OF assms(6)] by (auto simp: domain_exists_def)
  note at = AttachDomain_healthy [OF assms(2,1,4,5) this taken]
  define v1 where "v1 = own_commit (\<lambda>t. t\<lparr>status_pages := sql_update (\<lambda>r. sp_id r = pid) (attach_row d s) (status_pages t)\<rparr>) w"
  have x: "\<not> isl x" "w1 = v1" using assms(9) at by (auto simp: v1_def)
  have v1: "bypass_rls v1" "healthy v1" "tx v1 = None" using assms(1-3) by (simp_all add: v1_def own_commit_def healthy_def)
  have host: "page_hostname v1 q = page_hostname w q" for q unfolding v1_def by (rule hostname_set_pages [OF assms(1)])
  have attached: "page_hostname w (attach_row d s q) = Some h" for q
    using assms(1,6,7) by (simp add: bypass_hostname attach_row_def)
  have pages1: "status_pages (db v1) = sql_update (\<lambda>r. sp_id r = pid) (attach_row d s) (status_pages (db w))"
    by (simp add: v1_def own_commit_def)
  have in1: "attach_row d s r \<in> set (status_pages (db v1))"
    using find_row_Some [OF assms(4)] by (auto simp: pages1 set_sql_update intro!: image_eqI [of _ _ r])
  have only1: "sp_id q = pid \<and> sp_state q = pendingTLSState" if "q \<in> set (status_pages (db v1))" "page_hostname v1 q = Some h" for q
    using that assms(8) host by (auto simp: pages1 set_sql_update attach_row_def split: if_splits)
  have ex1: "\<exists>q\<in>set (status_pages (db v1)). page_hostname v1 q = Some h"
    by (rule bexI [OF _ in1]) (simp add: host attached)
  have "\<exists>q. find_row (\<lambda>r. page_hostname v1 r = Some h) (status_pages (db v1)) = Some q \<and> q \<in> set (status_pages (db v1)) \<and>
      (sp_id q = pid \<and> sp_state q = pendingTLSState)"
    by (rule find_row_first [OF ex1]) (rule only1)
  then obtain q where q: "find_row (\<lambda>r. page_hostname v1 r = Some h) (status_pages (db v1)) = Some q" "sp_state q = pendingTLSState"
    by blast
  then have y: "y = Inr ()" "w2 = v1"
    using assms(10) v1 x by (auto simp: HostPolicy_def StateByHostname_def bypass_reads draftState_def pendingTLSState_def)
  have "sp_id q = pid" if "q \<in> set (status_pages (db v1))" "page_hostname v1 q = Some h" for q using only1 that by blast
  from certificate_event_serves [OF v1 _ assms(12) ex1 this] assms(7,11) y x show ?thesis by auto
qed

subsection \<open>What the public host name serves\<close>

text \<open>Reads leave the data of the world, and of the transaction they run in, as it is.\<close>

definition frozen :: "tables \<Rightarrow> StatusInterval list \<Rightarrow> bool \<Rightarrow> world \<Rightarrow> bool" where
  "frozen D J b w \<longleftrightarrow> db w = D \<and> intervals w = J \<and> bypass_rls w = b \<and> (case tx w of None \<Rightarrow> True | Some t \<Rightarrow> tx_begin t = D)"

interpretation frz: db_invariant "frozen D J b"
proof
  fix w w' assume "frozen D J b w" "same_data w w'"
  then show "frozen D J b w'" by (auto simp: frozen_def same_data_def split: option.splits)
qed (auto simp: frozen_def tx_rollback_def split: option.splits)

lemma frozen_page_reads [simp, intro!]:
  "stays (frozen D J b) w (GetByHostname h w)" "stays (frozen D J b) w (ListForStatusPage pid w)"
  "stays (frozen D J b) w (OpenIntervalsByService w)" "stays (frozen D J b) w (Active w)"
  "stays (frozen D J b) w (ListGroups pid w)" "stays (frozen D J b) w (DomainGetByID did w)"
  "stays (frozen D J b) w (ListOverlapping sids lo hi w)" "stays (frozen D J b) w (serviceIDsByStatusPage pids w)"
  by (auto simp: GetByHostname_def ListForStatusPage_def OpenIntervalsByService_def Active_def ListGroups_def DomainGetByID_def
      ListOverlapping_def serviceIDsByStatusPage_def intro!: frz.stays_pool_try split: option.split list.split)

lemma frozen_page [simp, intro!]: "stays (frozen D J b) w (PageGetByID pid w)"
  unfolding PageGetByID_def by (rule frz.stays_pool_try) (auto intro!: frz.stays_db_bind split: option.split)

lemma frozen_domain_health [simp, intro!]: "stays (frozen D J b) w (resolveDomainHealth checked page w)"
  unfolding resolveDomainHealth_def by (auto simp: Let_def intro!: frz.stays_db_bind split: option.split)

lemma page_extras_frozen:
  assumes "page_extras checked pid w = (x, w')" and "frozen D J b w"
  shows "frozen D J b w' \<and> session_of w' = session_of w"
proof -
  obtain r v where r: "PageGetByID pid w = (r, v)" by fastforce
  then have v: "frozen D J b v \<and> session_of v = session_of w" using staysD [of "frozen D J b" w r v] assms(2) frozen_page [of D J b w pid] by simp
  show ?thesis
  proof (cases r)
    case (Inr page)
    obtain q u where q: "resolveDomainHealth checked page v = (q, u)" by fastforce
    then show ?thesis using staysD [of "frozen D J b" v q u] v frozen_domain_health [of D J b v checked page] assms(1) r Inr
      by (auto simp: page_extras_def split: sum.splits)
  qed (use assms(1) r v in \<open>auto simp: page_extras_def\<close>)
qed

lemma stays_extras:
  assumes "\<And>dh env v. stays (frozen D J b) v (k dh env v)"
  shows "stays (frozen D J b) w (case page_extras checked pid w of ((dh, env), v) \<Rightarrow> k dh env v)"
proof (cases "page_extras checked pid w")
  case (Pair x v)
  obtain dh env where "x = (dh, env)" by fastforce
  with Pair page_extras_frozen [OF Pair] assms [where v = v] show ?thesis by (simp add: stays_def)
qed

lemma composeResponse_frozen [simp, intro!]:
  "stays (frozen D J b) w (composeResponse lm dbnow checked now pid rp rng w)"
  unfolding composeResponse_def Let_def
  by (intro frz.stays_db_bind frozen_page_reads frz.stays_lists stays_extras
    | (simp only: split: prod.split, intro allI impI, intro frz.stays_db_bind frozen_page_reads stays_extras) | simp)+

text \<open>The rows a listed service comes from, and the parts of a composed response.\<close>

definition shows_service :: "tables \<Rightarrow> (uuid \<Rightarrow> bool) \<Rightarrow> uuid \<Rightarrow> publicServiceResponse \<Rightarrow> bool" where
  "shows_service d tenant_ok pid x \<longleftrightarrow> psr_Status x \<noteq> ''not_configured'' \<and> (\<exists>r\<in>set (services d). tenant_ok (sv_tenant_id r) \<and> live_row r \<and>
     psr_ID x = sv_id r \<and> psr_Name x = sv_name r \<and> psr_Status x = sv_current_status r \<and>
     (\<exists>p\<in>set (status_page_services d). pl_service_id p = sv_id r \<and> pl_status_page_id p = pid))"

lemma ListForStatusPage_rows:
  assumes "ListForStatusPage pid w = (Inr ss, v)" and "s \<in> set ss" and "shown_service s"
    and "psr_ID x = s_ID s" "psr_Name x = s_Name s" "psr_Status x = s_CurrentStatus s"
  shows "shows_service (db w) (visible w) pid x"
  using assms(1) unfolding ListForStatusPage_def
proof (cases rule: pool_try_cases)
  case (ran u)
  then obtain r p where rp: "(r, p) \<in> set (placed_rows pid u)" "s = scan_placed u (r, p)"
    using assms(2) by auto
  then have p: "p \<in> set (status_page_services (db w))" "pl_service_id p = sv_id r" "pl_status_page_id p = pid"
    and r: "r \<in> set (services (db w))" "visible w (sv_tenant_id r)" "live_row r"
    by (auto simp: placed_rows_def visible_services_def same_dataD(1,6) [OF ran(1)])
  from p r rp(2) assms(3-) show ?thesis
    unfolding shows_service_def by (auto simp: scan_placed_def shown_service_def intro!: bexI [of _ r] bexI [of _ p])
qed simp

lemma page_readable_bypass: "bypass_rls v = bypass_rls w \<Longrightarrow> page_readable v = page_readable w"
  by (simp add: page_readable_def rls_visible_def fun_eq_iff)

lemma composeResponse_steps:
  assumes "composeResponse lm dbnow checked now pid rp rng w = (Inr resp, w')"
  obtains ss v1 os v2 act res n v3 co v4 gs v5 dh env v6 ov where
    "ListForStatusPage pid w = (Inr ss, v1)" "OpenIntervalsByService v1 = (Inr os, v2)"
    "ListPublicForStatusPage dbnow pid incidentRetentionDays rp publicResolvedIncidentsPageSize v2 = (Inr (act, res, n), v3)"
    "Active v3 = (Inr co, v4)" "ListGroups pid v4 = (Inr gs, v5)" "page_extras checked pid v5 = ((dh, env), v6)"
    "ListOverlapping (map s_ID (filter shown_service ss)) (now - rg_window rng) now v6 = (Inr ov, w')"
    "rs_Environment resp = env" "rs_CompanyName resp = t_Name co"
    "rs_Services resp = map (service_response lm now rng os ov (fold (\<lambda>s m. m(s_ID s \<mapsto> s_Name s)) ss Map.empty)) (filter shown_service ss)"
proof -
  note rest = assms [unfolded composeResponse_def Let_def]
  from rest show thesis
    apply (elim db_bind_cases)
          apply simp_all
    apply (clarsimp split: prod.split_asm)
    apply (elim db_bind_cases, simp_all, clarsimp split: prod.split_asm)+
    apply (rule that, assumption+)
    apply simp_all
    done
qed

lemma composeResponse_services:
  assumes "composeResponse lm dbnow checked now pid rp rng w = (Inr resp, w')" and "x \<in> set (rs_Services resp)"
  shows "shows_service (db w) (visible w) pid x"
  using assms(1)
proof (cases rule: composeResponse_steps)
  case (1 ss)
  with assms(2) obtain s where "s \<in> set ss" "shown_service s" "psr_ID x = s_ID s" "psr_Name x = s_Name s" "psr_Status x = s_CurrentStatus s"
    by (auto simp: service_response_def Let_def)
  from ListForStatusPage_rows [OF 1(1) this] show ?thesis .
qed

definition tx_failed :: "world \<Rightarrow> bool" where
  "tx_failed w \<longleftrightarrow> (\<exists>t. tx w = Some t \<and> tx_aborted t)"

lemma pool_try_in_tx:
  assumes "pool_try w k = (r, w')" and "tx w = Some t"
  obtains (failed) e where "r = Inl e" "tx_failed w'"
  | (ran) v where "same_data w v" "k v = (r, w')"
  using assms same_data_pool [of w]
  by (auto simp: pool_try_def pool_exec_def abort_tx_def tx_failed_def split: prod.splits if_splits dest!: own_exec_frame)

lemma page_extras_environment:
  assumes "page_extras checked pid w = ((dh, env), w')" and "tx w = Some t" and "\<exists>r\<in>set (readable_pages w). sp_id r = pid"
  shows "tx_failed w' \<or> (\<exists>r\<in>set (readable_pages w). sp_id r = pid \<and> env = sp_environment r)"
proof -
  obtain res v where res: "PageGetByID pid w = (res, v)" by fastforce
  have "(isl res \<and> tx_failed v) \<or> (\<exists>page. res = Inr page \<and> (\<exists>r\<in>set (readable_pages w). sp_id r = pid \<and> pg_Environment page = sp_environment r))"
    using res [unfolded PageGetByID_def] assms(2)
  proof (cases rule: pool_try_in_tx)
    case (ran u)
    have pages: "readable_pages u = readable_pages w"
      using same_dataD [OF ran(1)] page_readable_bypass [of u w] by (simp add: readable_pages_def)
    obtain r where r: "find_row (\<lambda>r. sp_id r = pid) (readable_pages w) = Some r"
      using assms(3) by (cases "find_row (\<lambda>r. sp_id r = pid) (readable_pages w)") (auto simp: find_row_None)
    obtain t' where t': "tx u = Some t'" using ran(1) assms(2) by (auto simp: same_data_def)
    from ran(2) r pages have "db_bind (serviceIDsByStatusPage [pid] u) (\<lambda>links w. (Inr (scan_page (links pid) r), w)) = (res, v)" by simp
    then show ?thesis
    proof (cases rule: db_bind_cases)
      case (failed e)
      from failed(2) have "pool_try u (\<lambda>w. (Inr (service_links [pid] (db w)), w)) = (Inl e, v)" by (simp add: serviceIDsByStatusPage_def)
      from this t' show ?thesis using failed(1) by (cases rule: pool_try_in_tx) auto
    qed (use find_row_Some [OF r] in \<open>auto simp: scan_page_def\<close>)
  qed auto
  then show ?thesis using assms(1) res by (auto simp: page_extras_def isl_def split: sum.splits prod.splits)
qed

lemma frozen_step:
  "frozen D J b u \<and> session_of u = s \<Longrightarrow> stays (frozen D J b) u m \<Longrightarrow> m = (Inr a, v) \<Longrightarrow> frozen D J b v \<and> session_of v = s"
  by (auto simp: stays_def)

lemma composeResponse_environment:
  assumes "composeResponse lm dbnow checked now pid rp rng w = (Inr resp, w')" and "frozen D J b w" "tx w \<noteq> None"
    and "\<exists>r\<in>set (readable_pages w). sp_id r = pid" and "rs_Services resp \<noteq> []"
  shows "\<exists>r\<in>set (readable_pages w). sp_id r = pid \<and> rs_Environment resp = sp_environment r"
  using assms(1)
proof (cases rule: composeResponse_steps)
  case (1 ss v1 os v2 act res n v3 co v4 gs v5 dh env v6 ov)
  note step = frozen_step [where D = D and J = J and b = b and s = "session_of w"]
  have "frozen D J b w \<and> session_of w = session_of w" using assms(2) by simp
  from step [OF this _ 1(1)] have "frozen D J b v1 \<and> session_of v1 = session_of w" by simp
  from step [OF this _ 1(2)] have "frozen D J b v2 \<and> session_of v2 = session_of w" by simp
  from step [OF this _ 1(3)] have "frozen D J b v3 \<and> session_of v3 = session_of w" by simp
  from step [OF this _ 1(4)] have "frozen D J b v4 \<and> session_of v4 = session_of w" by simp
  from step [OF this _ 1(5)] have v5: "frozen D J b v5 \<and> session_of v5 = session_of w" by simp
  then have "db v5 = db w" "bypass_rls v5 = bypass_rls w" "pool_session v5 = pool_session w"
    using assms(2) by (auto simp: frozen_def intro: pool_session_of)
  then have pages: "readable_pages v5 = readable_pages w" using page_readable_bypass [of v5 w] by (simp add: readable_pages_def)
  obtain t where t: "tx v5 = Some t" using v5 assms(3) by (auto simp: session_of_def)
  have "\<not> tx_failed v6"
  proof
    assume "tx_failed v6"
    then obtain t where "tx v6 = Some t" "tx_aborted t" by (auto simp: tx_failed_def)
    with 1(7,10) assms(5) show False by (auto simp: ListOverlapping_def aborted_pool_try split: if_splits)
  qed
  with page_extras_environment [OF 1(6) t] pages assms(4) 1(8) show ?thesis by simp
qed

lemma GetByHostname_row:
  assumes "GetByHostname h w = (Inr page, v)"
  shows "same_data w v \<and> (\<exists>r\<in>set (status_pages (db w)). page_hostname w r = Some h \<and>
    page = (scan_page [] r)\<lparr>pg_TenantID := Some (sp_tenant_id r)\<rparr>)"
  using assms unfolding GetByHostname_def
proof (cases rule: pool_try_cases)
  case (ran u)
  have host: "page_hostname u r = page_hostname w r" for r
    using same_dataD [OF ran(1)] page_readable_bypass [of u w]
    by (simp add: page_hostname_def page_domain_def domain_readable_def rls_visible_def cong: option.case_cong)
  obtain r where r: "find_row (\<lambda>r. page_hostname u r = Some h) (readable_pages u) = Some r"
      "page = (scan_page [] r)\<lparr>pg_TenantID := Some (sp_tenant_id r)\<rparr>" "v = u"
    using ran(2) by (auto split: option.split_asm)
  with find_row_Some [OF r(1)] ran(1) host show ?thesis by (auto simp: readable_pages_def same_dataD(1))
qed simp

lemma public_request_served:
  assumes "public_request lm dbnow checked now pg rng fallback host w = (Served a, w')" and "tx w = None"
  obtains r v u where "r \<in> set (status_pages (db w))" "page_hostname w r = Some (stripPort host)" "sp_state r = ''published''"
    "frozen (db w) (intervals w) (bypass_rls w) v" "app_tenant_id (pool_session v) = Some (sp_tenant_id r)" "tx v \<noteq> None"
    "PublicGet lm dbnow checked now pg rng (Some (sp_id r)) v = (a, u)" "w' = tx_rollback u"
proof -
  obtain page v1 where page: "GetByHostname (stripPort host) w = (Inr page, v1)" "pg_State page = ''published''"
      and r1: "(case BeginTenantTx None (pg_TenantID page) v1 of
                  (Inl e, w) \<Rightarrow> (ServiceUnavailable, w)
                | (Inr _, w) \<Rightarrow> (case PublicGet lm dbnow checked now pg rng (Some (pg_ID page)) w of (r, w) \<Rightarrow> (Served r, tx_rollback w))) = (Served a, w')"
    using assms(1) by (auto simp: public_request_def HostRouter_def Let_def split: sum.split_asm prod.split_asm if_split_asm)
  obtain v u where v: "BeginTenantTx None (pg_TenantID page) v1 = (Inr (), v)"
      "PublicGet lm dbnow checked now pg rng (Some (pg_ID page)) v = (a, u)" "w' = tx_rollback u"
    using r1 by (cases "BeginTenantTx None (pg_TenantID page) v1") (auto split: sum.split_asm prod.split_asm)
  from GetByHostname_row [OF page(1)] obtain r where r: "same_data w v1" "r \<in> set (status_pages (db w))"
      "page_hostname w r = Some (stripPort host)" "page = (scan_page [] r)\<lparr>pg_TenantID := Some (sp_tenant_id r)\<rparr>" by blast
  from BeginTenantTx_ok [OF v(1)] r(1) have "frozen (db w) (intervals w) (bypass_rls w) v" "tx v \<noteq> None"
      "app_tenant_id (pool_session v) = Some (sp_tenant_id r)"
    by (simp_all add: frozen_def same_dataD pool_session_def r(4))
  with that r v page(2) show thesis by (simp add: scan_page_def)
qed

lemma PublicGet_frozen:
  assumes "PublicGet lm dbnow checked now pg rng pid v = (a, u)" and "frozen D J b v"
  shows "frozen D J b u \<and> session_of u = session_of v"
proof -
  have "stays (frozen D J b) v (composeResponse lm dbnow checked now p (parsePage pg) s v)" for p s by simp
  with assms show ?thesis
    by (auto simp: PublicGet_def compose_answer_def stays_def split: option.split_asm prod.split_asm sum.split_asm)
       (metis prod.sel(2))+
qed

lemma PublicGet_page:
  "PublicGet lm dbnow checked now pg rng (Some pid) v = (PublicPage resp, u) \<Longrightarrow>
     \<exists>s. composeResponse lm dbnow checked now pid (parsePage pg) s v = (Inr resp, u)"
  by (auto simp: PublicGet_def compose_answer_def split: option.split_asm prod.split_asm sum.split_asm)

text \<open>C32. Serving a public host name never changes the database, whatever fails, and a page that is served belongs to a
  published status page with that host name: every service it shows is a live, configured service
  placed on that page, with its name and current status as stored, and, under row-level security, a
  service of the tenant the page belongs to.\<close>

theorem public_page_shows_own_services_only:
  assumes "tx w = None" and "public_request lm dbnow checked now pg rng fallback host w = (Served a, w')"
  shows "db w' = db w \<and> intervals w' = intervals w \<and> tx w' = None \<and>
    (\<exists>r\<in>set (status_pages (db w)). page_hostname w r = Some (stripPort host) \<and> sp_state r = ''published'' \<and>
      (\<forall>resp. a = PublicPage resp \<longrightarrow> (\<forall>x\<in>set (rs_Services resp).
         shows_service (db w) (\<lambda>t. bypass_rls w \<or> t = sp_tenant_id r) (sp_id r) x)))"
  using assms(2,1)
proof (cases rule: public_request_served)
  case (1 r v u)
  from PublicGet_frozen [OF 1(7,4)] 1(6) have u: "db (tx_rollback u) = db w" "intervals (tx_rollback u) = intervals w" "tx (tx_rollback u) = None"
    by (auto simp: frozen_def tx_rollback_def session_of_def)
  have "visible v = (\<lambda>t. bypass_rls w \<or> t = sp_tenant_id r)" "db v = db w"
    using 1(4,5) by (auto simp: visible_def rls_visible_def frozen_def fun_eq_iff)
  then have "shows_service (db w) (\<lambda>t. bypass_rls w \<or> t = sp_tenant_id r) (sp_id r) x"
    if "a = PublicPage resp" "x \<in> set (rs_Services resp)" for resp x
    using PublicGet_page [of lm dbnow checked now pg rng "sp_id r" v resp u] 1(7) that composeResponse_services by fastforce
  with u 1 show ?thesis by blast
qed

text \<open>C33. The environment and domain health of a page are not best effort: the statements that read them run in the request's
  transaction, which a failure aborts, so the page fails as a whole. A page served with at least one
  service always shows the environment of the status page with that host name, under any statement failures.\<close>

theorem public_page_shows_its_environment:
  assumes "tx w = None" and "public_request lm dbnow checked now pg rng fallback host w = (Served (PublicPage resp), w')"
    and "rs_Services resp \<noteq> []" and "\<forall>r\<in>set (status_pages (db w)). \<forall>q\<in>set (status_pages (db w)). sp_id r = sp_id q \<longrightarrow> r = q"
  shows "\<exists>r\<in>set (status_pages (db w)). page_hostname w r = Some (stripPort host) \<and> rs_Environment resp = sp_environment r"
  using assms(2,1)
proof (cases rule: public_request_served)
  case (1 r v u)
  from PublicGet_page [OF 1(7)] obtain s where c: "composeResponse lm dbnow checked now (sp_id r) (parsePage pg) s v = (Inr resp, u)" by blast
  have db: "db v = db w" using 1(4) by (simp add: frozen_def)
  have "r \<in> set (readable_pages v)"
    using 1(1,5) db by (simp add: readable_pages_def page_readable_def rls_visible_def)
  then have "\<exists>q\<in>set (readable_pages v). sp_id q = sp_id r" by blast
  from composeResponse_environment [OF c 1(4,6) this assms(3)] obtain q where
    "q \<in> set (status_pages (db w))" "sp_id q = sp_id r" "rs_Environment resp = sp_environment q" by (auto simp: readable_pages_def db)
  with assms(4) 1(1,2) show ?thesis by metis
qed

subsection \<open>Witnesses\<close>

definition acme_page :: status_page_row where
  "acme_page = \<lparr>sp_id = 10, sp_tenant_id = 3, sp_name = ''Acme'', sp_subdomain = None, sp_domain_id = None, sp_state = ''draft'',
     sp_tls_last_error = None, sp_environment = [], sp_created_at = 0\<rparr>"

definition acme_domain :: domain_row where
  "acme_domain = \<lparr>dm_id = 20, dm_tenant_id = 3, dm_hostname = ''acme.io'', dm_created_at = 0, dm_domain_type = ''custom'',
     dm_status = ''verified'', dm_verification_token = ''t'', dm_verified_at = Some 0, dm_last_error = None, dm_expires_at = None,
     dm_registrar = None, dm_expected_ns = None, dm_current_ns = None, dm_ns_drift_detected = False,
     dm_last_rdap_check_at = None, dm_last_rdap_success_at = None, dm_rdap_last_error = None\<rparr>"

definition acme_service :: service_row where
  "acme_service = \<lparr>sv_id = 30, sv_tenant_id = 3, sv_name = ''api'', sv_slo_id = None, sv_slo_name = [], sv_slo_type = None,
     sv_datadog_service_tag = None, sv_environment = ''prod'', sv_monitor_mode = ''slo'', sv_poll_type = None, sv_poll_target = None,
     sv_poll_interval_seconds = None, sv_current_status = ''operational'', sv_last_status_change_at = 0, sv_status_analysis = None,
     sv_last_burn_rate_short = None, sv_last_burn_rate_long = None, sv_last_window_errors = None, sv_last_window_requests = None,
     sv_last_reading_at = None, sv_last_error_at = None, sv_deleted_at = None\<rparr>"

definition acme_world :: "bool \<Rightarrow> status_page_row \<Rightarrow> world" where
  "acme_world bypass page = fresh_world\<lparr>bypass_rls := bypass, next_id := 100,
     db := no_rows\<lparr>status_pages := [page], domains := [acme_domain], tenants := [sample_tenant], services := [acme_service],
       status_page_services := [\<lparr>pl_status_page_id = 10, pl_service_id = 30, pl_group_id = None, pl_parent_service_id = None, pl_position = 0\<rparr>]\<rparr>\<rparr>"

lemma acme_world_simps [simp]:
  "status_pages (db (acme_world b p)) = [p]" "domains (db (acme_world b p)) = [acme_domain]" "tenants (db (acme_world b p)) = [sample_tenant]"
  "services (db (acme_world b p)) = [acme_service]" "incidents (db (acme_world b p)) = []" "service_groups (db (acme_world b p)) = []"
  "status_page_services (db (acme_world b p)) =
     [\<lparr>pl_status_page_id = 10, pl_service_id = 30, pl_group_id = None, pl_parent_service_id = None, pl_position = 0\<rparr>]"
  "bypass_rls (acme_world b p) = b" "tx (acme_world b p) = None" "next_id (acme_world b p) = 100" "healthy (acme_world b p)"
  "intervals (acme_world b p) = []" "faults (acme_world b p) = []"
  by (simp_all add: acme_world_def fresh_world_def no_rows_def healthy_def)

theorem rls_publishes_nothing_witness:
  "list_all (\<lambda>r. sp_state r \<noteq> ''published'') (status_pages (db (run_page_calls [(1, CallAttach 10 20 ''status''),
      (2, CertDecision ''status.acme.io''), (3, CertEvent ''cert_obtained'' (Some ''status.acme.io'') None)] (acme_world False acme_page))))"
  unfolding list_all_iff
  by (rule rls_publishes_nothing [where w = "acme_world False acme_page", THEN conjunct1]) (simp_all add: acme_page_def)

theorem attached_page_goes_live_witness:
  "\<exists>x w1 w2 w3. AttachDomain 10 20 ''status'' (acme_world True acme_page) = (Inr x, w1) \<and>
     HostPolicy ''status.acme.io'' w1 = (Inr (), w2) \<and> OnEvent ''cert_obtained'' (Some ''status.acme.io'') None w2 = (Inr (), w3) \<and>
     (\<exists>a u. HostRouter (\<lambda>pid tenant w. (pid, w)) (\<lambda>w. (0, w)) ''status.acme.io:443'' w3 = (Served a, u))"
proof -
  obtain x w1 where x: "AttachDomain 10 20 ''status'' (acme_world True acme_page) = (x, w1)" by fastforce
  obtain y w2 where y: "HostPolicy ''status.acme.io'' w1 = (y, w2)" by fastforce
  obtain z w3 where z: "OnEvent ''cert_obtained'' (Some ''status.acme.io'') None w2 = (z, w3)" by fastforce
  have "stripPort ''status.acme.io:443'' = ''status.acme.io''" by code_simp
  from attached_page_goes_live [OF _ _ _ _ _ _ _ _ x y z this, where r = acme_page and dr = acme_domain
      and public = "\<lambda>pid tenant w. (pid, w)" and fallback = "\<lambda>w. (0, w)"]
  have "\<not> isl x \<and> y = Inr () \<and> z = Inr () \<and> (\<exists>a u. HostRouter (\<lambda>pid tenant w. (pid, w)) (\<lambda>w. (0, w)) ''status.acme.io:443'' w3 = (Served a, u))"
    by (fastforce simp: acme_page_def acme_domain_def)
  with x y z show ?thesis by (cases x) auto
qed

definition acme_new_page :: StatusPage where
  "acme_new_page = \<lparr>pg_ID = 0, pg_TenantID = None, pg_Name = ''New'', pg_Subdomain = Some ''status'', pg_DomainID = Some 20, pg_State = [],
     pg_TLSLastError = None, pg_Environment = [], pg_CreatedAt = 0, pg_ServiceIDs = []\<rparr>"


definition acme_live :: world where
  "acme_live = acme_world False (acme_page\<lparr>sp_domain_id := Some 20, sp_subdomain := Some ''status'', sp_state := ''published'', sp_environment := ''staging''\<rparr>)"

lemma acme_live_served:
  "\<exists>resp w'. public_request (\<lambda>t. t) 0 0 0 [] [] (\<lambda>w. (PageNotFound, w)) ''status.acme.io'' acme_live = (Served (PublicPage resp), w') \<and>
     rs_Services resp \<noteq> []"
proof -
  let ?page = "acme_page\<lparr>sp_domain_id := Some 20, sp_subdomain := Some ''status'', sp_state := ''published'', sp_environment := ''staging''\<rparr>"
  have strip: "stripPort ''status.acme.io'' = ''status.acme.io''" by code_simp
  have get: "GetByHostname ''status.acme.io'' acme_live = (Inr ((scan_page [] ?page)\<lparr>pg_TenantID := Some 3\<rparr>), acme_live)"
    by (simp add: GetByHostname_def acme_live_def readable_pages_def page_readable_def pool_session_def no_session_def page_hostname_def
        page_domain_def domain_readable_def acme_domain_def acme_page_def)
  have begun: "BeginTenantTx None (Some 3) acme_live = (Inr (), within_tenant 3 acme_live)"
    by (simp add: BeginTenantTx_def within_tenant_def acme_live_def)
  define v where "v = within_tenant 3 acme_live"
  have v: "healthy v" "app_tenant_id (pool_session v) = Some 3" "db v = db acme_live" "intervals v = []" "bypass_rls v = False"
    by (simp_all add: v_def acme_live_def)
  have vis: "visible v t \<longleftrightarrow> t = 3" for t using v by (auto simp: visible_def rls_visible_def)
  have pages: "readable_pages v = [?page]" using v by (simp add: readable_pages_def page_readable_def rls_visible_def acme_live_def acme_page_def)
  have none: "visible_incidents v = []" using v by (simp add: visible_incidents_def acme_live_def)
  have "ListForStatusPage 10 v = (Inr [scan_placed v (acme_service, \<lparr>pl_status_page_id = 10, pl_service_id = 30, pl_group_id = None,
      pl_parent_service_id = None, pl_position = 0\<rparr>)], v)"
    using v vis by (simp add: ListForStatusPage_def placed_rows_def visible_services_def acme_live_def live_row_def acme_service_def)
  moreover have "shown_service (scan_placed v (acme_service, p))" for p
    by (simp add: scan_placed_def shown_service_def acme_service_def)
  moreover have "ListPublicForStatusPage 0 10 incidentRetentionDays 1 publicResolvedIncidentsPageSize v = (Inr ([], [], 0), v)"
    using v none by (simp add: ListPublicForStatusPage_def page_try_def row_offset_def page_join_def distinct_desc_def sql_page_def
      countResolvedPublicForStatusPage_def Let_def wrap64_def publicResolvedIncidentsPageSize_def order_desc_def)
  moreover have "Active v = (Inr sample_tenant, v)"
    using v vis by (simp add: Active_def acme_live_def sample_tenant_def new_tenant_def legacyPlaceholderTenantID_def)
  moreover have "PageGetByID 10 v = (Inr (scan_page [30] ?page), v)"
    using v pages by (simp add: PageGetByID_def serviceIDsByStatusPage_def service_links_def acme_live_def acme_page_def)
  moreover have "resolveDomainHealth 0 (scan_page [30] ?page) v = (Inr None, v)"
    using v vis by (simp add: resolveDomainHealth_def scan_page_def DomainGetByID_def readable_domains_def domain_readable_def rls_visible_def
        acme_live_def acme_domain_def scan_domain_def nonzero_time_def)
  ultimately have "\<exists>resp. composeResponse (\<lambda>t. t) 0 0 0 10 1 s v = (Inr resp, v) \<and> rs_Services resp \<noteq> []" for s
    using v by (simp add: composeResponse_def OpenIntervalsByService_def ListGroups_def page_extras_def ListOverlapping_def Let_def)
  then obtain resp where "composeResponse (\<lambda>t. t) 0 0 0 10 1 \<lparr>rg_window = 24 * hour, rg_bucketWidth = hour, rg_bucketCount = 24\<rparr> v =
      (Inr resp, v)" "rs_Services resp \<noteq> []" by blast
  then show ?thesis
    using get begun strip
    by (simp add: public_request_def HostRouter_def Let_def scan_page_def PublicGet_def parsePage_def parseRange_def rangeSpecs_def
        compose_answer_def acme_page_def flip: v_def)
qed

theorem public_page_shows_own_services_only_witness:
  "\<exists>resp w'. public_request (\<lambda>t. t) 0 0 0 [] [] (\<lambda>w. (PageNotFound, w)) ''status.acme.io'' acme_live = (Served (PublicPage resp), w') \<and>
     db w' = db acme_live \<and> rs_Services resp \<noteq> [] \<and> list_all (\<lambda>x. psr_Name x = ''api'') (rs_Services resp)"
proof -
  from acme_live_served obtain resp w' where r: "public_request (\<lambda>t. t) 0 0 0 [] [] (\<lambda>w. (PageNotFound, w)) ''status.acme.io'' acme_live =
      (Served (PublicPage resp), w')" "rs_Services resp \<noteq> []" by blast
  from public_page_shows_own_services_only [OF _ r(1)] have "db w' = db acme_live \<and> (\<forall>x\<in>set (rs_Services resp). psr_Name x = ''api'')"
    by (auto simp: acme_live_def shows_service_def acme_service_def)
  with r show ?thesis by (auto simp: list_all_iff)
qed

theorem public_page_shows_its_environment_witness:
  "\<exists>resp w'. public_request (\<lambda>t. t) 0 0 0 [] [] (\<lambda>w. (PageNotFound, w)) ''status.acme.io'' acme_live = (Served (PublicPage resp), w') \<and>
     rs_Environment resp = ''staging''"
proof -
  from acme_live_served obtain resp w' where r: "public_request (\<lambda>t. t) 0 0 0 [] [] (\<lambda>w. (PageNotFound, w)) ''status.acme.io'' acme_live =
      (Served (PublicPage resp), w')" "rs_Services resp \<noteq> []" by blast
  from public_page_shows_its_environment [OF _ r] have "rs_Environment resp = ''staging''" by (simp add: acme_live_def)
  with r show ?thesis by blast
qed

end
