(* ===== verification/Team.thy ===== *)
theory Team
  imports Auth Pagination
begin

text \<open>
  The members of a tenant: the audit log (\<open>internal/audit/log.go\<close>, \<open>internal/db/audit_log_repository.go\<close>,
  \<open>internal/api/audit_log_handler.go\<close>), the invites (\<open>internal/db/tenant_invites.go\<close>), the deletion of a user with what the database cascades
  to, and the handlers of \<open>internal/api/admins.go\<close>.

  \<^item> The email service is the parameter \<open>send\<close>; it takes the address, the email and the world and says
    whether the email was sent. A random token is an argument, \<open>None\<close> when the source of randomness fails.
  \<^item> An identifier from the path is \<open>None\<close> when it is not a UUID: Postgres refuses the statement.
\<close>

subsection \<open>The audit log\<close>

definition Record :: "time \<Rightarrow> uuid \<Rightarrow> uuid \<Rightarrow> string \<Rightarrow> string \<Rightarrow> world \<Rightarrow> unit db_result" where
  "Record dbnow actor target label action w =
     pool_try w (\<lambda>w.
       case app_tenant_id (pool_session w) of
         None \<Rightarrow> pool_fail w
       | Some tenant \<Rightarrow>
           (Inr (), (set_db (\<lambda>d. d\<lparr>audit_log := audit_log d @
              [\<lparr>au_id = next_id w, au_tenant_id = tenant, au_actor_id = actor, au_target_id = target,
                au_target_label = nullif_empty label, au_action = action, au_created_at = dbnow\<rparr>]\<rparr>) w)\<lparr>next_id := Suc (next_id w)\<rparr>))"

record AuditLogEntry =
  ae_Action :: string
  ae_TargetLabel :: "string option"
  ae_ActorName :: string
  ae_ActorDeleted :: bool
  ae_CreatedAt :: time

definition scan_audit :: "tables \<Rightarrow> audit_row \<Rightarrow> AuditLogEntry" where
  "scan_audit d r =
     (let actor = find_row (\<lambda>u. u_ID u = au_actor_id r) (users d)
      in \<lparr>ae_Action = au_action r, ae_TargetLabel = au_target_label r,
          ae_ActorName = (case actor of None \<Rightarrow> [] | Some u \<Rightarrow> u_Name u), ae_ActorDeleted = (actor = None),
          ae_CreatedAt = au_created_at r\<rparr>)"

definition ListRecent :: "nat \<Rightarrow> world \<Rightarrow> AuditLogEntry list db_result" where
  "ListRecent limit w =
     pool_try w (\<lambda>w. (Inr (map (scan_audit (db w))
       (take limit (order_desc au_created_at (filter (\<lambda>r. visible w (au_tenant_id r)) (audit_log (db w)))))), w))"

subsection \<open>Invites\<close>

definition opt_id :: "'i option \<Rightarrow> ('i \<Rightarrow> world \<Rightarrow> 'a db_result) \<Rightarrow> world \<Rightarrow> 'a db_result" where
  "opt_id i f w = (case i of None \<Rightarrow> pool_try w pool_fail | Some k \<Rightarrow> f k w)"

definition own_invite :: "world \<Rightarrow> TenantInvite \<Rightarrow> bool" where
  "own_invite w i = opt_holds (visible w) (iv_TenantID i)"

definition InviteCreate :: "time \<Rightarrow> TenantInvite \<Rightarrow> world \<Rightarrow> TenantInvite db_result" where
  "InviteCreate dbnow i w =
     pool_try w (\<lambda>w.
       let tenant = (if iv_TenantID i = None then app_tenant_id (pool_session w) else iv_TenantID i);
           row = i\<lparr>iv_ID := next_id w, iv_TenantID := tenant, iv_CreatedAt := dbnow, iv_UsedAt := None\<rparr>
       in if tenant = None \<or> \<not> own_invite w row \<or> iv_Role i \<notin> {RoleOwner, RoleOperator, RoleViewer} \<or>
             \<not> user_exists (iv_InvitedByID i) (db w) \<or> (\<exists>j\<in>set (invites (db w)). iv_TokenHash j = iv_TokenHash i)
          then pool_fail w
          else (Inr (i\<lparr>iv_ID := iv_ID row, iv_TenantID := tenant, iv_CreatedAt := dbnow\<rparr>),
                (set_db (\<lambda>d. d\<lparr>invites := invites d @ [row]\<rparr>) w)\<lparr>next_id := Suc (next_id w)\<rparr>))"

definition InviteGetByTokenHash :: "string \<Rightarrow> world \<Rightarrow> TenantInvite db_result" where
  "InviteGetByTokenHash hash w =
     pool_try w (\<lambda>w. case find_row (\<lambda>i. own_invite w i \<and> iv_TokenHash i = hash) (invites (db w)) of
         None \<Rightarrow> (Inl ErrNotFound, w) | Some i \<Rightarrow> (Inr i, w))"

text \<open>\<open>UPDATE tenant_invites ... WHERE P RETURNING ...\<close>, for a condition that matches one row at most.\<close>

definition settle_invite :: "(TenantInvite \<Rightarrow> bool) \<Rightarrow> (TenantInvite \<Rightarrow> TenantInvite) \<Rightarrow> world \<Rightarrow> TenantInvite db_result" where
  "settle_invite P f w =
     pool_try w (\<lambda>w. case find_row (\<lambda>i. own_invite w i \<and> P i) (invites (db w)) of
         None \<Rightarrow> (Inl ErrNotFound, w)
       | Some i \<Rightarrow> (Inr (f i), set_db (\<lambda>d. d\<lparr>invites := sql_update (\<lambda>i. own_invite w i \<and> P i) f (invites d)\<rparr>) w))"

definition InviteClaimForUse :: "time \<Rightarrow> string \<Rightarrow> world \<Rightarrow> TenantInvite db_result" where
  "InviteClaimForUse dbnow hash =
     settle_invite (\<lambda>i. iv_TokenHash i = hash \<and> iv_UsedAt i = None \<and> dbnow < iv_ExpiresAt i) (\<lambda>i. i\<lparr>iv_UsedAt := Some dbnow\<rparr>)"

definition invalid_uuid :: "'a option \<Rightarrow> ('a \<Rightarrow> world \<Rightarrow> 'b db_result) \<Rightarrow> world \<Rightarrow> 'b db_result" where
  "invalid_uuid i f w = (case i of
       None \<Rightarrow> pool_try w (\<lambda>w. pool_refuse ErrNotFound w) | Some k \<Rightarrow> f k w)"

definition InviteRefresh :: "uuid option \<Rightarrow> uuid option \<Rightarrow> string \<Rightarrow> time \<Rightarrow> world \<Rightarrow> TenantInvite db_result" where
  "InviteRefresh tenantID iid hash expires =
     invalid_uuid iid (\<lambda>k. invalid_uuid tenantID (\<lambda>t w.
       let P = (\<lambda>i. iv_ID i = k \<and> iv_TenantID i = Some t \<and> iv_UsedAt i = None) in
       if (\<exists>i\<in>set (invites (db w)). own_invite w i \<and> P i) \<and> (\<exists>j\<in>set (invites (db w)). iv_TokenHash j = hash \<and> iv_ID j \<noteq> k)
       then pool_try w pool_fail
       else settle_invite P (\<lambda>i. i\<lparr>iv_TokenHash := hash, iv_ExpiresAt := expires\<rparr>) w))"

definition InviteCancel :: "time \<Rightarrow> uuid option \<Rightarrow> uuid option \<Rightarrow> world \<Rightarrow> TenantInvite db_result" where
  "InviteCancel dbnow tenantID iid =
     invalid_uuid iid (\<lambda>k. invalid_uuid tenantID (\<lambda>t.
       settle_invite (\<lambda>i. iv_ID i = k \<and> iv_TenantID i = Some t \<and> iv_UsedAt i = None) (\<lambda>i. i\<lparr>iv_UsedAt := Some dbnow\<rparr>)))"

definition InviteMarkUsed :: "time \<Rightarrow> uuid \<Rightarrow> world \<Rightarrow> unit db_result" where
  "InviteMarkUsed dbnow k w = db_bind (settle_invite (\<lambda>i. iv_ID i = k) (\<lambda>i. i\<lparr>iv_UsedAt := Some dbnow\<rparr>) w) (\<lambda>_ w. (Inr (), w))"

definition InviteList :: "uuid \<Rightarrow> world \<Rightarrow> TenantInvite list db_result" where
  "InviteList tenantID w =
     pool_try w (\<lambda>w. (Inr (map (\<lambda>i. i\<lparr>iv_TokenHash := []\<rparr>)
       (order_desc iv_CreatedAt (filter (\<lambda>i. own_invite w i \<and> iv_TenantID i = Some tenantID \<and> iv_UsedAt i = None)
         (invites (db w))))), w))"

definition InvalidatePendingForEmail :: "time \<Rightarrow> string \<Rightarrow> uuid \<Rightarrow> world \<Rightarrow> unit db_result" where
  "InvalidatePendingForEmail dbnow email tenantID w =
     pool_try w (\<lambda>w. (Inr (), set_db (\<lambda>d. d\<lparr>invites := sql_update
       (\<lambda>i. own_invite w i \<and> iv_Email i = email \<and> iv_TenantID i = Some tenantID \<and> iv_UsedAt i = None)
       (\<lambda>i. i\<lparr>iv_UsedAt := Some dbnow\<rparr>) (invites d)\<rparr>) w))"

subsection \<open>The activity feed\<close>

definition auditLogDefaultLimit :: nat where "auditLogDefaultLimit = 5"
definition auditLogMaxLimit :: nat where "auditLogMaxLimit = 20"

definition parseAuditLogLimit :: "string \<Rightarrow> nat" where
  "parseAuditLogLimit raw =
     (if raw = [] then auditLogDefaultLimit
      else case Atoi raw of None \<Rightarrow> auditLogDefaultLimit
        | Some n \<Rightarrow> if n \<le> 0 then auditLogDefaultLimit else if int auditLogMaxLimit < n then auditLogMaxLimit else nat n)"

definition toAuditLogEntryResponse :: "AuditLogEntry \<Rightarrow> json" where
  "toAuditLogEntryResponse e =
     JObject [(''action'', JText (ae_Action e)), (''target_label'', json_option JText (ae_TargetLabel e)),
       (''actor_name'', JText (ae_ActorName e)), (''actor_deleted'', JBool (ae_ActorDeleted e)), (''created_at'', JTime (ae_CreatedAt e))]"

definition AuditLogGet :: "string \<Rightarrow> world \<Rightarrow> 'tok handled" where
  "AuditLogGet limit_param w =
     on_db (ListRecent (parseAuditLogLimit limit_param) w) internal
       (\<lambda>es w. (respond 200 (JsonBody (JList (map toAuditLogEntryResponse es))), w))"

subsection \<open>Removing a user\<close>

text \<open>\<open>UserRepository.Delete\<close>: the rows that reference the user with \<open>ON DELETE CASCADE\<close> go with it, in
  every tenant; timeline entries lose their author; an invite the user sent refuses the deletion.\<close>

definition user_gone :: "uuid \<Rightarrow> tables \<Rightarrow> tables" where
  "user_gone uid d = d\<lparr>users := sql_delete (\<lambda>u. u_ID u = uid) (users d),
     memberships := sql_delete (\<lambda>m. mb_user_id m = uid) (memberships d),
     preferences := sql_delete (\<lambda>p. np_user_id p = uid) (preferences d),
     sessions := sql_delete (\<lambda>s. ss_UserID s = uid) (sessions d),
     two_factor_secrets := sql_delete (\<lambda>s. tf_UserID s = uid) (two_factor_secrets d),
     recovery_codes := sql_delete (\<lambda>c. rc_user_id c = uid) (recovery_codes d),
     challenges := sql_delete (\<lambda>c. ch_UserID c = uid) (challenges d),
     reset_tokens := sql_delete (\<lambda>t. pr_UserID t = uid) (reset_tokens d),
     verification_tokens := sql_delete (\<lambda>t. ev_UserID t = uid) (verification_tokens d),
     incident_updates := sql_update (\<lambda>u. iu_AuthorID u = Some uid) (\<lambda>u. u\<lparr>iu_AuthorID := None\<rparr>) (incident_updates d)\<rparr>"

definition UserDelete :: "uuid \<Rightarrow> world \<Rightarrow> unit db_result" where
  "UserDelete uid w =
     pool_try w (\<lambda>w.
       if \<not> user_exists uid (db w) then (Inl ErrNotFound, w)
       else if \<exists>i\<in>set (invites (db w)). iv_InvitedByID i = uid then pool_fail w
       else (Inr (), set_db (user_gone uid) w))"

subsection \<open>Inviting\<close>

definition adminInviteTTL :: duration where "adminInviteTTL = 1 * hour"
definition adminsPageSize :: nat where "adminsPageSize = 20"

definition adminBaseURL :: "string \<Rightarrow> string" where
  "adminBaseURL configured = (if configured = [] then ''http://vane-admin-base-url-not-configured.invalid'' else configured)"

definition phone_char :: "char \<Rightarrow> bool" where
  "phone_char c \<longleftrightarrow> is_digit c \<or> c \<in> set ''+ -()''"

definition ValidatePhone :: "string \<Rightarrow> bool" where
  "ValidatePhone phone \<longleftrightarrow> phone = [] \<or> (length phone \<le> 32 \<and> list_all phone_char phone \<and> list_ex is_digit phone)"

definition isValidAdminRole :: "string \<Rightarrow> bool" where
  "isValidAdminRole role \<longleftrightarrow> role \<in> {RoleOwner, RoleOperator, RoleViewer}"

record AdminInviteEmailData =
  ai_CompanyName :: string
  ai_Role :: string
  ai_AcceptURL :: string
  ai_ExpiresIn :: string
  ai_InviterName :: string
  ai_InviterEmail :: string

type_synonym invite_sender = "string \<Rightarrow> AdminInviteEmailData \<Rightarrow> world \<Rightarrow> bool \<times> world"

definition writeAdminError :: "nat \<Rightarrow> string \<Rightarrow> 'tok reply" where
  "writeAdminError status msg = respond status (ErrorBody msg)"

definition sendAdminInviteEmail :: "invite_sender \<Rightarrow> string \<Rightarrow> User \<Rightarrow> string \<Rightarrow> string \<Rightarrow> string \<Rightarrow> world \<Rightarrow> bool \<times> world" where
  "sendAdminInviteEmail send baseURL inviter to role rawToken w =
     (case Active w of
        (Inl e, w) \<Rightarrow> (False, w)
      | (Inr tenant, w) \<Rightarrow> send to \<lparr>ai_CompanyName = t_Name tenant, ai_Role = role,
          ai_AcceptURL = adminBaseURL baseURL @ ''/accept-invite/'' @ rawToken, ai_ExpiresIn = ''1 hour'',
          ai_InviterName = u_Name inviter, ai_InviterEmail = u_Email inviter\<rparr> w)"

definition hashAdminInviteToken :: "'tok auth_env \<Rightarrow> string \<Rightarrow> string" where
  "hashAdminInviteToken E rawToken = sha256 E rawToken"

record inviteAdminRequest =
  ia_Name :: string
  ia_Email :: string
  ia_Phone :: string
  ia_Role :: string

text \<open>The rejection of an address that already belongs to a member: \<open>None\<close> lets the invite proceed.\<close>

definition already_member :: "uuid option \<Rightarrow> string \<Rightarrow> world \<Rightarrow> 'tok reply option \<times> world" where
  "already_member tenantID email w =
     (case GetByEmail email w of
        (Inl e, w) \<Rightarrow> (if e = ErrNotFound then None else Some writeInternalError, w)
      | (Inr u, w) \<Rightarrow> (case opt_id tenantID (GetRole (u_ID u)) w of
          (Inr _, w) \<Rightarrow> (Some (writeAdminError 409 ''an active admin already exists for this email''), w)
        | (Inl e, w) \<Rightarrow> (if e = ErrNotFound then None else Some writeInternalError, w)))"

definition Invite ::
    "'tok auth_env \<Rightarrow> invite_sender \<Rightarrow> string \<Rightarrow> time \<Rightarrow> time \<Rightarrow> string option \<Rightarrow> inviteAdminRequest option \<Rightarrow> auth_ctx \<Rightarrow> world \<Rightarrow> 'tok handled" where
  "Invite E send baseURL now dbnow raw req ax w =
     (case req of
        None \<Rightarrow> (writeAdminError 422 ''name and email are required, and role must be one of owner, operator, viewer'', w)
      | Some r \<Rightarrow>
          if ia_Name r = [] \<or> ia_Email r = [] \<or> \<not> isValidAdminRole (ia_Role r)
          then (writeAdminError 422 ''name and email are required, and role must be one of owner, operator, viewer'', w)
          else if \<not> ValidatePhone (ia_Phone r) then (writeAdminError 422 ''phone is invalid'', w)
          else (case already_member (ax_TenantID ax) (ia_Email r) w of
              (Some rep, w) \<Rightarrow> (rep, w)
            | (None, w) \<Rightarrow> on_db (opt_id (ax_TenantID ax) (InvalidatePendingForEmail dbnow (ia_Email r)) w) internal (\<lambda>_ w.
                case raw of None \<Rightarrow> (writeInternalError, w)
                | Some rawToken \<Rightarrow>
                    on_db (InviteCreate dbnow \<lparr>iv_ID = 0, iv_TenantID = ax_TenantID ax, iv_Email = ia_Email r, iv_Role = ia_Role r,
                        iv_Name = ia_Name r, iv_Phone = nullif_empty (ia_Phone r), iv_TokenHash = hashAdminInviteToken E rawToken,
                        iv_InvitedByID = u_ID (ax_User ax), iv_ExpiresAt = now + adminInviteTTL, iv_UsedAt = None, iv_CreatedAt = 0\<rparr> w)
                      internal (\<lambda>i w.
                        case sendAdminInviteEmail send baseURL (ax_User ax) (ia_Email r) (ia_Role r) rawToken w of (sent, w) \<Rightarrow>
                          (respond 201 (JsonBody (JObject [(''email_sent'', JBool sent), (''status'', JText ''invited'')])),
                           snd (Record dbnow (u_ID (ax_User ax)) (iv_ID i) (ia_Email r) ''invited'' w))))))"

definition ResendInvite ::
    "'tok auth_env \<Rightarrow> invite_sender \<Rightarrow> string \<Rightarrow> time \<Rightarrow> time \<Rightarrow> string option \<Rightarrow> uuid option \<Rightarrow> auth_ctx \<Rightarrow> world \<Rightarrow> 'tok handled" where
  "ResendInvite E send baseURL now dbnow raw iid ax w =
     (case raw of None \<Rightarrow> (writeInternalError, w)
      | Some rawToken \<Rightarrow>
          on_db (InviteRefresh (ax_TenantID ax) iid (hashAdminInviteToken E rawToken) (now + adminInviteTTL) w)
            (\<lambda>e w. (if e = ErrNotFound then writeAdminError 404 ''invite not found'' else writeInternalError, w))
            (\<lambda>i w. case sendAdminInviteEmail send baseURL (ax_User ax) (iv_Email i) (iv_Role i) rawToken w of (sent, w) \<Rightarrow>
               (respond 200 (JsonBody (JObject [(''email_sent'', JBool sent), (''status'', JText ''resent'')])),
                snd (Record dbnow (u_ID (ax_User ax)) (iv_ID i) (iv_Email i) ''resent'' w))))"

definition CancelInvite :: "time \<Rightarrow> uuid option \<Rightarrow> auth_ctx \<Rightarrow> world \<Rightarrow> 'tok handled" where
  "CancelInvite dbnow iid ax w =
     on_db (InviteCancel dbnow (ax_TenantID ax) iid w)
       (\<lambda>e w. (if e = ErrNotFound then writeAdminError 404 ''invite not found'' else writeInternalError, w))
       (\<lambda>i w. (respond 200 (JsonBody (JObject [(''status'', JText ''canceled'')])),
               snd (Record dbnow (u_ID (ax_User ax)) (iv_ID i) (iv_Email i) ''canceled'' w)))"

subsection \<open>Accepting an invite\<close>

definition acceptInviteError :: "'tok reply" where
  "acceptInviteError = writeAdminError 401 ''invalid or expired invite token''"

definition claim_invite ::
    "'tok auth_env \<Rightarrow> time \<Rightarrow> string \<Rightarrow> (TenantInvite \<Rightarrow> world \<Rightarrow> 'tok handled) \<Rightarrow> world \<Rightarrow> 'tok handled" where
  "claim_invite E dbnow token next w =
     on_db (InviteClaimForUse dbnow (hashAdminInviteToken E token) w)
       (\<lambda>e w. (if e = ErrNotFound then acceptInviteError else writeInternalError, w)) next"

text \<open>The membership, in a transaction of its own scoped to the invite's tenant.\<close>

definition join_tenant :: "time \<Rightarrow> uuid \<Rightarrow> TenantInvite \<Rightarrow> world \<Rightarrow> unit db_result" where
  "join_tenant dbnow uid i w =
     db_bind (BeginTenantTx (Some uid) (iv_TenantID i) w) (\<lambda>_ w.
       case opt_id (iv_TenantID i) (\<lambda>t. MembershipCreate dbnow uid t (iv_Role i)) w of
         (Inl e, w) \<Rightarrow> (Inl e, tx_rollback w)
       | (Inr _, w) \<Rightarrow> tx_commit w)"

definition accept_response :: "string \<Rightarrow> string \<Rightarrow> string \<Rightarrow> 'tok reply_body" where
  "accept_response email role redirect =
     JsonBody (JObject ([(''email'', JText email), (''role'', JText role)] @ omit_empty ''redirect'' redirect))"

definition acceptInviteForNewUser ::
    "'tok auth_env \<Rightarrow> time \<Rightarrow> time \<Rightarrow> string \<Rightarrow> string \<Rightarrow> string \<Rightarrow> string \<Rightarrow> world \<Rightarrow> 'tok handled" where
  "acceptInviteForNewUser E now dbnow userAgent remoteAddr token password w =
     (if password = [] then (writeAdminError 422 ''password is required'', w)
      else if \<not> ValidatePassword password then (weakPassword, w)
      else case HashPassword E password of
        None \<Rightarrow> (writeInternalError, w)
      | Some hash \<Rightarrow> claim_invite E dbnow token (\<lambda>claimed w.
          on_db (UserCreate dbnow \<lparr>u_ID = 0, u_Email = iv_Email claimed, u_PasswordHash = hash, u_Name = iv_Name claimed,
              u_Phone = iv_Phone claimed, u_SessionsRevokedAt = None, u_EmailVerifiedAt = Some now, u_CreatedAt = 0\<rparr> w)
            internal (\<lambda>user w.
            on_db (join_tenant dbnow (u_ID user) claimed w) internal (\<lambda>_ w.
              on_db (SessionCreate dbnow (u_ID user) userAgent (remote_host remoteAddr) w) internal (\<lambda>sid w.
                case IssueSessionWithTenant E now (u_ID user) (iv_TenantID claimed) (Some sid) of
                  None \<Rightarrow> (writeInternalError, w)
                | Some tok \<Rightarrow>
                    (\<lparr>rp_status = 201, rp_cookie = Some (SetSession tok),
                      rp_body = accept_response (u_Email user) (iv_Role claimed) []\<rparr>, w))))) w)"

definition acceptInviteForExistingUser :: "'tok auth_env \<Rightarrow> time \<Rightarrow> string \<Rightarrow> User \<Rightarrow> world \<Rightarrow> 'tok handled" where
  "acceptInviteForExistingUser E dbnow token existing =
     claim_invite E dbnow token (\<lambda>claimed w.
       on_db (join_tenant dbnow (u_ID existing) claimed w) internal (\<lambda>_ w.
         (respond 201 (accept_response (u_Email existing) (iv_Role claimed) ''login''), w)))"

text \<open>\<open>req\<close> is the password of a body that decodes.\<close>

definition AcceptInvite ::
    "'tok auth_env \<Rightarrow> time \<Rightarrow> time \<Rightarrow> string \<Rightarrow> string \<Rightarrow> string \<Rightarrow> string option \<Rightarrow> world \<Rightarrow> 'tok handled" where
  "AcceptInvite E now dbnow userAgent remoteAddr token req w =
     (if token = [] then (acceptInviteError, w)
      else case req of None \<Rightarrow> (writeAdminError 422 ''password is required'', w)
      | Some password \<Rightarrow>
          on_db (InviteGetByTokenHash (hashAdminInviteToken E token) w)
            (\<lambda>e w. (if e = ErrNotFound then acceptInviteError else writeInternalError, w))
            (\<lambda>i w. if iv_UsedAt i \<noteq> None \<or> iv_ExpiresAt i < now then (acceptInviteError, w)
               else on_db (GetByEmail (iv_Email i) w)
                 (\<lambda>e w. if e = ErrNotFound then acceptInviteForNewUser E now dbnow userAgent remoteAddr token password w
                        else (writeInternalError, w))
                 (\<lambda>existing w. acceptInviteForExistingUser E dbnow token existing w)))"

subsection \<open>Changing and removing members\<close>

definition member_error :: "db_error \<Rightarrow> 'tok reply" where
  "member_error e =
     (if e = ErrNotFound then writeAdminError 404 ''admin not found''
      else if e = ErrLastOwner then writeAdminError 409 ''this action would leave zero active owners''
      else writeInternalError)"

definition member_label :: "uuid \<Rightarrow> world \<Rightarrow> string \<times> world" where
  "member_label uid w =
     (case GetByID uid w of
        (Inl e, w) \<Rightarrow> ([], w)
      | (Inr u, w) \<Rightarrow> (if u_Name u \<noteq> [] then u_Name u else u_Email u, w))"

definition MemberUpdateRole :: "time \<Rightarrow> uuid option \<Rightarrow> string option \<Rightarrow> auth_ctx \<Rightarrow> world \<Rightarrow> 'tok handled" where
  "MemberUpdateRole dbnow target req ax w =
     (case req of
        None \<Rightarrow> (writeAdminError 422 ''role must be one of owner, operator, viewer'', w)
      | Some role \<Rightarrow>
          if \<not> isValidAdminRole role then (writeAdminError 422 ''role must be one of owner, operator, viewer'', w)
          else on_db (opt_id target (\<lambda>uid. opt_id (ax_TenantID ax) (\<lambda>t. UpdateRole uid t role)) w)
            (\<lambda>e w. (member_error e, w))
            (\<lambda>_ w. let uid = the target in
              on_db (RevokeAllForUser dbnow uid w) internal (\<lambda>_ w.
                case member_label uid w of (label, w) \<Rightarrow>
                  (respond 200 (JsonBody (JObject [(''id'', JId uid), (''email'', JText []), (''role'', JText role), (''status'', JText [])])),
                   snd (Record dbnow (u_ID (ax_User ax)) uid label ''role_changed'' w)))))"

definition MemberDelete :: "time \<Rightarrow> uuid option \<Rightarrow> auth_ctx \<Rightarrow> world \<Rightarrow> 'tok handled" where
  "MemberDelete dbnow target ax w =
     on_db (opt_id target (\<lambda>uid. opt_id (ax_TenantID ax) (MembershipDelete uid)) w) (\<lambda>e w. (member_error e, w))
       (\<lambda>_ w. let uid = the target; record_removal = (\<lambda>label w.
             (respond 200 (JsonBody (JObject [(''status'', JText ''removed'')])),
              snd (Record dbnow (u_ID (ax_User ax)) uid label ''removed'' w))) in
          case member_label uid w of (label, w) \<Rightarrow>
            on_db (RevokeAllForUser dbnow uid w) internal (\<lambda>_ w.
              on_db (CountForUser uid w) internal (\<lambda>remaining w.
                if remaining \<noteq> 0 then record_removal label w
                else on_db (UserDelete uid w)
                  (\<lambda>e w. if e = ErrNotFound then record_removal label w else (writeInternalError, w))
                  (\<lambda>_ w. record_removal label w))))"

subsection \<open>Listing members\<close>

definition last_access :: "uuid \<Rightarrow> tables \<Rightarrow> time option" where
  "last_access uid d =
     (case map (\<lambda>s. case ss_LastSeenAt s of None \<Rightarrow> ss_CreatedAt s | Some t \<Rightarrow> t) (filter (\<lambda>s. ss_UserID s = uid) (sessions d)) of
        [] \<Rightarrow> None | t # ts \<Rightarrow> Some (foldr max ts t))"

definition member_items :: "uuid \<Rightarrow> world \<Rightarrow> json list" where
  "member_items tid w =
     map (\<lambda>(m, u). JObject ([(''id'', JId (u_ID u)), (''email'', JText (u_Email u))] @ omit_empty ''name'' (u_Name u) @
           omit_none ''phone'' JText (u_Phone u) @ [(''role'', JText (mb_role m)), (''status'', JText ''active'')] @
           omit_none ''last_access'' JTime (last_access (u_ID u) (db w))))
       (sort_key (\<lambda>(m, u). u_Email u)
         [(m, u). m \<leftarrow> memberships (db w), mb_visible w m \<and> mb_tenant_id m = tid, u \<leftarrow> users (db w), u_ID u = mb_user_id m])"

definition invite_item :: "time \<Rightarrow> TenantInvite \<Rightarrow> json" where
  "invite_item now i =
     JObject ([(''id'', JId (iv_ID i)), (''email'', JText (iv_Email i))] @ omit_empty ''name'' (iv_Name i) @
       omit_none ''phone'' JText (iv_Phone i) @ [(''role'', JText (iv_Role i)), (''status'', JText ''pending''),
       (''expires_at'', JTime (iv_ExpiresAt i))] @ (if iv_ExpiresAt i < now then [(''expired'', JBool True)] else []))"

text \<open>\<open>None\<close> is a handler that panics: the request's transaction is rolled back.\<close>

definition MemberList :: "time \<Rightarrow> string \<Rightarrow> auth_ctx \<Rightarrow> world \<Rightarrow> 'tok reply option \<times> world" where
  "MemberList now page_param ax w =
     (let page = parsePage page_param; fail = (\<lambda>e w. (Some writeInternalError, w)) in
      on_db (opt_id (ax_TenantID ax) (\<lambda>t w. pool_try w (\<lambda>w. (Inr (member_items t w), w))) w) fail (\<lambda>members w.
        on_db (opt_id (ax_TenantID ax) InviteList w) fail (\<lambda>pending w.
          let items = members @ map (invite_item now) pending
          in (map_option (\<lambda>xs. respond 200 (JsonBody (json_page xs (length items) page adminsPageSize)))
                (page_slice page adminsPageSize items), w))))"

end
