(* ===== verification/Team_Safety.thy ===== *)
theory Team_Safety
  imports Team
begin

text \<open>
  Properties of the members of a tenant: what removing one does to the account, what an invite
  grants, and where the member list panics.
\<close>

subsection \<open>Removing a member\<close>

lemma healthy_set_db [simp]: "healthy (set_db f w) = healthy w"
  by (simp add: set_db_def)

lemma set_db_session [simp]:
  "pool_session (set_db f w) = pool_session w" "bypass_rls (set_db f w) = bypass_rls w" "tx (set_db f w) = tx w"
  "db (set_db f w) = f (db w)" "next_id (set_db f w) = next_id w" "faults (set_db f w) = faults w"
  by (simp_all add: set_db_def pool_session_def)

lemma mb_visible_set_db [simp]: "mb_visible (set_db f w) = mb_visible w"
  by (simp add: mb_visible_def fun_eq_iff)

lemma member_label_healthy: "healthy w \<Longrightarrow> \<exists>label. member_label uid w = (label, w)"
  by (auto simp: member_label_def GetByID_def find_user_def split: option.split)

text \<open>The tables once the membership is gone and the sessions are revoked.\<close>

definition without_member :: "time \<Rightarrow> uuid \<Rightarrow> uuid \<Rightarrow> tables \<Rightarrow> tables" where
  "without_member dbnow uid t d = d\<lparr>memberships := sql_delete (\<lambda>m. mb_key m = (uid, t)) (memberships d),
     sessions := sql_update (\<lambda>s. ss_UserID s = uid \<and> ss_RevokedAt s = None) (\<lambda>s. s\<lparr>ss_RevokedAt := Some dbnow\<rparr>) (sessions d)\<rparr>"

definition other_memberships :: "uuid \<Rightarrow> uuid \<Rightarrow> world \<Rightarrow> membership_row list" where
  "other_memberships uid t w =
     filter (\<lambda>m. mb_visible w m \<and> mb_user_id m = uid \<and> mb_tenant_id m \<noteq> t) (memberships (db w))"

lemma MembershipDelete_healthy:
  assumes "healthy w" and "app_tenant_id (pool_session w) = Some t" and "find_membership uid t w = Some m"
    and "mb_role m \<noteq> RoleOwner \<or> sql_count (\<lambda>m. mb_visible w m \<and> mb_tenant_id m = t \<and> mb_role m = RoleOwner) (memberships (db w)) > 1"
  shows "MembershipDelete uid t w = (Inr (), set_db (\<lambda>d. d\<lparr>memberships := sql_delete (\<lambda>m. mb_key m = (uid, t)) (memberships d)\<rparr>) w)"
proof -
  have "(\<lambda>m. mb_visible w m \<and> mb_key m = (uid, t)) = (\<lambda>m. mb_key m = (uid, t))"
    using assms(2) by (auto simp: mb_visible_def mb_key_def fun_eq_iff)
  with assms show ?thesis by (auto simp: MembershipDelete_def refuse_last_owner_def isLastOwner_def)
qed

lemma MemberDelete_healthy:
  assumes "healthy w" and "app_tenant_id (pool_session w) = Some t" and "ax_TenantID ax = Some t" and "find_membership uid t w = Some m"
    and "mb_role m \<noteq> RoleOwner \<or> sql_count (\<lambda>m. mb_visible w m \<and> mb_tenant_id m = t \<and> mb_role m = RoleOwner) (memberships (db w)) > 1"
    and "user_exists uid (db w)"
  shows "\<exists>label. MemberDelete dbnow (Some uid) ax w =
    (let w1 = set_db (without_member dbnow uid t) w; removed = respond 200 (JsonBody (JObject [(''status'', JText ''removed'')]));
         log = (\<lambda>v. snd (Record dbnow (u_ID (ax_User ax)) uid label ''removed'' v)) in
     if other_memberships uid t w \<noteq> [] then (removed, log w1)
     else if \<exists>i\<in>set (invites (db w)). iv_InvitedByID i = uid then (writeInternalError, abort_tx w1)
     else (removed, log (set_db (user_gone uid) w1)))"
proof -
  let ?w0 = "set_db (\<lambda>d. d\<lparr>memberships := sql_delete (\<lambda>m. mb_key m = (uid, t)) (memberships d)\<rparr>) w"
  obtain label where label: "member_label uid ?w0 = (label, ?w0)" using member_label_healthy [of ?w0 uid] assms(1) by auto
  have count: "sql_count (\<lambda>m. mb_visible w m \<and> mb_user_id m = uid) (sql_delete (\<lambda>m. mb_key m = (uid, t)) (memberships (db w))) =
      length (other_memberships uid t w)"
    by (simp add: sql_count_def sql_delete_def other_memberships_def mb_key_def) (rule arg_cong [where f = length], auto intro: filter_cong)
  have w1: "set_db (\<lambda>d. d\<lparr>sessions := sql_update (\<lambda>s. ss_UserID s = uid \<and> ss_RevokedAt s = None) (\<lambda>s. s\<lparr>ss_RevokedAt := Some dbnow\<rparr>) (sessions d)\<rparr>) ?w0 =
      set_db (without_member dbnow uid t) w"
    by (simp add: set_db_def without_member_def)
  have "user_exists uid (db (set_db (without_member dbnow uid t) w))" using assms(6) by (simp add: without_member_def user_exists_def)
  moreover have "invites (without_member dbnow uid t (db w)) = invites (db w)"
      "memberships (without_member dbnow uid t (db w)) = sql_delete (\<lambda>m. mb_key m = (uid, t)) (memberships (db w))"
    by (simp_all add: without_member_def)
  ultimately show ?thesis
    using assms(1,3) label count w1
    by (intro exI [of _ label]) (simp add: MemberDelete_def opt_id_def MembershipDelete_healthy [OF assms(1,2,4,5)] RevokeAllForUser_def
      update_sessions_def CountForUser_def UserDelete_def pool_fail_def Let_def)
qed

lemma Record_keeps:
  "users (db (snd (Record dbnow a k l ac w))) = users (db w)" "memberships (db (snd (Record dbnow a k l ac w))) = memberships (db w)"
  "invites (db (snd (Record dbnow a k l ac w))) = invites (db w)"
proof -
  obtain r v where r: "Record dbnow a k l ac w = (r, v)" by fastforce
  from this [unfolded Record_def] have "users (db v) = users (db w) \<and> memberships (db v) = memberships (db w) \<and> invites (db v) = invites (db w)"
    by (cases rule: pool_try_cases) (auto simp: same_dataD(1) pool_fail_def abort_tx_def Let_def split: option.split_asm)
  with r show "users (db (snd (Record dbnow a k l ac w))) = users (db w)" "memberships (db (snd (Record dbnow a k l ac w))) = memberships (db w)"
    "invites (db (snd (Record dbnow a k l ac w))) = invites (db w)" by simp_all
qed

lemma user_gone_tables [simp]:
  "users (user_gone uid d) = sql_delete (\<lambda>u. u_ID u = uid) (users d)"
  "memberships (user_gone uid d) = sql_delete (\<lambda>m. mb_user_id m = uid) (memberships d)"
  by (simp_all add: user_gone_def)

lemma without_member_tables [simp]:
  "users (without_member dbnow uid t d) = users d" "invites (without_member dbnow uid t d) = invites d"
  "memberships (without_member dbnow uid t d) = sql_delete (\<lambda>m. mb_key m = (uid, t)) (memberships d)"
  by (simp_all add: without_member_def)

text \<open>C34. What removing a member does: in a request of a tenant that may remove the member (not its last owner) and who sent
  no invite, the answer is 200 and exactly the membership in this tenant goes, if the
  session sees another membership of that user; otherwise the account itself is deleted, with its memberships in every tenant. Under
  enforced row-level security the session sees the memberships of other tenants only when the owner removes themselves, so
  removing anyone else deletes an account that other tenants still use.\<close>

theorem removal_deletes_account_unless_seen_elsewhere:
  assumes "healthy w" and "app_tenant_id (pool_session w) = Some t" and "ax_TenantID ax = Some t" and "user_exists uid (db w)"
    and "find_membership uid t w = Some m"
    and "mb_role m \<noteq> RoleOwner \<or> sql_count (\<lambda>m. mb_visible w m \<and> mb_tenant_id m = t \<and> mb_role m = RoleOwner) (memberships (db w)) > 1"
    and "\<forall>i\<in>set (invites (db w)). iv_InvitedByID i \<noteq> uid"
    and "MemberDelete dbnow (Some uid) ax w = (rep :: 'tok reply, w')"
  shows "rp_status rep = 200 \<and>
    (if \<exists>k\<in>set (memberships (db w)). mb_user_id k = uid \<and> mb_tenant_id k \<noteq> t \<and> (bypass_rls w \<or> app_user_id (pool_session w) = Some uid)
     then users (db w') = users (db w) \<and> memberships (db w') = filter (\<lambda>k. mb_key k \<noteq> (uid, t)) (memberships (db w))
     else \<not> user_exists uid (db w') \<and> (\<forall>k\<in>set (memberships (db w')). mb_user_id k \<noteq> uid))"
proof -
  have elsewhere: "other_memberships uid t w \<noteq> [] \<longleftrightarrow>
      (\<exists>k\<in>set (memberships (db w)). mb_user_id k = uid \<and> mb_tenant_id k \<noteq> t \<and> (bypass_rls w \<or> app_user_id (pool_session w) = Some uid))"
    using assms(2) by (auto simp: other_memberships_def filter_empty_conv mb_visible_def)
  have invites: "(\<exists>i\<in>set (invites (db w)). iv_InvitedByID i = uid) = False" using assms(7) by blast
  from MemberDelete_healthy [OF assms(1-3,5,6,4), of dbnow, unfolded invites if_False] obtain label where
    "(MemberDelete dbnow (Some uid) ax w :: 'tok handled) = (let w1 = set_db (without_member dbnow uid t) w; removed = respond 200 (JsonBody (JObject [(''status'', JText ''removed'')]));
         log = (\<lambda>v. snd (Record dbnow (u_ID (ax_User ax)) uid label ''removed'' v)) in
     if other_memberships uid t w \<noteq> [] then (removed, log w1) else (removed, log (set_db (user_gone uid) w1)))" by blast
  with assms(8) show ?thesis unfolding elsewhere [symmetric]
    by (auto simp: Let_def respond_def Record_keeps user_exists_def sql_delete_def sql_count_0_iff split: if_split_asm)
qed


subsection \<open>Listing members\<close>

lemma opt_id_Some [simp]: "opt_id (Some k) f w = f k w"
  by (simp add: opt_id_def)

lemma page_slice_None: "page_slice page n xs = None \<longleftrightarrow> row_offset page n < 0"
  by (auto simp: page_slice_def Let_def)

text \<open>C36. The member list panics, instead of answering, on exactly the page numbers whose offset overflows Go's \<open>int\<close>
  to a negative value: \<open>parsePage\<close> accepts any page that fits an \<open>int\<close> and the slice expression starts at the
  overflowed product. Every page up to 461168601842738791 is answered.\<close>

theorem member_list_panics_on_offset_overflow:
  assumes "healthy w" and "ax_TenantID ax = Some t" and "MemberList now page_param ax w = (rep :: 'tok reply option, w')"
  shows "(rep = None \<longleftrightarrow> row_offset (parsePage page_param) adminsPageSize < 0) \<and>
    (parsePage page_param \<le> 461168601842738791 \<longrightarrow> rep \<noteq> None)"
proof -
  have eq: "rep = None \<longleftrightarrow> row_offset (parsePage page_param) adminsPageSize < 0"
    using assms by (auto simp: MemberList_def InviteList_def page_slice_None Let_def)
  have pos: "1 \<le> parsePage page_param" by (auto simp: parsePage_def split: option.split)
  have "0 \<le> row_offset (parsePage page_param) adminsPageSize" if "parsePage page_param \<le> 461168601842738791"
  proof -
    have "row_offset (parsePage page_param) adminsPageSize = (int (parsePage page_param) - 1) * 20"
      unfolding row_offset_def adminsPageSize_def using that pos
      by (subst wrap64_id) (auto simp: min_int64_def max_int64_def)
    with pos show ?thesis by simp
  qed
  with eq show ?thesis by auto
qed

theorem member_list_panics_on_offset_overflow_witness:
  "\<exists>(r :: unit reply option) (r' :: unit reply option).
     fst (MemberList 0 ''461168601842738792'' \<lparr>ax_User = sample_user ''a'', ax_TenantID = Some 3, ax_SessionID = 0\<rparr> two_owners) = r \<and> r = None \<and>
     fst (MemberList 0 ''461168601842738791'' \<lparr>ax_User = sample_user ''a'', ax_TenantID = Some 3, ax_SessionID = 0\<rparr> two_owners) = r' \<and> r' \<noteq> None"
proof -
  have h: "healthy two_owners" by (simp add: two_owners_def healthy_def fresh_world_def)
  have "Atoi ''461168601842738792'' = Some 461168601842738792" "Atoi ''461168601842738791'' = Some 461168601842738791"
    by code_simp+
  then have "parsePage ''461168601842738792'' = 461168601842738792" "parsePage ''461168601842738791'' = 461168601842738791"
    by (simp_all add: parsePage_def)
  moreover have "row_offset 461168601842738792 adminsPageSize < 0"
    by (simp add: row_offset_def adminsPageSize_def wrap64_def)
  moreover have "\<exists>r w'. MemberList 0 p \<lparr>ax_User = sample_user ''a'', ax_TenantID = Some 3, ax_SessionID = 0\<rparr> two_owners = (r :: unit reply option, w')" for p
    by fastforce
  ultimately show ?thesis
    using member_list_panics_on_offset_overflow [OF h, of "\<lparr>ax_User = sample_user ''a'', ax_TenantID = Some 3, ax_SessionID = 0\<rparr>" 3 0, where ?'tok = unit]
    by (metis (no_types, lifting) auth_ctx.select_convs(2) fst_conv order_refl)
qed

subsection \<open>Witnesses\<close>

text \<open>User 1 owns tenant 3; user 2 is a viewer of it and a member of tenant 4 too.\<close>

definition shared_member :: world where
  "shared_member = fresh_world\<lparr>next_id := 100, db := no_rows\<lparr>users := [(sample_user ''a'')\<lparr>u_ID := 1\<rparr>, (sample_user ''b'')\<lparr>u_ID := 2\<rparr>],
     tenants := [sample_tenant, sample_tenant\<lparr>t_ID := 4\<rparr>],
     memberships := [\<lparr>mb_user_id = 1, mb_tenant_id = 3, mb_role = RoleOwner, mb_created_at = 0\<rparr>,
       \<lparr>mb_user_id = 2, mb_tenant_id = 3, mb_role = RoleViewer, mb_created_at = 0\<rparr>,
       \<lparr>mb_user_id = 2, mb_tenant_id = 4, mb_role = RoleOwner, mb_created_at = 0\<rparr>]\<rparr>\<rparr>"

definition owner_ctx :: auth_ctx where
  "owner_ctx = \<lparr>ax_User = (sample_user ''a'')\<lparr>u_ID := 1\<rparr>, ax_TenantID = Some 3, ax_SessionID = 0\<rparr>"

definition in_owner_tx :: "world \<Rightarrow> world" where
  "in_owner_tx w = w\<lparr>tx := Some \<lparr>tx_session = \<lparr>app_user_id = Some 1, app_tenant_id = Some 3\<rparr>, tx_aborted = False, tx_begin = db w\<rparr>\<rparr>"

lemma shared_member_simps [simp]:
  "faults shared_member = []" "tx shared_member = None" "bypass_rls shared_member = False" "invites (db shared_member) = []"
  "user_exists 2 (db shared_member)" "memberships (db shared_member) =
     [\<lparr>mb_user_id = 1, mb_tenant_id = 3, mb_role = RoleOwner, mb_created_at = 0\<rparr>,
      \<lparr>mb_user_id = 2, mb_tenant_id = 3, mb_role = RoleViewer, mb_created_at = 0\<rparr>,
      \<lparr>mb_user_id = 2, mb_tenant_id = 4, mb_role = RoleOwner, mb_created_at = 0\<rparr>]"
  "db (in_owner_tx w) = db w" "bypass_rls (in_owner_tx w) = bypass_rls w" "faults w = [] \<Longrightarrow> healthy (in_owner_tx w)"
  "app_tenant_id (pool_session (in_owner_tx w)) = Some 3" "app_user_id (pool_session (in_owner_tx w)) = Some 1"
  by (simp_all add: shared_member_def fresh_world_def no_rows_def user_exists_def in_owner_tx_def healthy_def pool_session_def sql_count_def)

theorem removal_deletes_account_unless_seen_elsewhere_witness:
  "\<exists>rep w'. MemberDelete 5 (Some 2) owner_ctx (in_owner_tx shared_member) = (rep :: unit reply, w') \<and> rp_status rep = 200 \<and>
     \<not> user_exists 2 (db w') \<and> list_all (\<lambda>k. mb_user_id k \<noteq> 2) (memberships (db w'))"
proof -
  let ?m = "\<lparr>mb_user_id = 2, mb_tenant_id = 3, mb_role = RoleViewer, mb_created_at = 0\<rparr>"
  obtain rep w' where r: "MemberDelete 5 (Some 2) owner_ctx (in_owner_tx shared_member) = (rep :: unit reply, w')" by fastforce
  have "find_membership 2 3 (in_owner_tx shared_member) = Some ?m"
    by (simp add: find_membership_def mb_visible_def mb_key_def)
  from removal_deletes_account_unless_seen_elsewhere [OF _ _ _ _ this _ _ r] r show ?thesis
    by (simp add: owner_ctx_def RoleViewer_def RoleOwner_def list_all_iff)
qed


subsection \<open>Accepting an invite\<close>

lemma own_invite_same: "same_data w u \<Longrightarrow> own_invite u = own_invite w"
  by (simp add: own_invite_def fun_eq_iff same_dataD(6))

lemma same_data_tx_None: "same_data w u \<Longrightarrow> tx w = None \<Longrightarrow> tx u = None"
  by (simp add: same_data_def)

lemma settle_invite_ok:
  assumes "settle_invite P f w = (Inr x, v)"
  shows "(\<exists>i\<in>set (invites (db w)). own_invite w i \<and> P i \<and> x = f i) \<and>
    db v = (db w)\<lparr>invites := sql_update (\<lambda>i. own_invite w i \<and> P i) f (invites (db w))\<rparr> \<and> (tx w = None \<longrightarrow> tx v = None)"
  using assms unfolding settle_invite_def
proof (cases rule: pool_try_cases)
  case (ran u)
  obtain i where i: "find_row (\<lambda>i. own_invite w i \<and> P i) (invites (db w)) = Some i" "x = f i"
      "v = set_db (\<lambda>d. d\<lparr>invites := sql_update (\<lambda>i. own_invite w i \<and> P i) f (invites d)\<rparr>) u"
    using ran(2) by (auto simp: own_invite_same [OF ran(1)] same_dataD(1) [OF ran(1)] split: option.split_asm)
  with find_row_Some [OF i(1)] same_data_tx_None [OF ran(1)] show ?thesis by (auto simp: same_dataD(1) [OF ran(1)])
qed simp

lemma join_tenant_ok:
  assumes "join_tenant dbnow uid i w = (Inr (), v)"
  shows "\<exists>t. iv_TenantID i = Some t \<and> db v = (db w)\<lparr>memberships := memberships (db w) @
    [\<lparr>mb_user_id = uid, mb_tenant_id = t, mb_role = iv_Role i, mb_created_at = dbnow\<rparr>]\<rparr> \<and> tx v = None"
proof -
  from assms [unfolded join_tenant_def] obtain u where b: "BeginTenantTx (Some uid) (iv_TenantID i) w = (Inr (), u)"
      and r: "(case opt_id (iv_TenantID i) (\<lambda>t. MembershipCreate dbnow uid t (iv_Role i)) u of
         (Inl e, w) \<Rightarrow> (Inl e, tx_rollback w) | (Inr _, w) \<Rightarrow> tx_commit w) = (Inr (), v)"
    by (elim db_bind_cases) auto
  obtain x y where m: "opt_id (iv_TenantID i) (\<lambda>t. MembershipCreate dbnow uid t (iv_Role i)) u = (Inr x, y)" and c: "tx_commit y = (Inr (), v)"
    using r by (auto split: prod.split_asm sum.split_asm)
  obtain t where t: "iv_TenantID i = Some t"
    using m by (cases "iv_TenantID i") (auto simp: opt_id_def pool_fail_def elim!: pool_try_cases)
  from m have "db y = (db u)\<lparr>memberships := memberships (db u) @
      [\<lparr>mb_user_id = uid, mb_tenant_id = t, mb_role = iv_Role i, mb_created_at = dbnow\<rparr>]\<rparr>"
    unfolding t opt_id_Some MembershipCreate_def
    by (elim pool_try_cases) (auto simp: Let_def pool_fail_def pool_refuse_def same_dataD(1) split: if_split_asm)
  with tx_commit_ok [OF c] BeginTenantTx_ok [OF b] t show ?thesis by simp
qed

lemma UserCreate_ok:
  assumes "UserCreate dbnow u w = (Inr x, v)"
  shows "(\<exists>row. db v = (db w)\<lparr>users := users (db w) @ [row]\<rparr> \<and> u_ID row = u_ID x \<and> u_Email row = u_Email u) \<and> u_Email x = u_Email u \<and>
    (tx w = None \<longrightarrow> tx v = None)"
  using assms unfolding UserCreate_def
proof (cases rule: pool_try_cases)
  case (ran y)
  let ?row = "new_user (next_id y) dbnow u"
  have "x = u\<lparr>u_ID := u_ID ?row, u_CreatedAt := dbnow\<rparr>" "v = (set_db (\<lambda>d. d\<lparr>users := users d @ [?row]\<rparr>) y)\<lparr>next_id := Suc (next_id y)\<rparr>"
    using ran(2) by (auto simp: pool_refuse_def Let_def split: if_split_asm)
  then show ?thesis using same_data_tx_None [OF ran(1)] by (auto simp: same_dataD(1) [OF ran(1)] new_user_def set_db_def)
qed simp

lemma SessionCreate_ok:
  assumes "SessionCreate dbnow uid ua ip w = (Inr x, v)"
  shows "invites (db v) = invites (db w) \<and> memberships (db v) = memberships (db w) \<and> users (db v) = users (db w)"
  using assms unfolding SessionCreate_def by (elim pool_try_cases) (auto simp: same_dataD(1) pool_fail_def split: if_split_asm)

text \<open>What a successful acceptance did: it claimed the invite row, found or created the user of the
  invited address, and added the membership.\<close>

definition accepted :: "'tok auth_env \<Rightarrow> time \<Rightarrow> string \<Rightarrow> world \<Rightarrow> world \<Rightarrow> bool" where
  "accepted E dbnow token w w' \<longleftrightarrow> (\<exists>i t u. i \<in> set (invites (db w)) \<and> iv_TokenHash i = hashAdminInviteToken E token \<and> iv_UsedAt i = None \<and>
     dbnow < iv_ExpiresAt i \<and> iv_TenantID i = Some t \<and> own_invite w i \<and> u \<in> set (users (db w')) \<and> u_Email u = iv_Email i \<and>
     memberships (db w') = memberships (db w) @ [\<lparr>mb_user_id = u_ID u, mb_tenant_id = t, mb_role = iv_Role i, mb_created_at = dbnow\<rparr>] \<and>
     invites (db w') = sql_update (\<lambda>i. own_invite w i \<and> iv_TokenHash i = hashAdminInviteToken E token \<and> iv_UsedAt i = None \<and> dbnow < iv_ExpiresAt i)
       (\<lambda>i. i\<lparr>iv_UsedAt := Some dbnow\<rparr>) (invites (db w)))"

lemma claim_invite_created:
  assumes "claim_invite E dbnow token next w = (rep, w')" and "rp_status rep = 201" and "tx w = None"
  obtains i v where "i \<in> set (invites (db w))" "own_invite w i" "iv_TokenHash i = hashAdminInviteToken E token" "iv_UsedAt i = None"
    "dbnow < iv_ExpiresAt i" "next (i\<lparr>iv_UsedAt := Some dbnow\<rparr>) v = (rep, w')" "tx v = None"
    "db v = (db w)\<lparr>invites := sql_update (\<lambda>i. own_invite w i \<and> iv_TokenHash i = hashAdminInviteToken E token \<and> iv_UsedAt i = None \<and> dbnow < iv_ExpiresAt i)
       (\<lambda>i. i\<lparr>iv_UsedAt := Some dbnow\<rparr>) (invites (db w))\<rparr>"
proof -
  obtain x v where c: "InviteClaimForUse dbnow (hashAdminInviteToken E token) w = (Inr x, v)" and n: "next x v = (rep, w')"
    using assms(1,2) by (cases "InviteClaimForUse dbnow (hashAdminInviteToken E token) w")
      (auto simp: claim_invite_def on_db_def acceptInviteError_def writeAdminError_def writeInternalError_def respond_def
        split: sum.split_asm if_split_asm)
  note ok = settle_invite_ok [OF c [unfolded InviteClaimForUse_def]]
  then obtain i where "i \<in> set (invites (db w))" "own_invite w i" "iv_TokenHash i = hashAdminInviteToken E token"
      "iv_UsedAt i = None" "dbnow < iv_ExpiresAt i" "x = i\<lparr>iv_UsedAt := Some dbnow\<rparr>" by blast
  with that n ok assms(3) show thesis by blast
qed

lemma existing_user_accepted:
  assumes "acceptInviteForExistingUser E dbnow token u w = (rep, w')" and "rp_status rep = 201" and "tx w = None"
    and "u \<in> set (users (db w))" and "\<And>i. i \<in> set (invites (db w)) \<Longrightarrow> iv_TokenHash i = hashAdminInviteToken E token \<Longrightarrow> iv_Email i = u_Email u"
  shows "accepted E dbnow token w w'"
  using assms(1) unfolding acceptInviteForExistingUser_def
proof (rule claim_invite_created [OF _ assms(2,3)])
  fix i v assume i: "i \<in> set (invites (db w))" "own_invite w i" "iv_TokenHash i = hashAdminInviteToken E token" "iv_UsedAt i = None"
      "dbnow < iv_ExpiresAt i" "tx v = None"
    and db: "db v = (db w)\<lparr>invites := sql_update (\<lambda>i. own_invite w i \<and> iv_TokenHash i = hashAdminInviteToken E token \<and> iv_UsedAt i = None \<and> dbnow < iv_ExpiresAt i)
       (\<lambda>i. i\<lparr>iv_UsedAt := Some dbnow\<rparr>) (invites (db w))\<rparr>"
    and n: "on_db (join_tenant dbnow (u_ID u) (i\<lparr>iv_UsedAt := Some dbnow\<rparr>) v) internal (\<lambda>_ w.
         (respond 201 (accept_response (u_Email u) (iv_Role (i\<lparr>iv_UsedAt := Some dbnow\<rparr>)) ''login''), w)) = (rep, w')"
  from n assms(2) have "join_tenant dbnow (u_ID u) (i\<lparr>iv_UsedAt := Some dbnow\<rparr>) v = (Inr (), w')"
    by (cases "join_tenant dbnow (u_ID u) (i\<lparr>iv_UsedAt := Some dbnow\<rparr>) v")
       (auto simp: on_db_def writeInternalError_def respond_def split: sum.split_asm)
  from join_tenant_ok [OF this] i db assms(4,5) show ?thesis unfolding accepted_def by (auto intro!: exI [of _ i] exI [of _ u])
qed

lemma on_db_internal_ok:
  assumes "on_db m internal k = (rep, w')" and "rp_status rep = 201"
  shows "\<exists>x v. m = (Inr x, v) \<and> k x v = (rep, w')"
  using assms by (cases m) (auto simp: on_db_def writeInternalError_def respond_def split: sum.split_asm)

lemma new_user_accepted:
  assumes "acceptInviteForNewUser E now dbnow ua addr token password w = (rep, w')" and "rp_status rep = 201" and "tx w = None"
  shows "accepted E dbnow token w w'"
proof -
  obtain hash where "claim_invite E dbnow token (\<lambda>claimed w.
          on_db (UserCreate dbnow \<lparr>u_ID = 0, u_Email = iv_Email claimed, u_PasswordHash = hash, u_Name = iv_Name claimed,
              u_Phone = iv_Phone claimed, u_SessionsRevokedAt = None, u_EmailVerifiedAt = Some now, u_CreatedAt = 0\<rparr> w)
            internal (\<lambda>user w.
            on_db (join_tenant dbnow (u_ID user) claimed w) internal (\<lambda>_ w.
              on_db (SessionCreate dbnow (u_ID user) ua (remote_host addr) w) internal (\<lambda>sid w.
                case IssueSessionWithTenant E now (u_ID user) (iv_TenantID claimed) (Some sid) of
                  None \<Rightarrow> (writeInternalError, w)
                | Some tok \<Rightarrow>
                    (\<lparr>rp_status = 201, rp_cookie = Some (SetSession tok),
                      rp_body = accept_response (u_Email user) (iv_Role claimed) []\<rparr>, w))))) w = (rep, w')"
    using assms(1,2) by (auto simp: acceptInviteForNewUser_def writeAdminError_def weakPassword_def writeInternalError_def respond_def
        split: if_split_asm option.split_asm)
  from this obtain i v where
    i: "i \<in> set (invites (db w))" "own_invite w i" "iv_TokenHash i = hashAdminInviteToken E token" "iv_UsedAt i = None" "dbnow < iv_ExpiresAt i"
    and db: "db v = (db w)\<lparr>invites := sql_update (\<lambda>i. own_invite w i \<and> iv_TokenHash i = hashAdminInviteToken E token \<and> iv_UsedAt i = None \<and> dbnow < iv_ExpiresAt i)
       (\<lambda>i. i\<lparr>iv_UsedAt := Some dbnow\<rparr>) (invites (db w))\<rparr>"
    and n: "on_db (UserCreate dbnow \<lparr>u_ID = 0, u_Email = iv_Email i, u_PasswordHash = hash, u_Name = iv_Name i,
              u_Phone = iv_Phone i, u_SessionsRevokedAt = None, u_EmailVerifiedAt = Some now, u_CreatedAt = 0\<rparr> v)
            internal (\<lambda>user w.
            on_db (join_tenant dbnow (u_ID user) (i\<lparr>iv_UsedAt := Some dbnow\<rparr>) w) internal (\<lambda>_ w.
              on_db (SessionCreate dbnow (u_ID user) ua (remote_host addr) w) internal (\<lambda>sid w.
                case IssueSessionWithTenant E now (u_ID user) (iv_TenantID i) (Some sid) of
                  None \<Rightarrow> (writeInternalError, w)
                | Some tok \<Rightarrow>
                    (\<lparr>rp_status = 201, rp_cookie = Some (SetSession tok),
                      rp_body = accept_response (u_Email user) (iv_Role (i\<lparr>iv_UsedAt := Some dbnow\<rparr>)) []\<rparr>, w)))) = (rep, w')"
    by (rule claim_invite_created [OF _ assms(2,3)]) (rule that, assumption+, simp)
  from on_db_internal_ok [OF n assms(2)] obtain user x where
    user: "UserCreate dbnow \<lparr>u_ID = 0, u_Email = iv_Email i, u_PasswordHash = hash, u_Name = iv_Name i,
              u_Phone = iv_Phone i, u_SessionsRevokedAt = None, u_EmailVerifiedAt = Some now, u_CreatedAt = 0\<rparr> v = (Inr user, x)"
    and n2: "on_db (join_tenant dbnow (u_ID user) (i\<lparr>iv_UsedAt := Some dbnow\<rparr>) x) internal (\<lambda>_ w.
              on_db (SessionCreate dbnow (u_ID user) ua (remote_host addr) w) internal (\<lambda>sid w.
                case IssueSessionWithTenant E now (u_ID user) (iv_TenantID i) (Some sid) of
                  None \<Rightarrow> (writeInternalError, w)
                | Some tok \<Rightarrow>
                    (\<lparr>rp_status = 201, rp_cookie = Some (SetSession tok),
                      rp_body = accept_response (u_Email user) (iv_Role (i\<lparr>iv_UsedAt := Some dbnow\<rparr>)) []\<rparr>, w))) = (rep, w')" by blast
  from on_db_internal_ok [OF n2 assms(2)] obtain y where j: "join_tenant dbnow (u_ID user) (i\<lparr>iv_UsedAt := Some dbnow\<rparr>) x = (Inr (), y)"
    and n3: "on_db (SessionCreate dbnow (u_ID user) ua (remote_host addr) y) internal (\<lambda>sid w.
                case IssueSessionWithTenant E now (u_ID user) (iv_TenantID i) (Some sid) of
                  None \<Rightarrow> (writeInternalError, w)
                | Some tok \<Rightarrow>
                    (\<lparr>rp_status = 201, rp_cookie = Some (SetSession tok),
                      rp_body = accept_response (u_Email user) (iv_Role (i\<lparr>iv_UsedAt := Some dbnow\<rparr>)) []\<rparr>, w)) = (rep, w')" by auto
  from on_db_internal_ok [OF n3 assms(2)] obtain sid z where s: "SessionCreate dbnow (u_ID user) ua (remote_host addr) y = (Inr sid, z)"
    and "(case IssueSessionWithTenant E now (u_ID user) (iv_TenantID i) (Some sid) of
                  None \<Rightarrow> (writeInternalError, z)
                | Some tok \<Rightarrow>
                    (\<lparr>rp_status = 201, rp_cookie = Some (SetSession tok),
                      rp_body = accept_response (u_Email user) (iv_Role (i\<lparr>iv_UsedAt := Some dbnow\<rparr>)) []\<rparr>, z)) = (rep, w')" by blast
  then have "w' = z" by (auto split: option.split_asm)
  moreover from UserCreate_ok [OF user] obtain row where "users (db x) = users (db v) @ [row]" "memberships (db x) = memberships (db v)"
      "invites (db x) = invites (db v)" "u_ID row = u_ID user" "u_Email row = iv_Email i" by auto
  ultimately show ?thesis
    using SessionCreate_ok [OF s] join_tenant_ok [OF j] i db unfolding accepted_def by (auto intro!: exI [of _ i] exI [of _ row])
qed

lemma AcceptInvite_created:
  assumes "AcceptInvite E now dbnow ua addr token req w = (rep, w')" and "rp_status rep = 201" and "tx w = None"
    and "\<And>i j. i \<in> set (invites (db w)) \<Longrightarrow> j \<in> set (invites (db w)) \<Longrightarrow> iv_TokenHash i = iv_TokenHash j \<Longrightarrow> i = j"
  shows "accepted E dbnow token w w'"
proof -
  obtain password i v where g: "InviteGetByTokenHash (hashAdminInviteToken E token) w = (Inr i, v)"
    and n: "on_db (GetByEmail (iv_Email i) v)
                 (\<lambda>e w. if e = ErrNotFound then acceptInviteForNewUser E now dbnow ua addr token password w
                        else (writeInternalError, w))
                 (\<lambda>existing w. acceptInviteForExistingUser E dbnow token existing w) = (rep, w')"
    using assms(1,2) by (cases "InviteGetByTokenHash (hashAdminInviteToken E token) w")
      (auto simp: AcceptInvite_def acceptInviteError_def writeAdminError_def writeInternalError_def respond_def on_db_def
        split: if_split_asm option.split_asm sum.split_asm)
  from g [unfolded InviteGetByTokenHash_def] have i: "i \<in> set (invites (db w))" "iv_TokenHash i = hashAdminInviteToken E token" and v: "same_data w v"
    by (auto elim!: pool_try_cases simp: same_dataD(1) split: option.split_asm dest!: find_row_Some)
  note same = own_invite_same [OF v] same_dataD(1) [OF v]
  obtain r u where e: "GetByEmail (iv_Email i) v = (r, u)" by fastforce
  then have u: "same_data v u" "r = Inr x \<Longrightarrow> x \<in> set (users (db w)) \<and> u_Email x = iv_Email i" for x
    unfolding GetByEmail_def find_user_def
    by (auto elim!: pool_try_cases simp: same_dataD(1) [OF v] same_dataD(1) split: option.split_asm dest!: find_row_Some)
  note w = same own_invite_same [OF u(1)] same_dataD(1) [OF u(1)] same_data_tx_None [OF u(1) same_data_tx_None [OF v assms(3)]]
  show ?thesis
  proof (cases r)
    case (Inl err)
    with e n assms(2) have "acceptInviteForNewUser E now dbnow ua addr token password u = (rep, w')"
      by (auto simp: writeInternalError_def respond_def split: if_split_asm)
    from new_user_accepted [OF this assms(2) w(5)] show ?thesis by (simp add: accepted_def w)
  next
    case (Inr x)
    with e n have "acceptInviteForExistingUser E dbnow token x u = (rep, w')" by simp
    moreover have "iv_Email k = u_Email x" if "k \<in> set (invites (db u))" "iv_TokenHash k = hashAdminInviteToken E token" for k
      using that i assms(4) [of k i] u(2) [OF Inr] by (auto simp: w)
    ultimately have "accepted E dbnow token u w'"
      using existing_user_accepted [of E dbnow token x u rep w'] assms(2) w(5) u(2) [OF Inr] by (simp add: w)
    then show ?thesis by (simp add: accepted_def w)
  qed
qed

definition hashes_unique :: "tables \<Rightarrow> bool" where
  "hashes_unique d \<longleftrightarrow> (\<forall>i\<in>set (invites d). \<forall>j\<in>set (invites d). iv_TokenHash i = iv_TokenHash j \<longrightarrow> i = j)"


text \<open>Under enforced row-level security no invite can be accepted: the route is public, so the lookup and the claim run on a
  connection without \<open>app.tenant_id\<close>, which sees no invite; every acceptance is refused and leaves
  the database as it is, however valid the token is.\<close>

theorem rls_refuses_every_invite:
  assumes "\<not> bypass_rls w" and "tx w = None" and "AcceptInvite E now dbnow ua addr token req w = (rep, w')"
  shows "rp_status rep \<in> {401, 422, 500} \<and> db w' = db w"
proof -
  have "\<exists>e v. InviteGetByTokenHash h w = (Inl e, v) \<and> db v = db w" for h
  proof -
    obtain r v where r: "InviteGetByTokenHash h w = (r, v)" by fastforce
    then have "isl r \<and> db v = db w" unfolding InviteGetByTokenHash_def
    proof (cases rule: pool_try_cases)
      case (ran u)
      then have "\<not> bypass_rls u" "tx u = None" using assms(1,2) same_data_tx_None by (auto simp: same_dataD(3))
      then have "find_row (\<lambda>i. own_invite u i \<and> iv_TokenHash i = h) (invites (db u)) = None"
        by (auto simp: find_row_None own_invite_def visible_def rls_visible_def pool_session_def no_session_def)
      with ran show ?thesis by (auto simp: same_dataD(1))
    qed (auto simp: same_dataD(1))
    with r show ?thesis by (auto simp: isl_def)
  qed
  from this [of "hashAdminInviteToken E token"] assms(3) show ?thesis
    by (auto simp: AcceptInvite_def acceptInviteError_def writeAdminError_def writeInternalError_def respond_def split: if_split_asm option.split_asm)
qed

definition open_env :: "unit auth_env" where
  "open_env = \<lparr>jwt_sign = (\<lambda>s c. Some ()), jwt_parse = (\<lambda>s now tok. None), bcrypt_generate = (\<lambda>p. Some p), bcrypt_matches = (\<lambda>h p. h = p),
     totp_validate = (\<lambda>secret code now. secret = code), pbkdf2 = (\<lambda>k. k), gcm_seal = (\<lambda>k n p. p), gcm_open = (\<lambda>k n c. Some c),
     sha256 = (\<lambda>x. x), session_secret = ''s'', master_key = ''m''\<rparr>"

definition invited :: "bool \<Rightarrow> world" where
  "invited bypass = shared_member\<lparr>bypass_rls := bypass, db := (db shared_member)\<lparr>invites :=
      [\<lparr>iv_ID = 50, iv_TenantID = Some 3, iv_Email = ''c'', iv_Role = RoleViewer, iv_Name = ''c'', iv_Phone = None, iv_TokenHash = ''tok'',
        iv_InvitedByID = 1, iv_ExpiresAt = 10, iv_UsedAt = None, iv_CreatedAt = 0\<rparr>]\<rparr>\<rparr>"

lemma invited_simps [simp]:
  "tx (invited b) = None" "bypass_rls (invited b) = b" "hashes_unique (db (invited b))"
  by (simp_all add: invited_def hashes_unique_def)


theorem rls_refuses_every_invite_witness:
  "\<exists>rep w'. AcceptInvite open_env 1 1 [] [] ''tok'' (Some ''password12345'') (invited False) = (rep, w') \<and> rp_status rep \<noteq> 201"
proof -
  obtain rep w' where r: "AcceptInvite open_env 1 1 [] [] ''tok'' (Some ''password12345'') (invited False) = (rep, w')" by fastforce
  from rls_refuses_every_invite [OF _ _ r] r show ?thesis by auto
qed

end
