(* ===== verification/Providers.thy ===== *)
theory Providers
  imports Team
begin

text \<open>
  The repositories of connected providers and of verification tokens:
  \<open>internal/db/email_provider_repository.go\<close>, \<open>llm_provider_repository.go\<close>,
  \<open>email_verification_repository.go\<close>.

  \<^item> The tables \<open>email_providers\<close>, \<open>email_settings\<close>, \<open>llm_providers\<close>, \<open>llm_settings\<close> carry the policy
    \<open>tenant_isolation\<close>; \<open>tenant_id\<close> defaults to the session's tenant, so an insert without one fails. The
    settings row names the active provider, by a foreign key to a provider of the same tenant.
  \<^item> Some statements name the tenant themselves; \<open>Get\<close>, the lists and the \<open>Mark\<close> operations rely on the
    policy. \<open>email_verification_tokens\<close> carries no policy.
\<close>

subsection \<open>Email providers\<close>

record EmailProvider =
  pe_ID :: uuid
  pe_Provider :: string
  pe_EncryptedAPIKey :: string
  pe_FromEmail :: string
  pe_FromName :: string
  pe_Status :: string
  pe_LastCheckedAt :: "time option"
  pe_LastError :: "string option"

definition scan_email_provider :: "email_provider_row \<Rightarrow> EmailProvider" where
  "scan_email_provider r =
     \<lparr>pe_ID = ep_id r, pe_Provider = ep_provider r, pe_EncryptedAPIKey = ep_encrypted_api_key r,
      pe_FromEmail = ep_from_email r, pe_FromName = ep_from_name r, pe_Status = ep_status r,
      pe_LastCheckedAt = ep_last_checked_at r, pe_LastError = ep_last_error r\<rparr>"

definition visible_email_providers :: "world \<Rightarrow> email_provider_row list" where
  "visible_email_providers w = filter (\<lambda>r. visible w (ep_tenant_id r)) (email_providers (db w))"

definition email_key :: "email_provider_row \<Rightarrow> uuid \<times> string" where
  "email_key r = (ep_tenant_id r, ep_provider r)"

definition EmailUpsertProvider :: "time \<Rightarrow> string \<Rightarrow> string \<Rightarrow> string \<Rightarrow> string \<Rightarrow> world \<Rightarrow> unit db_result" where
  "EmailUpsertProvider dbnow provider key fromEmail fromName w =
     pool_try w (\<lambda>w.
       case app_tenant_id (pool_session w) of
         None \<Rightarrow> pool_fail w
       | Some tenant \<Rightarrow>
           if provider \<notin> {''sendgrid'', ''resend''} then pool_fail w
           else if (tenant, provider) \<in> email_key ` set (email_providers (db w))
           then (Inr (), set_db (\<lambda>d. d\<lparr>email_providers := sql_update (\<lambda>r. email_key r = (tenant, provider))
                   (\<lambda>r. r\<lparr>ep_encrypted_api_key := key, ep_from_email := fromEmail, ep_from_name := fromName,
                          ep_status := ''connected'', ep_last_checked_at := Some dbnow, ep_last_error := None\<rparr>)
                   (email_providers d)\<rparr>) w)
           else (Inr (), (set_db (\<lambda>d. d\<lparr>email_providers := email_providers d @
                   [\<lparr>ep_id = next_id w, ep_tenant_id = tenant, ep_provider = provider, ep_encrypted_api_key = key,
                     ep_from_email = fromEmail, ep_from_name = fromName, ep_status = ''connected'',
                     ep_last_checked_at = None, ep_last_error = None\<rparr>]\<rparr>) w)\<lparr>next_id := Suc (next_id w)\<rparr>))"

definition EmailGet :: "string \<Rightarrow> world \<Rightarrow> EmailProvider db_result" where
  "EmailGet provider w =
     pool_try w (\<lambda>w. case find_row (\<lambda>r. ep_provider r = provider) (visible_email_providers w) of
         None \<Rightarrow> (Inl ErrNotFound, w) | Some r \<Rightarrow> (Inr (scan_email_provider r), w))"

definition countEmailProviders :: "world \<Rightarrow> nat db_result" where
  "countEmailProviders w = pool_try w (\<lambda>w. (Inr (length (visible_email_providers w)), w))"

definition EmailListPaginated :: "nat \<Rightarrow> nat \<Rightarrow> world \<Rightarrow> (EmailProvider list \<times> nat) db_result" where
  "EmailListPaginated page pageSize w =
     page_try page pageSize w (\<lambda>offset w.
       let rows = sort_key ep_provider (visible_email_providers w);
           got = sql_page pageSize offset rows
       in db_bind (if got = [] then countEmailProviders w else (Inr (length rows), w))
            (\<lambda>n w. (Inr (map scan_email_provider got, n), w)))"

text \<open>The settings row of the session's tenant: the statements name the tenant, an unset setting
  matches no row.\<close>

definition EmailGetActiveProvider :: "world \<Rightarrow> string db_result" where
  "EmailGetActiveProvider w =
     pool_try w (\<lambda>w.
       (Inr (case app_tenant_id (pool_session w) of
               None \<Rightarrow> []
             | Some tenant \<Rightarrow> (case find_row (\<lambda>r. es_tenant_id r = tenant) (email_settings (db w)) of
                 None \<Rightarrow> [] | Some r \<Rightarrow> coalesce (es_active_provider r))), w))"

definition EmailSetActiveProvider :: "string \<Rightarrow> world \<Rightarrow> unit db_result" where
  "EmailSetActiveProvider provider w =
     pool_try w (\<lambda>w.
       case app_tenant_id (pool_session w) of
         None \<Rightarrow> pool_fail w
       | Some tenant \<Rightarrow>
           if (tenant, provider) \<notin> email_key ` set (email_providers (db w)) then pool_fail w
           else if tenant \<in> es_tenant_id ` set (email_settings (db w))
           then (Inr (), set_db (\<lambda>d. d\<lparr>email_settings := sql_update (\<lambda>r. es_tenant_id r = tenant)
                   (\<lambda>r. r\<lparr>es_active_provider := Some provider\<rparr>) (email_settings d)\<rparr>) w)
           else (Inr (), set_db (\<lambda>d. d\<lparr>email_settings := email_settings d @
                   [\<lparr>es_tenant_id = tenant, es_active_provider = Some provider\<rparr>]\<rparr>) w))"

text \<open>Deleting a provider clears the settings that name it (\<open>ON DELETE SET NULL (active_provider)\<close>).\<close>

definition EmailDeleteProvider :: "string \<Rightarrow> world \<Rightarrow> unit db_result" where
  "EmailDeleteProvider provider w =
     pool_try w (\<lambda>w.
       case app_tenant_id (pool_session w) of
         None \<Rightarrow> (Inr (), w)
       | Some tenant \<Rightarrow>
           (Inr (), if (tenant, provider) \<notin> email_key ` set (email_providers (db w)) then w
              else set_db (\<lambda>d. d\<lparr>email_providers := sql_delete (\<lambda>r. email_key r = (tenant, provider)) (email_providers d),
                email_settings := sql_update (\<lambda>r. es_tenant_id r = tenant \<and> es_active_provider r = Some provider)
                  (\<lambda>r. r\<lparr>es_active_provider := None\<rparr>) (email_settings d)\<rparr>) w))"

subsection \<open>LLM providers\<close>

record LLMProvider =
  pm_ID :: uuid
  pm_Provider :: string
  pm_EncryptedAPIKey :: string
  pm_Model :: string
  pm_Status :: string
  pm_LastCheckedAt :: "time option"
  pm_LastError :: "string option"

definition scan_llm_provider :: "llm_provider_row \<Rightarrow> LLMProvider" where
  "scan_llm_provider r =
     \<lparr>pm_ID = lp_id r, pm_Provider = lp_provider r, pm_EncryptedAPIKey = lp_encrypted_api_key r, pm_Model = lp_model r,
      pm_Status = lp_status r, pm_LastCheckedAt = lp_last_checked_at r, pm_LastError = lp_last_error r\<rparr>"

definition visible_llm_providers :: "world \<Rightarrow> llm_provider_row list" where
  "visible_llm_providers w = filter (\<lambda>r. visible w (lp_tenant_id r)) (llm_providers (db w))"

definition llm_key :: "llm_provider_row \<Rightarrow> uuid \<times> string" where
  "llm_key r = (lp_tenant_id r, lp_provider r)"

definition LLMUpsertProvider :: "time \<Rightarrow> string \<Rightarrow> string \<Rightarrow> string \<Rightarrow> world \<Rightarrow> unit db_result" where
  "LLMUpsertProvider dbnow provider key model w =
     pool_try w (\<lambda>w.
       case app_tenant_id (pool_session w) of
         None \<Rightarrow> pool_fail w
       | Some tenant \<Rightarrow>
           if provider \<noteq> ''openai'' then pool_fail w
           else if (tenant, provider) \<in> llm_key ` set (llm_providers (db w))
           then (Inr (), set_db (\<lambda>d. d\<lparr>llm_providers := sql_update (\<lambda>r. llm_key r = (tenant, provider))
                   (\<lambda>r. r\<lparr>lp_encrypted_api_key := key, lp_model := model, lp_status := ''connected'',
                          lp_last_checked_at := Some dbnow, lp_last_error := None\<rparr>) (llm_providers d)\<rparr>) w)
           else (Inr (), (set_db (\<lambda>d. d\<lparr>llm_providers := llm_providers d @
                   [\<lparr>lp_id = next_id w, lp_tenant_id = tenant, lp_provider = provider, lp_encrypted_api_key = key,
                     lp_model = model, lp_status = ''connected'', lp_last_checked_at = None, lp_last_error = None\<rparr>]\<rparr>) w)
                  \<lparr>next_id := Suc (next_id w)\<rparr>))"

definition LLMGet :: "string \<Rightarrow> world \<Rightarrow> LLMProvider db_result" where
  "LLMGet provider w =
     pool_try w (\<lambda>w. case find_row (\<lambda>r. lp_provider r = provider) (visible_llm_providers w) of
         None \<Rightarrow> (Inl ErrNotFound, w) | Some r \<Rightarrow> (Inr (scan_llm_provider r), w))"

definition countLLMProviders :: "world \<Rightarrow> nat db_result" where
  "countLLMProviders w = pool_try w (\<lambda>w. (Inr (length (visible_llm_providers w)), w))"

definition LLMListPaginated :: "nat \<Rightarrow> nat \<Rightarrow> world \<Rightarrow> (LLMProvider list \<times> nat) db_result" where
  "LLMListPaginated page pageSize w =
     page_try page pageSize w (\<lambda>offset w.
       let rows = sort_key lp_provider (visible_llm_providers w);
           got = sql_page pageSize offset rows
       in db_bind (if got = [] then countLLMProviders w else (Inr (length rows), w))
            (\<lambda>n w. (Inr (map scan_llm_provider got, n), w)))"

definition own_llm_settings :: "world \<Rightarrow> llm_settings_row option" where
  "own_llm_settings w =
     (case app_tenant_id (pool_session w) of None \<Rightarrow> None
      | Some tenant \<Rightarrow> find_row (\<lambda>r. ls_tenant_id r = tenant) (llm_settings (db w)))"

definition LLMGetActiveProvider :: "world \<Rightarrow> string db_result" where
  "LLMGetActiveProvider w =
     pool_try w (\<lambda>w. (Inr (case own_llm_settings w of None \<Rightarrow> [] | Some r \<Rightarrow> coalesce (ls_active_provider r)), w))"

text \<open>\<open>INSERT INTO llm_settings ... ON CONFLICT (tenant_id) DO UPDATE\<close>: \<open>row\<close> is the inserted row of a
  tenant, \<open>f\<close> the update.\<close>

definition upsert_llm_settings :: "(uuid \<Rightarrow> llm_settings_row) \<Rightarrow> (llm_settings_row \<Rightarrow> llm_settings_row) \<Rightarrow> uuid \<Rightarrow> tables \<Rightarrow> tables" where
  "upsert_llm_settings row f tenant d =
     d\<lparr>llm_settings := (if tenant \<in> ls_tenant_id ` set (llm_settings d)
        then sql_update (\<lambda>r. ls_tenant_id r = tenant) f (llm_settings d) else llm_settings d @ [row tenant])\<rparr>"

definition LLMSetActiveProvider :: "string \<Rightarrow> world \<Rightarrow> unit db_result" where
  "LLMSetActiveProvider provider w =
     pool_try w (\<lambda>w.
       case app_tenant_id (pool_session w) of
         None \<Rightarrow> pool_fail w
       | Some tenant \<Rightarrow>
           if (tenant, provider) \<notin> llm_key ` set (llm_providers (db w)) then pool_fail w
           else (Inr (), set_db (upsert_llm_settings
                   (\<lambda>t. \<lparr>ls_tenant_id = t, ls_active_provider = Some provider, ls_root_cause_enrichment_enabled = False\<rparr>)
                   (\<lambda>r. r\<lparr>ls_active_provider := Some provider\<rparr>) tenant) w))"

definition RootCauseEnrichmentEnabled :: "world \<Rightarrow> bool db_result" where
  "RootCauseEnrichmentEnabled w =
     pool_try w (\<lambda>w. (Inr (case own_llm_settings w of None \<Rightarrow> False | Some r \<Rightarrow> ls_root_cause_enrichment_enabled r), w))"

definition SetRootCauseEnrichmentEnabled :: "bool \<Rightarrow> world \<Rightarrow> unit db_result" where
  "SetRootCauseEnrichmentEnabled enabled w =
     pool_try w (\<lambda>w.
       case app_tenant_id (pool_session w) of
         None \<Rightarrow> pool_fail w
       | Some tenant \<Rightarrow>
           (Inr (), set_db (upsert_llm_settings
              (\<lambda>t. \<lparr>ls_tenant_id = t, ls_active_provider = None, ls_root_cause_enrichment_enabled = enabled\<rparr>)
              (\<lambda>r. r\<lparr>ls_root_cause_enrichment_enabled := enabled\<rparr>) tenant) w))"

definition LLMDeleteProvider :: "string \<Rightarrow> world \<Rightarrow> unit db_result" where
  "LLMDeleteProvider provider w =
     pool_try w (\<lambda>w.
       case app_tenant_id (pool_session w) of
         None \<Rightarrow> (Inr (), w)
       | Some tenant \<Rightarrow>
           (Inr (), if (tenant, provider) \<notin> llm_key ` set (llm_providers (db w)) then w
              else set_db (\<lambda>d. d\<lparr>llm_providers := sql_delete (\<lambda>r. llm_key r = (tenant, provider)) (llm_providers d),
                llm_settings := sql_update (\<lambda>r. ls_tenant_id r = tenant \<and> ls_active_provider r = Some provider)
                  (\<lambda>r. r\<lparr>ls_active_provider := None\<rparr>) (llm_settings d)\<rparr>) w))"

text \<open>\<open>UPDATE llm_providers SET ... WHERE provider = $1\<close>, which names no tenant.\<close>

definition update_llm :: "string \<Rightarrow> (llm_provider_row \<Rightarrow> llm_provider_row) \<Rightarrow> world \<Rightarrow> unit db_result" where
  "update_llm provider f w =
     pool_try w (\<lambda>w. (Inr (), set_db (\<lambda>d. d\<lparr>llm_providers :=
       sql_update (\<lambda>r. visible w (lp_tenant_id r) \<and> lp_provider r = provider) f (llm_providers d)\<rparr>) w))"

definition UpdateModel :: "string \<Rightarrow> string \<Rightarrow> world \<Rightarrow> unit db_result" where
  "UpdateModel provider model = update_llm provider (\<lambda>r. r\<lparr>lp_model := model\<rparr>)"

definition MarkInvalid :: "time \<Rightarrow> string \<Rightarrow> string \<Rightarrow> world \<Rightarrow> unit db_result" where
  "MarkInvalid dbnow provider lastError =
     update_llm provider (\<lambda>r. r\<lparr>lp_status := ''invalid'', lp_last_checked_at := Some dbnow, lp_last_error := Some lastError\<rparr>)"

definition MarkChecked :: "time \<Rightarrow> string \<Rightarrow> world \<Rightarrow> unit db_result" where
  "MarkChecked dbnow provider =
     update_llm provider (\<lambda>r. r\<lparr>lp_status := ''connected'', lp_last_checked_at := Some dbnow, lp_last_error := None\<rparr>)"

definition MarkTransientFailure :: "time \<Rightarrow> string \<Rightarrow> string \<Rightarrow> world \<Rightarrow> unit db_result" where
  "MarkTransientFailure dbnow provider lastError =
     update_llm provider (\<lambda>r. r\<lparr>lp_last_checked_at := Some dbnow, lp_last_error := Some lastError\<rparr>)"

subsection \<open>Verification tokens\<close>

definition VerificationCreate :: "time \<Rightarrow> uuid \<Rightarrow> string \<Rightarrow> time \<Rightarrow> world \<Rightarrow> EmailVerificationToken db_result" where
  "VerificationCreate dbnow uid hash expires w =
     pool_try w (\<lambda>w.
       if \<not> user_exists uid (db w) \<or> hash \<in> ev_TokenHash ` set (verification_tokens (db w)) then pool_fail w
       else let t = \<lparr>ev_ID = next_id w, ev_UserID = uid, ev_TokenHash = hash, ev_ExpiresAt = expires, ev_UsedAt = None, ev_CreatedAt = dbnow\<rparr>
            in (Inr t, (set_db (\<lambda>d. d\<lparr>verification_tokens := verification_tokens d @ [t]\<rparr>) w)\<lparr>next_id := Suc (next_id w)\<rparr>))"

definition VerificationClaimForUse :: "time \<Rightarrow> string \<Rightarrow> world \<Rightarrow> EmailVerificationToken db_result" where
  "VerificationClaimForUse dbnow hash w =
     (let P = (\<lambda>t. ev_TokenHash t = hash \<and> ev_UsedAt t = None \<and> dbnow < ev_ExpiresAt t);
          use = (\<lambda>t. t\<lparr>ev_UsedAt := Some dbnow\<rparr>)
      in pool_try w (\<lambda>w. case find_row P (verification_tokens (db w)) of
           None \<Rightarrow> (Inl ErrNotFound, w)
         | Some t \<Rightarrow> (Inr (use t), set_db (\<lambda>d. d\<lparr>verification_tokens := sql_update P use (verification_tokens d)\<rparr>) w)))"

definition InvalidatePendingForUser :: "time \<Rightarrow> uuid \<Rightarrow> world \<Rightarrow> unit db_result" where
  "InvalidatePendingForUser dbnow uid w =
     pool_try w (\<lambda>w. (Inr (), set_db (\<lambda>d. d\<lparr>verification_tokens :=
       sql_update (\<lambda>t. ev_UserID t = uid \<and> ev_UsedAt t = None) (\<lambda>t. t\<lparr>ev_UsedAt := Some dbnow\<rparr>) (verification_tokens d)\<rparr>) w))"

end
