(* ===== verification/Mailer.thy ===== *)
theory Mailer
  imports Providers Notify
begin

text \<open>
  Sending e-mail: \<open>internal/email/service.go\<close> (a provider each tenant connects), its subjects and labels of
  \<open>provider.go\<close> and \<open>format.go\<close>, \<open>notification_service_sender.go\<close> (one credential for the platform), the
  choice between the two in \<open>internal/cli/email_sender.go\<close>, and \<open>internal/api/email_providers_handler.go\<close>.

  \<^item> \<open>email_service\<close> holds what a \<open>Service\<close> is built with: the client of a provider for a key (\<open>factory\<close>,
    None for an unknown provider), the layout, and what the libraries do: \<open>net/mail.ParseAddress\<close>, the
    execution of the embedded \<open>html/template\<close> files, and the label of a digest's period.
  \<^item> A client is the answers of its two calls: whether the credentials validate, and the error of sending
    a message, None for an accepted one.
\<close>

subsection \<open>Messages\<close>

record Layout =
  ly_AssetsBaseURL :: string
  ly_NotificationPrefsURL :: string

record PasswordResetEmailData =
  pw_CompanyName :: string
  pw_ResetURL :: string
  pw_UserEmail :: string
  pw_ExpiresIn :: string

record SignupVerificationEmailData =
  vf_TenantName :: string
  vf_VerifyURL :: string
  vf_ExpiresIn :: string

datatype mail =
    InviteMail AdminInviteEmailData
  | ResetMail PasswordResetEmailData
  | VerificationMail SignupVerificationEmailData
  | Notice email

record Message =
  ms_To :: string
  ms_FromEmail :: string
  ms_FromName :: string
  ms_Subject :: string
  ms_HTMLBody :: string
  ms_TextBody :: string

definition severityLabels :: "string \<Rightarrow> string option" where
  "severityLabels = [''minor'' \<mapsto> ''Minor'', ''moderate'' \<mapsto> ''Moderate'', ''critical'' \<mapsto> ''Critical'']"

definition roleLabels :: "string \<Rightarrow> string option" where
  "roleLabels = [''owner'' \<mapsto> ''Admin'', ''operator'' \<mapsto> ''Member'', ''viewer'' \<mapsto> ''Read-only'']"

definition labelOr :: "(string \<Rightarrow> string option) \<Rightarrow> string \<Rightarrow> string" where
  "labelOr labels key = (case labels key of None \<Rightarrow> key | Some l \<Rightarrow> l)"

definition InviterDisplay :: "AdminInviteEmailData \<Rightarrow> string" where
  "InviterDisplay d =
     (if ai_InviterName d \<noteq> [] then ai_InviterName d
      else if ai_InviterEmail d \<noteq> [] then ai_InviterEmail d else ''An admin'')"

definition digest_subject :: "string \<Rightarrow> string" where
  "digest_subject label =
     (if label \<noteq> [] then ''Your weekly summary '' @ [CHR 0xB7] @ '' '' @ label else ''Your weekly summary'')"

text \<open>\<open>Subject\<close> of each kind of data; \<open>period\<close> is \<open>PeriodLabel\<close>.\<close>

fun notice_subject :: "(WeeklyDigestEmailData \<Rightarrow> string) \<Rightarrow> email \<Rightarrow> string" where
  "notice_subject period (IncidentOpenedEmail d) =
     ''['' @ labelOr severityLabels (eo_Severity d) @ ''] New incident: '' @ eo_IncidentTitle d"
| "notice_subject period (IncidentResolvedEmail d) = ''Resolved: '' @ er_IncidentTitle d"
| "notice_subject period (WeeklyDigestEmail d) = digest_subject (period d)"
| "notice_subject period (DomainExpiringEmail d) = ''Domain expiring soon: '' @ ee_Hostname d"
| "notice_subject period (DomainNSDriftEmail d) = ''Nameserver change detected: '' @ en_Hostname d"

fun mail_subject :: "(WeeklyDigestEmailData \<Rightarrow> string) \<Rightarrow> mail \<Rightarrow> string" where
  "mail_subject period (InviteMail d) = InviterDisplay d @ '' invited you to join Vane''"
| "mail_subject period (ResetMail d) = ''Reset your Vane password''"
| "mail_subject period (VerificationMail d) = ''Confirm your Vane email''"
| "mail_subject period (Notice e) = notice_subject period e"

subsection \<open>The service of a tenant's provider\<close>

datatype send_error = ErrUnauthorized | ErrTimeout | ErrServer

record provider_client =
  pv_validates :: bool
  pv_send :: "Message \<Rightarrow> send_error option"

record 'tok email_service =
  es_env :: "'tok auth_env"
  es_factory :: "string \<Rightarrow> string \<Rightarrow> provider_client option"
  es_layout :: Layout
  es_parse_address :: "string \<Rightarrow> bool"
  es_render :: "Layout \<Rightarrow> mail \<Rightarrow> (string \<times> string) option"
  es_period :: "WeeklyDigestEmailData \<Rightarrow> string"

datatype email_error =
    ErrInvalidInput
  | ErrValidationFailed
  | ErrProviderNotConnected
  | ErrNoActiveProvider
  | ErrStore db_error
  | ErrEncryption
  | ErrClient
  | ErrTemplate
  | ErrSend send_error

type_synonym 'a email_result = "(email_error + 'a) \<times> world"

definition on_store :: "'a db_result \<Rightarrow> (db_error \<Rightarrow> email_error) \<Rightarrow> ('a \<Rightarrow> world \<Rightarrow> 'b email_result) \<Rightarrow> 'b email_result" where
  "on_store m err ok = (case m of (Inl e, w) \<Rightarrow> (Inl (err e), w) | (Inr a, w) \<Rightarrow> ok a w)"

definition not_found_as :: "email_error \<Rightarrow> db_error \<Rightarrow> email_error" where
  "not_found_as e d = (if d = ErrNotFound then e else ErrStore d)"

text \<open>\<open>nonce\<close> is what \<open>crypto.Encrypt\<close> drew.\<close>

definition EmailConnect ::
    "'tok email_service \<Rightarrow> time \<Rightarrow> string option \<Rightarrow> string \<Rightarrow> string \<Rightarrow> string \<Rightarrow> string \<Rightarrow> world \<Rightarrow> unit email_result" where
  "EmailConnect S dbnow nonce provider apiKey fromEmail fromName w =
     (if apiKey = [] \<or> fromEmail = [] \<or> fromName = [] then (Inl ErrInvalidInput, w)
      else if \<not> es_parse_address S fromEmail then (Inl ErrInvalidInput, w)
      else (case es_factory S provider apiKey of
          None \<Rightarrow> (Inl ErrValidationFailed, w)
        | Some p \<Rightarrow>
            if \<not> pv_validates p then (Inl ErrValidationFailed, w)
            else (case Encrypt (es_env S) nonce apiKey of
                None \<Rightarrow> (Inl ErrEncryption, w)
              | Some key \<Rightarrow> on_store (EmailUpsertProvider dbnow provider key fromEmail fromName w) ErrStore (\<lambda>_ w. (Inr (), w)))))"

definition EmailActivate :: "string \<Rightarrow> world \<Rightarrow> unit email_result" where
  "EmailActivate provider w =
     on_store (EmailGet provider w) (not_found_as ErrProviderNotConnected) (\<lambda>ep w.
       if pe_Status ep \<noteq> ''connected'' then (Inl ErrProviderNotConnected, w)
       else on_store (EmailSetActiveProvider provider w) ErrStore (\<lambda>_ w. (Inr (), w)))"

definition EmailDisconnect :: "string \<Rightarrow> world \<Rightarrow> unit email_result" where
  "EmailDisconnect provider w = on_store (EmailDeleteProvider provider w) ErrStore (\<lambda>_ w. (Inr (), w))"

record ProviderStatus =
  st_Provider :: string
  st_Status :: string
  st_FromEmail :: string
  st_FromName :: string
  st_LastCheckedAt :: "time option"
  st_LastError :: "string option"

record ListResult =
  lr_ActiveProvider :: string
  lr_Providers :: "ProviderStatus list"
  lr_Total :: nat
  lr_Page :: nat
  lr_PageSize :: nat

definition provider_status :: "EmailProvider \<Rightarrow> ProviderStatus" where
  "provider_status p =
     \<lparr>st_Provider = pe_Provider p, st_Status = pe_Status p, st_FromEmail = pe_FromEmail p, st_FromName = pe_FromName p,
      st_LastCheckedAt = pe_LastCheckedAt p, st_LastError = pe_LastError p\<rparr>"

definition EmailList :: "nat \<Rightarrow> nat \<Rightarrow> world \<Rightarrow> ListResult email_result" where
  "EmailList page pageSize w =
     on_store (EmailListPaginated page pageSize w) ErrStore (\<lambda>(providers, n) w.
       on_store (EmailGetActiveProvider w) ErrStore (\<lambda>active w.
         (Inr \<lparr>lr_ActiveProvider = active, lr_Providers = map provider_status providers, lr_Total = n,
               lr_Page = page, lr_PageSize = pageSize\<rparr>, w)))"

text \<open>What every \<open>Send\<close> method does up to the call of the provider: the client of the active provider and
  the message it is given.\<close>

definition active_client :: "'tok email_service \<Rightarrow> world \<Rightarrow> (provider_client \<times> EmailProvider) email_result" where
  "active_client S w =
     on_store (EmailGetActiveProvider w) ErrStore (\<lambda>active w.
       if active = [] then (Inl ErrNoActiveProvider, w)
       else on_store (EmailGet active w) (not_found_as ErrNoActiveProvider) (\<lambda>ep w.
         case Decrypt (es_env S) (pe_EncryptedAPIKey ep) of
           None \<Rightarrow> (Inl ErrEncryption, w)
         | Some apiKey \<Rightarrow> (case es_factory S active apiKey of
             None \<Rightarrow> (Inl ErrClient, w) | Some p \<Rightarrow> (Inr (p, ep), w))))"

definition message_of :: "'tok email_service \<Rightarrow> EmailProvider \<Rightarrow> string \<Rightarrow> mail \<Rightarrow> Message option" where
  "message_of S ep to m =
     map_option (\<lambda>(html, txt). \<lparr>ms_To = to, ms_FromEmail = pe_FromEmail ep, ms_FromName = pe_FromName ep,
        ms_Subject = mail_subject (es_period S) m, ms_HTMLBody = html, ms_TextBody = txt\<rparr>) (es_render S (es_layout S) m)"

definition send_through :: "'tok email_service \<Rightarrow> string \<Rightarrow> mail \<Rightarrow> world \<Rightarrow> unit email_result" where
  "send_through S to m w =
     (case active_client S w of
        (Inl e, w) \<Rightarrow> (Inl e, w)
      | (Inr (p, ep), w) \<Rightarrow>
          (case message_of S ep to m of
             None \<Rightarrow> (Inl ErrTemplate, w)
           | Some msg \<Rightarrow> (case pv_send p msg of None \<Rightarrow> (Inr (), w) | Some e \<Rightarrow> (Inl (ErrSend e), w))))"

text \<open>The eight methods repeat these steps with their data.\<close>

definition EmailSendAdminInvite :: "'tok email_service \<Rightarrow> string \<Rightarrow> AdminInviteEmailData \<Rightarrow> world \<Rightarrow> unit email_result" where
  "EmailSendAdminInvite S to d = send_through S to (InviteMail d)"

definition EmailSendSignupVerification :: "'tok email_service \<Rightarrow> string \<Rightarrow> SignupVerificationEmailData \<Rightarrow> world \<Rightarrow> unit email_result" where
  "EmailSendSignupVerification S to d = send_through S to (VerificationMail d)"

definition EmailSendPasswordReset :: "'tok email_service \<Rightarrow> string \<Rightarrow> PasswordResetEmailData \<Rightarrow> world \<Rightarrow> unit email_result" where
  "EmailSendPasswordReset S to d = send_through S to (ResetMail d)"

definition EmailSendIncidentOpened :: "'tok email_service \<Rightarrow> string \<Rightarrow> IncidentOpenedEmailData \<Rightarrow> world \<Rightarrow> unit email_result" where
  "EmailSendIncidentOpened S to d = send_through S to (Notice (IncidentOpenedEmail d))"

definition EmailSendIncidentResolved :: "'tok email_service \<Rightarrow> string \<Rightarrow> IncidentResolvedEmailData \<Rightarrow> world \<Rightarrow> unit email_result" where
  "EmailSendIncidentResolved S to d = send_through S to (Notice (IncidentResolvedEmail d))"

definition EmailSendWeeklyDigest :: "'tok email_service \<Rightarrow> string \<Rightarrow> WeeklyDigestEmailData \<Rightarrow> world \<Rightarrow> unit email_result" where
  "EmailSendWeeklyDigest S to d = send_through S to (Notice (WeeklyDigestEmail d))"

definition EmailSendDomainExpiring :: "'tok email_service \<Rightarrow> string \<Rightarrow> DomainExpiringEmailData \<Rightarrow> world \<Rightarrow> unit email_result" where
  "EmailSendDomainExpiring S to d = send_through S to (Notice (DomainExpiringEmail d))"

definition EmailSendDomainNSDrift :: "'tok email_service \<Rightarrow> string \<Rightarrow> DomainNSDriftEmailData \<Rightarrow> world \<Rightarrow> unit email_result" where
  "EmailSendDomainNSDrift S to d = send_through S to (Notice (DomainNSDriftEmail d))"

text \<open>What the notification service (\<open>Notify\<close>) calls; it only logs an error.\<close>

fun EmailSendNotice :: "'tok email_service \<Rightarrow> string \<Rightarrow> email \<Rightarrow> world \<Rightarrow> unit email_result" where
  "EmailSendNotice S to (IncidentOpenedEmail d) = EmailSendIncidentOpened S to d"
| "EmailSendNotice S to (IncidentResolvedEmail d) = EmailSendIncidentResolved S to d"
| "EmailSendNotice S to (WeeklyDigestEmail d) = EmailSendWeeklyDigest S to d"
| "EmailSendNotice S to (DomainExpiringEmail d) = EmailSendDomainExpiring S to d"
| "EmailSendNotice S to (DomainNSDriftEmail d) = EmailSendDomainNSDrift S to d"

definition accepted :: "unit email_result \<Rightarrow> bool \<times> world" where
  "accepted r = (case r of (Inl _, w) \<Rightarrow> (False, w) | (Inr _, w) \<Rightarrow> (True, w))"

subsection \<open>The platform's notification service\<close>

record NotificationServiceRequest =
  rq_TenantKey :: string
  rq_Category :: string
  rq_Priority :: string
  rq_Type :: string
  rq_RecipientEmail :: string
  rq_Subject :: string
  rq_HTMLBody :: string
  rq_TextBody :: string
  rq_IdempotencyKey :: string

record NotificationServiceSender =
  nt_client :: "NotificationServiceRequest \<Rightarrow> send_error option"
  nt_tenantKey :: string
  nt_layout :: Layout
  nt_render :: "Layout \<Rightarrow> mail \<Rightarrow> (string \<times> string) option"
  nt_period :: "WeeklyDigestEmailData \<Rightarrow> string"
  nt_sha256_hex :: "string \<Rightarrow> string"

definition idempotencyKey :: "NotificationServiceSender \<Rightarrow> string \<Rightarrow> string \<Rightarrow> string \<Rightarrow> string" where
  "idempotencyKey N recipient subject htmlBody = nt_sha256_hex N (recipient @ ''|'' @ subject @ ''|'' @ htmlBody)"

definition saas_request ::
    "NotificationServiceSender \<Rightarrow> string \<Rightarrow> string \<Rightarrow> string \<times> string \<times> string \<Rightarrow> string \<Rightarrow> string \<Rightarrow> NotificationServiceRequest" where
  "saas_request N to subject kind html txt =
     \<lparr>rq_TenantKey = nt_tenantKey N, rq_Category = fst kind, rq_Priority = fst (snd kind), rq_Type = snd (snd kind),
      rq_RecipientEmail = to, rq_Subject = subject, rq_HTMLBody = html, rq_TextBody = txt,
      rq_IdempotencyKey = idempotencyKey N to subject html\<rparr>"

text \<open>Category, priority and type of each of the eight methods.\<close>

fun notice_kind :: "email \<Rightarrow> string \<times> string \<times> string" where
  "notice_kind (IncidentOpenedEmail d) = (''transactional'', ''normal'', ''INCIDENT_OPENED'')"
| "notice_kind (IncidentResolvedEmail d) = (''transactional'', ''normal'', ''INCIDENT_RESOLVED'')"
| "notice_kind (WeeklyDigestEmail d) = (''marketing'', ''low'', ''WEEKLY_DIGEST'')"
| "notice_kind (DomainExpiringEmail d) = (''transactional'', ''critical'', ''DOMAIN_EXPIRING'')"
| "notice_kind (DomainNSDriftEmail d) = (''transactional'', ''normal'', ''DOMAIN_NS_DRIFT'')"

fun mail_kind :: "mail \<Rightarrow> string \<times> string \<times> string" where
  "mail_kind (InviteMail d) = (''transactional'', ''normal'', ''ADMIN_INVITE'')"
| "mail_kind (ResetMail d) = (''transactional'', ''critical'', ''PASSWORD_RESET'')"
| "mail_kind (VerificationMail d) = (''transactional'', ''critical'', ''SIGNUP_VERIFICATION'')"
| "mail_kind (Notice e) = notice_kind e"

definition saas_send :: "NotificationServiceSender \<Rightarrow> string \<Rightarrow> mail \<Rightarrow> world \<Rightarrow> unit email_result" where
  "saas_send N to m w =
     (case nt_render N (nt_layout N) m of
        None \<Rightarrow> (Inl ErrTemplate, w)
      | Some (html, txt) \<Rightarrow>
          (case nt_client N (saas_request N to (mail_subject (nt_period N) m) (mail_kind m) html txt) of
             None \<Rightarrow> (Inr (), w) | Some e \<Rightarrow> (Inl (ErrSend e), w)))"

subsection \<open>The choice of the sender\<close>

datatype 'tok email_sender = SelfHosted "'tok email_service" | Saas NotificationServiceSender

definition notificationServiceTenantKey :: string where
  "notificationServiceTenantKey = ''vane-saas''"

definition notificationPrefsPath :: string where
  "notificationPrefsPath = ''/profile''"

definition emailLayoutFromConfig :: "string \<Rightarrow> string \<Rightarrow> Layout" where
  "emailLayoutFromConfig assetsBaseURL baseURL =
     \<lparr>ly_AssetsBaseURL = assetsBaseURL, ly_NotificationPrefsURL = (if baseURL \<noteq> [] then baseURL @ notificationPrefsPath else [])\<rparr>"

definition newEmailSender ::
    "string \<Rightarrow> Layout \<Rightarrow> 'tok email_service \<Rightarrow> NotificationServiceSender \<Rightarrow> 'tok email_sender" where
  "newEmailSender deploymentMode layout S N =
     (if deploymentMode = ''saas'' then Saas (N\<lparr>nt_tenantKey := notificationServiceTenantKey, nt_layout := layout\<rparr>)
      else SelfHosted (S\<lparr>es_layout := layout\<rparr>))"

fun sender_send :: "'tok email_sender \<Rightarrow> string \<Rightarrow> mail \<Rightarrow> world \<Rightarrow> unit email_result" where
  "sender_send (Saas N) to m w = saas_send N to m w"
| "sender_send (SelfHosted S) to (InviteMail d) w = EmailSendAdminInvite S to d w"
| "sender_send (SelfHosted S) to (ResetMail d) w = EmailSendPasswordReset S to d w"
| "sender_send (SelfHosted S) to (VerificationMail d) w = EmailSendSignupVerification S to d w"
| "sender_send (SelfHosted S) to (Notice e) w = EmailSendNotice S to e w"

text \<open>The sender as the notifications, the invites and the resets see it.\<close>

definition notify_sender :: "'tok email_sender \<Rightarrow> sender" where
  "notify_sender M to e w = accepted (sender_send M to (Notice e) w)"

definition invite_mailer :: "'tok email_sender \<Rightarrow> invite_sender" where
  "invite_mailer M to d w = accepted (sender_send M to (InviteMail d) w)"

text \<open>\<open>sendPasswordResetEmail\<close> of \<open>internal/api/password_reset_handler.go\<close>, the end of the goroutine a reset
  request starts.\<close>

definition sendPasswordResetEmail :: "'tok email_sender \<Rightarrow> string \<Rightarrow> string \<Rightarrow> string \<Rightarrow> world \<Rightarrow> bool \<times> world" where
  "sendPasswordResetEmail M baseURL to rawToken w =
     (case Active w of
        (Inl _, w) \<Rightarrow> (False, w)
      | (Inr settings, w) \<Rightarrow>
          accepted (sender_send M to (ResetMail \<lparr>pw_CompanyName = t_Name settings,
            pw_ResetURL = adminBaseURL baseURL @ ''/reset-password/'' @ rawToken, pw_UserEmail = to,
            pw_ExpiresIn = ''1 hour''\<rparr>) w))"

subsection \<open>The handlers of email providers\<close>

definition emailProvidersPageSize :: nat where "emailProvidersPageSize = 20"

definition providerDisplayName :: "string \<Rightarrow> string" where
  "providerDisplayName provider =
     (if provider = ''sendgrid'' then ''SendGrid'' else if provider = ''resend'' then ''Resend'' else provider)"

definition isKnownEmailProvider :: "string \<Rightarrow> bool" where
  "isKnownEmailProvider provider \<longleftrightarrow> provider = ''sendgrid'' \<or> provider = ''resend''"

definition writeUnknownEmailProvider :: "'tok reply" where
  "writeUnknownEmailProvider = respond 404 (ErrorBody ''unknown email provider'')"

definition writeInvalidEmailProvider :: "'tok reply" where
  "writeInvalidEmailProvider = respond 422 (ErrorBody ''invalid email provider api key, from_email, or from_name'')"

definition writeEmailProviderNotConnected :: "'tok reply" where
  "writeEmailProviderNotConnected = respond 422 (ErrorBody ''email provider not connected'')"

definition status_body :: "string \<Rightarrow> 'tok reply_body" where
  "status_body s = JsonBody (JObject [(''status'', JText s)])"

text \<open>The audit entry of a change of provider: an error of the lookup or of the entry is only logged.\<close>

definition audit_email_provider :: "time \<Rightarrow> auth_ctx \<Rightarrow> string \<Rightarrow> string \<Rightarrow> world \<Rightarrow> world" where
  "audit_email_provider dbnow ax provider action w =
     (case EmailGet provider w of
        (Inl _, w) \<Rightarrow> w
      | (Inr row, w) \<Rightarrow> snd (Record dbnow (u_ID (ax_User ax)) (pe_ID row) (providerDisplayName provider) action w))"

record connectEmailProviderRequest =
  cr_APIKey :: string
  cr_FromEmail :: string
  cr_FromName :: string

definition EmailProvidersConnect ::
    "'tok email_service \<Rightarrow> time \<Rightarrow> string option \<Rightarrow> string \<Rightarrow> connectEmailProviderRequest option \<Rightarrow> auth_ctx \<Rightarrow> world \<Rightarrow> 'tok handled" where
  "EmailProvidersConnect S dbnow nonce provider req ax w =
     (if \<not> isKnownEmailProvider provider then (writeUnknownEmailProvider, w)
      else (case req of None \<Rightarrow> (writeInvalidEmailProvider, w)
        | Some r \<Rightarrow>
            (case EmailConnect S dbnow nonce provider (cr_APIKey r) (cr_FromEmail r) (cr_FromName r) w of
               (Inl e, w) \<Rightarrow> (if e = ErrInvalidInput \<or> e = ErrValidationFailed then writeInvalidEmailProvider else writeInternalError, w)
             | (Inr _, w) \<Rightarrow>
                 (respond 201 (status_body ''connected''), audit_email_provider dbnow ax provider ''email_provider_connected'' w))))"

definition EmailProvidersActivate :: "time \<Rightarrow> string \<Rightarrow> auth_ctx \<Rightarrow> world \<Rightarrow> 'tok handled" where
  "EmailProvidersActivate dbnow provider ax w =
     (if \<not> isKnownEmailProvider provider then (writeUnknownEmailProvider, w)
      else (case EmailActivate provider w of
          (Inl e, w) \<Rightarrow> (if e = ErrProviderNotConnected then writeEmailProviderNotConnected else writeInternalError, w)
        | (Inr _, w) \<Rightarrow>
            (respond 200 (status_body ''active''), audit_email_provider dbnow ax provider ''email_provider_activated'' w)))"

definition EmailProvidersDisconnect :: "time \<Rightarrow> string \<Rightarrow> auth_ctx \<Rightarrow> world \<Rightarrow> 'tok handled" where
  "EmailProvidersDisconnect dbnow provider ax w =
     (if \<not> isKnownEmailProvider provider then (writeUnknownEmailProvider, w)
      else (case EmailGet provider w of (row, w) \<Rightarrow>
        (case EmailDisconnect provider w of
           (Inl _, w) \<Rightarrow> (writeInternalError, w)
         | (Inr _, w) \<Rightarrow>
             (respond 204 NoBody,
              case row of Inl _ \<Rightarrow> w
              | Inr r \<Rightarrow> snd (Record dbnow (u_ID (ax_User ax)) (pe_ID r) (providerDisplayName provider) ''email_provider_disconnected'' w)))))"

definition emailProviderResponse :: "ProviderStatus \<Rightarrow> json" where
  "emailProviderResponse p =
     JObject [(''provider'', JText (st_Provider p)), (''status'', JText (st_Status p)), (''from_email'', JText (st_FromEmail p)),
       (''from_name'', JText (st_FromName p)), (''last_checked_at'', json_option JTime (st_LastCheckedAt p)),
       (''last_error'', json_option JText (st_LastError p))]"

definition EmailProvidersList :: "string \<Rightarrow> world \<Rightarrow> 'tok handled" where
  "EmailProvidersList page_param w =
     (case EmailList (parsePage page_param) emailProvidersPageSize w of
        (Inl _, w) \<Rightarrow> (writeInternalError, w)
      | (Inr r, w) \<Rightarrow>
          (respond 200 (JsonBody (JObject [(''active_provider'', json_option JText (nullif_empty (lr_ActiveProvider r))),
             (''providers'', JList (map emailProviderResponse (lr_Providers r))), (''total'', JInt (int (lr_Total r))),
             (''page'', JInt (int (lr_Page r))), (''page_size'', JInt (int (lr_PageSize r)))])), w))"

subsection \<open>What sending leaves alone\<close>

lemma same_data_on_store:
  assumes "same_data w (snd m)" and "\<And>a v. m = (Inr a, v) \<Longrightarrow> same_data v (snd (ok a v))"
  shows "same_data w (snd (on_store m err ok))"
proof (cases m)
  case (Pair r v)
  with assms show ?thesis by (cases r) (auto simp: on_store_def intro: same_data_trans)
qed

lemma same_data_email_reads:
  "same_data w (snd (EmailGetActiveProvider w))" "same_data w (snd (EmailGet p w))" "same_data w (snd (countEmailProviders w))"
  "same_data w (snd (Active w))"
  unfolding EmailGetActiveProvider_def EmailGet_def countEmailProviders_def Active_def
  by (rule same_data_pool_try, simp split: option.split list.split)+

lemma same_data_active_client: "same_data w (snd (active_client S w))"
proof -
  have "same_data v (snd (on_store (EmailGet a v) (not_found_as ErrNoActiveProvider) (\<lambda>ep w.
         case Decrypt (es_env S) (pe_EncryptedAPIKey ep) of None \<Rightarrow> (Inl ErrEncryption, w)
         | Some apiKey \<Rightarrow> (case es_factory S a apiKey of None \<Rightarrow> (Inl ErrClient, w) | Some p \<Rightarrow> (Inr (p, ep), w)))))" for a v
    by (rule same_data_on_store [OF same_data_email_reads(2)]) (simp split: option.split)
  then show ?thesis
    unfolding active_client_def by (intro same_data_on_store same_data_email_reads) simp
qed

lemma same_data_send_through: "same_data w (snd (send_through S to m w))"
proof (cases "active_client S w")
  case (Pair r v)
  with same_data_active_client [of w S] show ?thesis
    by (cases r) (auto simp: send_through_def split: option.split)
qed

lemmas email_send_defs = EmailSendAdminInvite_def EmailSendSignupVerification_def EmailSendPasswordReset_def
  EmailSendIncidentOpened_def EmailSendIncidentResolved_def EmailSendWeeklyDigest_def EmailSendDomainExpiring_def
  EmailSendDomainNSDrift_def

lemma EmailSendNotice_through: "EmailSendNotice S to e = send_through S to (Notice e)"
  by (cases e) (simp_all add: email_send_defs)

lemma SelfHosted_through: "sender_send (SelfHosted S) to m = send_through S to m"
  by (cases m) (simp_all add: fun_eq_iff email_send_defs EmailSendNotice_through)

lemma same_data_sender_send: "same_data w (snd (sender_send M to m w))"
proof (cases M)
  case (SelfHosted S)
  then show ?thesis by (simp add: SelfHosted_through same_data_send_through)
next
  case (Saas N)
  then show ?thesis by (auto simp: saas_send_def split: option.splits)
qed

lemma snd_accepted: "snd (accepted r) = snd r"
  by (auto simp: accepted_def split: prod.splits sum.splits)

lemma same_data_notify_sender: "same_data w (snd (notify_sender M to e w))"
  by (simp add: notify_sender_def snd_accepted same_data_sender_send)

subsection \<open>Mail outside a tenant's transaction\<close>

text \<open>The statement of \<open>GetActiveProvider\<close> names the tenant of the session. Outside a transaction of a
  tenant there is none, whatever the database role may see: no provider is found and none is called.\<close>

lemma send_through_untenanted:
  assumes "app_tenant_id (pool_session w) = None"
  obtains e where "fst (send_through S to m w) = Inl e" "e \<in> {ErrNoActiveProvider, ErrStore DbError}"
proof -
  obtain r v where g: "EmailGetActiveProvider w = (r, v)" by fastforce
  then have "r = Inr [] \<or> r = Inl DbError"
    unfolding EmailGetActiveProvider_def
  proof (cases rule: pool_try_cases)
    case (ran w')
    with same_dataD(5) [OF ran(1)] assms show ?thesis by simp
  qed simp
  then have "fst (send_through S to m w) \<in> {Inl ErrNoActiveProvider, Inl (ErrStore DbError)}"
    by (auto simp: send_through_def active_client_def g on_store_def)
  with that show ?thesis by blast
qed

lemma fst_accepted: "fst (accepted r) \<longleftrightarrow> \<not> isl (fst r)"
  by (cases r; cases "fst r") (simp_all add: accepted_def)

lemma sender_untenanted:
  assumes "app_tenant_id (pool_session w) = None"
  shows "\<not> fst (accepted (sender_send (SelfHosted S) to m w))"
  using send_through_untenanted [OF assms, of S to m] by (metis SelfHosted_through fst_accepted sum.disc(1))

end
