(* ===== verification/Digest_Scheduler.thy ===== *)
theory Digest_Scheduler
  imports Mailer History Leader_Election
begin

text \<open>
  The weekly digest, \<open>internal/cli/digest_scheduler.go\<close>: when a tenant's digest is due, the week it covers,
  the pass over the tenants and the lock that lets one replica run it.

  \<^item> A time zone is its offset from UTC at every instant, a function of the host's time zone database. The
    epoch of \<open>time\<close> is that of Unix, a Thursday, 00:00 UTC. \<open>time.Date\<close> of a local reading \<open>l\<close> is \<open>date_in\<close>:
    the library looks up the offset at \<open>l\<close> taken as UTC and once more at the instant this gives.
  \<^item> A pass returns, per tenant it ran for, the error or the recipients with the outcome of their email.
  \<^item> The clock of a pass is read once; \<open>runOnce\<close> takes it as \<open>now\<close>.
\<close>

subsection \<open>Local dates\<close>

type_synonym zone = "time \<Rightarrow> duration"

definition local_time :: "zone \<Rightarrow> time \<Rightarrow> time" where
  "local_time off t = t + off t"

definition date_in :: "zone \<Rightarrow> time \<Rightarrow> time" where
  "date_in off l = l - off (l - off l)"

definition local_day :: "zone \<Rightarrow> time \<Rightarrow> int" where
  "local_day off t = local_time off t div day"

text \<open>\<open>Weekday\<close> of the day with a number since the epoch; Sunday is 0.\<close>

definition weekday :: "int \<Rightarrow> int" where
  "weekday d = (d + 4) mod 7"

definition days_since_monday :: "int \<Rightarrow> int" where
  "days_since_monday d = (weekday d - 1 + 7) mod 7"

subsection \<open>When a digest is due\<close>

definition digestFireHour :: int where "digestFireHour = 9"
definition digestTickInterval :: duration where "digestTickInterval = hour"
definition digestTickOffset :: duration where "digestTickOffset = minute"
definition digestCatchUpWindow :: duration where "digestCatchUpWindow = 24 * hour"
definition digestMinInterval :: duration where "digestMinInterval = 6 * 24 * hour"

definition nextDigestTick :: "time \<Rightarrow> time" where
  "nextDigestTick now =
     (let tick = now - now mod digestTickInterval + digestTickOffset
      in if now < tick then tick else tick + digestTickInterval)"

definition weeklyDigestFire :: "zone \<Rightarrow> time \<Rightarrow> time" where
  "weeklyDigestFire off now =
     (let d = local_day off now; monday = d - days_since_monday d;
          fire = date_in off (monday * day + digestFireHour * hour)
      in if now < fire then date_in off ((monday - 7) * day + digestFireHour * hour) else fire)"

definition digestDue :: "zone \<Rightarrow> Tenant \<Rightarrow> time \<Rightarrow> time \<times> bool" where
  "digestDue off tenant now =
     (let fire = weeklyDigestFire off now in
      if digestCatchUpWindow \<le> time_sub now fire then (fire, False)
      else (case t_LastDigestSentAt tenant of
          None \<Rightarrow> (fire, t_CreatedAt tenant < fire)
        | Some marker \<Rightarrow>
            if time_sub now marker < digestMinInterval then (fire, False) else (fire, marker < fire)))"

definition digestPeriod :: "zone \<Rightarrow> time \<Rightarrow> time \<times> time" where
  "digestPeriod off fire =
     (let to = date_in off (local_day off fire * day)
      in (date_in off (local_time off to - 7 * day), to))"

subsection \<open>One tenant\<close>

record digest_env =
  dg_service :: notify_service
  dg_zone :: "location \<Rightarrow> zone"

definition tenant_zone :: "digest_env \<Rightarrow> Tenant \<Rightarrow> zone" where
  "tenant_zone E t = dg_zone E (TenantLocation (ns_known_zone (dg_service E)) (t_Timezone t))"

fun digest_uptimes :: "StatusInterval list \<Rightarrow> time \<Rightarrow> time \<Rightarrow> Service list \<Rightarrow> DigestServiceUptime list" where
  "digest_uptimes ivs lo hi [] = []"
| "digest_uptimes ivs lo hi (svc # svcs) =
     (case UptimePercent (filter (\<lambda>i. si_ServiceID i = s_ID svc) ivs) lo hi of (percent, ok) \<Rightarrow>
        if ok then \<lparr>du_Name = s_Name svc, du_UptimePercent = percent\<rparr> # digest_uptimes ivs lo hi svcs
        else digest_uptimes ivs lo hi svcs)"

definition buildDigest :: "digest_env \<Rightarrow> Tenant \<Rightarrow> time \<Rightarrow> time \<Rightarrow> world \<Rightarrow> WeeklyDigestEmailData db_result" where
  "buildDigest E tenant lo hi w =
     db_bind (ServiceList w) (\<lambda>svcs w.
     db_bind (if svcs = [] then (Inr [], w)
              else db_bind (ListOverlapping (map s_ID svcs) lo hi w)
                     (\<lambda>ivs w. (Inr (digest_uptimes ivs lo hi svcs), w))) (\<lambda>uptimes w.
     db_bind (CountOpenedResolvedBetween lo hi w) (\<lambda>(opened, resolved) w.
     db_bind (ListActiveBetween lo hi w) (\<lambda>incs w.
       (Inr (BuildWeeklyDigestData (ns_known_zone (dg_service E))
          \<lparr>wi_Tenant = tenant, wi_Services = uptimes, wi_Incidents = incs, wi_IncidentsOpened = int opened,
           wi_IncidentsResolved = int resolved, wi_PeriodStart = lo, wi_PeriodEnd = hi\<rparr>), w)))))"

text \<open>The sends after the commit: a failed one is logged and the next recipient follows.\<close>

fun send_digests ::
    "notify_service \<Rightarrow> sender \<Rightarrow> WeeklyDigestEmailData \<Rightarrow> TenantMember list \<Rightarrow> world \<Rightarrow> (string \<times> bool) list \<times> world" where
  "send_digests S M d [] w = ([], w)"
| "send_digests S M d (r # rs) w =
     (case SendWeeklyDigest S M (me_Email r) d w of (ok, w) \<Rightarrow>
        (case send_digests S M d rs w of (sent, w) \<Rightarrow> ((me_Email r, ok) # sent, w)))"

definition rolled_back :: "'a db_result \<Rightarrow> ('a \<Rightarrow> world \<Rightarrow> 'b db_result) \<Rightarrow> 'b db_result" where
  "rolled_back m f = (case m of (Inl e, w) \<Rightarrow> (Inl e, tx_rollback w) | (Inr a, w) \<Rightarrow> f a w)"

definition digest_runTenant ::
    "digest_env \<Rightarrow> sender \<Rightarrow> Tenant \<Rightarrow> time \<Rightarrow> time \<Rightarrow> time \<Rightarrow> world \<Rightarrow> (string \<times> bool) list db_result" where
  "digest_runTenant E M tenant lo hi sentAt w =
     db_bind (BeginTenantTx None (Some (t_ID tenant)) w) (\<lambda>_ w.
     rolled_back (WeeklyDigestRecipients (t_ID tenant) w) (\<lambda>recipients w.
       if recipients = [] then
         rolled_back (MarkDigestSent (t_ID tenant) sentAt w) (\<lambda>_ w.
           db_bind (tx_commit w) (\<lambda>_ w. (Inr [], w)))
       else
         rolled_back (buildDigest E tenant lo hi w) (\<lambda>d w.
         rolled_back (MarkDigestSent (t_ID tenant) sentAt w) (\<lambda>_ w.
         db_bind (tx_commit w) (\<lambda>_ w.
           case send_digests (dg_service E) M d recipients w of (sent, w) \<Rightarrow> (Inr sent, w))))))"

subsection \<open>A pass over the tenants\<close>

type_synonym digest_log = "(uuid \<times> (db_error + (string \<times> bool) list)) list"

fun digest_tenants :: "digest_env \<Rightarrow> sender \<Rightarrow> time \<Rightarrow> Tenant list \<Rightarrow> world \<Rightarrow> digest_log \<times> world" where
  "digest_tenants E M now [] w = ([], w)"
| "digest_tenants E M now (t # ts) w =
     (case digestDue (tenant_zone E t) t now of (fire, due) \<Rightarrow>
        if \<not> due then digest_tenants E M now ts w
        else (case digestPeriod (tenant_zone E t) fire of (lo, hi) \<Rightarrow>
          (case digest_runTenant E M t lo hi now w of (r, w) \<Rightarrow>
            (case digest_tenants E M now ts w of (sent, w) \<Rightarrow> ((t_ID t, r) # sent, w)))))"

definition digest_runOnce :: "digest_env \<Rightarrow> sender \<Rightarrow> time \<Rightarrow> world \<Rightarrow> digest_log db_result" where
  "digest_runOnce E M now w =
     db_bind (SystemTenantList w) (\<lambda>ts w. case digest_tenants E M now ts w of (sent, w) \<Rightarrow> (Inr sent, w))"

text \<open>\<open>runCycle\<close>, which the domain health check shares: run under a session advisory lock, or not at all.\<close>

definition under_lock ::
    "int \<Rightarrow> bool \<Rightarrow> bool \<Rightarrow> bool \<Rightarrow> (world \<Rightarrow> 'a \<times> world) \<Rightarrow> pg_server \<Rightarrow> world \<Rightarrow> 'a option \<times> pg_server \<times> world" where
  "under_lock key dialed answered released run s w =
     (case TryAcquire dialed answered key s of
        (Inr (Some h), s) \<Rightarrow> (case run w of (r, w) \<Rightarrow> (Some r, snd (Release released h s), w))
      | (_, s) \<Rightarrow> (None, s, w))"

definition digest_runCycle ::
    "digest_env \<Rightarrow> sender \<Rightarrow> time \<Rightarrow> bool \<Rightarrow> bool \<Rightarrow> bool \<Rightarrow> pg_server \<Rightarrow> world \<Rightarrow>
       (db_error + digest_log) option \<times> pg_server \<times> world" where
  "digest_runCycle E M now dialed answered released =
     under_lock DigestLeaderLockKey dialed answered released (digest_runOnce E M now)"

subsection \<open>The fires of a zone\<close>

text \<open>The Monday 09:00 of week \<open>k\<close> since the epoch, as an instant.\<close>

definition monday_fire :: "zone \<Rightarrow> int \<Rightarrow> time" where
  "monday_fire off k = date_in off ((7 * k - 3) * day + digestFireHour * hour)"

text \<open>A zone whose offsets differ by an hour at most, as with daylight saving time.\<close>

definition dst_zone :: "zone \<Rightarrow> bool" where
  "dst_zone off \<longleftrightarrow> (\<forall>t u. off t - off u \<le> hour)"

lemmas digest_consts = day_def duration_defs digestFireHour_def digestCatchUpWindow_def digestMinInterval_def
  digestTickInterval_def digestTickOffset_def

lemma monday_of: "d - days_since_monday d = 7 * ((d + 3) div 7) - 3"
proof -
  have "days_since_monday d = (d + 3) mod 7" unfolding days_since_monday_def weekday_def by presburger
  then show ?thesis using mult_div_mod_eq [of 7 "d + 3"] by linarith
qed

lemma weeklyDigestFire_week:
  "weeklyDigestFire off now =
     (let k = (local_day off now + 3) div 7 in if now < monday_fire off k then monday_fire off (k - 1) else monday_fire off k)"
  unfolding weeklyDigestFire_def Let_def monday_of monday_fire_def by (simp add: algebra_simps)

lemma dst_zoneD: "dst_zone off \<Longrightarrow> off t - off u \<le> hour" by (simp add: dst_zone_def)

lemma monday_fire_step:
  assumes "dst_zone off"
  shows "monday_fire off k + 7 * day - hour \<le> monday_fire off (k + 1)" "monday_fire off (k + 1) \<le> monday_fire off k + 7 * day + hour"
proof -
  have eq: "(7 * (k + 1) - 3) * day + digestFireHour * hour = ((7 * k - 3) * day + digestFireHour * hour) + 7 * day"
    by (simp add: algebra_simps)
  show "monday_fire off k + 7 * day - hour \<le> monday_fire off (k + 1)" "monday_fire off (k + 1) \<le> monday_fire off k + 7 * day + hour"
    unfolding monday_fire_def date_in_def eq
    using dst_zoneD [OF assms, of "(7 * k - 3) * day + digestFireHour * hour + 7 * day - off ((7 * k - 3) * day + digestFireHour * hour + 7 * day)"
        "(7 * k - 3) * day + digestFireHour * hour - off ((7 * k - 3) * day + digestFireHour * hour)"]
      dst_zoneD [OF assms, of "(7 * k - 3) * day + digestFireHour * hour - off ((7 * k - 3) * day + digestFireHour * hour)"
        "(7 * k - 3) * day + digestFireHour * hour + 7 * day - off ((7 * k - 3) * day + digestFireHour * hour + 7 * day)"]
    by linarith+
qed

lemma fire_of_week:
  assumes "dst_zone off"
  obtains k where "weeklyDigestFire off now = monday_fire off k" "monday_fire off k \<le> now" "now < monday_fire off (k + 1)"
proof -
  define k where "k = (local_day off now + 3) div 7"
  have d: "7 * k - 3 \<le> local_day off now" "local_day off now < 7 * (k + 1) - 3" unfolding k_def by presburger+
  have l: "local_day off now * day \<le> now + off now" "now + off now < (local_day off now + 1) * day"
    unfolding local_day_def local_time_def digest_consts by simp_all
  have lo: "(7 * k - 3) * day \<le> now + off now"
    using l(1) mult_right_mono [OF d(1), of day] by (simp add: digest_consts)
  have hi: "now + off now < (7 * (k + 1) - 3) * day"
    using l(2) mult_right_mono [of "local_day off now + 1" "7 * (k + 1) - 3" day] d(2) by (simp add: digest_consts)
  have up: "now < monday_fire off (k + 1)"
    unfolding monday_fire_def date_in_def
    using hi dst_zoneD [OF assms, of "(7 * (k + 1) - 3) * day + digestFireHour * hour - off ((7 * (k + 1) - 3) * day + digestFireHour * hour)" now]
    by (simp add: digest_consts)
  have down: "monday_fire off (k - 1) \<le> now"
    unfolding monday_fire_def date_in_def
    using lo dst_zoneD [OF assms, of now "(7 * (k - 1) - 3) * day + digestFireHour * hour - off ((7 * (k - 1) - 3) * day + digestFireHour * hour)"]
    by (simp add: digest_consts)
  show ?thesis
  proof (cases "now < monday_fire off k")
    case True
    with down that [of "k - 1"] show ?thesis by (simp add: weeklyDigestFire_week k_def [symmetric] Let_def)
  next
    case False
    with up that [of k] show ?thesis by (simp add: weeklyDigestFire_week k_def [symmetric] Let_def)
  qed
qed

lemma monday_fire_mono:
  assumes "dst_zone off" and "j \<le> k"
  shows "monday_fire off j \<le> monday_fire off k"
  using assms(2)
proof (induction k rule: int_ge_induct)
  case (step i)
  with monday_fire_step(1) [OF assms(1), of i] show ?case by (simp add: digest_consts)
qed simp

lemma weeklyDigestFire_at:
  assumes "dst_zone off" and "monday_fire off k \<le> now" and "now < monday_fire off (k + 1)"
  shows "weeklyDigestFire off now = monday_fire off k"
proof -
  obtain j where j: "weeklyDigestFire off now = monday_fire off j" "monday_fire off j \<le> now" "now < monday_fire off (j + 1)"
    using fire_of_week [OF assms(1)] .
  have "\<not> j + 1 \<le> k" "\<not> k + 1 \<le> j"
    using monday_fire_mono [OF assms(1), of "j + 1" k] monday_fire_mono [OF assms(1), of "k + 1" j] assms j by linarith+
  then have "j = k" by linarith
  with j show ?thesis by simp
qed

lemma nextDigestTick_bounds: "now < nextDigestTick now" "nextDigestTick now \<le> now + digestTickInterval"
  by (simp_all add: nextDigestTick_def digest_consts Let_def)
    (use pos_mod_bound [of 3600000000000 now] pos_mod_sign [of 3600000000000 now] in linarith)+

subsection \<open>What a pass changes\<close>

lemma same_data_digest_reads:
  "same_data w (snd (ListMembersWithEmail tid w))" "same_data w (snd (ResolveEnabledForUsers uids ty w))"
  "same_data w (snd (ServiceList w))" "same_data w (snd (ListOverlapping sids lo hi w))"
  "same_data w (snd (CountOpenedResolvedBetween lo hi w))" "same_data w (snd (ListActiveBetween lo hi w))"
  unfolding ListMembersWithEmail_def ResolveEnabledForUsers_def ServiceList_def ListOverlapping_def
    CountOpenedResolvedBetween_def ListActiveBetween_def
  by (auto intro!: same_data_pool_try)

lemma same_data_recipients: "same_data w (snd (WeeklyDigestRecipients tid w))"
  unfolding WeeklyDigestRecipients_def Let_def
  by (intro same_data_bind same_data_digest_reads) (auto intro!: same_data_bind same_data_digest_reads)

lemma same_data_buildDigest: "same_data w (snd (buildDigest E t lo hi w))"
  unfolding buildDigest_def
  by (intro same_data_bind same_data_digest_reads) (auto intro!: same_data_bind same_data_digest_reads split: prod.split)

text \<open>Inside the transaction of tenant \<open>tid\<close> that began on the tables \<open>d\<close>.\<close>

definition in_tenant_tx :: "tables \<Rightarrow> uuid \<Rightarrow> world \<Rightarrow> bool" where
  "in_tenant_tx d tid w \<longleftrightarrow> map_option tx_begin (tx w) = Some d \<and>
     map_option tx_session (tx w) = Some \<lparr>app_user_id = None, app_tenant_id = Some tid\<rparr>"

lemma in_tenant_tx_same: "in_tenant_tx d tid w \<Longrightarrow> same_data w v \<Longrightarrow> in_tenant_tx d tid v"
  by (simp add: in_tenant_tx_def same_data_def)

lemma in_tenant_tx_session: "in_tenant_tx d tid w \<Longrightarrow> app_tenant_id (pool_session w) = Some tid"
  by (auto simp: in_tenant_tx_def pool_session_def)

lemma in_tenant_tx_rollback: "in_tenant_tx d tid w \<Longrightarrow> db (tx_rollback w) = d \<and> tx (tx_rollback w) = None"
  by (auto simp: in_tenant_tx_def tx_rollback_def)

lemma in_tenant_tx_begin: "BeginTenantTx None (Some tid) w = (Inr (), v) \<Longrightarrow> in_tenant_tx (db w) tid v \<and> db v = db w"
  by (auto simp: in_tenant_tx_def dest: BeginTenantTx_ok)

lemma in_tenant_tx_commit:
  assumes "in_tenant_tx d tid w" and "tx_commit w = (r, v)"
  shows "tx v = None \<and> db v = (if isl r then d else db w)"
proof (cases r)
  case (Inl e)
  with assms show ?thesis by (auto simp: in_tenant_tx_def dest: tx_commit_err)
next
  case (Inr u)
  with assms show ?thesis by (auto dest: tx_commit_ok)
qed

text \<open>What a settled pass writes: the marker of its tenant.\<close>

definition digest_marked :: "uuid \<Rightarrow> time \<Rightarrow> tables \<Rightarrow> tables" where
  "digest_marked tid sent d =
     d\<lparr>tenants := sql_update (\<lambda>t. t_ID t = tid) (\<lambda>t. t\<lparr>t_LastDigestSentAt := Some sent\<rparr>) (tenants d)\<rparr>"

lemma MarkDigestSent_effect:
  assumes "in_tenant_tx d tid w" and "MarkDigestSent tid sent w = (r, v)"
  shows "in_tenant_tx d tid v \<and> db v = (if isl r then db w else digest_marked tid sent (db w))"
proof -
  have vis: "visible w' tid" if "same_data w w'" for w'
    using in_tenant_tx_session [OF in_tenant_tx_same [OF assms(1) that]] by (simp add: visible_def rls_visible_def)
  obtain r' v' where u: "update_tenant tid (\<lambda>_. True) (\<lambda>t. t\<lparr>t_LastDigestSentAt := Some sent\<rparr>) w = (r', v')" by fastforce
  then have "in_tenant_tx d tid v' \<and> db v' = (if isl r' then db w else digest_marked tid sent (db w))"
    unfolding update_tenant_def
  proof (cases rule: pool_try_cases)
    case failed
    with in_tenant_tx_same [OF assms(1)] show ?thesis by (simp add: same_data_def)
  next
    case (ran w')
    note keep = in_tenant_tx_same [OF assms(1) ran(1)] same_dataD(1) [OF ran(1)]
    have eq: "(\<lambda>t. visible w' (t_ID t) \<and> t_ID t = tid) = (\<lambda>t. t_ID t = tid)"
      using vis [OF ran(1)] by (auto simp: fun_eq_iff)
    from ran(2) keep show ?thesis
      by (auto simp: eq digest_marked_def set_db_def in_tenant_tx_def split: option.splits)
  qed
  with assms(2) u show ?thesis by (cases r') (auto simp: MarkDigestSent_def)
qed

lemma rolled_back_cases:
  assumes "rolled_back m f = (r, v)"
  obtains (failed) e u where "m = (Inl e, u)" "r = Inl e" "v = tx_rollback u"
  | (ran) a u where "m = (Inr a, u)" "f a u = (r, v)"
  using assms by (auto simp: rolled_back_def split: prod.splits sum.splits)

lemma send_digests_same: "same_data w (snd (send_digests S (notify_sender M) d rs w))"
proof (induction rs arbitrary: w)
  case (Cons r rs)
  obtain ok v where s: "SendWeeklyDigest S (notify_sender M) (me_Email r) d w = (ok, v)" by fastforce
  then have "same_data w v"
    using same_data_notify_sender [of w M "me_Email r"] unfolding SendWeeklyDigest_def Let_def by (metis snd_conv)
  with Cons.IH [of v] show ?case by (auto simp: s split: prod.split intro: same_data_trans)
qed simp

lemma digest_settle:
  assumes "in_tenant_tx d tid u" and "db u = d"
    and "rolled_back (MarkDigestSent tid now u) (\<lambda>_ w. db_bind (tx_commit w) f) = (r, v)"
    and f: "\<And>x y z. tx x = None \<Longrightarrow> f () x = (y, z) \<Longrightarrow> same_data x z \<and> \<not> isl y"
  shows "tx v = None \<and> db v = (if isl r then d else digest_marked tid now d)"
  using assms(3)
proof (cases rule: rolled_back_cases)
  case (failed e u')
  with MarkDigestSent_effect [OF assms(1)] in_tenant_tx_rollback show ?thesis by fastforce
next
  case (ran a u')
  obtain c u'' where c: "tx_commit u' = (c, u'')" by fastforce
  note m = MarkDigestSent_effect [OF assms(1) ran(1)]
  note cm = in_tenant_tx_commit [OF conjunct1 [OF m] c]
  show ?thesis
  proof (cases c)
    case (Inl e)
    with ran(2) c cm show ?thesis by auto
  next
    case (Inr unit)
    with ran(2) c have "f () u'' = (r, v)" by simp
    from f [OF _ this] cm m assms(2) Inr show ?thesis by (auto simp: same_data_def)
  qed
qed

lemma send_digests_sameD: "send_digests S (notify_sender M) d rs w = (s, v) \<Longrightarrow> same_data w v"
  using send_digests_same [of w S M d rs] by simp

text \<open>A pass over one tenant changes the tenant's marker only, and that exactly when it reports no error.\<close>

lemma digest_runTenant_effect:
  assumes "tx w = None" and "digest_runTenant E (notify_sender M) t lo hi now w = (r, v)"
  shows "tx v = None \<and> db v = (if isl r then db w else digest_marked (t_ID t) now (db w))"
proof -
  let ?in = "in_tenant_tx (db w) (t_ID t)"
  show ?thesis
    using assms(2) unfolding digest_runTenant_def
  proof (cases rule: db_bind_cases)
    case (failed e)
    with BeginTenantTx_err assms(1) show ?thesis by (fastforce simp: same_data_def)
  next
    case (ran a u)
    then have u: "?in u" "db u = db w" using in_tenant_tx_begin by auto
    from ran(2) show ?thesis
    proof (cases rule: rolled_back_cases)
      case (failed e u')
      with same_data_recipients [of u "t_ID t"] in_tenant_tx_same [OF u(1)] in_tenant_tx_rollback show ?thesis by fastforce
    next
      case (ran rs u')
      with same_data_recipients [of u "t_ID t"] in_tenant_tx_same [OF u(1)] u(2)
      have u': "?in u'" "db u' = db w" by (auto simp: same_data_def)
      show ?thesis
      proof (cases "rs = []")
        case True
        with ran(2) have "rolled_back (MarkDigestSent (t_ID t) now u') (\<lambda>_ w. db_bind (tx_commit w) (\<lambda>_ w. (Inr [], w))) = (r, v)" by simp
        then show ?thesis by (rule digest_settle [OF u']) auto
      next
        case False
        with ran(2) have "rolled_back (buildDigest E t lo hi u') (\<lambda>d w. rolled_back (MarkDigestSent (t_ID t) now w) (\<lambda>_ w.
          db_bind (tx_commit w) (\<lambda>_ w. case send_digests (dg_service E) (notify_sender M) d rs w of (sent, w) \<Rightarrow> (Inr sent, w)))) = (r, v)" by simp
        then show ?thesis
        proof (cases rule: rolled_back_cases)
          case (failed e u'')
          with same_data_buildDigest [of u' E t lo hi] in_tenant_tx_same [OF u'(1)] in_tenant_tx_rollback show ?thesis by fastforce
        next
          case (ran d u'')
          with same_data_buildDigest [of u' E t lo hi] in_tenant_tx_same [OF u'(1)] u'(2)
          have "?in u''" "db u'' = db w" by (auto simp: same_data_def)
          then show ?thesis
            by (rule digest_settle [OF _ _ ran(2)]) (auto dest: send_digests_sameD split: prod.splits)
        qed
      qed
    qed
  qed
qed

definition settled :: "digest_log \<Rightarrow> uuid list" where
  "settled sent = map fst (filter (\<lambda>(tid, r). \<not> isl r) sent)"

lemma settled_simps [simp]:
  "settled [] = []" "settled ((tid, Inl e) # sent) = settled sent" "settled ((tid, Inr m) # sent) = tid # settled sent"
  by (simp_all add: settled_def)

lemma digest_tenants_effect:
  assumes "tx w = None" and "digest_tenants E (notify_sender M) now ts w = (sent, v)"
  shows "tx v = None \<and> db v = fold (\<lambda>tid. digest_marked tid now) (settled sent) (db w)"
  using assms
proof (induction ts arbitrary: w sent)
  case (Cons t ts)
  obtain fire due where d: "digestDue (tenant_zone E t) t now = (fire, due)" by fastforce
  obtain lo hi where p: "digestPeriod (tenant_zone E t) fire = (lo, hi)" by fastforce
  obtain r u where r: "digest_runTenant E (notify_sender M) t lo hi now w = (r, u)" by fastforce
  note eff = digest_runTenant_effect [OF Cons.prems(1) r]
  show ?case
  proof (cases due)
    case True
    with Cons.prems(2) obtain sent' where s: "sent = (t_ID t, r) # sent'" "digest_tenants E (notify_sender M) now ts u = (sent', v)"
      by (auto simp: d p r split: prod.splits)
    from Cons.IH [OF conjunct1 [OF eff] s(2)] eff show ?thesis by (cases r) (auto simp: s(1))
  next
    case False
    with Cons d show ?thesis by simp
  qed
qed simp

lemma digest_tenants_due:
  assumes "digest_tenants E M now ts w = (sent, v)" and "(tid, r) \<in> set sent"
  shows "\<exists>t\<in>set ts. t_ID t = tid \<and> snd (digestDue (tenant_zone E t) t now)"
  using assms
proof (induction ts arbitrary: w sent)
  case (Cons t ts)
  then show ?case by (auto split: if_splits prod.splits) (metis snd_conv)+
qed simp

lemma SystemTenantList_ok:
  assumes "SystemTenantList w = (Inr ts, v)"
  shows "ts = iterable_tenants (\<lambda>_. True) (db w)" "same_data w v"
  using assms unfolding SystemTenantList_def by (auto elim!: own_try_cases simp: same_data_def)

lemma digest_runOnce_ok:
  assumes "digest_runOnce E M now w = (Inr sent, v)"
  obtains u where "same_data w u" "digest_tenants E M now (iterable_tenants (\<lambda>_. True) (db w)) u = (sent, v)"
proof -
  from assms obtain ts u where s: "SystemTenantList w = (Inr ts, u)" "digest_tenants E M now ts u = (sent, v)"
    unfolding digest_runOnce_def by (auto elim!: db_bind_cases split: prod.splits)
  with SystemTenantList_ok [OF s(1)] that show thesis by blast
qed

lemma fold_marked:
  "tenants (fold (\<lambda>tid. digest_marked tid now) tids d) =
     sql_update (\<lambda>t. t_ID t \<in> set tids) (\<lambda>t. t\<lparr>t_LastDigestSentAt := Some now\<rparr>) (tenants d)"
proof (induction tids arbitrary: d)
  case Nil
  show ?case by (simp add: sql_update_none)
next
  case (Cons tid tids)
  show ?case unfolding fold_Cons comp_apply Cons.IH by (auto simp: digest_marked_def sql_update_def)
qed

lemma settled_iff: "tid \<in> set (settled sent) \<longleftrightarrow> (\<exists>m. (tid, Inr m) \<in> set sent)"
proof -
  have "\<not> isl r \<longleftrightarrow> (\<exists>m. r = Inr m)" for r :: "db_error + (string \<times> bool) list" by (cases r) auto
  then show ?thesis by (force simp: settled_def)
qed

lemma digest_markers:
  assumes "tx w = None" and "digest_runOnce E (notify_sender M) now w = (Inr sent, v)"
  shows "tenants (db v) =
    sql_update (\<lambda>t. \<exists>m. (t_ID t, Inr m) \<in> set sent) (\<lambda>t. t\<lparr>t_LastDigestSentAt := Some now\<rparr>) (tenants (db w))"
proof -
  obtain u where u: "same_data w u" "digest_tenants E (notify_sender M) now (iterable_tenants (\<lambda>_. True) (db w)) u = (sent, v)"
    using digest_runOnce_ok [OF assms(2)] .
  then have "tx u = None" "db u = db w" using assms(1) by (auto simp: same_data_def)
  with digest_tenants_effect [OF _ u(2)] have "db v = fold (\<lambda>tid. digest_marked tid now) (settled sent) (db w)" by simp
  then show ?thesis by (simp add: fold_marked settled_iff)
qed

lemma recently_sent_not_due:
  assumes "t_LastDigestSentAt t = Some sent" and "now < sent + digestMinInterval"
  shows "\<not> snd (digestDue off t now)"
proof -
  have "time_sub now sent < digestMinInterval"
    using assms(2) time_sub_ge_iff [of digestMinInterval now sent] by (simp add: digest_consts max_int64_def min_int64_def)
  with assms(1) show ?thesis by (simp add: digestDue_def Let_def)
qed

text \<open>C38. No tenant gets two digests within six days. A pass of the scheduler, whatever statements fail on
  the way and whoever sends, changes nothing of the tenants but the marker of those it settled, which
  becomes the time of the pass; and as long as the marker of a settled tenant stays, no pass of any
  replica in the next six days runs for it, whatever else of the row changes (its time zone included)
  and whichever zones and senders that pass uses.\<close>

theorem digest_at_most_weekly:
  assumes "tx w = None" and "digest_runOnce E (notify_sender M) now w = (Inr sent, v)" and "(tid, Inr mails) \<in> set sent"
  shows "tenants (db v) =
      sql_update (\<lambda>t. \<exists>m. (t_ID t, Inr m) \<in> set sent) (\<lambda>t. t\<lparr>t_LastDigestSentAt := Some now\<rparr>) (tenants (db w)) \<and>
    (\<forall>w' E' M' now' sent' v'. (\<forall>t\<in>set (tenants (db w')). t_ID t = tid \<longrightarrow> t_LastDigestSentAt t = Some now) \<longrightarrow>
      now' < now + digestMinInterval \<longrightarrow> digest_runOnce E' M' now' w' = (Inr sent', v') \<longrightarrow> tid \<notin> fst ` set sent')"
proof (intro conjI allI impI notI)
  show "tenants (db v) =
      sql_update (\<lambda>t. \<exists>m. (t_ID t, Inr m) \<in> set sent) (\<lambda>t. t\<lparr>t_LastDigestSentAt := Some now\<rparr>) (tenants (db w))"
    by (rule digest_markers [OF assms(1,2)])
next
  fix w' E' M' now' sent' v'
  assume m: "\<forall>t\<in>set (tenants (db w')). t_ID t = tid \<longrightarrow> t_LastDigestSentAt t = Some now"
    and soon: "now' < now + digestMinInterval" and run: "digest_runOnce E' M' now' w' = (Inr sent', v')"
    and "tid \<in> fst ` set sent'"
  then obtain r where r: "(tid, r) \<in> set sent'" by auto
  obtain u where u: "digest_tenants E' M' now' (iterable_tenants (\<lambda>_. True) (db w')) u = (sent', v')"
    using digest_runOnce_ok [OF run] .
  from digest_tenants_due [OF u r] obtain t where t: "t \<in> set (iterable_tenants (\<lambda>_. True) (db w'))" "t_ID t = tid"
    "snd (digestDue (tenant_zone E' t) t now')" by blast
  then have "t \<in> set (tenants (db w'))" by (simp add: iterable_tenants_def)
  with m t(2) have "t_LastDigestSentAt t = Some now" by blast
  from recently_sent_not_due [OF this soon] t(3) show False by blast
qed

text \<open>C39. No week is skipped. In a zone whose offsets differ by an hour at most, daylight saving time
  included, each week's digest falls due: for a tenant created before the Monday 09:00 of the week
  which was last sent a digest inside the catch-up window of an earlier Monday, or never, the digest is
  due at every moment from an hour after that Monday 09:00 on to the end of the window, and the hourly
  tick falls into it.\<close>

theorem digest_due_every_week:
  assumes "dst_zone off" and "t_CreatedAt t < monday_fire off k"
    and "opt_holds (\<lambda>sent. monday_fire off (k - 1) + digestCatchUpWindow \<le> sent) (t_LastDigestSentAt t) = False"
    and "monday_fire off k + hour \<le> now" and "now < monday_fire off k + digestCatchUpWindow"
  shows "digestDue off t now = (monday_fire off k, True) \<and>
    monday_fire off k + hour < nextDigestTick (monday_fire off k + hour) \<and>
    nextDigestTick (monday_fire off k + hour) < monday_fire off k + digestCatchUpWindow"
proof -
  have week: "now < monday_fire off (k + 1)"
    using monday_fire_step(1) [OF assms(1), of k] assms(5) by (simp add: digest_consts)
  have fire: "weeklyDigestFire off now = monday_fire off k"
    by (rule weeklyDigestFire_at [OF assms(1) _ week]) (use assms(4) in \<open>simp add: digest_consts\<close>)
  have late: "time_sub now (monday_fire off k) < digestCatchUpWindow"
    using assms(5) time_sub_ge_iff [of digestCatchUpWindow now "monday_fire off k"]
    by (simp add: digest_consts max_int64_def min_int64_def)
  have "digestDue off t now = (monday_fire off k, True)"
  proof (cases "t_LastDigestSentAt t")
    case None
    with assms(2) late show ?thesis by (simp add: digestDue_def fire Let_def)
  next
    case (Some sent)
    then have s: "sent < monday_fire off (k - 1) + digestCatchUpWindow" using assms(3) by simp
    have step: "monday_fire off (k - 1) + 7 * day - hour \<le> monday_fire off k" using monday_fire_step(1) [OF assms(1), of "k - 1"] by simp
    have "digestMinInterval \<le> time_sub now sent"
      using s step assms(4) time_sub_ge_iff [of digestMinInterval now sent] by (simp add: digest_consts max_int64_def min_int64_def)
    moreover have "sent < monday_fire off k" using s step by (simp add: digest_consts)
    ultimately show ?thesis using Some late by (simp add: digestDue_def fire Let_def)
  qed
  moreover note nextDigestTick_bounds [of "monday_fire off k + hour"]
  ultimately show ?thesis by (auto simp: digest_consts)
qed

subsection \<open>A tenant's own provider cannot send the digest\<close>

lemma send_digests_self_hosted:
  assumes "tx w = None"
  shows "list_all (\<lambda>(to, ok). \<not> ok) (fst (send_digests S (notify_sender (SelfHosted Q)) d rs w))"
  using assms
proof (induction rs arbitrary: w)
  case (Cons r rs)
  obtain ok v where s: "SendWeeklyDigest S (notify_sender (SelfHosted Q)) (me_Email r) d w = (ok, v)" by fastforce
  moreover have "app_tenant_id (pool_session w) = None" using Cons.prems by (simp add: pool_session_def no_session_def)
  ultimately have "\<not> ok" "same_data w v"
    using sender_untenanted [of w Q] same_data_notify_sender [of w "SelfHosted Q"]
    unfolding SendWeeklyDigest_def Let_def notify_sender_def by (metis fst_conv, metis snd_conv)
  then have "tx v = None" using Cons.prems by (auto simp: same_data_def)
  with Cons.IH [OF this] \<open>\<not> ok\<close> show ?case by (auto simp: s split: prod.split)
qed simp

lemma digest_runTenant_sends:
  assumes "digest_runTenant E M t lo hi now w = (Inr mails, v)"
  shows "mails = [] \<or> (\<exists>d rs u. tx u = None \<and> send_digests (dg_service E) M d rs u = (mails, v))"
proof -
  have committed: "tx x = None" if "tx_commit y = (Inr (), x)" for x y using tx_commit_ok [OF that] by simp
  from assms show ?thesis
    unfolding digest_runTenant_def
    by (auto elim!: db_bind_cases rolled_back_cases split: if_splits prod.splits dest!: committed) (metis option.distinct(1))
qed

lemma digest_tenants_runs:
  assumes "digest_tenants E M now ts w = (sent, v)" and "(tid, r) \<in> set sent"
  shows "\<exists>t lo hi u u'. digest_runTenant E M t lo hi now u = (r, u')"
  using assms
proof (induction ts arbitrary: w sent)
  case (Cons t ts)
  then show ?case by (auto split: if_splits prod.splits) blast+
qed simp

text \<open>C40. With each tenant's own provider (the self-hosted deployment) the weekly digest reaches nobody,
  whatever the providers, the database role and the failing statements: the sends run after the commit
  on a context without the tenant's transaction, where \<open>GetActiveProvider\<close> finds no active provider. Every
  recipient's send fails, and the pass has settled the week all the same, so it is not tried again.\<close>

theorem self_hosted_digest_reaches_nobody:
  assumes "tx w = None" and "digest_runOnce E (notify_sender (SelfHosted S)) now w = (Inr sent, v)" and "(tid, Inr mails) \<in> set sent"
  shows "list_all (\<lambda>(to, ok). \<not> ok) mails \<and>
    (\<forall>t\<in>set (tenants (db v)). t_ID t = tid \<longrightarrow> t_LastDigestSentAt t = Some now)"
proof
  obtain u where u: "digest_tenants E (notify_sender (SelfHosted S)) now (iterable_tenants (\<lambda>_. True) (db w)) u = (sent, v)"
    using digest_runOnce_ok [OF assms(2)] .
  obtain t lo hi x x' where "digest_runTenant E (notify_sender (SelfHosted S)) t lo hi now x = (Inr mails, x')"
    using digest_tenants_runs [OF u assms(3)] by blast
  from digest_runTenant_sends [OF this] show "list_all (\<lambda>(to, ok). \<not> ok) mails"
    using send_digests_self_hosted by (metis fst_conv list.pred_inject(1))
  show "\<forall>t\<in>set (tenants (db v)). t_ID t = tid \<longrightarrow> t_LastDigestSentAt t = Some now"
    using assms(3) by (auto simp: digest_markers [OF assms(1,2)] set_sql_update)
qed

definition digest_sample :: digest_env where
  "digest_sample = \<lparr>dg_service = \<lparr>ns_detailed = False, ns_adminBaseURL = [], ns_known_zone = (\<lambda>_. False)\<rparr>, dg_zone = (\<lambda>_ _. 0)\<rparr>"

definition digest_world :: world where
  "digest_world = two_owners\<lparr>db := (db two_owners)\<lparr>
     preferences := [\<lparr>np_user_id = 2, np_type = ''weekly_digest'', np_enabled = True\<rparr>],
     email_providers := [\<lparr>ep_id = 8, ep_tenant_id = 3, ep_provider = ''resend'', ep_encrypted_api_key = ''nnnnnnnnnnnnkey'',
       ep_from_email = ''f'', ep_from_name = ''F'', ep_status = ''connected'', ep_last_checked_at = None, ep_last_error = None\<rparr>],
     email_settings := [\<lparr>es_tenant_id = 3, es_active_provider = Some ''resend''\<rparr>]\<rparr>\<rparr>"

text \<open>Monday, 5 January 1970, 09:01 UTC, the tick after the fire.\<close>

definition first_monday :: time where
  "first_monday = 4 * day + 9 * hour + minute"

definition plain_auth :: "unit auth_env" where
  "plain_auth = \<lparr>jwt_sign = (\<lambda>_ _. None), jwt_parse = (\<lambda>_ _ _. None), bcrypt_generate = (\<lambda>p. Some p), bcrypt_matches = (\<lambda>h p. h = p),
     totp_validate = (\<lambda>_ _ _. False), pbkdf2 = (\<lambda>k. k), gcm_seal = (\<lambda>k n p. p), gcm_open = (\<lambda>k n c. Some c), sha256 = (\<lambda>x. x),
     session_secret = [], master_key = []\<rparr>"

definition working_mailer :: "unit email_service" where
  "working_mailer = \<lparr>es_env = plain_auth, es_factory = (\<lambda>_ _. Some \<lparr>pv_validates = True, pv_send = (\<lambda>_. None)\<rparr>),
     es_layout = \<lparr>ly_AssetsBaseURL = [], ly_NotificationPrefsURL = []\<rparr>, es_parse_address = (\<lambda>_. True),
     es_render = (\<lambda>_ _. Some ([], [])), es_period = (\<lambda>_. [])\<rparr>"

definition working_platform :: NotificationServiceSender where
  "working_platform = \<lparr>nt_client = (\<lambda>_. None), nt_tenantKey = [], nt_layout = \<lparr>ly_AssetsBaseURL = [], ly_NotificationPrefsURL = []\<rparr>,
     nt_render = (\<lambda>_ _. Some ([], [])), nt_period = (\<lambda>_. []), nt_sha256_hex = (\<lambda>x. x)\<rparr>"

lemma digest_sample_runs:
  "fst (digest_runOnce digest_sample (notify_sender (SelfHosted working_mailer)) first_monday digest_world) = Inr [(3, Inr [(''b'', False)])]"
  "fst (digest_runOnce digest_sample (notify_sender (Saas working_platform :: unit email_sender)) first_monday digest_world) = Inr [(3, Inr [(''b'', True)])]"
  by code_simp+

lemma digest_world_idle: "tx digest_world = None"
  by (simp add: digest_world_def two_owners_def fresh_world_def)

definition after_first_monday :: world where
  "after_first_monday = snd (digest_runOnce digest_sample (notify_sender (Saas working_platform :: unit email_sender)) first_monday digest_world)"

theorem digest_at_most_weekly_witness:
  "map t_LastDigestSentAt (tenants (db after_first_monday)) = [Some first_monday] \<and>
   fst (digest_runOnce digest_sample (notify_sender (Saas working_platform :: unit email_sender)) (first_monday + hour) after_first_monday) = Inr []"
proof
  have run: "digest_runOnce digest_sample (notify_sender (Saas working_platform :: unit email_sender)) first_monday digest_world =
      (Inr [(3, Inr [(''b'', True)])], after_first_monday)"
    by (rule prod_eqI) (simp_all only: digest_sample_runs(2) after_first_monday_def fst_conv snd_conv)
  have "tenants (db after_first_monday) =
      sql_update (\<lambda>t. \<exists>m. (t_ID t, Inr m) \<in> set [(3, Inr [(''b'', True)])]) (\<lambda>t. t\<lparr>t_LastDigestSentAt := Some first_monday\<rparr>) (tenants (db digest_world))"
    using digest_at_most_weekly [OF digest_world_idle run, of 3 "[(''b'', True)]"] by simp
  then show "map t_LastDigestSentAt (tenants (db after_first_monday)) = [Some first_monday]"
    by (simp add: digest_world_def two_owners_def sample_tenant_def new_tenant_def)
  show "fst (digest_runOnce digest_sample (notify_sender (Saas working_platform :: unit email_sender)) (first_monday + hour) after_first_monday) = Inr []"
    by code_simp
qed

theorem digest_due_every_week_witness:
  "digestDue (\<lambda>_. 0) sample_tenant (first_monday + hour) = (4 * day + 9 * hour, True)"
proof -
  have k: "monday_fire (\<lambda>_. 0) 1 = 4 * day + 9 * hour" by (simp add: monday_fire_def date_in_def digestFireHour_def)
  have "dst_zone (\<lambda>_. 0)" by (simp add: dst_zone_def digest_consts)
  moreover have "t_CreatedAt sample_tenant < monday_fire (\<lambda>_. 0) 1" "t_LastDigestSentAt sample_tenant = None"
    by (simp_all add: k sample_tenant_def new_tenant_def digest_consts)
  moreover have "monday_fire (\<lambda>_. 0) 1 + hour \<le> first_monday + hour" "first_monday + hour < monday_fire (\<lambda>_. 0) 1 + digestCatchUpWindow"
    by (simp_all add: k first_monday_def digest_consts)
  ultimately show ?thesis using digest_due_every_week [of "\<lambda>_. 0" sample_tenant 1 "first_monday + hour"] by (simp add: k)
qed

theorem self_hosted_digest_reaches_nobody_witness:
  "list_all (\<lambda>(to, ok). \<not> ok) [(''b'', False)] \<and>
   list_all (\<lambda>t. t_LastDigestSentAt t = Some first_monday)
     (tenants (db (snd (digest_runOnce digest_sample (notify_sender (SelfHosted working_mailer)) first_monday digest_world))))"
proof -
  let ?v = "snd (digest_runOnce digest_sample (notify_sender (SelfHosted working_mailer)) first_monday digest_world)"
  have run: "digest_runOnce digest_sample (notify_sender (SelfHosted working_mailer)) first_monday digest_world = (Inr [(3, Inr [(''b'', False)])], ?v)"
    by (rule prod_eqI) (simp_all only: digest_sample_runs(1) fst_conv snd_conv)
  have "list_all (\<lambda>t. t_ID t = 3) (tenants (db ?v))"
    unfolding digest_markers [OF digest_world_idle run]
    by (simp add: digest_world_def two_owners_def sample_tenant_def new_tenant_def)
  with self_hosted_digest_reaches_nobody [OF digest_world_idle run, of 3 "[(''b'', False)]"] show ?thesis
    by (auto simp: list_all_iff)
qed

end
