(* ===== verification/Spec2Isabelle.thy ===== *)
theory Spec2Isabelle
  imports Burn_Rate Retention Leader_Election Incident_Lifecycle Auth_Safety Notify Datadog Retry Poll_Safety Page_Safety Team_Safety Digest_Scheduler
begin

text \<open>
  A verification development of zeep-vane, a multi-tenant status page server written in Go. File names
  below are relative to \<open>src/internal\<close> of the repository.

  \<^bold>\<open>The program.\<close> A tenant registers services, each tied to a Datadog SLO. One replica, elected by a
  Postgres advisory lock, polls: it takes every tenant in turn, fetches the SLO figures of its services
  with retries, classifies the burn rate as operational, degraded or outage, writes the status and the
  status timeline, and tells the analyzer of a transition. The analyzer opens an incident on an outage
  or extends the open one, files a resolution for review on a recovery, starts the generation of
  incident texts and notifies members by e-mail. Incidents are corrected and closed through the
  dashboard. A status page groups services in a tree of depth two, is bound to a verified domain, gets
  a certificate on demand and is served to visitors by host name with the history of its services. A
  retention job prunes old intervals and incidents; a weekly digest is mailed per tenant. Members are
  invited, changed and removed by administrators; login has passwords, a second factor, sessions and
  resets. Row-level security in Postgres separates the tenants; the setting \<open>app.tenant_id\<close> of the
  request transaction is what its policies read.

  \<^bold>\<open>The theories and the code.\<close>
  \<^item> \<open>Vane_Prelude\<close>: types, results, Go integer and string operations, list forms of SQL statements.
  \<^item> \<open>Go_Float\<close>: Go's \<open>float64\<close> with rounding to even. \<open>Go_Net\<close>: \<open>net.SplitHostPort\<close>.
  \<^item> \<open>Status_Intervals\<close>: \<open>db/status_interval_repository.go\<close>. \<open>History\<close>: \<open>history/uptime.go\<close>,
    \<open>history/hourly.go\<close>. \<open>Burn_Rate\<close>: \<open>poller/burn_rate.go\<close>. \<open>Retention\<close>: \<open>retention/pruner.go\<close>,
    \<open>api/time_range.go\<close>.
  \<^item> \<open>Database\<close>: the tables and policies of \<open>db/migrations\<close> and \<open>db/pool.go\<close>. Over it \<open>Services\<close>,
    \<open>Incidents\<close>, \<open>Accounts\<close>, \<open>Auth_Store\<close>, \<open>Status_Pages\<close>, \<open>Domains\<close>, \<open>Poller\<close> (integrations) and
    \<open>Team\<close> (invites, audit log), \<open>Providers\<close> (connected providers, verification tokens): one definition per
    method of the \<open>db/*_repository.go\<close> they name.
  \<^item> \<open>Leader_Election\<close>: \<open>pglock\<close>, \<open>cli/poller_manager.go\<close>. \<open>Datadog\<close>: \<open>connectors/datadog/client.go\<close>.
    \<open>Retry\<close>, \<open>Analyzer\<close>, \<open>Poller\<close>: the files of \<open>poller\<close> of these names. \<open>Notify\<close>: \<open>notify\<close>.
  \<^item> \<open>Auth\<close>: \<open>auth\<close>, \<open>crypto\<close>, the middleware and the handlers of \<open>api/auth_handler.go\<close>,
    \<open>sessions_handler.go\<close>, \<open>password_reset_handler.go\<close>. \<open>Team\<close>: \<open>api/admins.go\<close>, \<open>api/audit_log_handler.go\<close>.
  \<^item> \<open>Mailer\<close>: \<open>email/service.go\<close>, \<open>email/notification_service_sender.go\<close>, \<open>api/email_providers_handler.go\<close>.
    \<open>Digest_Scheduler\<close>: \<open>cli/digest_scheduler.go\<close>.
  \<^item> \<open>Publishing\<close>: \<open>tls/manager.go\<close>, \<open>router/host_router.go\<close>. \<open>Pagination\<close>, \<open>Public_Status\<close>: the public
    page, \<open>api/public_status_handler.go\<close>.

  Definitions carry the names of the Go functions, methods and types; a name that several Go types share
  has the type in front (\<open>MembershipDelete\<close>), and a part of a long function that has a name of its own is
  mapped to its lines.

  \<^bold>\<open>State, effects and errors.\<close> The repositories pass a \<open>world\<close>: the tables, the transaction the context
  carries, the source of generated identifiers, a script of \<open>faults\<close> and whether the database role
  bypasses row-level security. A statement consults the script, then filters rows by the policy of its
  table for the session it runs under. A failed statement in a transaction makes every later one fail and
  the commit a rollback. So every error path of the code is reached by a script, and a property that
  holds for all scripts holds under lost connections and timeouts at any statement. Operations return
  \<open>error + result\<close> with the next world; a handler returns its reply with the world after the commit or
  rollback of the request. Interleavings are explicit: \<open>leader_step\<close> for the replicas, a rival writer in
  \<open>OpenOrExtendRacing\<close>, enrichments as goroutines run at any later moment, sequences of requests and
  operations in the safety theories.

  \<^bold>\<open>The lemmas.\<close>
  \<^item> Locales state what an invariant needs: \<open>db_invariant\<close> to pass through statements, sequences and
    transactions, \<open>repo_invariant\<close> through the repository operations, \<open>transition_invariant\<close>,
    \<open>service_invariant\<close> and \<open>poll_invariant\<close> through transitions and cycles, \<open>auth_ops\<close> and \<open>lasting\<close>
    through any request of the login. They are interpreted on the integrity of the tables, on the data
    of the other tenants, on the status domain, on revoked sessions, spent codes, challenges and
    resets, on unpublished and frozen pages. \<open>timeline_writer\<close> states the contract of the interval
    writer, \<open>rounding\<close> that of floating-point arithmetic.
  \<^item> \<open>Invariants\<close>, \<open>Tenant_Isolation\<close>, \<open>Incident_Lifecycle\<close>, \<open>Auth_Safety\<close>, \<open>Poll_Safety\<close>,
    \<open>Page_Safety\<close> and \<open>Team_Safety\<close> prove the properties that span components; the others stand with
    their component. The claims are marked in their text blocks by their number.

  \<^bold>\<open>Bounds and fuel.\<close> Recursions are structural or on a measure; no definition of the model takes fuel.
  \<open>Retry\<close> bounds its attempts as the code does, and its termination is a property. Times are unbounded
  integers of nanoseconds with Go's saturating subtraction; row counts, offsets and page numbers are kept
  at 64 bits where the code can overflow. \<open>float64\<close> has the 53-bit significand and an unbounded exponent.

  \<^bold>\<open>What is taken from outside.\<close> Token signing, bcrypt, TOTP, AES-GCM, PBKDF2 and SHA-256 are fields of
  \<open>auth_env\<close>; the answers of Datadog's HTTP transport, the e-mail service, the language model, random
  values and the readings of the clocks are arguments. A property that needs a law of one of them states
  it as a hypothesis and has a witness with a concrete function.

  \<^bold>\<open>Not modelled.\<close> Start-up, configuration, routes and migrations (glue); response headers; the HTML of
  e-mails, prompts and the HTTP clients of delivery and language model services (text and I/O); the
  dashboard's handlers of services, incidents, domains, pages and settings, whose repositories are
  modelled; the certificate storage of CertMagic; the rate limiter, the reachability
  checks and the remaining schedulers. Panics other than that of the member list are not told apart. The
  manifest lists each part with its reason.
\<close>

end
